(* ===== verification/Prelude.thy ===== *)
theory Prelude
  imports Main "HOL-Library.Word"
begin

text \<open>
  Shared vocabulary of the development.

  \<^item> machine integers and byte strings (\<open>u8\<close>, \<open>u32\<close>, \<open>bytes\<close>, ...);
  \<^item> \<open>outcome\<close>: what a Rust function call can do (return \<open>Ok\<close>, return \<open>Err\<close>,
    panic, or never return) and its monadic composition \<open>obind\<close>, the \<open>?\<close> operator;
  \<^item> stateful code as state transformers with an outcome (\<open>io\<close>) and their sequencing;
  \<^item> positional notation: the value of a digit list and the digits of a number, with the
    laws that the base58, hexadecimal and decimal codecs share;
  \<^item> the interface of a codec, and of a canonical one, as locales.
\<close>

section \<open>Types\<close>

type_synonym u8 = "8 word"
type_synonym u16 = "16 word"
type_synonym u32 = "32 word"
type_synonym u64 = "64 word"
type_synonym bytes = "u8 list"

text \<open>
  The outcome of a call: \<open>Ok\<close> and \<open>Err\<close> are the two cases of \<open>Result\<close>, \<open>Panic\<close>
  is a panic (failed \<open>unwrap\<close>, slice or index out of range, arithmetic overflow caught
  by the slice that follows it), \<open>Hang\<close> a loop that does not end.
\<close>

datatype ('e, 'a) outcome = Ok 'a | Err 'e | Panic | Hang

fun obind :: "('e, 'a) outcome \<Rightarrow> ('a \<Rightarrow> ('e, 'b) outcome) \<Rightarrow> ('e, 'b) outcome" where
  "obind (Ok x) f = f x"
| "obind (Err e) f = Err e"
| "obind Panic f = Panic"
| "obind Hang f = Hang"

fun omap_err :: "('e \<Rightarrow> 'f) \<Rightarrow> ('e, 'a) outcome \<Rightarrow> ('f, 'a) outcome" where
  "omap_err f (Ok x) = Ok x"
| "omap_err f (Err e) = Err (f e)"
| "omap_err f Panic = Panic"
| "omap_err f Hang = Hang"

fun of_option :: "'e \<Rightarrow> 'a option \<Rightarrow> ('e, 'a) outcome" where
  "of_option e None = Err e"
| "of_option e (Some x) = Ok x"

text \<open>\<open>unwrap\<close> of a \<open>Result\<close>: an error becomes a panic.\<close>

fun unwrap :: "('e, 'a) outcome \<Rightarrow> ('f, 'a) outcome" where
  "unwrap (Ok x) = Ok x"
| "unwrap (Err e) = Panic"
| "unwrap Panic = Panic"
| "unwrap Hang = Hang"

text \<open>A call returned: it neither panicked nor hung.\<close>

fun returns :: "('e, 'a) outcome \<Rightarrow> bool" where
  "returns (Ok x) = True"
| "returns (Err e) = True"
| "returns Panic = False"
| "returns Hang = False"

fun is_ok :: "('e, 'a) outcome \<Rightarrow> bool" where
  "is_ok (Ok x) = True"
| "is_ok _ = False"

text \<open>\<open>iter().map(f).collect::<Result<Vec<_>, _>>()\<close>: stops at the first failure.\<close>

fun collect :: "('a \<Rightarrow> ('e, 'b) outcome) \<Rightarrow> 'a list \<Rightarrow> ('e, 'b list) outcome" where
  "collect f [] = Ok []"
| "collect f (x # xs) = obind (f x) (\<lambda>y. obind (collect f xs) (\<lambda>ys. Ok (y # ys)))"

named_theorems outcome_simps

lemma collect_Ok: "(\<And>x. x \<in> set xs \<Longrightarrow> f x = Ok (g x)) \<Longrightarrow> collect f xs = Ok (map g xs)"
  by (induction xs) auto

lemma collect_no_Panic: "(\<And>x. x \<in> set xs \<Longrightarrow> f x \<noteq> Panic) \<Longrightarrow> collect f xs \<noteq> Panic"
proof (induction xs)
  case Nil
  then show ?case by simp
next
  case (Cons x xs)
  then show ?case by (cases "f x"; cases "collect f xs") auto
qed

lemma collect_Ok_length: "collect f xs = Ok ys \<Longrightarrow> length ys = length xs"
proof (induction xs arbitrary: ys)
  case Nil
  then show ?case by simp
next
  case (Cons x xs)
  then show ?case by (cases "f x"; cases "collect f xs") auto
qed

lemma obind_Ok_iff [outcome_simps]: "obind m f = Ok y \<longleftrightarrow> (\<exists>x. m = Ok x \<and> f x = Ok y)"
  by (cases m) auto

lemma obind_Err_iff [outcome_simps]:
  "obind m f = Err e \<longleftrightarrow> m = Err e \<or> (\<exists>x. m = Ok x \<and> f x = Err e)"
  by (cases m) auto

lemma obind_Panic_iff [outcome_simps]:
  "obind m f = Panic \<longleftrightarrow> m = Panic \<or> (\<exists>x. m = Ok x \<and> f x = Panic)"
  by (cases m) auto

lemma obind_Hang_iff [outcome_simps]:
  "obind m f = Hang \<longleftrightarrow> m = Hang \<or> (\<exists>x. m = Ok x \<and> f x = Hang)"
  by (cases m) auto

lemma if_Err_Ok_iff [outcome_simps]: "(if c then Err e else m) = Ok y \<longleftrightarrow> \<not> c \<and> m = Ok y"
  by simp

lemma obind_assoc: "obind (obind m f) g = obind m (\<lambda>x. obind (f x) g)"
  by (cases m) auto

lemma obind_Ok_right [simp]: "obind m Ok = m"
  by (cases m) auto

lemma omap_err_Ok_iff [outcome_simps]: "omap_err f m = Ok y \<longleftrightarrow> m = Ok y"
  by (cases m) auto

lemma omap_err_Err_iff [outcome_simps]: "omap_err f m = Err e \<longleftrightarrow> (\<exists>e'. m = Err e' \<and> e = f e')"
  by (cases m) auto

lemma omap_err_Panic_iff [outcome_simps]: "omap_err f m = Panic \<longleftrightarrow> m = Panic"
  by (cases m) auto

lemma of_option_Ok_iff [outcome_simps]: "of_option e m = Ok y \<longleftrightarrow> m = Some y"
  by (cases m) auto

lemma of_option_Err_iff [outcome_simps]: "of_option e m = Err e' \<longleftrightarrow> m = None \<and> e' = e"
  by (cases m) auto

lemma of_option_Panic [simp]: "of_option e m \<noteq> Panic" "of_option e m \<noteq> Hang"
  by (cases m; simp)+

lemma returns_obind: "returns (obind m f) \<longleftrightarrow> returns m \<and> (\<forall>x. m = Ok x \<longrightarrow> returns (f x))"
  by (cases m) auto

lemma returns_of_option [simp]: "returns (of_option e m)"
  by (cases m) auto

lemma returns_omap_err [simp]: "returns (omap_err f m) = returns m"
  by (cases m) auto

lemma is_ok_iff: "is_ok m \<longleftrightarrow> (\<exists>x. m = Ok x)"
  by (cases m) auto

section \<open>Stateful code\<close>

text \<open>
  Code that changes a state \<open>'w\<close>: it gives an outcome and the state it leaves, also when it
  fails (what was changed before an early return or a panic stays changed).
\<close>

type_synonym ('e, 'w, 'a) io = "'w \<Rightarrow> ('e, 'a) outcome \<times> 'w"

definition io_return :: "'a \<Rightarrow> ('e, 'w, 'a) io" where
  "io_return x = (\<lambda>w. (Ok x, w))"

definition io_lift :: "('e, 'a) outcome \<Rightarrow> ('e, 'w, 'a) io" where
  "io_lift r = (\<lambda>w. (r, w))"

definition io_get :: "('e, 'w, 'w) io" where
  "io_get = (\<lambda>w. (Ok w, w))"

definition io_modify :: "('w \<Rightarrow> 'w) \<Rightarrow> ('e, 'w, unit) io" where
  "io_modify f = (\<lambda>w. (Ok (), f w))"

definition io_bind :: "('e, 'w, 'a) io \<Rightarrow> ('a \<Rightarrow> ('e, 'w, 'b) io) \<Rightarrow> ('e, 'w, 'b) io" where
  "io_bind m f = (\<lambda>w. case m w of
     (Ok x, w') \<Rightarrow> f x w' | (Err e, w') \<Rightarrow> (Err e, w') | (Panic, w') \<Rightarrow> (Panic, w') | (Hang, w') \<Rightarrow> (Hang, w'))"

named_theorems io_simps

lemma io_return_apply [io_simps]: "io_return x w = (Ok x, w)"
  by (simp add: io_return_def)

lemma io_lift_apply [io_simps]: "io_lift r w = (r, w)"
  by (simp add: io_lift_def)

lemma io_get_apply [io_simps]: "io_get w = (Ok w, w)"
  by (simp add: io_get_def)

lemma io_modify_apply [io_simps]: "io_modify f w = (Ok (), f w)"
  by (simp add: io_modify_def)

lemma io_bind_apply_Ok: "m w = (Ok x, w') \<Longrightarrow> io_bind m f w = f x w'"
  by (simp add: io_bind_def)

lemma io_bind_apply_Err: "m w = (Err e, w') \<Longrightarrow> io_bind m f w = (Err e, w')"
  by (simp add: io_bind_def)

lemma io_bind_Ok_iff [io_simps]:
  "io_bind m f w = (Ok y, w') \<longleftrightarrow> (\<exists>x w1. m w = (Ok x, w1) \<and> f x w1 = (Ok y, w'))"
  by (auto simp: io_bind_def split: prod.splits outcome.splits)

lemma io_bind_Err_iff:
  "io_bind m f w = (Err e, w') \<longleftrightarrow>
     m w = (Err e, w') \<or> (\<exists>x w1. m w = (Ok x, w1) \<and> f x w1 = (Err e, w'))"
  by (auto simp: io_bind_def split: prod.splits outcome.splits)

lemma io_bind_simps [simp]:
  "io_bind (io_return x) f = f x"
  "io_bind (io_lift (Ok x)) f = f x"
  "io_bind (io_lift (Err e)) f = io_lift (Err e)"
  "io_bind (io_lift Panic) f = io_lift Panic"
  "io_bind (io_modify g) h w = h () (g w)"
  "io_bind io_get k w = k w w"
  by (simp_all add: io_bind_def io_return_def io_lift_def io_modify_def io_get_def)

lemma io_bind_assoc: "io_bind (io_bind m f) g = io_bind m (\<lambda>x. io_bind (f x) g)"
  by (rule ext) (auto simp: io_bind_def split: prod.splits outcome.splits)

text \<open>A relation between the states before and after is carried through a sequence.\<close>

lemma io_bind_rel:
  assumes "\<And>w r w'. m w = (r, w') \<Longrightarrow> R w w'" and "\<And>x w r w'. f x w = (r, w') \<Longrightarrow> R w w'"
    and "\<And>a b c. R a b \<Longrightarrow> R b c \<Longrightarrow> R a c" and "io_bind m f w = (r, w')"
  shows "R w w'"
  using assms(4) assms(1-3) unfolding io_bind_def by (auto split: prod.splits outcome.splits) blast+

section \<open>Positional notation\<close>

text \<open>The value of a big-endian digit list, and the digits (no leading zero) of a value.\<close>

definition digits_val :: "nat \<Rightarrow> nat list \<Rightarrow> nat" where
  "digits_val b ds = foldl (\<lambda>a d. a * b + d) 0 ds"

function to_digits :: "nat \<Rightarrow> nat \<Rightarrow> nat list" where
  "to_digits b n = (if n = 0 \<or> b \<le> 1 then [] else to_digits b (n div b) @ [n mod b])"
  by pat_completeness auto
termination
  by (relation "measure snd") auto

declare to_digits.simps [simp del]

lemma foldl_digits: "foldl (\<lambda>a d. a * b + d) (x::nat) ds
  = x * b ^ length ds + foldl (\<lambda>a d. a * b + d) 0 ds"
proof (induction ds rule: rev_induct)
  case Nil
  then show ?case by simp
next
  case (snoc d ds)
  then show ?case by (simp add: algebra_simps)
qed

lemma digits_val_Nil [simp]: "digits_val b [] = 0"
  by (simp add: digits_val_def)

lemma digits_val_snoc [simp]: "digits_val b (ds @ [d]) = digits_val b ds * b + d"
  by (simp add: digits_val_def)

lemma digits_val_append:
  "digits_val b (xs @ ys) = digits_val b xs * b ^ length ys + digits_val b ys"
  unfolding digits_val_def by (simp add: foldl_digits [of b "foldl _ 0 xs" ys])

lemma digits_val_Cons: "digits_val b (x # xs) = x * b ^ length xs + digits_val b xs"
  using digits_val_append [of b "[x]" xs] by (simp add: digits_val_def)

lemma digits_val_zeros [simp]: "digits_val b (replicate n 0) = 0"
  by (induction n) (auto simp: digits_val_Cons)

lemma digits_val_strip: "digits_val b (dropWhile (\<lambda>d. d = 0) ds) = digits_val b ds"
  by (induction ds) (auto simp: digits_val_Cons)

lemma digits_val_bound: "(\<forall>d \<in> set ds. d < b) \<Longrightarrow> digits_val b ds < b ^ length ds"
proof (induction ds rule: rev_induct)
  case Nil
  then show ?case by simp
next
  case (snoc d ds)
  then have "digits_val b ds + 1 \<le> b ^ length ds" and d: "d < b" by auto
  then have "(digits_val b ds + 1) * b \<le> b ^ length ds * b" by (intro mult_right_mono) auto
  then show ?case using d by (simp add: algebra_simps)
qed

lemma digits_val_lower:
  assumes "ds \<noteq> []" and "hd ds \<noteq> 0"
  shows "b ^ (length ds - 1) \<le> digits_val b ds"
  using assms by (cases ds) (auto simp: digits_val_Cons trans_le_add1)

lemma digits_val_all_zero:
  assumes "0 < b"
  shows "digits_val b ds = 0 \<longleftrightarrow> (\<forall>d \<in> set ds. d = 0)"
  using assms by (induction ds) (auto simp: digits_val_Cons)

lemma to_digits_0 [simp]: "to_digits b 0 = []"
  by (simp add: to_digits.simps)

text \<open>A digit list without leading zero is the digit expansion of its value.\<close>

lemma to_digits_val_strip:
  assumes "1 < b" and "\<forall>d \<in> set ds. d < b"
  shows "to_digits b (digits_val b ds) = dropWhile (\<lambda>d. d = 0) ds"
  using assms(2)
proof (induction ds rule: rev_induct)
  case Nil
  then show ?case by (simp add: to_digits.simps)
next
  case (snoc d ds)
  then have d: "d < b" and IH: "to_digits b (digits_val b ds) = dropWhile (\<lambda>d. d = 0) ds" by auto
  show ?case
  proof (cases "digits_val b (ds @ [d]) = 0")
    case True
    then have "\<forall>x \<in> set (ds @ [d]). x = 0" using digits_val_all_zero [of b "ds @ [d]"] assms(1)
      by (simp del: digits_val_snoc)
    moreover have "to_digits b (digits_val b (ds @ [d])) = []"
      using True by (subst to_digits.simps) simp
    ultimately show ?thesis by simp
  next
    case False
    have div: "(digits_val b ds * b + d) div b = digits_val b ds"
      and mod: "(digits_val b ds * b + d) mod b = d" using d by auto
    have "to_digits b (digits_val b (ds @ [d])) = dropWhile (\<lambda>d. d = 0) ds @ [d]"
      using False assms(1) d by (subst to_digits.simps) (simp add: div mod IH)
    moreover have "dropWhile (\<lambda>d. d = 0) (ds @ [d]) = dropWhile (\<lambda>d. d = 0) ds @ [d]"
    proof (cases "\<forall>x \<in> set ds. x = 0")
      case True
      then have "digits_val b ds = 0" using digits_val_all_zero [of b ds] assms(1) by simp
      then show ?thesis using True False by (simp add: dropWhile_append)
    next
      case False
      then show ?thesis by (auto simp: dropWhile_append dropWhile_eq_Nil_conv)
    qed
    ultimately show ?thesis by simp
  qed
qed

lemma digits_val_to_digits [simp]: "1 < b \<Longrightarrow> digits_val b (to_digits b n) = n"
proof (induction b n rule: to_digits.induct)
  case (1 b n)
  then show ?case by (cases "n = 0") (auto simp: to_digits.simps [of b n])
qed

lemma to_digits_bound: "1 < b \<Longrightarrow> d \<in> set (to_digits b n) \<Longrightarrow> d < b"
proof (induction b n rule: to_digits.induct)
  case (1 b n)
  then show ?case by (cases "n = 0") (auto simp: to_digits.simps [of b n])
qed

lemma to_digits_no_leading_zero:
  assumes "1 < b"
  shows "dropWhile (\<lambda>d. d = 0) (to_digits b n) = to_digits b n"
  using to_digits_val_strip [of b "to_digits b n"] assms by (simp add: to_digits_bound)

lemma to_digits_eq_Nil_iff [simp]: "1 < b \<Longrightarrow> to_digits b n = [] \<longleftrightarrow> n = 0"
  by (simp add: to_digits.simps [of b n])

lemma digits_eq_if_val_eq:
  assumes "1 < b" "\<forall>d \<in> set xs. d < b" "\<forall>d \<in> set ys. d < b"
    and "length xs = length ys" "digits_val b xs = digits_val b ys"
  shows "xs = ys"
proof -
  have strip: "dropWhile (\<lambda>d. d = 0) xs = dropWhile (\<lambda>d. d = 0) ys"
    using assms to_digits_val_strip [of b xs] to_digits_val_strip [of b ys] by simp
  have pad: "zs = replicate (length zs - length (dropWhile (\<lambda>d. d = 0) zs)) 0 @ dropWhile (\<lambda>d. d = 0) zs"
    for zs :: "nat list"
    by (induction zs) (auto simp: Suc_diff_le length_dropWhile_le)
  show ?thesis using pad [of xs] pad [of ys] strip assms(4) by metis
qed

lemma takeWhile_zero_replicate:
  "takeWhile (\<lambda>d. d = (0::'a::zero)) ds = replicate (length (takeWhile (\<lambda>d. d = 0) ds)) 0"
  by (induction ds) auto

lemma length_takeWhile_dropWhile:
  "length (takeWhile P xs) + length (dropWhile P xs) = length xs"
  by (metis length_append takeWhile_dropWhile_id)

lemma to_digits_length_le:
  assumes "1 < b" and "n < b ^ k"
  shows "length (to_digits b n) \<le> k"
proof (cases "n = 0")
  case True
  then show ?thesis by simp
next
  case False
  let ?ds = "to_digits b n"
  have ne: "?ds \<noteq> []" using False assms(1) by simp
  moreover have "hd ?ds \<noteq> 0"
    using to_digits_no_leading_zero [OF assms(1), of n] hd_dropWhile [of "\<lambda>d. d = 0" ?ds] ne
    by (metis)
  ultimately have "b ^ (length ?ds - 1) \<le> n" using digits_val_lower [of ?ds b] assms(1) by simp
  then have "b ^ (length ?ds - 1) < b ^ k" using assms(2) by simp
  then have "length ?ds - 1 < k" using assms(1) by simp
  then show ?thesis by simp
qed

section \<open>Codecs\<close>

text \<open>
  An encoder and a fallible decoder. A codec decodes what it encoded; a canonical codec
  moreover accepts nothing but encodings of valid values, so that every accepted text is
  the only one of its value.
\<close>

locale codec =
  fixes enc :: "'a \<Rightarrow> 'b" and dec :: "'b \<Rightarrow> ('e, 'a) outcome" and valid :: "'a \<Rightarrow> bool"
  assumes dec_enc: "valid x \<Longrightarrow> dec (enc x) = Ok x"
begin

lemma enc_inj: "valid x \<Longrightarrow> valid y \<Longrightarrow> enc x = enc y \<longleftrightarrow> x = y"
  by (metis dec_enc outcome.inject(1))

end

locale canonical_codec = codec +
  assumes enc_dec: "dec y = Ok x \<Longrightarrow> valid x \<and> enc x = y"
begin

lemma dec_Ok_iff: "dec y = Ok x \<longleftrightarrow> valid x \<and> y = enc x"
  using dec_enc enc_dec by blast

lemma dec_inj: "dec y = Ok x \<Longrightarrow> dec z = Ok x \<Longrightarrow> y = z"
  using enc_dec by blast

end

end
