(* ===== verification/Rust_Std.thy ===== *)
theory Rust_Std
  imports Prelude
begin

text \<open>
  The parts of Rust's standard library the wallet calls on strings and numbers. A
  \<open>str\<close> is its UTF-8 byte sequence, one \<open>char\<close> of HOL per byte, so \<open>length\<close> is
  \<open>str::len\<close>.
\<close>

definition char_byte :: "char \<Rightarrow> u8" where
  "char_byte c = of_nat (of_char c)"

definition byte_char :: "u8 \<Rightarrow> char" where
  "byte_char b = char_of (unat b)"

definition as_bytes :: "string \<Rightarrow> bytes" where
  "as_bytes s = map char_byte s"

lemma unat_u8_less [simp]: "unat (b :: u8) < 256"
  using unsigned_less [of b, where ?'a = nat] by simp

lemma unat_char_byte [simp]: "unat (char_byte c) = of_char c"
  by (simp add: char_byte_def unat_of_nat)

lemma byte_char_char_byte [simp]: "byte_char (char_byte c) = c"
  by (simp add: byte_char_def)

lemma char_byte_byte_char [simp]: "char_byte (byte_char b) = b"
  by (simp add: char_byte_def byte_char_def)

lemma map_byte_char_as_bytes [simp]: "map byte_char (as_bytes s) = s"
  by (simp add: as_bytes_def comp_def)

lemma length_as_bytes [simp]: "length (as_bytes s) = length s"
  by (simp add: as_bytes_def)

section \<open>Slices, search and splitting\<close>

text \<open>\<open>str::is_char_boundary\<close>: an index inside a multi-byte character is none.\<close>

definition is_char_boundary :: "string \<Rightarrow> nat \<Rightarrow> bool" where
  "is_char_boundary s i \<longleftrightarrow> i = 0 \<or> i = length s \<or>
     (i < length s \<and> \<not> (128 \<le> (of_char (s ! i) :: nat) \<and> (of_char (s ! i) :: nat) < 192))"

text \<open>\<open>&s[a..b]\<close>: panics out of range or off a character boundary.\<close>

definition str_slice :: "string \<Rightarrow> nat \<Rightarrow> nat \<Rightarrow> ('e, string) outcome" where
  "str_slice s a b =
     (if a \<le> b \<and> b \<le> length s \<and> is_char_boundary s a \<and> is_char_boundary s b
      then Ok (take (b - a) (drop a s)) else Panic)"

definition starts_with :: "string \<Rightarrow> string \<Rightarrow> bool" where
  "starts_with s p \<longleftrightarrow> take (length p) s = p"

definition ends_with :: "string \<Rightarrow> string \<Rightarrow> bool" where
  "ends_with s p \<longleftrightarrow> length p \<le> length s \<and> drop (length s - length p) s = p"

text \<open>\<open>s.find(c)\<close> for a one-byte pattern: the index of its first occurrence.\<close>

fun str_find :: "char \<Rightarrow> string \<Rightarrow> nat option" where
  "str_find c [] = None"
| "str_find c (x # xs) = (if x = c then Some 0 else map_option Suc (str_find c xs))"

text \<open>\<open>s.find(p).is_some()\<close> and \<open>s.contains(p)\<close> for a string pattern.\<close>

fun str_contains :: "string \<Rightarrow> string \<Rightarrow> bool" where
  "str_contains [] p = (p = [])"
| "str_contains (x # xs) p = (starts_with (x # xs) p \<or> str_contains xs p)"

text \<open>\<open>s.split(c)\<close> for a one-byte separator: one piece more than there are separators.\<close>

fun str_split :: "char \<Rightarrow> string \<Rightarrow> string list" where
  "str_split c [] = [[]]"
| "str_split c (x # xs) =
     (if x = c then [] # str_split c xs
      else case str_split c xs of [] \<Rightarrow> [[x]] | p # ps \<Rightarrow> (x # p) # ps)"

text \<open>\<open>str::replace(s, p, r)\<close> for a non-empty pattern, left to right, not overlapping.\<close>

function str_replace :: "string \<Rightarrow> string \<Rightarrow> string \<Rightarrow> string" where
  "str_replace p r s =
     (case s of [] \<Rightarrow> []
      | x # xs \<Rightarrow> if p \<noteq> [] \<and> starts_with s p then r @ str_replace p r (drop (length p) s)
                 else x # str_replace p r xs)"
  by pat_completeness auto
termination
  by (relation "measure (\<lambda>(p, r, s). length s)") (auto simp: neq_Nil_conv)

declare str_replace.simps [simp del]

fun str_join :: "string \<Rightarrow> string list \<Rightarrow> string" where
  "str_join sep [] = []"
| "str_join sep [x] = x"
| "str_join sep (x # y # ys) = x @ sep @ str_join sep (y # ys)"

lemma starts_with_iff: "starts_with s p \<longleftrightarrow> (\<exists>t. s = p @ t)"
  by (auto simp: starts_with_def) (metis append_take_drop_id)

lemma str_split_nonempty [simp]: "str_split c s \<noteq> []"
  by (induction s) (auto split: list.splits)

lemma str_split_no_sep: "c \<notin> set s \<Longrightarrow> str_split c s = [s]"
  by (induction s) auto

lemma str_split_append:
  "c \<notin> set p \<Longrightarrow> str_split c (p @ c # s) = p # str_split c s"
  by (induction p) auto

lemma str_find_append: "c \<notin> set p \<Longrightarrow> str_find c (p @ c # s) = Some (length p)"
  by (induction p) auto

lemma str_find_None_iff [simp]: "str_find c s = None \<longleftrightarrow> c \<notin> set s"
  by (induction s) auto

lemma str_find_Some:
  "str_find c s = Some i \<Longrightarrow> i < length s \<and> s ! i = c \<and> c \<notin> set (take i s)"
  by (induction s arbitrary: i) (auto split: if_splits)

lemma str_split_join:
  "\<forall>p \<in> set ps. c \<notin> set p \<Longrightarrow> ps \<noteq> [] \<Longrightarrow> str_split c (str_join [c] ps) = ps"
  by (induction "[c]" ps rule: str_join.induct) (auto simp: str_split_no_sep str_split_append)

lemma str_join_split: "str_join [c] (str_split c s) = s"
proof (induction s)
  case Nil
  then show ?case by simp
next
  case (Cons x s)
  obtain p ps where sp: "str_split c s = p # ps" by (cases "str_split c s") auto
  with Cons show ?case by (cases ps) auto
qed

lemma str_replace_Nil [simp]: "str_replace p r [] = []"
  by (simp add: str_replace.simps)

lemma str_replace_hit:
  "p \<noteq> [] \<Longrightarrow> str_replace p r (p @ s) = r @ str_replace p r s"
proof -
  assume "p \<noteq> []"
  then obtain x xs where p: "p = x # xs" by (cases p) auto
  have "starts_with (p @ s) p" by (simp add: starts_with_def)
  then show ?thesis using str_replace.simps [of p r "p @ s"] by (simp add: p)
qed

lemma str_replace_miss:
  "p = c # q \<Longrightarrow> x \<noteq> c \<Longrightarrow> str_replace p r (x # s) = x # str_replace p r s"
  by (subst str_replace.simps) (auto simp: starts_with_def)

text \<open>Escaping one character and replacing the escape sequence back is the identity.\<close>

lemma str_replace_escape:
  assumes "e \<notin> set s" and "e \<noteq> c"
  shows "str_replace (e # q) [c] (str_replace [c] (e # q) s) = s"
  using assms(1)
proof (induction s)
  case Nil
  then show ?case by simp
next
  case (Cons x s)
  show ?case
  proof (cases "x = c")
    case True
    have "str_replace [c] (e # q) (x # s) = (e # q) @ str_replace [c] (e # q) s"
      using True str_replace_hit [of "[c]" "e # q" s] by simp
    with Cons True show ?thesis
      using str_replace_hit [of "e # q" "[c]" "str_replace [c] (e # q) s"] by simp
  next
    case False
    with Cons show ?thesis
      by (auto simp: str_replace_miss [of "[c]" c "[]"] str_replace_miss [of "e # q" e q])
  qed
qed

section \<open>Trimming white space\<close>

text \<open>The UTF-8 sequences of Unicode's \<open>White_Space\<close>, which \<open>str::trim\<close> strips.\<close>

definition ws_seqs :: "string list" where
  "ws_seqs = map (map (\<lambda>n. char_of (n::nat)))
     [[9], [10], [11], [12], [13], [32], [194, 133], [194, 160], [225, 154, 128],
      [226, 128, 128], [226, 128, 129], [226, 128, 130], [226, 128, 131], [226, 128, 132],
      [226, 128, 133], [226, 128, 134], [226, 128, 135], [226, 128, 136], [226, 128, 137],
      [226, 128, 138], [226, 128, 168], [226, 128, 169], [226, 128, 175], [226, 129, 159],
      [227, 128, 128]]"

lemma ws_seqs_nonempty: "w \<in> set ws_seqs \<Longrightarrow> w \<noteq> []"
  by (auto simp: ws_seqs_def)

function trim_start :: "string \<Rightarrow> string" where
  "trim_start s = (case find (starts_with s) ws_seqs of
     None \<Rightarrow> s
   | Some w \<Rightarrow> if s = [] then s else trim_start (drop (length w) s))"
  by pat_completeness auto
termination
  by (relation "measure length") (auto simp: find_Some_iff dest!: ws_seqs_nonempty nth_mem)

function trim_end :: "string \<Rightarrow> string" where
  "trim_end s = (case find (ends_with s) ws_seqs of
     None \<Rightarrow> s
   | Some w \<Rightarrow> if s = [] then s else trim_end (take (length s - length w) s))"
  by pat_completeness auto
termination
  by (relation "measure length") (auto simp: find_Some_iff dest!: ws_seqs_nonempty nth_mem)

definition str_trim :: "string \<Rightarrow> string" where
  "str_trim s = trim_end (trim_start s)"

declare trim_start.simps [simp del] trim_end.simps [simp del]

text \<open>A printable ASCII character that is no blank: none of the sequences contains it.\<close>

definition graphic :: "char \<Rightarrow> bool" where
  "graphic c \<longleftrightarrow> 33 \<le> (of_char c :: nat) \<and> (of_char c :: nat) < 127"

lemma ws_seqs_not_graphic: "w \<in> set ws_seqs \<Longrightarrow> c \<in> set w \<Longrightarrow> \<not> graphic c"
  by (auto simp: ws_seqs_def graphic_def)

lemma trim_graphic:
  assumes "\<forall>c \<in> set s. graphic c"
  shows "str_trim s = s"
proof -
  have no: "\<not> (c \<in> set w \<and> c \<in> set s)" if "w \<in> set ws_seqs" for w c
    using that assms ws_seqs_not_graphic by blast
  have "find (starts_with s) ws_seqs = None"
    unfolding find_None_iff starts_with_iff
    using no by (metis UnCI last_in_set set_append ws_seqs_nonempty)
  moreover have "find (ends_with s) ws_seqs = None"
    unfolding find_None_iff ends_with_def
    using no by (metis in_set_dropD last_in_set ws_seqs_nonempty)
  ultimately show ?thesis by (simp add: str_trim_def trim_start.simps trim_end.simps)
qed

section \<open>Numbers\<close>

text \<open>\<open>char::to_digit\<close>.\<close>

definition char_digit :: "nat \<Rightarrow> char \<Rightarrow> nat option" where
  "char_digit radix c =
     (let n = of_char c;
          d = (if 48 \<le> n \<and> n \<le> 57 then n - 48
               else if 97 \<le> n \<and> n \<le> 122 then n - 87
               else if 65 \<le> n \<and> n \<le> 90 then n - 55 else radix)
      in if d < radix then Some d else None)"

text \<open>
  \<open>from_str_radix\<close> and \<open>str::parse\<close> of an unsigned type with values below \<open>bound\<close>: an
  optional plus sign, at least one digit, no overflow.
\<close>

definition parse_digits :: "nat \<Rightarrow> nat \<Rightarrow> string \<Rightarrow> nat option" where
  "parse_digits radix bound s =
     (if s = [] then None
      else case those (map (char_digit radix) s) of
        None \<Rightarrow> None
      | Some ds \<Rightarrow> if digits_val radix ds < bound then Some (digits_val radix ds) else None)"

definition from_str_radix :: "nat \<Rightarrow> nat \<Rightarrow> string \<Rightarrow> nat option" where
  "from_str_radix radix bound s =
     (case s of CHR ''+'' # ds \<Rightarrow> parse_digits radix bound ds | _ \<Rightarrow> parse_digits radix bound s)"

text \<open>\<open>str::parse::<i64>\<close>.\<close>

definition parse_i64 :: "string \<Rightarrow> int option" where
  "parse_i64 s = (case s of
     CHR ''-'' # ds \<Rightarrow> map_option (\<lambda>n. - int n) (parse_digits 10 (2 ^ 63 + 1) ds)
   | _ \<Rightarrow> map_option int (from_str_radix 10 (2 ^ 63) s))"

text \<open>\<open>to_string\<close> of an unsigned number.\<close>

definition digit_char :: "nat \<Rightarrow> char" where
  "digit_char d = char_of (if d < 10 then 48 + d else 87 + d)"

definition show_nat :: "nat \<Rightarrow> string" where
  "show_nat n = (if n = 0 then ''0'' else map digit_char (to_digits 10 n))"

lemma char_digit_digit_char [simp]:
  assumes "d < radix" and "radix \<le> 36"
  shows "char_digit radix (digit_char d) = Some d"
  using assms by (auto simp: char_digit_def digit_char_def Let_def)

lemma those_map_Some [simp]: "those (map (\<lambda>x. Some (f x)) xs) = Some (map f xs)"
  by (induction xs) auto

lemma those_Some_iff: "those xs = Some ys \<longleftrightarrow> xs = map Some ys"
  by (induction xs arbitrary: ys) (auto split: option.splits)

lemma those_None_iff: "those xs = None \<longleftrightarrow> None \<in> set xs"
  by (induction xs) (auto split: option.splits)

lemma digit_char_not_plus: "d < 36 \<Longrightarrow> digit_char d \<noteq> CHR ''+''"
proof
  assume d: "d < 36" and "digit_char d = CHR ''+''"
  then have "(of_char (digit_char d) :: nat) = 43" by simp
  then show False using d by (auto simp: digit_char_def split: if_splits)
qed

lemma parse_digits_digit_chars:
  assumes "ds \<noteq> []" and "\<forall>d \<in> set ds. d < radix" and "radix \<le> 36"
  shows "parse_digits radix bound (map digit_char ds)
    = (if digits_val radix ds < bound then Some (digits_val radix ds) else None)"
proof -
  have "map (char_digit radix) (map digit_char ds) = map Some ds"
    using assms(2,3) by (auto simp: char_digit_digit_char)
  then have "those (map (char_digit radix) (map digit_char ds)) = Some ds"
    by (simp add: those_Some_iff)
  then show ?thesis using assms(1) by (simp add: parse_digits_def)
qed

lemma from_str_radix_digit_chars:
  assumes "ds \<noteq> []" and "\<forall>d \<in> set ds. d < radix" and "radix \<le> 36"
  shows "from_str_radix radix bound (map digit_char ds)
    = (if digits_val radix ds < bound then Some (digits_val radix ds) else None)"
proof -
  obtain d ds' where ds: "ds = d # ds'" using assms(1) by (cases ds) auto
  then have "digit_char d \<noteq> CHR ''+''" using assms by (intro digit_char_not_plus) auto
  then have "from_str_radix radix bound (map digit_char ds)
    = parse_digits radix bound (map digit_char ds)"
    by (auto simp: from_str_radix_def ds split: list.splits char.splits bool.splits)
  then show ?thesis using parse_digits_digit_chars [OF assms] by simp
qed

text \<open>Reading back a printed number.\<close>

lemma show_nat_digits:
  "\<exists>ds. show_nat n = map digit_char ds \<and> ds \<noteq> [] \<and> (\<forall>d \<in> set ds. d < 10) \<and> digits_val 10 ds = n"
proof (cases "n = 0")
  case True
  then have "show_nat n = map digit_char [0]"
    by (simp add: show_nat_def digit_char_def char_of_def bit_simps)
  then show ?thesis using True by (intro exI [of _ "[0]"]) (simp add: digits_val_Cons)
next
  case False
  then show ?thesis by (intro exI [of _ "to_digits 10 n"]) (auto simp: show_nat_def to_digits_bound)
qed

lemma from_str_radix_show_nat:
  "from_str_radix 10 bound (show_nat n) = (if n < bound then Some n else None)"
  using show_nat_digits [of n] from_str_radix_digit_chars [of _ 10 bound] by fastforce

lemma show_nat_chars: "c \<in> set (show_nat n) \<Longrightarrow> 48 \<le> (of_char c :: nat) \<and> (of_char c :: nat) \<le> 57"
  using show_nat_digits [of n] by (fastforce simp: digit_char_def)

lemma show_nat_nonempty [simp]: "show_nat n \<noteq> []"
  using show_nat_digits [of n] by auto

section \<open>Files and paths\<close>

text \<open>
  The part of the file system the wallet touches: the contents of files, the directories
  created, and the paths on which the system refuses access. Paths are as on Unix.
\<close>

record fs =
  files :: "string \<rightharpoonup> string"
  dirs :: "string list"
  denied :: "string \<Rightarrow> bool"

text \<open>\<open>Path::join\<close> and \<open>PathBuf::push\<close>.\<close>

definition path_join :: "string \<Rightarrow> string \<Rightarrow> string" where
  "path_join a b =
     (if starts_with b ''/'' then b else if a = [] \<or> ends_with a ''/'' then a @ b else a @ ''/'' @ b)"

text \<open>Trailing separators and trailing \<open>.\<close> components do not count.\<close>

function path_trim :: "string \<Rightarrow> string" where
  "path_trim p =
     (if 1 < length p \<and> ends_with p ''/'' then path_trim (butlast p)
      else if 2 < length p \<and> ends_with p ''/.'' then path_trim (butlast p)
      else p)"
  by pat_completeness auto
termination
  by (relation "measure length") auto

declare path_trim.simps [simp del]

definition path_last :: "string \<Rightarrow> string" where
  "path_last p = rev (takeWhile (\<lambda>c. c \<noteq> CHR ''/'') (rev (path_trim p)))"

text \<open>\<open>Path::file_name\<close> and \<open>Path::parent\<close>.\<close>

definition path_file_name :: "string \<Rightarrow> string option" where
  "path_file_name p =
     (let l = path_last p in if l = [] \<or> l = ''.'' \<or> l = ''..'' then None else Some l)"

definition path_parent :: "string \<Rightarrow> string option" where
  "path_parent p =
     (let q = path_trim p
      in if q = [] \<or> q = ''/'' then None
         else Some (path_trim (take (length q - length (path_last p)) q)))"

text \<open>\<open>PathBuf::pop\<close>.\<close>

definition path_pop :: "string \<Rightarrow> string" where
  "path_pop p = (case path_parent p of None \<Rightarrow> p | Some q \<Rightarrow> q)"

lemma path_join_inj: "path_join a b = path_join a c \<Longrightarrow> \<not> starts_with b ''/'' \<Longrightarrow> \<not> starts_with c ''/'' \<Longrightarrow> b = c"
  by (auto simp: path_join_def split: if_splits)

text \<open>A plain component: no separator, not empty, not one of the two special names.\<close>

definition plain_name :: "string \<Rightarrow> bool" where
  "plain_name n \<longleftrightarrow> n \<noteq> [] \<and> CHR ''/'' \<notin> set n \<and> n \<noteq> ''.'' \<and> n \<noteq> ''..''"

lemma ends_with_append: "ends_with (a @ b) [c] \<longleftrightarrow> (if b = [] then ends_with a [c] else last b = c)"
  by (cases b rule: rev_cases; cases a rule: rev_cases) (auto simp: ends_with_def)

lemma path_trim_name:
  assumes "plain_name n" and "a = [] \<or> last a = CHR ''/''"
  shows "path_trim (a @ n) = a @ n"
proof -
  have n: "n \<noteq> []" "CHR ''/'' \<notin> set n" using assms(1) by (simp_all add: plain_name_def)
  then have n2: "last n \<noteq> CHR ''/''" using last_in_set [of n] by metis
  have 1: "\<not> ends_with (a @ n) ''/''" using n(1) n2 by (simp add: ends_with_append)
  have 2: "\<not> ends_with (a @ n) ''/.''"
  proof
    assume e: "ends_with (a @ n) ''/.''"
    obtain m c where m: "n = m @ [c]" using n(1) by (cases n rule: rev_cases) auto
    with e have c: "c = CHR ''.''" by (auto simp: ends_with_def)
    show False
    proof (cases m rule: rev_cases)
      case Nil
      then show ?thesis using assms(1) m c by (simp add: plain_name_def)
    next
      case (snoc k d)
      then have "d = CHR ''/''" using e m c by (auto simp: ends_with_def)
      then show ?thesis using assms(1) m snoc by (simp add: plain_name_def)
    qed
  qed
  show ?thesis using 1 2 by (subst path_trim.simps) simp
qed

lemma path_last_name:
  assumes "plain_name n" and "a = [] \<or> last a = CHR ''/''"
  shows "path_last (a @ n) = n"
proof -
  have "takeWhile (\<lambda>c. c \<noteq> CHR ''/'') (rev n @ rev a) = rev n"
    using assms by (cases a rule: rev_cases) (auto simp: plain_name_def takeWhile_append)
  then show ?thesis by (simp add: path_last_def path_trim_name [OF assms])
qed

lemma path_join_name:
  assumes "plain_name n"
  shows "\<exists>b. path_join a n = b @ n \<and> (b = [] \<or> last b = CHR ''/'') \<and> (b = a \<or> b = a @ ''/'')"
proof -
  have n: "\<not> starts_with n ''/''" using assms by (cases n) (auto simp: plain_name_def starts_with_def)
  consider "a = []" | "a \<noteq> []" "ends_with a ''/''" | "a \<noteq> []" "\<not> ends_with a ''/''" by blast
  then show ?thesis
  proof cases
    case 2
    then have "last a = CHR ''/''" by (cases a rule: rev_cases) (auto simp: ends_with_def)
    then show ?thesis using n 2 by (simp add: path_join_def)
  qed (use n in \<open>auto simp: path_join_def\<close>)
qed

lemma path_file_name_join: "plain_name n \<Longrightarrow> path_file_name (path_join a n) = Some n"
proof -
  assume n: "plain_name n"
  then obtain b where "path_join a n = b @ n" "b = [] \<or> last b = CHR ''/''"
    using path_join_name [of n a] by blast
  then have "path_last (path_join a n) = n" using path_last_name [OF n] by simp
  then show ?thesis using n by (simp add: path_file_name_def Let_def plain_name_def)
qed

lemma path_parent_join:
  assumes "plain_name n"
  shows "path_parent (path_join a n) = Some (path_trim a) \<or> path_parent (path_join a n) = Some (path_trim (a @ ''/''))"
proof -
  obtain b where b: "path_join a n = b @ n" "b = [] \<or> last b = CHR ''/''" "b = a \<or> b = a @ ''/''"
    using path_join_name [OF assms] by blast
  have "b @ n \<noteq> []" "b @ n \<noteq> ''/''" using assms by (auto simp: plain_name_def append_eq_Cons_conv)
  then have "path_parent (b @ n) = Some (path_trim b)"
    using path_trim_name [OF assms b(2)] path_last_name [OF assms b(2)]
    by (simp add: path_parent_def Let_def)
  then show ?thesis using b by auto
qed

lemma path_trim_slash: "a \<noteq> [] \<Longrightarrow> path_trim (a @ ''/'') = path_trim a"
  by (subst path_trim.simps) (simp add: ends_with_append Suc_le_eq)

lemma path_parent_join_dir: "plain_name n \<Longrightarrow> a \<noteq> [] \<Longrightarrow> path_parent (path_join a n) = Some (path_trim a)"
  using path_parent_join [of n a] path_trim_slash [of a] by auto

end
