(* ===== verification/Error_Kind.thy ===== *)
theory Error_Kind
  imports Rust_Std
begin

text \<open>
  The wallet's error values. \<open>error_kind\<close> is \<open>ErrorKind\<close> of
  \<open>src/src/common/error_kind.rs\<close>, one constructor per variant, \<open>error_display\<close> its
  \<open>Display\<close> text (without the \<open>failure\<close> crate's derive machinery). \<open>err\<close> is
  \<open>failure::Error\<close>: an error kind, or the error of another crate with its message.
\<close>

datatype (plugins only: code) error_kind =
    Secp
  | ModelNotFound
  | WalletSeedCouldNotBeOpened
  | TransactionHasNoProof
  | InvalidTxId string
  | InvalidAmount string
  | CustomWithNoOutputs
  | NonCustomWithOutputs
  | InvalidStrategy
  | InvalidMinConfirmations string
  | InvalidPaginationLength string
  | InvalidTxIdNumber string
  | InvalidTxUuid string
  | InvalidPaginationStart string
  | InvalidNumOutputs string
  | InvalidSlateVersion string
  | WalletUnlockFailed
  | ZeroConfNotAllowed
  | NoWallet
  | ClosedListener string
  | InvalidRespose string
  | AlreadyListening string
  | ContactAlreadyExists string
  | ContactNotFound string
  | InvalidBase58Character char nat
  | InvalidBase58Length
  | InvalidBase58Checksum
  | InvalidBase58Version
  | InvalidBase58Key
  | NumberParsingError
  | UnknownAddressType string
  | GrinboxAddressParsingError string
  | KeybaseAddressParsingError string
  | HttpsAddressParsingError string
  | KeybaseMessageSendError
  | GrinWalletReceiveError
  | GrinWalletVerifySlateMessagesError
  | GrinWalletFinalizeError
  | GrinWalletPostError
  | KeybaseNotFound
  | GrinboxWebsocketAbnormalTermination
  | DoesNotAcceptInvoices
  | InvoiceAmountTooBig u64
  | HasListener
  | WalletAlreadyUnlocked
  | Encryption
  | Decryption
  | HttpRequest
  | GenericError string
  | VerifyProof
  | FileNotFound string
  | FileUnableToDelete string
  | FileUnableToCreate string
  | TxProofParseAddress string
  | TxProofParsePublicKey
  | TxProofParseSignature string
  | TxProofVerifySignature
  | TxProofParseEncryptedMessage
  | TxProofVerifyDestination
  | TxProofDecryptionKey
  | TxProofDecryptMessage
  | TxProofParseSlate

definition apos :: string where
  "apos = [CHR 0x27]"

primrec error_display :: "error_kind \<Rightarrow> string" where
  "error_display Secp = ''secp error''"
| "error_display ModelNotFound = ''model not found!''"
| "error_display WalletSeedCouldNotBeOpened = ''could not open wallet seed!''"
| "error_display TransactionHasNoProof = ''transaction doesn'' @ apos @ ''t have a proof!''"
| "error_display (InvalidTxId v) = ''invalid transaction id given: `'' @ v @ ''`''"
| "error_display (InvalidAmount v) = ''invalid amount given: `'' @ v @ ''`''"
| "error_display CustomWithNoOutputs =
     ''--outputs must be specified when selection strategy is '' @ apos @ ''custom'' @ apos"
| "error_display NonCustomWithOutputs =
     ''--outputs must not be specified unless selection strategy is '' @ apos @ ''custom'' @ apos"
| "error_display InvalidStrategy =
     ''invalid selection strategy, use either '' @ apos @ ''smallest'' @ apos @ '', '' @ apos @ ''all'' @ apos @ '', or '' @ apos @ ''custom'' @ apos"
| "error_display (InvalidMinConfirmations v) =
     ''invalid number of minimum confirmations given: `'' @ v @ ''`''"
| "error_display (InvalidPaginationLength v) = ''invalid pagination length: `'' @ v @ ''`''"
| "error_display (InvalidTxIdNumber v) = ''invalid transaction id number: `'' @ v @ ''`''"
| "error_display (InvalidTxUuid v) = ''invalid transaction UUID: `'' @ v @ ''`''"
| "error_display (InvalidPaginationStart v) = ''invalid pagination start: `'' @ v @ ''`''"
| "error_display (InvalidNumOutputs v) = ''invalid number of outputs given: `'' @ v @ ''`''"
| "error_display (InvalidSlateVersion v) = ''invalid slate version given: `'' @ v @ ''`''"
| "error_display WalletUnlockFailed =
     ''could not unlock wallet! are you using the correct passphrase?''"
| "error_display ZeroConfNotAllowed =
     ''Zero-conf Transactions are not allowed. Must have at least 1 confirmation.''"
| "error_display NoWallet = ''could not open wallet! use `unlock` or `init`.''"
| "error_display (ClosedListener v) = v @ '' listener is closed! consider using `listen` first.''"
| "error_display (InvalidRespose v) = v @ '' Sender returned invalid response.''"
| "error_display (AlreadyListening v) = ''listener for '' @ v @ '' already started!''"
| "error_display (ContactAlreadyExists v) = ''contact named `'' @ v @ ''` already exists!''"
| "error_display (ContactNotFound v) = ''could not find contact named `'' @ v @ ''`!''"
| "error_display (InvalidBase58Character c i) = ''invalid character!''"
| "error_display InvalidBase58Length = ''invalid length!''"
| "error_display InvalidBase58Checksum = ''invalid checksum!''"
| "error_display InvalidBase58Version = ''invalid network!''"
| "error_display InvalidBase58Key = ''invalid key!''"
| "error_display NumberParsingError = ''could not parse number from string!''"
| "error_display (UnknownAddressType v) = ''unknown address type `'' @ v @ ''`!''"
| "error_display (GrinboxAddressParsingError v) =
     ''could not parse `'' @ v @ ''` to a mwcmq address!''"
| "error_display (KeybaseAddressParsingError v) =
     ''could not parse `'' @ v @ ''` to a keybase address!''"
| "error_display (HttpsAddressParsingError v) =
     ''could not parse `'' @ v @ ''` to a https address!''"
| "error_display KeybaseMessageSendError = ''could not send keybase message!''"
| "error_display GrinWalletReceiveError = ''failed receiving slate!''"
| "error_display GrinWalletVerifySlateMessagesError = ''failed verifying slate messages!''"
| "error_display GrinWalletFinalizeError = ''failed finalizing slate!''"
| "error_display GrinWalletPostError = ''failed posting transaction!''"
| "error_display KeybaseNotFound =
     ''keybase not found! consider installing keybase locally first.''"
| "error_display GrinboxWebsocketAbnormalTermination = ''mwcmq websocket terminated unexpectedly!''"
| "error_display DoesNotAcceptInvoices =
     ''rejecting invoice as auto invoice acceptance is turned off!''"
| "error_display (InvoiceAmountTooBig v) =
     ''rejecting invoice as amount '' @ apos @ show_nat (unat v) @ apos @ '' is too big!''"
| "error_display HasListener = ''please stop the listeners before doing this operation''"
| "error_display WalletAlreadyUnlocked = ''wallet already unlocked''"
| "error_display Encryption = ''unable to encrypt message''"
| "error_display Decryption = ''unable to decrypt message''"
| "error_display HttpRequest = ''http request error''"
| "error_display (GenericError v) = v"
| "error_display VerifyProof = ''unable to verify proof''"
| "error_display (FileNotFound v) = ''file '' @ apos @ v @ apos @ '' not found''"
| "error_display (FileUnableToDelete v) = ''unable to delete the file '' @ apos @ v @ apos"
| "error_display (FileUnableToCreate v) = ''unable to create the file '' @ apos @ v @ apos"
| "error_display (TxProofParseAddress v) = ''Tx Proof unable to parse address '' @ apos @ v @ apos"
| "error_display TxProofParsePublicKey = ''Tx Proof unable to parse an address as a public key''"
| "error_display (TxProofParseSignature v) =
     ''Tx Proof unable to parse signature '' @ apos @ v @ apos"
| "error_display TxProofVerifySignature = ''Tx Proof unable to verify signature''"
| "error_display TxProofParseEncryptedMessage = ''Tx Proof unable to parse ecrypted message''"
| "error_display TxProofVerifyDestination = ''Tx Proof unable to verify destination address''"
| "error_display TxProofDecryptionKey = ''Tx Proof unable to build a key''"
| "error_display TxProofDecryptMessage = ''Tx Proof unable to decrypt the message''"
| "error_display TxProofParseSlate = ''Tx Proof unable to build a slate from the message''"

datatype err = Kind error_kind | Foreign string

type_synonym 'a res = "(err, 'a) outcome"

fun err_display :: "err \<Rightarrow> string" where
  "err_display (Kind k) = error_display k"
| "err_display (Foreign m) = m"

abbreviation fail :: "error_kind \<Rightarrow> 'a res" where
  "fail k \<equiv> Err (Kind k)"

section \<open>Runtime mode\<close>

text \<open>\<open>RuntimeMode\<close> of \<open>src/src/common/mod.rs\<close>; the static \<open>RUNTIME_MODE\<close> is a value
  that its setter replaces.\<close>

datatype runtime_mode = Cli | Daemon

definition initial_runtime_mode :: runtime_mode where
  "initial_runtime_mode = Cli"

definition set_runtime_mode :: "runtime_mode \<Rightarrow> runtime_mode \<Rightarrow> runtime_mode" where
  "set_runtime_mode new old = new"

definition is_cli :: "runtime_mode \<Rightarrow> bool" where
  "is_cli m \<longleftrightarrow> m = Cli"

end
