(* ===== verification/Base58.thy ===== *)
theory Base58
  imports Error_Kind
begin

unbundle bit_operations_syntax

text \<open>
  \<open>src/src/common/base58.rs\<close>: the base58 encoder (trezor's buffer algorithm), the
  decoder over 33 limbs of 32 bits, and their checksummed variants. SHA-256 is a crate
  and a parameter \<open>sha256\<close>. The loops keep the source's indices, word widths and early
  returns; the encoder's inner loop has no bound of its own and is a
  \<open>partial_function\<close>, whose termination is part of \<open>to_base58_eq\<close>.
\<close>

section \<open>The code\<close>

definition ALPHABET :: string where
  "ALPHABET = ''123456789ABCDEFGHJKLMNPQRSTUVWXYZabcdefghijkmnopqrstuvwxyz''"

definition B58_DIGITS_MAP :: "int list" where
  "B58_DIGITS_MAP = [
      - 1, - 1, - 1, - 1, - 1, - 1, - 1, - 1, - 1, - 1, - 1, - 1, - 1, - 1, - 1, - 1,
      - 1, - 1, - 1, - 1, - 1, - 1, - 1, - 1, - 1, - 1, - 1, - 1, - 1, - 1, - 1, - 1,
      - 1, - 1, - 1, - 1, - 1, - 1, - 1, - 1, - 1, - 1, - 1, - 1, - 1, - 1, - 1, - 1,
      - 1, 0, 1, 2, 3, 4, 5, 6, 7, 8, - 1, - 1, - 1, - 1, - 1, - 1,
      - 1, 9, 10, 11, 12, 13, 14, 15, 16, - 1, 17, 18, 19, 20, 21, - 1,
      22, 23, 24, 25, 26, 27, 28, 29, 30, 31, 32, - 1, - 1, - 1, - 1, - 1,
      - 1, 33, 34, 35, 36, 37, 38, 39, 40, 41, 42, 43, - 1, 44, 45, 46,
      47, 48, 49, 50, 51, 52, 53, 54, 55, 56, 57, - 1, - 1, - 1, - 1, - 1]"

subsection \<open>Encoding\<close>

text \<open>\<open>while j > high || carry != 0\<close>; \<open>None\<close> when it never stops.\<close>

partial_function (option) enc_inner :: "nat \<Rightarrow> nat \<Rightarrow> u32 \<Rightarrow> bytes \<Rightarrow> (nat \<times> bytes) option" where
  "enc_inner high j carry buffer =
     (if j > high \<or> carry \<noteq> 0 then
        let carry = carry + 256 * ucast (buffer ! j);
            buffer = buffer[j := ucast (carry mod 58)];
            carry = carry div 58;
            j = (if j > 0 then j - 1 else j)
        in enc_inner high j carry buffer
      else Some (j, buffer))"

text \<open>\<open>while i < self.len()\<close>, over the bytes from index \<open>zcount\<close> on.\<close>

declare enc_inner.simps [code]

fun enc_outer :: "nat \<Rightarrow> nat \<Rightarrow> bytes \<Rightarrow> bytes \<Rightarrow> bytes option" where
  "enc_outer sz high buffer [] = Some buffer"
| "enc_outer sz high buffer (b # bs) =
     (case enc_inner high (sz - 1) (ucast b) buffer of
        None \<Rightarrow> None
      | Some (j, buffer) \<Rightarrow> enc_outer sz j buffer bs)"

text \<open>\<open>result.push(ALPHABET[buffer[j] as usize] as char)\<close>, which panics out of range.\<close>

fun push_digits :: "bytes \<Rightarrow> string res" where
  "push_digits [] = Ok []"
| "push_digits (d # ds) =
     (if unat d < length ALPHABET
      then obind (push_digits ds) (\<lambda>cs. Ok (ALPHABET ! unat d # cs)) else Panic)"

definition to_base58 :: "bytes \<Rightarrow> string res" where
  "to_base58 self =
     (let zcount = length (takeWhile (\<lambda>x. x = 0) self);
          sz = (length self - zcount) * 138 div 100 + 1;
          buffer = replicate sz 0;
          high = sz - 1
      in case enc_outer sz high buffer (drop zcount self) of
           None \<Rightarrow> Hang
         | Some buffer \<Rightarrow>
             let j = length (takeWhile (\<lambda>x. x = 0) buffer)
             in obind (push_digits (drop j buffer)) (\<lambda>cs. Ok (replicate zcount CHR ''1'' @ cs)))"

definition double_sha256 :: "(bytes \<Rightarrow> bytes) \<Rightarrow> bytes \<Rightarrow> bytes" where
  "double_sha256 sha256 payload = sha256 (sha256 payload)"

text \<open>\<open>checksum[..4]\<close> panics on a digest of fewer than four bytes.\<close>

definition to_base58_check :: "(bytes \<Rightarrow> bytes) \<Rightarrow> bytes \<Rightarrow> bytes \<Rightarrow> string res" where
  "to_base58_check sha256 self version =
     (let payload = version @ self;
          checksum = double_sha256 sha256 payload
      in if length checksum < 4 then Panic
         else to_base58 (payload @ take 4 checksum))"

subsection \<open>Decoding\<close>

text \<open>\<open>while j != 0 { j -= 1; ... }\<close>: multiply the limbs by 58 and add the digit.\<close>

fun dec_inner :: "nat \<Rightarrow> u32 list \<Rightarrow> u64 \<Rightarrow> u32 list \<times> u64" where
  "dec_inner 0 out c = (out, c)"
| "dec_inner (Suc j) out c =
     (let t = ucast (out ! j) * 58 + c;
          c = drop_bit 32 (t AND 0x3f00000000);
          out = out[j := ucast (t AND 0xffffffff)]
      in dec_inner j out c)"

text \<open>\<open>while i < self.len()\<close>, over the bytes from index \<open>i\<close> on.\<close>

fun dec_outer :: "u32 \<Rightarrow> nat \<Rightarrow> bytes \<Rightarrow> u32 list \<Rightarrow> u32 list res" where
  "dec_outer zeromask i [] out = Ok out"
| "dec_outer zeromask i (b # bs) out =
     (if b AND 0x80 \<noteq> 0 then fail (InvalidBase58Character (byte_char b) i)
      else if unat b \<ge> length B58_DIGITS_MAP then Panic
      else if B58_DIGITS_MAP ! unat b = -1 then fail (InvalidBase58Character (byte_char b) i)
      else case dec_inner (length out) out (word_of_int (B58_DIGITS_MAP ! unat b)) of
        (out, c) \<Rightarrow>
          if c \<noteq> 0 then fail InvalidBase58Length
          else if out ! 0 AND zeromask \<noteq> 0 then fail InvalidBase58Length
          else dec_outer zeromask (i + 1) bs out)"

text \<open>\<open>while j < out.len()\<close>: write the limbs as big-endian bytes at index \<open>i\<close> on.\<close>

fun write_limbs :: "nat \<Rightarrow> u32 list \<Rightarrow> bytes \<Rightarrow> bytes res" where
  "write_limbs i [] bin = Ok bin"
| "write_limbs i (w # ws) bin =
     (if i + 3 < length bin then
        write_limbs (i + 4) ws
          (bin[i := ucast (drop_bit 24 w AND 0xff), i + 1 := ucast (drop_bit 16 w AND 0xff),
               i + 2 := ucast (drop_bit 8 w AND 0xff), i + 3 := ucast (drop_bit 0 w AND 0xff)])
      else Panic)"

definition from_base58 :: "string \<Rightarrow> bytes res" where
  "from_base58 self =
     (let bin = replicate 132 0;
          out = replicate ((132 + 3) div 4) 0;
          bytesleft = length bin mod 4;
          zeromask = (if bytesleft = 0 then 0 else push_bit (bytesleft * 8) 0xffffffff);
          zcount = length (takeWhile (\<lambda>x. x = CHR ''1'') self);
          b58 = as_bytes self
      in obind (dec_outer zeromask zcount (drop zcount b58) out) (\<lambda>out.
         (case (if bytesleft = 3 then (1, 0, ucast (drop_bit 16 (out ! 0 AND 0xff0000)))
                else if bytesleft = 2 then (1, 0, ucast (drop_bit 8 (out ! 0 AND 0xff00)))
                else if bytesleft = 1 then (1, 1, ucast (out ! 0 AND 0xff))
                else (0, 0, bin ! 0)) of
            (i, j, b0) \<Rightarrow>
              obind (write_limbs i (drop j out) (bin[0 := b0])) (\<lambda>bin.
                let leading_zeros = length (takeWhile (\<lambda>x. x = 0) bin)
                in if leading_zeros < zcount then Panic
                   else Ok (drop (leading_zeros - zcount) bin)))))"

definition from_base58_check ::
  "(bytes \<Rightarrow> bytes) \<Rightarrow> string \<Rightarrow> nat \<Rightarrow> (bytes \<times> bytes) res" where
  "from_base58_check sha256 self version_bytes =
     obind (from_base58 self) (\<lambda>payload.
       if length payload < 5 then fail InvalidBase58Checksum
       else
         let checksum_index = length payload - 4;
             provided_checksum = drop checksum_index payload;
             payload = take checksum_index payload;
             digest = double_sha256 sha256 payload
         in if length digest < 4 then Panic
            else if take 4 digest \<noteq> provided_checksum then fail InvalidBase58Checksum
            else if version_bytes > length payload then Panic
            else Ok (take version_bytes payload, drop version_bytes payload))"

section \<open>The digit table\<close>

text \<open>The alphabet and the digit table are inverse to each other.\<close>

definition b58_char :: "char \<Rightarrow> bool" where
  "b58_char c \<longleftrightarrow> c \<in> set ALPHABET"

definition b58_digit :: "char \<Rightarrow> nat" where
  "b58_digit c = nat (B58_DIGITS_MAP ! of_char c)"

lemma length_ALPHABET [simp]: "length ALPHABET = 58"
  by (simp add: ALPHABET_def)

lemma length_B58_DIGITS_MAP [simp]: "length B58_DIGITS_MAP = 128"
  by (simp add: B58_DIGITS_MAP_def)

lemma alphabet_table:
  "list_all (\<lambda>d. B58_DIGITS_MAP ! of_char (ALPHABET ! d) = int d \<and> (of_char (ALPHABET ! d) :: nat) < 128)
     [0..<58]"
  by code_simp

lemma table_alphabet:
  "list_all (\<lambda>n. B58_DIGITS_MAP ! n = -1 \<and> char_of n \<notin> set ALPHABET \<or>
       0 \<le> B58_DIGITS_MAP ! n \<and> B58_DIGITS_MAP ! n < 58 \<and> ALPHABET ! nat (B58_DIGITS_MAP ! n) = char_of n)
     [0..<128]"
  by code_simp

lemma b58_digit_ALPHABET [simp]: "d < 58 \<Longrightarrow> b58_digit (ALPHABET ! d) = d"
  using alphabet_table by (simp add: b58_digit_def list_all_iff)

lemma b58_char_ALPHABET [simp]: "d < 58 \<Longrightarrow> b58_char (ALPHABET ! d)"
  by (simp add: b58_char_def)

lemma b58_char_less: "b58_char c \<Longrightarrow> (of_char c :: nat) < 128"
  using alphabet_table by (auto simp: b58_char_def list_all_iff in_set_conv_nth)

lemma b58_charD:
  assumes "b58_char c"
  shows "B58_DIGITS_MAP ! of_char c = int (b58_digit c)" "b58_digit c < 58"
    "ALPHABET ! b58_digit c = c"
proof -
  from assms obtain d where "d < 58" "c = ALPHABET ! d"
    by (auto simp: b58_char_def in_set_conv_nth)
  then show "B58_DIGITS_MAP ! of_char c = int (b58_digit c)" "b58_digit c < 58"
    "ALPHABET ! b58_digit c = c"
    using alphabet_table by (simp_all add: list_all_iff)
qed

lemma table_valid_iff:
  assumes "(of_char c :: nat) < 128"
  shows "B58_DIGITS_MAP ! of_char c \<noteq> -1 \<longleftrightarrow> b58_char c"
proof -
  from assms have "B58_DIGITS_MAP ! of_char c = -1 \<and> c \<notin> set ALPHABET \<or>
    0 \<le> B58_DIGITS_MAP ! of_char c \<and> B58_DIGITS_MAP ! of_char c < 58 \<and>
    ALPHABET ! nat (B58_DIGITS_MAP ! of_char c) = c"
    using table_alphabet by (force simp: list_all_iff)
  then show ?thesis
    by (auto simp: b58_char_def b58_charD in_set_conv_nth intro: exI [of _ "nat (B58_DIGITS_MAP ! of_char c)"])
qed

lemma high_bit_iff: "char_byte c AND 0x80 \<noteq> 0 \<longleftrightarrow> 128 \<le> (of_char c :: nat)"
proof -
  have "list_all (\<lambda>n. (of_nat n :: u8) AND 0x80 \<noteq> 0 \<longleftrightarrow> 128 \<le> n) [0..<256]"
    by code_simp
  then show ?thesis by (simp add: char_byte_def list_all_iff)
qed

section \<open>The encoder\<close>

abbreviation b58_val :: "bytes \<Rightarrow> nat" where
  "b58_val buf \<equiv> digits_val 58 (map unat buf)"

text \<open>What the encoder is to compute: a \<open>1\<close> per leading zero byte, then the base-58 digits.\<close>

definition b58_encode :: "bytes \<Rightarrow> string" where
  "b58_encode bs = replicate (length (takeWhile (\<lambda>x. x = 0) bs)) CHR ''1'' @
     map (\<lambda>d. ALPHABET ! d) (to_digits 58 (digits_val 256 (map unat bs)))"

lemma enc_step_words:
  assumes "unat (c :: u32) \<le> 256" and "unat (b :: u8) < 58"
  shows "unat (c + 256 * ucast b) = unat c + 256 * unat b"
    "unat (ucast ((c + 256 * ucast b) mod 58) :: u8) = (unat c + 256 * unat b) mod 58"
    "unat ((c + 256 * ucast b) div 58) = (unat c + 256 * unat b) div 58"
proof -
  show 1: "unat (c + 256 * ucast b) = unat c + 256 * unat b"
    using assms by (simp add: unat_word_ariths unsigned_ucast_eq take_bit_nat_def)
  show "unat ((c + 256 * ucast b) div 58) = (unat c + 256 * unat b) div 58"
    using 1 by (simp add: unat_div)
  have "unat ((c + 256 * ucast b) mod 58) = (unat c + 256 * unat b) mod 58"
    using 1 by (simp add: unat_mod)
  then show "unat (ucast ((c + 256 * ucast b) mod 58) :: u8) = (unat c + 256 * unat b) mod 58"
    by (simp add: unsigned_ucast_eq take_bit_nat_def)
qed

lemma unat_eq_0_word [simp]: "unat (x :: u8) = 0 \<longleftrightarrow> x = 0"
  by (simp add: unat_eq_zero)

text \<open>One iteration of the inner loop at index \<open>j\<close>: the digit it writes and the carry.\<close>

abbreviation enc_sum :: "u32 \<Rightarrow> u8 \<Rightarrow> u32" where
  "enc_sum c b \<equiv> c + 256 * ucast b"

abbreviation enc_write :: "nat \<Rightarrow> u32 \<Rightarrow> bytes \<Rightarrow> bytes" where
  "enc_write j c buf \<equiv> buf[j := ucast (enc_sum c (buf ! j) mod 58)]"

definition enc_buf :: "bytes \<Rightarrow> bool" where
  "enc_buf buf \<longleftrightarrow> (\<forall>x \<in> set buf. unat x < 58)"

lemma enc_bufD: "enc_buf buf \<Longrightarrow> j < length buf \<Longrightarrow> unat (buf ! j) < 58"
  by (simp add: enc_buf_def)

lemma enc_write_buf:
  assumes "enc_buf buf" and "j < length buf" and "unat c \<le> 256"
  shows "enc_buf (enc_write j c buf)"
  using assms enc_step_words(2) [OF assms(3) enc_bufD [OF assms(1,2)]]
    set_update_subset_insert [of buf j] by (fastforce simp: enc_buf_def)

lemma enc_iteration_value:
  assumes "enc_buf buf" and "j < length buf" and "unat c \<le> 256"
  shows "256 * b58_val (take (Suc j) buf) + unat c =
    58 * (256 * b58_val (take j buf) + unat (enc_sum c (buf ! j) div 58))
      + unat (enc_write j c buf ! j)"
    and "unat (enc_sum c (buf ! j) div 58) \<le> 256"
proof -
  note w = enc_step_words [OF assms(3) enc_bufD [OF assms(1,2)]]
  have "take (Suc j) buf = take j buf @ [buf ! j]"
    using assms(2) by (simp add: take_Suc_conv_app_nth)
  then show "256 * b58_val (take (Suc j) buf) + unat c =
    58 * (256 * b58_val (take j buf) + unat (enc_sum c (buf ! j) div 58))
      + unat (enc_write j c buf ! j)"
    using assms(2) w by (simp add: algebra_simps)
  show "unat (enc_sum c (buf ! j) div 58) \<le> 256"
    using w(3) enc_bufD [OF assms(1,2)] assms(3) by simp
qed

text \<open>The specification of the inner loop started at index \<open>j\<close>.\<close>

definition enc_inner_post :: "nat \<Rightarrow> nat \<Rightarrow> u32 \<Rightarrow> bytes \<Rightarrow> nat \<Rightarrow> bytes \<Rightarrow> bool" where
  "enc_inner_post high j c buf j' buf' \<longleftrightarrow>
     enc_inner high j c buf = Some (j', buf') \<and> length buf' = length buf \<and> enc_buf buf' \<and>
     drop (Suc j) buf' = drop (Suc j) buf \<and>
     b58_val (take (Suc j) buf') = 256 * b58_val (take (Suc j) buf) + unat c \<and>
     j' \<le> j \<and> (j' = 0 \<or> (\<forall>i \<le> j'. buf' ! i = 0))"

lemma enc_inner_stop:
  assumes "\<not> (j > high \<or> c \<noteq> 0)" and "j < length buf" and "enc_buf buf"
    and "\<forall>i. i \<le> high \<longrightarrow> i \<le> j \<longrightarrow> buf ! i = 0"
  shows "enc_inner_post high j c buf j buf"
proof -
  have "enc_inner high j c buf = Some (j, buf)" using assms(1) by (subst enc_inner.simps) simp
  moreover have z: "\<forall>i \<le> j. buf ! i = 0" using assms by auto
  moreover have "b58_val (take (Suc j) buf) = 0"
    using z assms(2) by (auto simp: digits_val_all_zero in_set_conv_nth)
  ultimately show ?thesis using assms by (auto simp: enc_inner_post_def)
qed

lemma enc_inner_last:
  assumes "c \<noteq> 0" and "0 < length buf" and "enc_buf buf" and "unat c \<le> 256"
    and "256 * b58_val (take (Suc 0) buf) + unat c < 58"
  shows "enc_inner_post high 0 c buf 0 (enc_write 0 c buf)"
proof -
  note v = enc_iteration_value [OF assms(3,2,4)]
  have z: "enc_sum c (buf ! 0) div 58 = 0"
    using v(1) assms(5) by (intro unat_eq_zero [THEN iffD1]) simp
  have "enc_inner high 0 c buf = enc_inner high 0 0 (enc_write 0 c buf)"
    using assms(1) z by (subst enc_inner.simps) (simp add: Let_def)
  also have "\<dots> = Some (0, enc_write 0 c buf)" by (subst enc_inner.simps) simp
  finally show ?thesis
    using v(1) z enc_write_buf [OF assms(3,2,4)] assms(2)
    by (cases buf) (auto simp: enc_inner_post_def digits_val_Cons)
qed

lemma enc_inner_step:
  assumes "Suc k > high \<or> c \<noteq> 0" and "Suc k < length buf" and "enc_buf buf" and "unat c \<le> 256"
    and post: "enc_inner_post high k (enc_sum c (buf ! Suc k) div 58) (enc_write (Suc k) c buf) j' buf'"
  shows "enc_inner_post high (Suc k) c buf j' buf'"
proof -
  let ?w = "enc_write (Suc k) c buf"
  note v = enc_iteration_value [OF assms(3,2,4)]
  note p = post [unfolded enc_inner_post_def]
  have step: "enc_inner high (Suc k) c buf = enc_inner high k (enc_sum c (buf ! Suc k) div 58) ?w"
    using assms(1) by (subst enc_inner.simps) (simp add: Let_def)
  have dr: "drop (Suc k) buf' = drop (Suc k) ?w" using p by simp
  have at: "buf' ! Suc k = ?w ! Suc k"
    using arg_cong [OF dr, of hd] p assms(2) hd_drop_conv_nth [of "Suc k" buf'] hd_drop_conv_nth [of "Suc k" ?w]
    by simp
  have dr2: "drop (Suc (Suc k)) buf' = drop (Suc (Suc k)) buf"
    using arg_cong [OF dr, of "drop 1"] by simp
  have "take (Suc (Suc k)) buf' = take (Suc k) buf' @ [?w ! Suc k]"
    using assms(2) p at by (simp add: take_Suc_conv_app_nth)
  then have "b58_val (take (Suc (Suc k)) buf') = 256 * b58_val (take (Suc (Suc k)) buf) + unat c"
    using p v(1) by (simp add: algebra_simps)
  then show ?thesis using p step dr2 by (auto simp: enc_inner_post_def)
qed

lemma enc_inner_correct:
  assumes "j < length buf" and "high < length buf"
    and "\<forall>i. i \<le> high \<longrightarrow> i \<le> j \<longrightarrow> buf ! i = 0"
    and "enc_buf buf" and "unat c \<le> 256"
    and "256 * b58_val (take (Suc j) buf) + unat c < 58 ^ Suc j"
  shows "\<exists>j' buf'. enc_inner_post high j c buf j' buf'"
  using assms
proof (induction j arbitrary: c buf)
  case 0
  then show ?case using enc_inner_stop [of high 0 c buf] enc_inner_last [of c buf high] by fastforce
next
  case (Suc k)
  show ?case
  proof (cases "Suc k > high \<or> c \<noteq> 0")
    case False
    then show ?thesis using enc_inner_stop [of high "Suc k" c buf] Suc.prems by blast
  next
    case True
    let ?w = "enc_write (Suc k) c buf" and ?c = "enc_sum c (buf ! Suc k) div 58"
    note v = enc_iteration_value [OF Suc.prems(4,1,5)]
    have "256 * b58_val (take (Suc k) ?w) + unat ?c < 58 ^ Suc k" using v(1) Suc.prems(6) by simp
    then have "\<exists>j' buf'. enc_inner_post high k ?c ?w j' buf'"
      using Suc.prems v(2) enc_write_buf [OF Suc.prems(4,1,5)] by (intro Suc.IH) auto
    then show ?thesis using enc_inner_step [OF True Suc.prems(1,4,5)] by blast
  qed
qed

text \<open>The buffer is long enough: 138/100 digits of base 58 per byte and one more.\<close>

lemma pow_256_58: "(256::nat) ^ 100 \<le> 58 ^ 138"
  by (simp add: power_mult_numeral)

lemma b58_size_final: "(256::nat) ^ n < 58 ^ (n * 138 div 100 + 1)"
proof -
  let ?m = "n * 138 div 100"
  have "((256::nat) ^ n) ^ 100 = (256 ^ 100) ^ n" by (simp only: power_mult [symmetric] mult.commute)
  also have "\<dots> \<le> (58 ^ 138) ^ n" by (rule power_mono [OF pow_256_58]) simp
  also have "\<dots> = 58 ^ (n * 138)" by (simp only: power_mult [symmetric] mult.commute)
  also have "\<dots> < (58::nat) ^ ((?m + 1) * 100)" by (rule power_strict_increasing) auto
  also have "\<dots> = (58 ^ (?m + 1)) ^ 100" by (simp only: power_mult)
  finally show ?thesis by (rule power_less_imp_less_base) simp
qed

lemma b58_size_before:
  assumes "p < n"
  shows "(256::nat) ^ p \<le> 58 ^ (n * 138 div 100)"
proof -
  let ?m = "n * 138 div 100"
  have "((256::nat) ^ p) ^ 100 = (256 ^ 100) ^ p" by (simp only: power_mult [symmetric] mult.commute)
  also have "\<dots> \<le> (58 ^ 138) ^ p" by (rule power_mono [OF pow_256_58]) simp
  also have "\<dots> = 58 ^ (p * 138)" by (simp only: power_mult [symmetric] mult.commute)
  also have "\<dots> \<le> (58::nat) ^ (?m * 100)" using assms by (intro power_increasing) auto
  also have "\<dots> = (58 ^ ?m) ^ 100" by (simp only: power_mult)
  finally show ?thesis by (rule power_le_imp_le_base [of _ 99, simplified]) simp
qed

lemma unat_ucast_8_32: "unat (ucast (b :: u8) :: u32) = unat b"
  using less_trans [OF unat_u8_less [of b], of "2 ^ 32"]
  by (simp add: unsigned_ucast_eq take_bit_nat_def del: unat_u8_less)

lemma b58_val_small_head:
  assumes "b58_val buf < 58 ^ (length buf - 1)" and "buf \<noteq> []"
  shows "buf ! 0 = 0"
proof (rule ccontr)
  assume "buf ! 0 \<noteq> 0"
  then have "hd (map unat buf) \<noteq> 0" using assms(2) by (simp add: hd_map hd_conv_nth)
  then have "58 ^ (length buf - 1) \<le> b58_val buf"
    using digits_val_lower [of "map unat buf" 58] assms(2) by simp
  then show False using assms(1) by simp
qed

lemma enc_outer_correct:
  assumes "p + length bs = n" and "sz = n * 138 div 100 + 1" and "length buf = sz" and "enc_buf buf"
    and "b58_val buf < 256 ^ p" and "high < sz"
    and "b58_val buf < 58 ^ (sz - 1) \<longrightarrow> (\<forall>i \<le> high. buf ! i = 0)"
  shows "\<exists>buf'. enc_outer sz high buf bs = Some buf' \<and> length buf' = sz \<and> enc_buf buf' \<and>
    b58_val buf' = b58_val buf * 256 ^ length bs + digits_val 256 (map unat bs)"
  using assms
proof (induction bs arbitrary: p buf high)
  case Nil
  then show ?case by simp
next
  case (Cons b bs)
  have sz: "Suc (sz - 1) = sz" using Cons.prems(2) by simp
  have before: "b58_val buf < 58 ^ (sz - 1)"
    using Cons.prems(1,2,5) b58_size_before [of p n] by simp
  have b: "unat (ucast b :: u32) = unat b"
    by (rule unat_ucast_8_32)
  have "256 * b58_val buf + 256 \<le> 256 * 256 ^ p" using Cons.prems(5) by simp
  then have nxt: "256 * b58_val buf + unat b < 256 ^ Suc p"
    using less_le_trans [OF add_strict_left_mono [OF unat_u8_less]] by simp
  also have "(256::nat) ^ Suc p \<le> 256 ^ n" using Cons.prems(1) by (intro power_increasing) auto
  also have "\<dots> < 58 ^ sz" using b58_size_final Cons.prems(2) by simp
  finally have "256 * b58_val (take (Suc (sz - 1)) buf) + unat (ucast b :: u32) < 58 ^ Suc (sz - 1)"
    unfolding sz b using Cons.prems(3) by simp
  then obtain j buf' where post: "enc_inner_post high (sz - 1) (ucast b) buf j buf'"
    using enc_inner_correct [of "sz - 1" buf high "ucast b"] Cons.prems before sz b
      unat_u8_less [of b] by fastforce
  then have v: "b58_val buf' = 256 * b58_val buf + unat b" and l: "length buf' = sz"
    using Cons.prems(3) by (auto simp: enc_inner_post_def sz b)
  have high0: "\<forall>i \<le> j. buf' ! i = 0" if small: "b58_val buf' < 58 ^ (sz - 1)"
  proof (cases "j = 0")
    case True
    have "buf' \<noteq> []" using l sz by auto
    then have "buf' ! 0 = 0"
      using b58_val_small_head [of buf'] small l by simp
    then show ?thesis using True by simp
  next
    case False
    then show ?thesis using post by (auto simp: enc_inner_post_def)
  qed
  have "enc_buf buf'" and "j < sz" and inner: "enc_inner high (sz - 1) (ucast b) buf = Some (j, buf')"
    using post sz unfolding enc_inner_post_def by linarith+
  moreover have "b58_val buf' < 256 ^ Suc p" unfolding v by (rule nxt)
  ultimately obtain buf'' where "enc_outer sz j buf' bs = Some buf''" "length buf'' = sz" "enc_buf buf''"
    "b58_val buf'' = b58_val buf' * 256 ^ length bs + digits_val 256 (map unat bs)"
    using Cons.IH [of "Suc p" buf' j] Cons.prems(1,2) l high0 by auto
  then show ?case using inner v by (auto simp: digits_val_Cons algebra_simps)
qed

lemma push_digits_eq:
  "\<forall>x \<in> set ds. unat x < 58 \<Longrightarrow> push_digits ds = Ok (map (\<lambda>d. ALPHABET ! d) (map unat ds))"
  by (induction ds) auto

lemma map_unat_dropWhile: "map unat (dropWhile (\<lambda>x. x = 0) (bs :: bytes)) = dropWhile (\<lambda>d. d = 0) (map unat bs)"
  by (simp add: dropWhile_map comp_def)

lemma drop_takeWhile: "drop (length (takeWhile P xs)) xs = dropWhile P xs"
  by (metis dropWhile_eq_drop)

lemma to_base58_eq: "to_base58 bs = Ok (b58_encode bs)"
proof -
  let ?z = "length (takeWhile (\<lambda>x. x = 0) bs)" and ?n = "dropWhile (\<lambda>x. x = 0) bs"
  define sz where "sz = length ?n * 138 div 100 + 1"
  have len: "length bs - ?z = length ?n"
    using length_takeWhile_dropWhile [of "\<lambda>x. x = 0" bs] by simp
  have "b58_val (replicate sz 0) = 0" "enc_buf (replicate sz 0)" "sz - 1 < sz"
    by (auto simp: enc_buf_def sz_def map_replicate simp del: replicate_Suc)
  then obtain buf where buf: "enc_outer sz (sz - 1) (replicate sz 0) ?n = Some buf" "enc_buf buf"
    and val: "b58_val buf = digits_val 256 (map unat ?n)"
    using enc_outer_correct [OF _ sz_def, of 0 ?n "replicate sz 0" "sz - 1"] by auto
  have strip: "map unat (dropWhile (\<lambda>x. x = 0) buf) = to_digits 58 (b58_val buf)"
    using buf(2) by (simp add: map_unat_dropWhile to_digits_val_strip enc_buf_def)
  have "push_digits (dropWhile (\<lambda>x. x = 0) buf) = Ok (map (\<lambda>d. ALPHABET ! d) (to_digits 58 (b58_val buf)))"
    using buf(2) push_digits_eq [of "dropWhile (\<lambda>x. x = 0) buf"] strip
    by (auto simp: enc_buf_def dest: set_dropWhileD)
  then show ?thesis
    using buf(1) val digits_val_strip [of 256 "map unat bs"]
    unfolding to_base58_def Let_def len drop_takeWhile sz_def [symmetric] b58_encode_def
    by (simp add: map_unat_dropWhile)
qed


section \<open>The decoder\<close>

abbreviation limbs_val :: "u32 list \<Rightarrow> nat" where
  "limbs_val out \<equiv> digits_val (2 ^ 32) (map unat out)"

lemma unat_u32_less: "unat (w :: u32) < 2 ^ 32"
  using unsigned_less [of w, where ?'a = nat] by simp

lemma dec_step_words:
  fixes w :: u32 and c :: u64
  assumes "unat c < 64"
  defines "t \<equiv> ucast w * 58 + c"
  shows "unat (drop_bit 32 (t AND 0x3f00000000)) = (58 * unat w + unat c) div 2 ^ 32"
    and "unat (ucast (t AND 0xffffffff) :: u32) = (58 * unat w + unat c) mod 2 ^ 32"
proof -
  have uw: "unat (ucast w :: u64) = unat w"
    using unat_u32_less [of w] by (simp add: unsigned_ucast_eq take_bit_nat_def)
  have b: "58 * unat w + unat c < 2 ^ 38" using unat_u32_less [of w] assms(1) by simp
  then have ut: "unat t = 58 * unat w + unat c"
    unfolding t_def using uw by (simp add: unat_word_ariths)
  have m1: "drop_bit 32 (0x3f00000000 :: u64) = mask 6" and m2: "(0xffffffff :: u64) = mask 32"
    by (simp_all add: mask_eq_exp_minus_1)
  have "drop_bit 32 (t AND 0x3f00000000) = take_bit 6 (drop_bit 32 t)"
    unfolding drop_bit_and m1 take_bit_eq_mask ..
  moreover have "unat t < 2 ^ 64" using ut b by simp
  ultimately have "unat (drop_bit 32 (t AND 0x3f00000000)) = unat t div 2 ^ 32 mod 2 ^ 6"
    by (simp add: unsigned_take_bit_eq unsigned_drop_bit_eq take_bit_nat_def drop_bit_nat_def)
  then show "unat (drop_bit 32 (t AND 0x3f00000000)) = (58 * unat w + unat c) div 2 ^ 32"
    using ut b by simp
  have "ucast (t AND 0xffffffff) = (ucast t :: u32)"
    unfolding m2 take_bit_eq_mask [symmetric] by (rule bit_word_eqI) (simp add: bit_simps)
  then show "unat (ucast (t AND 0xffffffff) :: u32) = (58 * unat w + unat c) mod 2 ^ 32"
    using ut by (simp add: unsigned_ucast_eq take_bit_nat_def)
qed

lemma dec_limb_arith:
  assumes "L' + c' * P = 58 * L + (58 * w + c) div B"
  shows "(L' * B + (58 * w + c) mod B) + c' * (B * P) = 58 * (L * B + w) + (c :: nat)"
proof -
  have "(L' * B + (58 * w + c) mod B) + c' * (B * P) = (L' + c' * P) * B + (58 * w + c) mod B"
    by (simp add: algebra_simps)
  also have "\<dots> = 58 * L * B + ((58 * w + c) div B * B + (58 * w + c) mod B)"
    unfolding assms by (simp only: algebra_simps)
  finally show ?thesis by (simp add: algebra_simps)
qed

lemma dec_inner_correct:
  assumes "j \<le> length out" and "unat c < 64" and "dec_inner j out c = (out', c')"
  shows "length out' = length out \<and> drop j out' = drop j out \<and> unat c' < 64 \<and>
    limbs_val (take j out') + unat c' * (2 ^ 32) ^ j = 58 * limbs_val (take j out) + unat c"
  using assms
proof (induction j arbitrary: out c)
  case 0
  then show ?case by simp
next
  case (Suc j)
  define t where "t = ucast (out ! j) * 58 + c"
  let ?c = "drop_bit 32 (t AND 0x3f00000000)" and ?out = "out[j := ucast (t AND 0xffffffff)]"
  note w = dec_step_words [OF Suc.prems(2), of "out ! j", folded t_def]
  have c64: "unat ?c < 64" using w(1) Suc.prems(2) unat_u32_less [of "out ! j"] by simp
  have val: "unat (?out ! j) = (58 * unat (out ! j) + unat c) mod 2 ^ 32"
    using w(2) Suc.prems(1) by simp
  have IH: "length out' = length ?out \<and> drop j out' = drop j ?out \<and> unat c' < 64 \<and>
    limbs_val (take j out') + unat c' * (2 ^ 32) ^ j = 58 * limbs_val (take j ?out) + unat ?c"
    using Suc.prems(1,3) c64 by (intro Suc.IH) (auto simp: t_def Let_def)
  have at: "out' ! j = ?out ! j"
    using IH Suc.prems(1) hd_drop_conv_nth [of j out'] hd_drop_conv_nth [of j ?out] by simp
  have dr: "drop (Suc j) out' = drop (Suc j) out"
    using arg_cong [OF conjunct1 [OF conjunct2 [OF IH]], of "drop 1"] by simp
  have "take (Suc j) out' = take j out' @ [?out ! j]" and "take (Suc j) out = take j out @ [out ! j]"
    using Suc.prems(1) IH at by (simp_all add: take_Suc_conv_app_nth)
  then have "limbs_val (take (Suc j) out') = limbs_val (take j out') * 2 ^ 32 + unat (?out ! j)"
    and "limbs_val (take (Suc j) out) = limbs_val (take j out) * 2 ^ 32 + unat (out ! j)"
    by (simp_all only: map_append list.map digits_val_snoc)
  moreover have "limbs_val (take j out') + unat c' * (2 ^ 32) ^ j
    = 58 * limbs_val (take j out) + (58 * unat (out ! j) + unat c) div 2 ^ 32"
    using IH unfolding w(1) by simp
  ultimately show ?case
    using IH dr val dec_limb_arith [of _ "unat c'" "(2 ^ 32) ^ j" _ "unat (out ! j)" "unat c" "2 ^ 32"]
    by (simp only: power_Suc length_list_update)
qed

text \<open>A limb buffer after one more digit: either it fits, or the carry reports overflow.\<close>

lemma dec_digit:
  assumes "d < 58" and "dec_inner (length out) out (of_nat d) = (out', c')"
  shows "length out' = length out"
    and "c' = 0 \<longleftrightarrow> 58 * limbs_val out + d < (2 ^ 32) ^ length out"
    and "c' = 0 \<Longrightarrow> limbs_val out' = 58 * limbs_val out + d"
proof -
  have d: "unat (of_nat d :: u64) = d" using assms(1) by (simp add: unat_of_nat)
  have "unat (of_nat d :: u64) < 64" unfolding d using assms(1) by simp
  note r0 = dec_inner_correct [OF order_refl this assms(2), unfolded d]
  have len: "length out' = length out" using r0 by blast
  then have tk: "take (length out) out' = out'" "take (length out) out = out" by simp_all
  have r: "length out' = length out \<and>
    limbs_val out' + unat c' * (2 ^ 32) ^ length out = 58 * limbs_val out + d"
    using r0 len unfolding tk by blast
  have lt: "limbs_val out' < (2 ^ 32) ^ length out"
    using digits_val_bound [of "map unat out'" "2 ^ 32"] r unat_u32_less by auto
  show "length out' = length out" using r by simp
  show "c' = 0 \<longleftrightarrow> 58 * limbs_val out + d < (2 ^ 32) ^ length out"
  proof (cases "c' = 0")
    case True
    then show ?thesis using r lt by simp
  next
    case False
    then obtain k where k: "unat c' = Suc k" by (metis unat_eq_zero not0_implies_Suc)
    have "(2 ^ 32) ^ length out \<le> 58 * limbs_val out + d"
      unfolding r [THEN conjunct2, symmetric] k by simp
    then show ?thesis using False by simp
  qed
  show "c' = 0 \<Longrightarrow> limbs_val out' = 58 * limbs_val out + d" using r by simp
qed


lemma dec_outer_valid_char:
  assumes "b58_char c"
  shows "dec_outer 0 i (char_byte c # bs) out =
    (case dec_inner (length out) out (of_nat (b58_digit c)) of
       (out', c') \<Rightarrow> if c' \<noteq> 0 then fail InvalidBase58Length else dec_outer 0 (i + 1) bs out')"
  using assms b58_char_less [OF assms] b58_charD [OF assms] high_bit_iff [of c]
  by (auto split: prod.splits)

lemma as_bytes_Cons: "as_bytes (c # s) = char_byte c # as_bytes s"
  by (simp add: as_bytes_def)

lemma dec_outer_invalid_char:
  assumes "\<not> b58_char c"
  shows "dec_outer z i (char_byte c # bs) out = fail (InvalidBase58Character c i)"
  using assms high_bit_iff [of c] table_valid_iff [of c] by (auto simp: not_le)

lemma dec_outer_Nil: "dec_outer z i (as_bytes []) out = Ok out"
  by (simp add: as_bytes_def)

declare dec_outer.simps [simp del]

lemma dec_outer_Cons_OkD:
  assumes "dec_outer 0 i (as_bytes (c # s)) out = Ok out'"
  shows "b58_char c \<and> (\<exists>o1. dec_inner (length out) out (of_nat (b58_digit c)) = (o1, 0) \<and>
    dec_outer 0 (i + 1) (as_bytes s) o1 = Ok out')"
proof (cases "b58_char c")
  case True
  then show ?thesis
    using assms dec_outer_valid_char [OF True, of i "as_bytes s" out]
    by (auto simp: as_bytes_Cons split: prod.splits if_splits)
next
  case False
  then show ?thesis
    using assms dec_outer_invalid_char [OF False, of 0 i "as_bytes s" out] by (simp add: as_bytes_Cons)
qed

text \<open>The number a digit string adds to the limbs.\<close>

abbreviation dec_value :: "string \<Rightarrow> u32 list \<Rightarrow> nat" where
  "dec_value s out \<equiv> limbs_val out * 58 ^ length s + digits_val 58 (map b58_digit s)"

lemma dec_value_Cons: "dec_value (c # s) out =
  (58 * limbs_val out + b58_digit c) * 58 ^ length s + digits_val 58 (map b58_digit s)"
  by (simp add: digits_val_Cons algebra_simps)

lemma dec_outer_prefix:
  assumes "dec_outer 0 i (as_bytes s) out = Ok out'"
  shows "dec_outer 0 i (as_bytes (s @ t)) out = dec_outer 0 (i + length s) (as_bytes t) out'"
  using assms
proof (induction s arbitrary: i out)
  case Nil
  then show ?case by (simp add: dec_outer_Nil)
next
  case (Cons c s)
  from dec_outer_Cons_OkD [OF Cons.prems] obtain o1 where c: "b58_char c"
    "dec_inner (length out) out (of_nat (b58_digit c)) = (o1, 0)"
    "dec_outer 0 (i + 1) (as_bytes s) o1 = Ok out'" by blast
  then show ?case
    using dec_outer_valid_char [OF c(1), of i "as_bytes (s @ t)" out] Cons.IH [OF c(3)]
    by (simp add: as_bytes_Cons)
qed

lemma dec_outer_Ok_digits:
  "dec_outer 0 i (as_bytes s) out = Ok out' \<Longrightarrow> \<forall>c \<in> set s. b58_char c"
proof (induction s arbitrary: i out)
  case Nil
  then show ?case by simp
next
  case (Cons c s)
  from dec_outer_Cons_OkD [OF Cons.prems] show ?case using Cons.IH by auto
qed

lemma dec_outer_returns: "returns (dec_outer 0 i (as_bytes s) out)"
proof (induction s arbitrary: i out)
  case Nil
  then show ?case by (simp add: dec_outer_Nil)
next
  case (Cons c s)
  then show ?case
    using dec_outer_valid_char [of c i "as_bytes s" out] dec_outer_invalid_char [of c 0 i "as_bytes s" out]
    by (cases "b58_char c") (auto simp: as_bytes_Cons split: prod.splits)
qed

text \<open>The decoder's main loop on a digit string: all of it is absorbed, or overflow is reported.\<close>

lemma dec_outer_digits:
  assumes "\<forall>c \<in> set s. b58_char c"
  shows "if dec_value s out < (2 ^ 32) ^ length out
    then \<exists>out'. dec_outer 0 i (as_bytes s) out = Ok out' \<and> length out' = length out \<and>
      limbs_val out' = dec_value s out
    else dec_outer 0 i (as_bytes s) out = fail InvalidBase58Length"
  using assms
proof (induction s arbitrary: i out)
  case Nil
  have "limbs_val out < (2 ^ 32) ^ length out"
    using digits_val_bound [of "map unat out" "2 ^ 32"] unat_u32_less by auto
  then show ?case by (simp add: dec_outer_Nil)
next
  case (Cons c s)
  then have c: "b58_char c" and s: "\<forall>c \<in> set s. b58_char c" by auto
  obtain out' c' where d: "dec_inner (length out) out (of_nat (b58_digit c)) = (out', c')"
    by (cases "dec_inner (length out) out (of_nat (b58_digit c))") auto
  note dd = dec_digit [OF b58_charD(2) [OF c] d]
  have step: "dec_outer 0 i (as_bytes (c # s)) out =
    (if c' \<noteq> 0 then fail InvalidBase58Length else dec_outer 0 (i + 1) (as_bytes s) out')"
    using dec_outer_valid_char [OF c, of i "as_bytes s" out] by (simp add: d as_bytes_Cons)
  show ?case
  proof (cases "c' = 0")
    case True
    then have v: "dec_value s out' = dec_value (c # s) out"
      using dd(3) unfolding dec_value_Cons by simp
    from True have "dec_outer 0 i (as_bytes (c # s)) out = dec_outer 0 (i + 1) (as_bytes s) out'"
      using step by simp
    then show ?thesis
      using Cons.IH [OF s, of out' "i + 1"] unfolding v dd(1) by (simp only:)
  next
    case False
    then have "(2 ^ 32) ^ length out \<le> 58 * limbs_val out + b58_digit c" using dd(2) by simp
    also have "\<dots> \<le> (58 * limbs_val out + b58_digit c) * 58 ^ length s" by simp
    also have "\<dots> \<le> dec_value (c # s) out" unfolding dec_value_Cons by simp
    finally show ?thesis using False step by (simp only: not_less [symmetric]) simp
  qed
qed

text \<open>The limbs written out as bytes.\<close>

definition limb_bytes :: "u32 \<Rightarrow> bytes" where
  "limb_bytes w = [ucast (drop_bit 24 w AND 0xff), ucast (drop_bit 16 w AND 0xff),
     ucast (drop_bit 8 w AND 0xff), ucast (drop_bit 0 w AND 0xff)]"

lemma write_limbs_eq:
  "i + 4 * length ws \<le> length bin \<Longrightarrow>
   write_limbs i ws bin = Ok (take i bin @ concat (map limb_bytes ws) @ drop (i + 4 * length ws) bin)"
proof (induction ws arbitrary: i bin)
  case Nil
  then show ?case by simp
next
  case (Cons w ws)
  obtain p b0 b1 b2 b3 q where bin: "bin = p @ b0 # b1 # b2 # b3 # q" and i: "length p = i"
  proof -
    define r where "r = drop i bin"
    have "Suc (Suc (Suc (Suc 0))) \<le> length r" using Cons.prems unfolding r_def by simp
    then obtain b0 b1 b2 b3 q where "drop i bin = b0 # b1 # b2 # b3 # q"
      unfolding r_def [symmetric] Suc_le_length_iff by blast
    then show thesis using that [of "take i bin"] Cons.prems
      by (metis append_take_drop_id add_leE length_take min.absorb2)
  qed
  have "bin[i := x0, i + 1 := x1, i + 2 := x2, i + 3 := x3] = p @ x0 # x1 # x2 # x3 # q"
    for x0 x1 x2 x3 by (simp add: bin i [symmetric] list_update_append)
  moreover have "drop (4 + k) (x0 # x1 # x2 # x3 # q) = drop k q" for k and x0 x1 x2 x3 :: u8
    by (simp add: numeral_eq_Suc)
  ultimately show ?case using Cons.IH [of "i + 4" "p @ limb_bytes w @ q"] Cons.prems
    by (simp add: bin i [symmetric] limb_bytes_def)
qed

lemma limb_bytes_val: "digits_val 256 (map unat (limb_bytes w)) = unat w"
proof -
  have b: "unat (ucast (drop_bit k w AND 0xff) :: u8) = unat w div 2 ^ k mod 256" for k
  proof -
    have m: "(0xff :: u32) = mask 8" by (simp add: mask_eq_exp_minus_1)
    have "ucast (drop_bit k w AND 0xff) = (ucast (drop_bit k w) :: u8)"
      unfolding m take_bit_eq_mask [symmetric] by (rule bit_word_eqI) (simp add: bit_simps)
    then show ?thesis using unat_u32_less [of w]
      by (simp add: unsigned_ucast_eq unsigned_drop_bit_eq take_bit_nat_def drop_bit_nat_def)
  qed
  define n where "n = unat w"
  have d: "n div 2 ^ 24 = n div 256 div 256 div 256" "n div 2 ^ 16 = n div 256 div 256" "n div 2 ^ 8 = n div 256"
    by (simp_all only: div_mult2_eq [symmetric]) simp_all
  have "n div 256 div 256 div 256 mod 256 = n div 256 div 256 div 256"
    using unat_u32_less [of w] unfolding n_def [symmetric] by (simp add: div_mult2_eq [symmetric])
  moreover have "n = n div 256 * 256 + n mod 256"
    "n div 256 = n div 256 div 256 * 256 + n div 256 mod 256"
    "n div 256 div 256 = n div 256 div 256 div 256 * 256 + n div 256 div 256 mod 256"
    by simp_all
  ultimately show ?thesis
    unfolding limb_bytes_def list.map b n_def [symmetric] d power_0 div_by_1 digits_val_def foldl.simps
    by (simp only: mult_0 add_0)
qed

lemma length_limbs_bytes [simp]: "length (concat (map limb_bytes out)) = 4 * length out"
  by (induction out) (auto simp: limb_bytes_def)

lemma limbs_bytes_val: "digits_val 256 (map unat (concat (map limb_bytes out))) = limbs_val out"
proof (induction out)
  case Nil
  then show ?case by simp
next
  case (Cons w out)
  have "(256::nat) ^ (4 * length out) = (2 ^ 32) ^ length out" by (simp add: power_mult)
  then show ?case using Cons by (simp add: digits_val_append digits_val_Cons limb_bytes_val)
qed

text \<open>A zero-padded number: its bytes, and what the decoder keeps of the padding.\<close>

lemma unpad_bytes:
  fixes bin :: bytes
  defines "lz \<equiv> length (takeWhile (\<lambda>x. x = 0) bin)" and "V \<equiv> digits_val 256 (map unat bin)"
  shows "lz + length (to_digits 256 V) = length bin"
    and "z \<le> lz \<Longrightarrow> drop (lz - z) bin = replicate z 0 @ map of_nat (to_digits 256 V)"
proof -
  have strip: "to_digits 256 V = map unat (dropWhile (\<lambda>x. x = 0) bin)"
    unfolding V_def by (simp add: map_unat_dropWhile to_digits_val_strip)
  show "lz + length (to_digits 256 V) = length bin"
    unfolding strip lz_def by (simp add: length_takeWhile_dropWhile)
  have "map of_nat (to_digits 256 V) = dropWhile (\<lambda>x. x = 0) bin"
    unfolding strip by (simp add: comp_def)
  moreover have "bin = replicate lz 0 @ dropWhile (\<lambda>x. x = 0) bin"
    unfolding lz_def takeWhile_zero_replicate [symmetric] by simp
  ultimately show "drop (lz - z) bin = replicate z 0 @ map of_nat (to_digits 256 V)" if "z \<le> lz"
    using that by (metis diff_diff_cancel drop_append drop_replicate length_replicate
        diff_is_0_eq' diff_le_self drop0)
qed

lemma from_base58_obind:
  "from_base58 s = (let zcount = length (takeWhile (\<lambda>x. x = CHR ''1'') s) in
     obind (dec_outer 0 zcount (as_bytes (dropWhile (\<lambda>x. x = CHR ''1'') s)) (replicate 33 0)) (\<lambda>out.
       obind (write_limbs 0 out (replicate 132 0)) (\<lambda>bin.
         let leading_zeros = length (takeWhile (\<lambda>x. x = 0) bin)
         in if leading_zeros < zcount then Panic else Ok (drop (leading_zeros - zcount) bin))))"
proof -
  have d: "drop n (as_bytes s) = as_bytes (drop n s)" for n by (simp add: as_bytes_def drop_map)
  have u: "(replicate 132 (0::u8))[0 := 0] = replicate 132 0"
    using list_update_id [of "replicate 132 (0::u8)" 0] by simp
  show ?thesis
    unfolding from_base58_def Let_def d drop_takeWhile by (simp add: u)
qed

definition b58_value :: "string \<Rightarrow> nat" where
  "b58_value s = digits_val 58 (map b58_digit s)"

abbreviation b58_ones :: "string \<Rightarrow> nat" where
  "b58_ones s \<equiv> length (takeWhile (\<lambda>x. x = CHR ''1'') s)"

lemma b58_digit_one: "b58_digit CHR ''1'' = 0"
  by code_simp

lemma b58_digit_zero: "b58_char c \<Longrightarrow> b58_digit c = 0 \<longleftrightarrow> c = CHR ''1''"
  using b58_charD(3) [of c] b58_digit_one by (auto simp: ALPHABET_def)

lemma b58_value_strip: "b58_value (dropWhile (\<lambda>x. x = CHR ''1'') s) = b58_value s"
  unfolding b58_value_def by (induction s) (auto simp: digits_val_Cons b58_digit_one)

text \<open>The decoder on a string of base-58 digits, in full.\<close>

lemma from_base58_digits:
  assumes "\<forall>c \<in> set s. b58_char c"
  shows "from_base58 s =
    (if 256 ^ 132 \<le> b58_value s then fail InvalidBase58Length
     else if 132 < b58_ones s + length (to_digits 256 (b58_value s)) then Panic
     else Ok (replicate (b58_ones s) 0 @ map of_nat (to_digits 256 (b58_value s))))"
proof -
  let ?t = "dropWhile (\<lambda>x. x = CHR ''1'') s" and ?o = "replicate 33 0 :: u32 list"
  have t: "\<forall>c \<in> set ?t. b58_char c" using assms by (auto dest: set_dropWhileD)
  have v: "dec_value ?t ?o = b58_value s"
    unfolding b58_value_strip [symmetric, of s] by (simp add: b58_value_def map_replicate)
  have p: "((2::nat) ^ 32) ^ length ?o = 256 ^ 132" by (simp only: length_replicate) simp
  note r = dec_outer_digits [OF t, of ?o "b58_ones s", unfolded v p]
  show ?thesis
  proof (cases "b58_value s < 256 ^ 132")
    case True
    then obtain out where o: "dec_outer 0 (b58_ones s) (as_bytes ?t) ?o = Ok out" "length out = 33"
      "limbs_val out = b58_value s" using r by auto
    define bin where "bin = concat (map limb_bytes out)"
    have w: "write_limbs 0 out (replicate 132 0) = Ok bin"
      using write_limbs_eq [of 0 out "replicate 132 0"] o(2) by (simp add: bin_def)
    have bin: "length bin = 132" "digits_val 256 (map unat bin) = b58_value s"
      unfolding bin_def using o(2,3) limbs_bytes_val by simp_all
    note u = unpad_bytes(1) [of bin, unfolded bin] unpad_bytes(2) [of "b58_ones s" bin, unfolded bin]
    show ?thesis unfolding from_base58_obind Let_def o(1) obind.simps w using u True
      by (auto simp: not_less)
  next
    case False
    then show ?thesis using r unfolding from_base58_obind Let_def by (simp add: not_less)
  qed
qed


section \<open>Encoder and decoder together\<close>

lemma b58_char_one: "b58_char CHR ''1''"
  using b58_char_ALPHABET [of 0] by (simp add: ALPHABET_def)

lemma b58_encode_chars: "c \<in> set (b58_encode bs) \<Longrightarrow> b58_char c"
  using to_digits_bound [of 58] by (auto simp: b58_encode_def b58_char_one)

lemma b58_value_append_ones: "b58_value (replicate n CHR ''1'' @ s) = b58_value s"
  by (induction n) (auto simp: b58_value_def digits_val_Cons b58_digit_one)

lemma b58_digits_chars: "map b58_digit (map (\<lambda>d. ALPHABET ! d) (to_digits 58 n)) = to_digits 58 n"
  using to_digits_bound [of 58 _ n] by (auto intro!: map_idI)

lemma b58_value_encode: "b58_value (b58_encode bs) = digits_val 256 (map unat bs)"
  unfolding b58_encode_def b58_value_append_ones
  by (simp add: b58_value_def b58_digits_chars del: map_map)

lemma takeWhile_no_head: "dropWhile P xs = xs \<Longrightarrow> takeWhile P xs = []"
  by (auto simp: dropWhile_eq_self_iff takeWhile_eq_Nil_iff)

lemma b58_ones_digits: "takeWhile (\<lambda>x. x = CHR ''1'') (map (\<lambda>d. ALPHABET ! d) (to_digits 58 n)) = []"
proof -
  have "takeWhile (\<lambda>d. d = 0) (to_digits 58 n) = []"
    by (rule takeWhile_no_head [OF to_digits_no_leading_zero]) simp
  moreover have "ALPHABET ! d = CHR ''1'' \<longleftrightarrow> d = 0" if "d < 58" for d
    using that b58_digit_ALPHABET [OF that] b58_digit_zero [of "ALPHABET ! d"] by auto
  ultimately show ?thesis
    using to_digits_bound [of 58 "hd (to_digits 58 n)" n] by (cases "to_digits 58 n") (auto split: if_splits)
qed

lemma takeWhile_replicate_append:
  "takeWhile (\<lambda>x. x = a) ys = [] \<Longrightarrow> takeWhile (\<lambda>x. x = a) (replicate n a @ ys) = replicate n a"
  by (induction n) auto

lemma b58_ones_encode: "b58_ones (b58_encode bs) = length (takeWhile (\<lambda>x. x = 0) bs)"
  unfolding b58_encode_def by (simp add: takeWhile_replicate_append b58_ones_digits)

lemma padded_bytes:
  fixes bs :: bytes
  shows "replicate (length (takeWhile (\<lambda>x. x = 0) bs)) 0
    @ map of_nat (to_digits 256 (digits_val 256 (map unat bs))) = bs"
  using unpad_bytes(2) [of "length (takeWhile (\<lambda>x. x = 0) bs)" bs] by simp

theorem base58_roundtrip: "length bs \<le> 132 \<Longrightarrow> from_base58 (b58_encode bs) = Ok bs"
proof -
  assume len: "length bs \<le> 132"
  let ?v = "digits_val 256 (map unat bs)"
  have "?v < 256 ^ length bs" using digits_val_bound [of "map unat bs" 256] by simp
  also have "\<dots> \<le> 256 ^ 132" using len by (intro power_increasing) auto
  finally show ?thesis
    using from_base58_digits [of "b58_encode bs"] unpad_bytes(1) [of bs] len padded_bytes [of bs]
    by (simp add: b58_encode_chars b58_value_encode b58_ones_encode)
qed

lemma from_base58_Ok_chars:
  assumes "from_base58 s = Ok bs"
  shows "\<forall>c \<in> set s. b58_char c"
proof -
  let ?t = "dropWhile (\<lambda>x. x = CHR ''1'') s"
  from assms have "\<forall>c \<in> set ?t. b58_char c"
    unfolding from_base58_obind Let_def obind_Ok_iff using dec_outer_Ok_digits by blast
  moreover have "\<forall>c \<in> set (takeWhile (\<lambda>x. x = CHR ''1'') s). b58_char c"
    by (auto dest: set_takeWhileD simp: b58_char_one)
  ultimately show ?thesis by (metis Un_iff set_append takeWhile_dropWhile_id)
qed

lemma b58_chars_stripped:
  assumes "\<forall>c \<in> set s. b58_char c"
  shows "map (\<lambda>d. ALPHABET ! d) (to_digits 58 (b58_value s)) = dropWhile (\<lambda>x. x = CHR ''1'') s"
proof -
  have "to_digits 58 (b58_value s) = dropWhile (\<lambda>d. d = 0) (map b58_digit s)"
    unfolding b58_value_def using assms b58_charD(2) by (intro to_digits_val_strip) auto
  also have "\<dots> = map b58_digit (dropWhile (\<lambda>x. x = CHR ''1'') s)"
    using assms by (induction s) (auto simp: b58_digit_zero)
  finally have "map (\<lambda>d. ALPHABET ! d) (to_digits 58 (b58_value s))
      = map (\<lambda>c. ALPHABET ! b58_digit c) (dropWhile (\<lambda>x. x = CHR ''1'') s)" by simp
  also have "\<dots> = dropWhile (\<lambda>x. x = CHR ''1'') s"
    using assms b58_charD(3) by (intro map_idI) (auto dest: set_dropWhileD)
  finally show ?thesis .
qed

lemma takeWhile_one_replicate:
  "takeWhile (\<lambda>x. x = a) s = replicate (length (takeWhile (\<lambda>x. x = a) s)) a"
  by (induction s) auto

theorem base58_canonical:
  assumes "from_base58 s = Ok bs"
  shows "to_base58 bs = Ok s \<and> length bs \<le> 132"
proof -
  note cs = from_base58_Ok_chars [OF assms]
  let ?V = "b58_value s" and ?z = "b58_ones s"
  have bs: "bs = replicate ?z 0 @ map of_nat (to_digits 256 ?V)"
    and len: "?z + length (to_digits 256 ?V) \<le> 132"
    using assms unfolding from_base58_digits [OF cs] by (auto split: if_splits)
  have u: "map unat (map of_nat (to_digits 256 ?V) :: bytes) = to_digits 256 ?V"
    using to_digits_bound [of 256 _ ?V] by (auto simp: unat_of_nat intro!: map_idI)
  have val: "digits_val 256 (map unat bs) = ?V"
    unfolding bs map_append u by (simp add: digits_val_append map_replicate)
  have "takeWhile (\<lambda>x. x = 0) (to_digits 256 ?V) = []"
    by (rule takeWhile_no_head [OF to_digits_no_leading_zero]) simp
  then have "takeWhile (\<lambda>x. x = 0) (map of_nat (to_digits 256 ?V) :: bytes) = []"
    unfolding u [symmetric, THEN arg_cong [where f = "takeWhile (\<lambda>x. x = 0)"]]
    by (simp add: takeWhile_map comp_def del: map_map)
  then have z: "length (takeWhile (\<lambda>x. x = 0) bs) = ?z"
    unfolding bs by (simp add: takeWhile_replicate_append)
  have "b58_encode bs = s"
    unfolding b58_encode_def val z b58_chars_stripped [OF cs] takeWhile_one_replicate [symmetric] by simp
  then show ?thesis using len bs by (simp add: to_base58_eq)
qed

lemma from_base58_Ok_iff: "from_base58 s = Ok bs \<longleftrightarrow> length bs \<le> 132 \<and> to_base58 bs = Ok s"
  using base58_canonical [of s bs] base58_roundtrip [of bs] by (auto simp: to_base58_eq)

interpretation b58: canonical_codec b58_encode from_base58 "\<lambda>bs. length bs \<le> 132"
  by unfold_locales (use from_base58_Ok_iff in \<open>auto simp: to_base58_eq\<close>)

text \<open>The first character outside the alphabet is the one reported.\<close>

lemma from_base58_bad_char:
  assumes "list_all b58_char p" and "\<not> b58_char c" and "b58_value p < 256 ^ 132"
  shows "from_base58 (p @ c # q) = fail (InvalidBase58Character c (length p))"
proof -
  let ?P = "\<lambda>x. x = CHR ''1''" and ?o = "replicate 33 0 :: u32 list"
  let ?t = "dropWhile ?P p"
  have c1: "c \<noteq> CHR ''1''" using assms(2) b58_char_one by auto
  have ones: "b58_ones (p @ c # q) = b58_ones p" using c1 by (induction p) auto
  have dw: "dropWhile ?P (p @ c # q) = ?t @ c # q" using c1 by (induction p) auto
  have t: "\<forall>c \<in> set ?t. b58_char c" using assms(1) by (auto simp: list_all_iff dest: set_dropWhileD)
  have v: "dec_value ?t ?o = b58_value p"
    unfolding b58_value_strip [symmetric, of p] by (simp add: b58_value_def map_replicate)
  have pw: "((2::nat) ^ 32) ^ length ?o = 256 ^ 132" by (simp only: length_replicate) simp
  obtain out where "dec_outer 0 (b58_ones p) (as_bytes ?t) ?o = Ok out"
    using dec_outer_digits [OF t, of ?o "b58_ones p", unfolded v pw] assms(3) by auto
  from dec_outer_prefix [OF this, of "c # q"] show ?thesis
    unfolding from_base58_obind Let_def ones dw
    by (simp add: as_bytes_Cons dec_outer_invalid_char [OF assms(2)] length_takeWhile_dropWhile)
qed

lemma from_base58_Panic_iff:
  "from_base58 s = Panic \<longleftrightarrow> list_all b58_char s \<and> b58_value s < 256 ^ 132 \<and>
     132 < b58_ones s + length (to_digits 256 (b58_value s))"
proof (cases "list_all b58_char s")
  case True
  then show ?thesis using from_base58_digits [of s] by (auto simp: list_all_iff not_le)
next
  case False
  let ?t = "dropWhile (\<lambda>x. x = CHR ''1'') s"
  have "\<not> (\<forall>c \<in> set ?t. b58_char c)"
    using False b58_char_one by (induction s) (auto split: if_splits dest: set_dropWhileD)
  then have "\<not> is_ok (dec_outer 0 (b58_ones s) (as_bytes ?t) (replicate 33 0))"
    using dec_outer_Ok_digits by (auto simp: is_ok_iff)
  then show ?thesis using False dec_outer_returns [of "b58_ones s" ?t "replicate 33 0"]
    unfolding from_base58_obind Let_def
    by (cases "dec_outer 0 (b58_ones s) (as_bytes ?t) (replicate 33 0)") auto
qed

lemma b58_no_panic:
  assumes "list_all b58_char s" and "length s \<le> 132"
  shows "b58_ones s + length (to_digits 256 (b58_value s)) \<le> 132"
proof -
  let ?t = "dropWhile (\<lambda>x. x = CHR ''1'') s"
  have "\<forall>d \<in> set (map b58_digit ?t). d < 58"
    using assms(1) b58_charD(2) by (auto simp: list_all_iff dest: set_dropWhileD)
  from digits_val_bound [OF this] have "b58_value s < 58 ^ length ?t"
    unfolding b58_value_strip [symmetric, of s] by (simp add: b58_value_def)
  also have "(58::nat) ^ length ?t \<le> 256 ^ length ?t" by (intro power_mono) auto
  finally have "length (to_digits 256 (b58_value s)) \<le> length ?t" by (intro to_digits_length_le) auto
  then show ?thesis using assms(2) length_takeWhile_dropWhile [of "\<lambda>x. x = CHR ''1''" s] by simp
qed

lemma from_base58_never_hangs: "from_base58 s \<noteq> Hang"
proof -
  have "write_limbs i ws bin \<noteq> Hang" for i ws bin by (induction ws arbitrary: i bin) auto
  then show ?thesis using dec_outer_returns
    unfolding from_base58_obind Let_def by (auto simp: obind_Hang_iff)
      (metis returns.simps(4))
qed

section \<open>Checksummed base58\<close>

lemma to_base58_check_Ok_iff:
  "to_base58_check sha256 self version = Ok s \<longleftrightarrow>
     4 \<le> length (double_sha256 sha256 (version @ self)) \<and>
     to_base58 (version @ self @ take 4 (double_sha256 sha256 (version @ self))) = Ok s"
  by (simp add: to_base58_check_def Let_def not_less)

lemma from_base58_check_Ok_iff:
  "from_base58_check sha256 s version_bytes = Ok (version, payload) \<longleftrightarrow>
     length version = version_bytes \<and> version @ payload \<noteq> [] \<and> length (version @ payload) \<le> 128 \<and>
     to_base58_check sha256 payload version = Ok s" (is "?L \<longleftrightarrow> ?R")
proof
  assume ?L
  then obtain bs where bs: "from_base58 s = Ok bs" "5 \<le> length bs"
    and d: "4 \<le> length (double_sha256 sha256 (take (length bs - 4) bs))"
    and ck: "take 4 (double_sha256 sha256 (take (length bs - 4) bs)) = drop (length bs - 4) bs"
    and v: "version_bytes \<le> length bs - 4" "version = take version_bytes (take (length bs - 4) bs)"
      "payload = drop version_bytes (take (length bs - 4) bs)"
    by (auto simp: from_base58_check_def obind_Ok_iff Let_def not_less not_le split: if_splits)
  have vp: "version @ payload = take (length bs - 4) bs" unfolding v by (rule append_take_drop_id)
  have "to_base58 (version @ payload @ take 4 (double_sha256 sha256 (version @ payload))) = Ok s"
    using bs(1) unfolding append.assoc [symmetric] vp ck append_take_drop_id from_base58_Ok_iff by simp
  moreover have "length bs \<le> 132" using bs(1) from_base58_Ok_iff by simp
  ultimately show ?R using d v(1,2) bs(2) unfolding to_base58_check_Ok_iff vp by auto
next
  assume R: ?R
  define ck where "ck = take 4 (double_sha256 sha256 (version @ payload))"
  have l: "4 \<le> length (double_sha256 sha256 (version @ payload))"
    and e: "to_base58 (version @ payload @ ck) = Ok s"
    using R unfolding ck_def to_base58_check_Ok_iff by auto
  have "length ck = 4" using l by (simp add: ck_def)
  then have "from_base58 s = Ok (version @ payload @ ck)" using e R by (simp add: from_base58_Ok_iff)
  then show ?L using R l \<open>length ck = 4\<close> ck_def
    by (cases version; cases payload) (auto simp: from_base58_check_def Let_def)
qed


section \<open>Properties\<close>

text \<open>
  C22: the encoder's buffer algorithm terminates on every byte string without touching an
  index out of range, and computes the base58 notation: a \<open>1\<close> per leading zero byte, then
  the base-58 digits of the number the bytes denote. In particular the buffer of
  \<open>len * 138 / 100 + 1\<close> digits never overflows and the \<open>high\<close> mark never cuts a digit off.
\<close>

theorem to_base58_correct: "to_base58 bs = Ok (b58_encode bs)"
  by (rule to_base58_eq)

text \<open>
  C19: decoding inverts encoding exactly: \<open>from_base58\<close> returns \<open>bs\<close> on precisely one
  string, the encoding of \<open>bs\<close>, provided that \<open>bs\<close> fits the 132-byte buffer.
\<close>

theorem from_base58_inverse: "from_base58 s = Ok bs \<longleftrightarrow> length bs \<le> 132 \<and> to_base58 bs = Ok s"
  by (rule from_base58_Ok_iff)

text \<open>
  C37: the decoder never hangs, and panics (the subtraction \<open>leading_zeros - zcount\<close> underflows
  in the slice bound) on exactly the strings of valid digits whose number fits 132 bytes while
  the leading ones bring the decoded length above 132. No string of at most 132 characters is
  one of them.
\<close>

theorem from_base58_panics:
  "from_base58 s \<noteq> Hang \<and>
   (from_base58 s = Panic \<longleftrightarrow> list_all b58_char s \<and> b58_value s < 256 ^ 132 \<and>
      132 < b58_ones s + length (to_digits 256 (b58_value s))) \<and>
   (from_base58 s = Panic \<longrightarrow> 132 < length s)"
  using from_base58_never_hangs from_base58_Panic_iff b58_no_panic [of s] by fastforce

theorem from_base58_panics_witness:
  "from_base58 (replicate 133 CHR ''1'') = Panic \<and> from_base58 (replicate 132 CHR ''1'') \<noteq> Panic"
proof -
  have "b58_value (replicate n CHR ''1'') = 0" for n
    by (simp add: b58_value_def map_replicate b58_digit_one)
  then show ?thesis
    using from_base58_panics [of "replicate 133 CHR ''1''"] from_base58_panics [of "replicate 132 CHR ''1''"]
      b58_char_one by (simp add: list_all_iff takeWhile_eq_all_conv [THEN iffD2])
qed

text \<open>
  On a string with a character outside the alphabet the decoder reports the first such
  character and its index, unless the digits before it already overflow the buffer.
\<close>

theorem from_base58_first_bad_char:
  assumes "list_all b58_char p" and "\<not> b58_char c" and "b58_value p < 256 ^ 132"
  shows "from_base58 (p @ c # q) = fail (InvalidBase58Character c (length p))"
  using assms by (rule from_base58_bad_char)

theorem from_base58_first_bad_char_witness:
  "from_base58 ''2U0hL'' = fail (InvalidBase58Character CHR ''0'' 2)"
proof -
  have v: "b58_value ''2U'' = 1 * 58 + 27" "list_all b58_char ''2U''" "\<not> b58_char CHR ''0''"
    by code_simp+
  have "b58_value ''2U'' < 256 ^ 132" unfolding v by simp
  note f = v(2) v(3) this
  from from_base58_first_bad_char [OF f, of "''hL''"] show ?thesis by simp
qed

text \<open>
  \<open>from_base58_check\<close> accepts exactly what \<open>to_base58_check\<close> writes: it returns
  \<open>(version, payload)\<close> iff the string is the checksummed encoding of that very pair, the pair
  is not empty and fits the buffer. Every other string, a corrupted one or one with a wrong
  checksum included, is refused.
\<close>

theorem base58_check_exact:
  "from_base58_check sha256 s version_bytes = Ok (version, payload) \<longleftrightarrow>
     length version = version_bytes \<and> version @ payload \<noteq> [] \<and> length (version @ payload) \<le> 128 \<and>
     to_base58_check sha256 payload version = Ok s"
  by (rule from_base58_check_Ok_iff)

end
