(* ===== verification/Crypto.thy ===== *)
theory Crypto
  imports Base58
begin

text \<open>
  \<open>src/src/common/crypto.rs\<close> and \<open>src/src/common/hasher.rs\<close>: hexadecimal text, the
  text forms of keys, signatures and commitments, challenge signatures, and the BIP32
  hasher. The curve (\<open>grin_util::secp\<close>), SHA-256, HMAC-SHA512 and RIPEMD-160 are crates:
  the record \<open>secp\<close> and the function arguments \<open>sha256\<close>, \<open>hmac\<close>, \<open>ripemd\<close> stand for
  them.
\<close>

section \<open>The code\<close>

subsection \<open>Hexadecimal text\<close>

definition hex_byte :: "u8 \<Rightarrow> string" where
  "hex_byte b = [digit_char (unat b div 16), digit_char (unat b mod 16)]"

definition to_hex :: "bytes \<Rightarrow> string" where
  "to_hex bs = concat (map hex_byte bs)"

text \<open>
  \<open>s.len() - n + 1\<close> underflows on a string shorter than \<open>n\<close>: a panic where overflow is
  checked; where it wraps, the first slice is out of range, a panic too.
\<close>

definition split_n :: "string \<Rightarrow> nat \<Rightarrow> string list res" where
  "split_n s n =
     (if length s < n then Panic
      else collect (\<lambda>i. str_slice s (2 * i) (2 * i + n)) [0..<(length s - n + 1) div 2 + 1])"

definition parse_hex_byte :: "string \<Rightarrow> u8 res" where
  "parse_hex_byte b = of_option (Kind NumberParsingError) (map_option of_nat (from_str_radix 16 256 b))"

definition from_hex :: "string \<Rightarrow> bytes res" where
  "from_hex hex_str =
     (if length hex_str mod 2 = 1 then fail NumberParsingError
      else obind (str_slice hex_str 0 2) (\<lambda>prefix.
           obind (if prefix = ''0x'' then str_slice hex_str 2 (length hex_str) else Ok hex_str) (\<lambda>hex_trim.
           obind (split_n (str_trim hex_trim) 2) (collect parse_hex_byte))))"

subsection \<open>Keys and signatures\<close>

text \<open>What the wallet calls of the curve library.\<close>

record ('pk, 'sk, 'sig) secp =
  pk_from_slice :: "bytes \<Rightarrow> 'pk option"
  pk_serialize_vec :: "'pk \<Rightarrow> bytes"
  sig_from_der :: "bytes \<Rightarrow> 'sig option"
  sig_serialize_der :: "'sig \<Rightarrow> bytes"
  sk_from_slice :: "bytes \<Rightarrow> 'sk option"
  sk_bytes :: "'sk \<Rightarrow> bytes"
  commit_from_vec :: "bytes \<Rightarrow> bytes"
  pk_from_secret_key :: "'sk \<Rightarrow> 'pk option"
  message_from_slice :: "bytes \<Rightarrow> bytes res"
  secp_sign :: "bytes \<Rightarrow> 'sk \<Rightarrow> 'sig option"
  secp_verify :: "bytes \<Rightarrow> 'sig \<Rightarrow> 'pk \<Rightarrow> bool"
  pk_mul_assign :: "'pk \<Rightarrow> 'sk \<Rightarrow> 'pk option"

definition GRINBOX_ADDRESS_VERSION_MAINNET :: bytes where
  "GRINBOX_ADDRESS_VERSION_MAINNET = [1, 69]"

definition GRINBOX_ADDRESS_VERSION_TESTNET :: bytes where
  "GRINBOX_ADDRESS_VERSION_TESTNET = [1, 121]"

definition serialize_public_key :: "('pk, 'sk, 'sig, 'x) secp_scheme \<Rightarrow> 'pk \<Rightarrow> bytes" where
  "serialize_public_key S public_key = pk_serialize_vec S public_key"

definition public_key_from_hex :: "('pk, 'sk, 'sig, 'x) secp_scheme \<Rightarrow> string \<Rightarrow> 'pk res" where
  "public_key_from_hex S str =
     obind (from_hex str) (\<lambda>hex. of_option (Kind InvalidBase58Key) (pk_from_slice S hex))"

definition public_key_to_hex :: "('pk, 'sk, 'sig, 'x) secp_scheme \<Rightarrow> 'pk \<Rightarrow> string" where
  "public_key_to_hex S self = to_hex (serialize_public_key S self)"

definition public_key_from_base58 :: "('pk, 'sk, 'sig, 'x) secp_scheme \<Rightarrow> string \<Rightarrow> 'pk res" where
  "public_key_from_base58 S str =
     obind (from_base58 str) (\<lambda>bs. of_option (Kind InvalidBase58Key) (pk_from_slice S bs))"

definition public_key_to_base58 :: "('pk, 'sk, 'sig, 'x) secp_scheme \<Rightarrow> 'pk \<Rightarrow> string res" where
  "public_key_to_base58 S self = to_base58 (serialize_public_key S self)"

definition public_key_from_base58_check ::
  "(bytes \<Rightarrow> bytes) \<Rightarrow> ('pk, 'sk, 'sig, 'x) secp_scheme \<Rightarrow> string \<Rightarrow> bytes \<Rightarrow> 'pk res" where
  "public_key_from_base58_check sha256 S str version_expect =
     obind (from_base58_check sha256 str (length version_expect)) (\<lambda>(version_actual, key_bytes).
       if version_actual \<noteq> version_expect then fail InvalidBase58Version
       else of_option (Kind InvalidBase58Key) (pk_from_slice S key_bytes))"

definition public_key_to_base58_check ::
  "(bytes \<Rightarrow> bytes) \<Rightarrow> ('pk, 'sk, 'sig, 'x) secp_scheme \<Rightarrow> 'pk \<Rightarrow> bytes \<Rightarrow> string res" where
  "public_key_to_base58_check sha256 S self version =
     to_base58_check sha256 (serialize_public_key S self) version"

definition signature_from_hex :: "('pk, 'sk, 'sig, 'x) secp_scheme \<Rightarrow> string \<Rightarrow> 'sig res" where
  "signature_from_hex S str =
     obind (from_hex str) (\<lambda>hex. of_option (Kind Secp) (sig_from_der S hex))"

definition signature_to_hex :: "('pk, 'sk, 'sig, 'x) secp_scheme \<Rightarrow> 'sig \<Rightarrow> string" where
  "signature_to_hex S self = to_hex (sig_serialize_der S self)"

definition secret_key_from_hex :: "('pk, 'sk, 'sig, 'x) secp_scheme \<Rightarrow> string \<Rightarrow> 'sk res" where
  "secret_key_from_hex S str =
     obind (from_hex str) (\<lambda>data. of_option (Kind Secp) (sk_from_slice S data))"

definition secret_key_to_hex :: "('pk, 'sk, 'sig, 'x) secp_scheme \<Rightarrow> 'sk \<Rightarrow> string" where
  "secret_key_to_hex S self = to_hex (sk_bytes S self)"

text \<open>A commitment is its array of bytes, the field \<open>self.0\<close>.\<close>

definition commitment_from_hex :: "('pk, 'sk, 'sig, 'x) secp_scheme \<Rightarrow> string \<Rightarrow> bytes res" where
  "commitment_from_hex S str = obind (from_hex str) (\<lambda>data. Ok (commit_from_vec S data))"

definition commitment_to_hex :: "bytes \<Rightarrow> string" where
  "commitment_to_hex self = to_hex self"

definition public_key_from_secret_key :: "('pk, 'sk, 'sig, 'x) secp_scheme \<Rightarrow> 'sk \<Rightarrow> 'pk res" where
  "public_key_from_secret_key S secret_key = of_option (Kind Secp) (pk_from_secret_key S secret_key)"

definition sign_challenge ::
  "(bytes \<Rightarrow> bytes) \<Rightarrow> ('pk, 'sk, 'sig, 'x) secp_scheme \<Rightarrow> string \<Rightarrow> 'sk \<Rightarrow> 'sig res" where
  "sign_challenge sha256 S challenge secret_key =
     obind (message_from_slice S (sha256 (as_bytes challenge))) (\<lambda>message.
       of_option (Kind Secp) (secp_sign S message secret_key))"

definition verify_signature ::
  "(bytes \<Rightarrow> bytes) \<Rightarrow> ('pk, 'sk, 'sig, 'x) secp_scheme \<Rightarrow> string \<Rightarrow> 'sig \<Rightarrow> 'pk \<Rightarrow> unit res" where
  "verify_signature sha256 S challenge signature public_key =
     obind (message_from_slice S (sha256 (as_bytes challenge))) (\<lambda>message.
       if secp_verify S message signature public_key then Ok () else fail Secp)"

subsection \<open>The BIP32 hasher\<close>

text \<open>
  \<open>BIP32GrinboxHasher\<close>: the state of the HMAC is its key and the data fed so far;
  \<open>hmac key data\<close> is the crate's digest. \<open>result\<close> of hmac 0.6 takes the digest and resets the
  instance to its key. \<open>copy_from_slice\<close> panics on a digest of another length.
\<close>

record bip32_hasher =
  is_floonet :: bool
  hmac_key :: bytes
  hmac_input :: bytes

definition copy_from_slice :: "nat \<Rightarrow> bytes \<Rightarrow> bytes res" where
  "copy_from_slice n src = (if length src = n then Ok src else Panic)"

definition new_hasher :: "bool \<Rightarrow> bip32_hasher" where
  "new_hasher floonet = \<lparr>is_floonet = floonet, hmac_key = replicate 128 0, hmac_input = []\<rparr>"

definition network_priv :: "bip32_hasher \<Rightarrow> bytes" where
  "network_priv self = (if is_floonet self then [42, 0, 0, 42] else [42, 1, 0, 42])"

definition network_pub :: "bip32_hasher \<Rightarrow> bytes" where
  "network_pub self = (if is_floonet self then [42, 0, 1, 42] else [42, 1, 1, 42])"

definition master_seed :: bytes where
  "master_seed = as_bytes ''Grinbox_seed''"

definition init_sha512 :: "bip32_hasher \<Rightarrow> bytes \<Rightarrow> bip32_hasher" where
  "init_sha512 self seed = self\<lparr>hmac_key := seed, hmac_input := []\<rparr>"

definition append_sha512 :: "bip32_hasher \<Rightarrow> bytes \<Rightarrow> bip32_hasher" where
  "append_sha512 self v = self\<lparr>hmac_input := hmac_input self @ v\<rparr>"

definition result_sha512 ::
  "(bytes \<Rightarrow> bytes \<Rightarrow> bytes) \<Rightarrow> bip32_hasher \<Rightarrow> bytes res \<times> bip32_hasher" where
  "result_sha512 hmac self =
     (copy_from_slice 64 (hmac (hmac_key self) (hmac_input self)), self\<lparr>hmac_input := []\<rparr>)"

definition sha_256 :: "(bytes \<Rightarrow> bytes) \<Rightarrow> bip32_hasher \<Rightarrow> bytes \<Rightarrow> bytes res" where
  "sha_256 sha256 self inp = copy_from_slice 32 (sha256 inp)"

definition ripemd_160 :: "(bytes \<Rightarrow> bytes) \<Rightarrow> bip32_hasher \<Rightarrow> bytes \<Rightarrow> bytes res" where
  "ripemd_160 ripemd self inp = copy_from_slice 20 (ripemd inp)"

text \<open>
  What \<open>derive_address_key\<close> calls of the keychain crate: the key for an amount at the root
  key id with the regular switch commitment, the master extended key, the child key (both
  drive the hasher), and the child number, whose constructor panics on a hardened index.
\<close>

record ('sk, 'xprv, 'cn) keychain =
  derive_root_key :: "nat \<Rightarrow> 'sk res"
  root_bytes :: "'sk \<Rightarrow> bytes"
  new_master :: "bip32_hasher \<Rightarrow> bytes \<Rightarrow> 'xprv res \<times> bip32_hasher"
  from_normal_idx :: "nat \<Rightarrow> 'cn res"
  ckd_priv :: "'xprv \<Rightarrow> bip32_hasher \<Rightarrow> 'cn \<Rightarrow> 'xprv res \<times> bip32_hasher"
  xprv_secret_key :: "'xprv \<Rightarrow> 'sk"

definition derive_address_key :: "('sk, 'xprv, 'cn) keychain \<Rightarrow> bool \<Rightarrow> nat \<Rightarrow> 'sk res" where
  "derive_address_key kc floonet index =
     obind (derive_root_key kc 713) (\<lambda>root.
       case new_master kc (new_hasher floonet) (root_bytes kc root) of (master, hasher) \<Rightarrow>
         obind master (\<lambda>master. obind (from_normal_idx kc index) (\<lambda>cn.
           obind (fst (ckd_priv kc master hasher cn)) (\<lambda>x. Ok (xprv_secret_key kc x)))))"

section \<open>Hexadecimal text, both ways\<close>

lemma graphic_boundary:
  assumes "list_all graphic s" and "i \<le> length s"
  shows "is_char_boundary s i"
proof (cases "i = length s")
  case True
  then show ?thesis by (simp add: is_char_boundary_def)
next
  case False
  then have "graphic (s ! i)" using assms by (simp add: list_all_length)
  then show ?thesis using False assms(2) by (simp add: is_char_boundary_def graphic_def)
qed

lemma str_slice_graphic:
  "list_all graphic s \<Longrightarrow> a \<le> b \<Longrightarrow> b \<le> length s \<Longrightarrow> str_slice s a b = Ok (take (b - a) (drop a s))"
  by (simp add: str_slice_def graphic_boundary)

lemma digit_char_graphic: "d < 16 \<Longrightarrow> graphic (digit_char d)"
  by (auto simp: digit_char_def graphic_def)

lemma hex_byte_graphic: "list_all graphic (hex_byte b)"
proof -
  have "unat b div 16 < 16" using unat_u8_less [of b] by (simp add: less_mult_imp_div_less)
  then show ?thesis by (simp add: hex_byte_def digit_char_graphic)
qed

lemma to_hex_Nil [simp]: "to_hex [] = []"
  by (simp add: to_hex_def)

lemma to_hex_Cons: "to_hex (b # bs) = hex_byte b @ to_hex bs"
  by (simp add: to_hex_def)

lemma to_hex_graphic: "list_all graphic (to_hex bs)"
  by (induction bs) (use hex_byte_graphic in \<open>auto simp: to_hex_Cons\<close>)

lemma length_to_hex [simp]: "length (to_hex bs) = 2 * length bs"
  by (induction bs) (auto simp: to_hex_Cons hex_byte_def)

lemma to_hex_slice: "i < length bs \<Longrightarrow> take 2 (drop (2 * i) (to_hex bs)) = hex_byte (bs ! i)"
proof (induction bs arbitrary: i)
  case Nil
  then show ?case by simp
next
  case (Cons b bs)
  then show ?case by (cases i) (auto simp: to_hex_Cons hex_byte_def)
qed

lemma split_n_graphic:
  assumes "list_all graphic s" and "length s = 2 * n" and "0 < n"
  shows "split_n s 2 = Ok (map (\<lambda>i. take 2 (drop (2 * i) s)) [0..<n])"
proof -
  have c: "(length s - 2 + 1) div 2 + 1 = n" using assms by simp
  have "collect (\<lambda>i. str_slice s (2 * i) (2 * i + 2)) [0..<n]
    = (Ok (map (\<lambda>i. take 2 (drop (2 * i) s)) [0..<n]) :: string list res)"
    using assms by (intro collect_Ok) (auto simp: str_slice_graphic)
  then show ?thesis using assms unfolding split_n_def c by simp
qed

lemma split_n_to_hex: "bs \<noteq> [] \<Longrightarrow> split_n (to_hex bs) 2 = Ok (map hex_byte bs)"
  using split_n_graphic [OF to_hex_graphic, of bs "length bs"]
  by (auto simp: to_hex_slice intro!: nth_equalityI)

lemma parse_hex_byte: "parse_hex_byte (hex_byte b) = Ok b"
proof -
  let ?ds = "[unat b div 16, unat b mod 16]"
  have d: "unat b div 16 < 16" using unat_u8_less [of b] by (simp add: less_mult_imp_div_less)
  have v: "digits_val 16 ?ds = unat b" by (simp add: digits_val_Cons)
  have h: "hex_byte b = map digit_char ?ds" by (simp add: hex_byte_def)
  have "from_str_radix 16 256 (map digit_char ?ds)
    = (if digits_val 16 ?ds < 256 then Some (digits_val 16 ?ds) else None)"
    by (rule from_str_radix_digit_chars) (use d in simp_all)
  then have "from_str_radix 16 256 (hex_byte b) = Some (unat b)"
    unfolding v h by (simp only: unat_u8_less if_True)
  then show ?thesis by (simp add: parse_hex_byte_def)
qed

lemma hex_byte_not_0x: "hex_byte b @ s \<noteq> CHR ''0'' # CHR ''x'' # t"
proof -
  have "list_all (\<lambda>d. digit_char d \<noteq> CHR ''x'') [0..<16]" by code_simp
  then show ?thesis by (auto simp: hex_byte_def list_all_iff)
qed

lemma trim_to_hex: "str_trim (to_hex bs) = to_hex bs"
  using to_hex_graphic [of bs] by (intro trim_graphic) (auto simp: list_all_iff)

lemma collect_hex: "bs \<noteq> [] \<Longrightarrow> obind (split_n (str_trim (to_hex bs)) 2) (collect parse_hex_byte) = Ok bs"
proof -
  have "collect parse_hex_byte (map hex_byte bs) = Ok bs"
    by (induction bs) (auto simp: parse_hex_byte)
  then show "bs \<noteq> [] \<Longrightarrow> ?thesis" by (simp add: trim_to_hex split_n_to_hex)
qed

lemma from_hex_to_hex: "bs \<noteq> [] \<Longrightarrow> from_hex (to_hex bs) = Ok bs"
proof -
  assume ne: "bs \<noteq> []"
  then obtain b cs where bs: "bs = b # cs" by (cases bs) auto
  have p: "take 2 (to_hex bs) \<noteq> ''0x''"
    using hex_byte_not_0x [of b "[]" "[]"] by (simp add: bs to_hex_Cons) (simp add: hex_byte_def)
  have "1 \<le> length bs" using ne by (simp add: Suc_le_eq)
  then have sl: "str_slice (to_hex bs) 0 2 = (Ok (take 2 (to_hex bs)) :: string res)"
    using str_slice_graphic [OF to_hex_graphic, of 0 2 bs] by simp
  show ?thesis
    unfolding from_hex_def sl obind.simps if_not_P [OF p] collect_hex [OF ne] by simp
qed

lemma from_hex_prefixed: "bs \<noteq> [] \<Longrightarrow> from_hex (''0x'' @ to_hex bs) = Ok bs"
proof -
  assume ne: "bs \<noteq> []"
  have g: "list_all graphic (''0x'' @ to_hex bs)" using to_hex_graphic by (simp add: graphic_def)
  have "str_slice (''0x'' @ to_hex bs) 0 2 = (Ok ''0x'' :: string res)"
    "str_slice (''0x'' @ to_hex bs) 2 (length (''0x'' @ to_hex bs)) = (Ok (to_hex bs) :: string res)"
    by (subst str_slice_graphic [OF g]; simp)+
  then show ?thesis unfolding from_hex_def using collect_hex [OF ne] by simp
qed

text \<open>On printable ASCII without blanks the decoder panics on two strings only.\<close>

lemma parse_hex_byte_returns: "parse_hex_byte b \<noteq> Panic"
  by (simp add: parse_hex_byte_def)

lemma from_hex_Panic_graphic:
  assumes "list_all graphic s"
  shows "from_hex s = Panic \<longleftrightarrow> s = [] \<or> s = ''0x''"
proof (cases "length s mod 2 = 1 \<or> s = []")
  case True
  then show ?thesis by (auto simp: from_hex_def str_slice_def)
next
  case False
  then have e: "even (length s)" and "2 \<le> length s"
    by (auto simp: odd_iff_mod_2_eq_one) (metis One_nat_def Suc_leI length_greater_0_conv
      nat_less_le numeral_2_eq_2 odd_one Suc_1)
  define t where "t = (if take 2 s = ''0x'' then drop 2 s else s)"
  have t: "list_all graphic t" "even (length t)" using assms e by (auto simp: t_def list_all_length)
  then have tr: "str_trim t = t" by (intro trim_graphic) (auto simp: list_all_iff)
  have "from_hex s = obind (split_n t 2) (collect parse_hex_byte)"
    using False assms \<open>2 \<le> length s\<close> tr t_def
    by (auto simp: from_hex_def str_slice_graphic)
  moreover have "t = [] \<longleftrightarrow> s = ''0x''" using \<open>2 \<le> length s\<close>
    by (auto simp: t_def)
  moreover have "obind (split_n t 2) (collect parse_hex_byte) = Panic \<longleftrightarrow> t = []"
  proof (cases "t = []")
    case True
    then show ?thesis by (simp add: split_n_def)
  next
    case False
    obtain n where n: "length t = 2 * n" using t(2) by (elim evenE)
    moreover have "0 < n" using False n by (cases n) auto
    ultimately show ?thesis
      using split_n_graphic [OF t(1)] collect_no_Panic [where f = parse_hex_byte] parse_hex_byte_returns False
      by simp
  qed
  ultimately show ?thesis using False by auto
qed

interpretation hex: codec to_hex from_hex "\<lambda>bs. bs \<noteq> []"
  by unfold_locales (rule from_hex_to_hex)


section \<open>Keys as text\<close>

text \<open>A public key as the curve library is to handle it: 33 bytes that parse back.\<close>

definition pk_ok :: "('pk, 'sk, 'sig, 'x) secp_scheme \<Rightarrow> 'pk \<Rightarrow> bool" where
  "pk_ok S k \<longleftrightarrow> pk_from_slice S (pk_serialize_vec S k) = Some k \<and> length (pk_serialize_vec S k) = 33"

lemma public_key_hex_roundtrip: "pk_ok S k \<Longrightarrow> public_key_from_hex S (public_key_to_hex S k) = Ok k"
proof -
  assume k: "pk_ok S k"
  then have "pk_serialize_vec S k \<noteq> []" by (auto simp: pk_ok_def)
  then show ?thesis using k from_hex_to_hex
    by (simp add: public_key_from_hex_def public_key_to_hex_def serialize_public_key_def pk_ok_def)
qed

lemma secret_key_hex_roundtrip:
  "sk_bytes S k \<noteq> [] \<Longrightarrow> sk_from_slice S (sk_bytes S k) = Some k \<Longrightarrow>
   secret_key_from_hex S (secret_key_to_hex S k) = Ok k"
  by (simp add: secret_key_from_hex_def secret_key_to_hex_def from_hex_to_hex)

lemma signature_hex_roundtrip:
  "sig_serialize_der S g \<noteq> [] \<Longrightarrow> sig_from_der S (sig_serialize_der S g) = Some g \<Longrightarrow>
   signature_from_hex S (signature_to_hex S g) = Ok g"
  by (simp add: signature_from_hex_def signature_to_hex_def from_hex_to_hex)

lemma commitment_hex_roundtrip:
  "c \<noteq> [] \<Longrightarrow> commit_from_vec S c = c \<Longrightarrow> commitment_from_hex S (commitment_to_hex c) = Ok c"
  by (simp add: commitment_from_hex_def commitment_to_hex_def from_hex_to_hex)

lemma to_base58_check_Ok:
  "4 \<le> length (double_sha256 sha256 (version @ self)) \<Longrightarrow>
   to_base58_check sha256 self version =
     Ok (b58_encode (version @ self @ take 4 (double_sha256 sha256 (version @ self))))"
  by (simp add: to_base58_check_def Let_def to_base58_eq)

lemma public_key_base58_check_roundtrip:
  assumes "pk_ok S k" and "length version \<le> 95"
    and "public_key_to_base58_check sha256 S k version = Ok s"
  shows "public_key_from_base58_check sha256 S s version = Ok k"
proof -
  have "from_base58_check sha256 s (length version) = Ok (version, pk_serialize_vec S k)"
    using assms unfolding from_base58_check_Ok_iff
    by (auto simp: public_key_to_base58_check_def serialize_public_key_def pk_ok_def)
  then show ?thesis using assms(1) by (simp add: public_key_from_base58_check_def pk_ok_def)
qed

lemma public_key_wrong_version:
  assumes "length (pk_serialize_vec S k) = 33" and "length version \<le> 95"
    and "public_key_to_base58_check sha256 S k version = Ok s"
    and "length version' = length version" and "version' \<noteq> version"
  shows "public_key_from_base58_check sha256 S s version' = fail InvalidBase58Version"
proof -
  have "from_base58_check sha256 s (length version') = Ok (version, pk_serialize_vec S k)"
    using assms unfolding from_base58_check_Ok_iff
    by (auto simp: public_key_to_base58_check_def serialize_public_key_def)
  then show ?thesis using assms(5) by (simp add: public_key_from_base58_check_def)
qed

text \<open>What an accepted address says: it is the encoding of its own bytes under that version.\<close>

lemma public_key_from_base58_check_Ok:
  assumes "public_key_from_base58_check sha256 S s version = Ok k"
  shows "\<exists>bs. pk_from_slice S bs = Some k \<and> to_base58_check sha256 bs version = Ok s"
  using assms unfolding public_key_from_base58_check_def
  by (auto simp: obind_Ok_iff of_option_Ok_iff from_base58_check_Ok_iff split: if_splits)

section \<open>The length of an address\<close>

lemma to_digits_length_eq:
  assumes "1 < b" and "b ^ k \<le> n" and "n < b ^ Suc k"
  shows "length (to_digits b n) = Suc k"
proof -
  have "length (to_digits b n) \<le> Suc k" using assms(1,3) by (rule to_digits_length_le)
  moreover have "n < b ^ length (to_digits b n)"
    using digits_val_bound [of "to_digits b n" b] assms(1) to_digits_bound [OF assms(1)] by simp
  then have "b ^ k < b ^ length (to_digits b n)" using assms(2) by simp
  then have "k < length (to_digits b n)" using assms(1) by simp
  ultimately show ?thesis by simp
qed

lemma version_value:
  assumes "length (pl :: bytes) = 37" and "v = 69 \<or> v = 121"
  defines "n \<equiv> digits_val 256 (map unat ([1, v] @ pl))"
  shows "58 ^ 51 \<le> n" and "n < 58 ^ Suc 51"
proof -
  have "digits_val 256 (map unat pl) < 256 ^ 37"
    using digits_val_bound [of "map unat pl" 256] assms(1) by simp
  then have "(256 + unat v) * 256 ^ 37 \<le> n" "n < (256 + unat v + 1) * 256 ^ 37"
    using assms(1) unfolding n_def by (simp_all add: digits_val_Cons digits_val_append)
  then show "58 ^ 51 \<le> n" "n < 58 ^ Suc 51" using assms(2) by auto
qed

lemma address_length:
  assumes "length (serialize_public_key S k) = 33" and "version = [1, 69] \<or> version = [1, 121]"
    and "public_key_to_base58_check sha256 S k version = Ok s"
  shows "length s = 52" and "list_all b58_char s"
proof -
  let ?d = "double_sha256 sha256 (version @ serialize_public_key S k)"
  obtain v where v: "version = [1, v]" "v = 69 \<or> v = 121" using assms(2) by auto
  have d: "4 \<le> length ?d"
    and s: "s = b58_encode ([1, v] @ (serialize_public_key S k @ take 4 ?d))"
    using assms(3) v(1)
    by (auto simp: public_key_to_base58_check_def to_base58_check_Ok_iff to_base58_eq)
  have pl: "length (serialize_public_key S k @ take 4 ?d) = 37" using assms(1) d by simp
  let ?n = "digits_val 256 (map unat ([1, v] @ (serialize_public_key S k @ take 4 ?d)))"
  from to_digits_length_eq [OF _ version_value [OF pl v(2)]]
  have "length (to_digits 58 ?n) = 52" by simp
  then show "length s = 52" unfolding s b58_encode_def by simp
  show "list_all b58_char s" unfolding s by (simp add: list_all_iff b58_encode_chars)
qed


section \<open>The hasher\<close>

text \<open>Feeding data in pieces is feeding it at once, and the digest leaves the instance reset.\<close>

lemma append_sha512_append: "append_sha512 (append_sha512 h a) b = append_sha512 h (a @ b)"
  by (simp add: append_sha512_def)

lemma result_sha512_fold:
  "result_sha512 hmac (foldl append_sha512 (init_sha512 h seed) vs) =
     (copy_from_slice 64 (hmac seed (concat vs)), init_sha512 h seed)"
proof -
  have "foldl append_sha512 (init_sha512 h seed) vs = append_sha512 (init_sha512 h seed) (concat vs)"
    by (induction vs rule: rev_induct) (auto simp: append_sha512_append append_sha512_def init_sha512_def)
  then show ?thesis by (simp add: result_sha512_def append_sha512_def init_sha512_def)
qed

lemma network_bytes_distinct:
  "network_priv h \<noteq> network_pub h'"
  by (simp add: network_priv_def network_pub_def)

section \<open>Properties\<close>

text \<open>
  Hexadecimal text round-trips, with and without the \<open>0x\<close> prefix, for every byte string
  but the empty one.
\<close>

theorem hex_roundtrip:
  assumes "bs \<noteq> []"
  shows "from_hex (to_hex bs) = Ok bs \<and> from_hex (''0x'' @ to_hex bs) = Ok bs"
  using from_hex_to_hex [OF assms] from_hex_prefixed [OF assms] ..

theorem hex_roundtrip_witness: "from_hex ''00ff1a'' = Ok [0, 255, 26]"
proof -
  have "to_hex [0, 255, 26] = ''00ff1a''" by code_simp
  then show ?thesis using hex_roundtrip [of "[0, 255, 26]"] by simp
qed

text \<open>
  On printable ASCII the hexadecimal decoder panics on exactly the empty string and the
  bare prefix (the slices \<open>[..2]\<close> and \<open>s.len() - n + 1\<close>), instead of returning an error;
  everything else it decodes or refuses.
\<close>

theorem from_hex_panics:
  assumes "list_all graphic s"
  shows "from_hex s = Panic \<longleftrightarrow> s = [] \<or> s = ''0x''"
  using assms by (rule from_hex_Panic_graphic)

theorem from_hex_panics_witness:
  "from_hex [] = Panic \<and> from_hex ''0x'' = Panic \<and> from_hex ''0xzz'' \<noteq> Panic"
proof -
  have "list_all graphic ''0x''" "list_all graphic ''0xzz''" "list_all graphic []"
    by (simp_all add: graphic_def)
  then show ?thesis
    using from_hex_panics [of "[]"] from_hex_panics [of "''0x''"] from_hex_panics [of "''0xzz''"] by simp
qed

end
