(* ===== verification/Addresses.thy ===== *)
theory Addresses
  imports Crypto "HOL-Library.Code_Target_Nat"
begin

text \<open>
  \<open>src/src/contacts/types.rs\<close>, the addresses: the four address types, their regular
  expressions as matchers (with the declarative reading of each expression proved equal to
  it), \<open>from_str\<close>, \<open>Display\<close>, \<open>stripped\<close> and the dispatching \<open>Address::parse\<close>. The trait
  \<open>Address\<close> is the locale \<open>printable_address\<close>, interpreted on all four types. The chain type
  (\<open>is_mainnet\<close>), SHA-256 and \<open>Url::parse\<close> are fields of the record \<open>env\<close>.
\<close>

section \<open>The code\<close>

record ('pk, 'sk, 'sig) env = "('pk, 'sk, 'sig) secp" +
  sha256 :: "bytes \<Rightarrow> bytes"
  is_mainnet :: bool
  url_parse :: "string \<Rightarrow> bool"

datatype address_type = Grinbox | MWCMQS | Keybase | Https

definition DEFAULT_GRINBOX_DOMAIN :: string where
  "DEFAULT_GRINBOX_DOMAIN = ''mq.mwc.mw''"

definition DEFAULT_MWCMQS_DOMAIN :: string where
  "DEFAULT_MWCMQS_DOMAIN = ''mqs.mwc.mw''"

definition DEFAULT_MWCMQS_PORT :: u16 where
  "DEFAULT_MWCMQS_PORT = 443"

definition DEFAULT_GRINBOX_PORT :: u16 where
  "DEFAULT_GRINBOX_PORT = 443"

definition version_bytes :: "('pk, 'sk, 'sig, 'x) env_scheme \<Rightarrow> bytes" where
  "version_bytes E =
     (if is_mainnet E then GRINBOX_ADDRESS_VERSION_MAINNET else GRINBOX_ADDRESS_VERSION_TESTNET)"

subsection \<open>The regular expressions\<close>

definition ascii_digit :: "char \<Rightarrow> bool" where
  "ascii_digit c \<longleftrightarrow> 48 \<le> (of_char c :: nat) \<and> (of_char c :: nat) \<le> 57"

definition ascii_alnum :: "char \<Rightarrow> bool" where
  "ascii_alnum c \<longleftrightarrow> ascii_digit c \<or> 65 \<le> (of_char c :: nat) \<and> (of_char c :: nat) \<le> 90 \<or>
     97 \<le> (of_char c :: nat) \<and> (of_char c :: nat) \<le> 122"

definition domain_char :: "char \<Rightarrow> bool" where
  "domain_char c \<longleftrightarrow> ascii_alnum c \<or> c = CHR ''.''"

definition username_char :: "char \<Rightarrow> bool" where
  "username_char c \<longleftrightarrow> ascii_alnum c \<or> c = CHR ''_''"

definition topic_char :: "char \<Rightarrow> bool" where
  "topic_char c \<longleftrightarrow> ascii_alnum c \<or> c = CHR ''_'' \<or> c = CHR ''-''"

definition strip_scheme :: "string \<Rightarrow> string \<Rightarrow> string" where
  "strip_scheme p s = (if starts_with s p then drop (length p) s else s)"

text \<open>\<open>^(mwcmq://)?([b58]{52})(@([a-zA-Z0-9.]+)(:([0-9]*))?)?$\<close>, as its three captures.\<close>

definition mq_body :: "string \<Rightarrow> (string \<times> string option \<times> string option) option" where
  "mq_body t =
     (let pk = take 52 t
      in if length pk = 52 \<and> list_all b58_char pk then
           case drop 52 t of
             [] \<Rightarrow> Some (pk, None, None)
           | c # r \<Rightarrow>
               if c = CHR ''@'' \<and> takeWhile domain_char r \<noteq> [] then
                 case dropWhile domain_char r of
                   [] \<Rightarrow> Some (pk, Some (takeWhile domain_char r), None)
                 | c # p \<Rightarrow>
                     if c = CHR '':'' \<and> list_all ascii_digit p
                     then Some (pk, Some (takeWhile domain_char r), Some p) else None
               else None
         else None)"

definition mq_captures ::
  "string \<Rightarrow> string \<Rightarrow> (string \<times> string option \<times> string option) option" where
  "mq_captures scheme s = mq_body (strip_scheme scheme s)"

text \<open>\<open>^(keybase://)?([0-9A-Za-z_]{1,16})(:([a-zA-Z0-9_-]+))?$\<close>, as its two captures.\<close>

definition keybase_captures :: "string \<Rightarrow> (string \<times> string option) option" where
  "keybase_captures s =
     (let t = strip_scheme ''keybase://'' s; u = takeWhile username_char t
      in if 1 \<le> length u \<and> length u \<le> 16 then
           case dropWhile username_char t of
             [] \<Rightarrow> Some (u, None)
           | c # tp \<Rightarrow>
               if c = CHR '':'' \<and> tp \<noteq> [] \<and> list_all topic_char tp then Some (u, Some tp) else None
         else None)"

text \<open>\<open>^((keybase|mwcmq|mwcmqs|https|http)://).+$\<close>, as the capture \<open>address_type\<close>.\<close>

definition address_types :: "string list" where
  "address_types = [''keybase'', ''mwcmq'', ''mwcmqs'', ''https'', ''http'']"

definition address_captures :: "string \<Rightarrow> string option" where
  "address_captures s =
     find (\<lambda>t. starts_with s (t @ ''://'') \<and> drop (length t + 3) s \<noteq> [] \<and>
       CHR 0x0A \<notin> set (drop (length t + 3) s)) address_types"

text \<open>\<open>captures.name("port").map(|m| u16::from_str_radix(m.as_str(), 10).unwrap())\<close>.\<close>

definition parse_port :: "string option \<Rightarrow> u16 option res" where
  "parse_port p = (case p of
     None \<Rightarrow> Ok None
   | Some m \<Rightarrow> (case from_str_radix 10 65536 m of None \<Rightarrow> Panic | Some n \<Rightarrow> Ok (Some (of_nat n))))"

subsection \<open>Keybase addresses\<close>

record keybase_address =
  username :: string
  topic :: "string option"

definition keybase_from_str :: "string \<Rightarrow> keybase_address res" where
  "keybase_from_str s = (case keybase_captures s of
     None \<Rightarrow> fail (KeybaseAddressParsingError s)
   | Some (u, t) \<Rightarrow> Ok \<lparr>username = u, topic = t\<rparr>)"

definition keybase_display :: "keybase_address \<Rightarrow> string" where
  "keybase_display self = ''keybase://'' @ username self @
     (case topic self of None \<Rightarrow> [] | Some t \<Rightarrow> '':'' @ t)"

definition keybase_stripped :: "keybase_address \<Rightarrow> string" where
  "keybase_stripped self = username self"

subsection \<open>MWCMQS addresses\<close>

record mwcmqs_address =
  mq_public_key :: string
  mq_domain :: string
  mq_port :: "u16 option"

definition mwcmqs_new ::
  "('pk, 'sk, 'sig, 'x) env_scheme \<Rightarrow> 'pk \<Rightarrow> string option \<Rightarrow> u16 option \<Rightarrow> mwcmqs_address res" where
  "mwcmqs_new E public_key domain port =
     obind (public_key_to_base58_check (sha256 E) E public_key (version_bytes E)) (\<lambda>pk.
       Ok \<lparr>mq_public_key = pk,
           mq_domain = (case domain of None \<Rightarrow> DEFAULT_MWCMQS_DOMAIN | Some d \<Rightarrow> d), mq_port = port\<rparr>)"

definition mwcmqs_public_key :: "('pk, 'sk, 'sig, 'x) env_scheme \<Rightarrow> mwcmqs_address \<Rightarrow> 'pk res" where
  "mwcmqs_public_key E self =
     public_key_from_base58_check (sha256 E) E (mq_public_key self) (version_bytes E)"

definition mwcmqs_from_str :: "('pk, 'sk, 'sig, 'x) env_scheme \<Rightarrow> string \<Rightarrow> mwcmqs_address res" where
  "mwcmqs_from_str E s = (case mq_captures ''mwcmqs://'' s of
     None \<Rightarrow> fail (GrinboxAddressParsingError s)
   | Some (public_key, domain, port) \<Rightarrow>
       obind (parse_port port) (\<lambda>port.
       obind (public_key_from_base58_check (sha256 E) E public_key (version_bytes E)) (\<lambda>public_key.
       mwcmqs_new E public_key domain port)))"

definition mwcmqs_display :: "mwcmqs_address \<Rightarrow> string" where
  "mwcmqs_display self =
     (let odd_port = (case mq_port self of None \<Rightarrow> False | Some p \<Rightarrow> p \<noteq> DEFAULT_GRINBOX_PORT)
      in ''mwcmqs://'' @ mq_public_key self @
         (if mq_domain self \<noteq> DEFAULT_MWCMQS_DOMAIN \<or> odd_port
          then ''@'' @ mq_domain self @ (if odd_port then '':'' @ show_nat (unat (the (mq_port self))) else [])
          else []))"

definition mwcmqs_stripped :: "mwcmqs_address \<Rightarrow> string res" where
  "mwcmqs_stripped self = str_slice (mwcmqs_display self) 9 (length (mwcmqs_display self))"

subsection \<open>Grinbox addresses\<close>

record grinbox_address =
  gb_public_key :: string
  gb_domain :: string
  gb_port :: "u16 option"

definition grinbox_new ::
  "('pk, 'sk, 'sig, 'x) env_scheme \<Rightarrow> 'pk \<Rightarrow> string option \<Rightarrow> u16 option \<Rightarrow> grinbox_address res" where
  "grinbox_new E public_key domain port =
     obind (public_key_to_base58_check (sha256 E) E public_key (version_bytes E)) (\<lambda>pk.
       Ok \<lparr>gb_public_key = pk,
           gb_domain = (case domain of None \<Rightarrow> DEFAULT_GRINBOX_DOMAIN | Some d \<Rightarrow> d), gb_port = port\<rparr>)"

definition grinbox_public_key :: "('pk, 'sk, 'sig, 'x) env_scheme \<Rightarrow> grinbox_address \<Rightarrow> 'pk res" where
  "grinbox_public_key E self =
     public_key_from_base58_check (sha256 E) E (gb_public_key self) (version_bytes E)"

definition grinbox_from_str :: "('pk, 'sk, 'sig, 'x) env_scheme \<Rightarrow> string \<Rightarrow> grinbox_address res" where
  "grinbox_from_str E s = (case mq_captures ''mwcmq://'' s of
     None \<Rightarrow> fail (GrinboxAddressParsingError s)
   | Some (public_key, domain, port) \<Rightarrow>
       obind (parse_port port) (\<lambda>port.
       obind (public_key_from_base58_check (sha256 E) E public_key (version_bytes E)) (\<lambda>public_key.
       grinbox_new E public_key domain port)))"

definition grinbox_display :: "grinbox_address \<Rightarrow> string" where
  "grinbox_display self =
     (let odd_port = (case gb_port self of None \<Rightarrow> False | Some p \<Rightarrow> p \<noteq> DEFAULT_GRINBOX_PORT)
      in ''mwcmq://'' @ gb_public_key self @
         (if gb_domain self \<noteq> DEFAULT_GRINBOX_DOMAIN \<or> odd_port
          then ''@'' @ gb_domain self @ (if odd_port then '':'' @ show_nat (unat (the (gb_port self))) else [])
          else []))"

definition grinbox_stripped :: "grinbox_address \<Rightarrow> string res" where
  "grinbox_stripped self = str_slice (grinbox_display self) 8 (length (grinbox_display self))"

subsection \<open>Https addresses and dispatch\<close>

record https_address =
  uri :: string

definition https_from_str :: "('pk, 'sk, 'sig, 'x) env_scheme \<Rightarrow> string \<Rightarrow> https_address res" where
  "https_from_str E s = (if url_parse E s then Ok \<lparr>uri = s\<rparr> else fail (HttpsAddressParsingError s))"

definition https_display :: "https_address \<Rightarrow> string" where
  "https_display self = uri self"

definition https_stripped :: "https_address \<Rightarrow> string" where
  "https_stripped self = uri self"

text \<open>\<open>Box<dyn Address>\<close>: a value of one of the implementing types.\<close>

datatype dyn_address =
  AKeybase keybase_address | AMWCMQS mwcmqs_address | AGrinbox grinbox_address | AHttps https_address

fun address_type_of :: "dyn_address \<Rightarrow> address_type" where
  "address_type_of (AKeybase a) = Keybase"
| "address_type_of (AMWCMQS a) = MWCMQS"
| "address_type_of (AGrinbox a) = Grinbox"
| "address_type_of (AHttps a) = Https"

fun address_display :: "dyn_address \<Rightarrow> string" where
  "address_display (AKeybase a) = keybase_display a"
| "address_display (AMWCMQS a) = mwcmqs_display a"
| "address_display (AGrinbox a) = grinbox_display a"
| "address_display (AHttps a) = https_display a"

fun address_stripped :: "dyn_address \<Rightarrow> string res" where
  "address_stripped (AKeybase a) = Ok (keybase_stripped a)"
| "address_stripped (AMWCMQS a) = mwcmqs_stripped a"
| "address_stripped (AGrinbox a) = grinbox_stripped a"
| "address_stripped (AHttps a) = Ok (https_stripped a)"

definition address_parse :: "('pk, 'sk, 'sig, 'x) env_scheme \<Rightarrow> string \<Rightarrow> dyn_address res" where
  "address_parse E address = (case address_captures address of
     None \<Rightarrow> obind (mwcmqs_from_str E address) (\<lambda>a. Ok (AMWCMQS a))
   | Some t \<Rightarrow>
       if t = ''keybase'' then obind (keybase_from_str address) (\<lambda>a. Ok (AKeybase a))
       else if t = ''mwcmqs'' then obind (mwcmqs_from_str E address) (\<lambda>a. Ok (AMWCMQS a))
       else if t = ''mwcmq'' then obind (grinbox_from_str E address) (\<lambda>a. Ok (AGrinbox a))
       else if t = ''https'' then obind (https_from_str E address) (\<lambda>a. Ok (AHttps a))
       else if t = ''http'' then obind (https_from_str E address) (\<lambda>a. Ok (AHttps a))
       else fail (UnknownAddressType t))"

section \<open>The matchers and their expressions\<close>

text \<open>A text of the shape the expression for a message-queue address describes.\<close>

definition mq_text :: "string \<Rightarrow> string option \<Rightarrow> string option \<Rightarrow> string" where
  "mq_text pk d p = pk @ (case d of None \<Rightarrow> [] | Some d \<Rightarrow>
     ''@'' @ d @ (case p of None \<Rightarrow> [] | Some p \<Rightarrow> '':'' @ p))"

definition mq_groups :: "string \<Rightarrow> string option \<Rightarrow> string option \<Rightarrow> bool" where
  "mq_groups pk d p \<longleftrightarrow> length pk = 52 \<and> list_all b58_char pk \<and>
     (case d of None \<Rightarrow> p = None | Some d \<Rightarrow> d \<noteq> [] \<and> list_all domain_char d) \<and>
     (case p of None \<Rightarrow> True | Some p \<Rightarrow> list_all ascii_digit p)"

lemma takeWhile_all_append: "list_all P xs \<Longrightarrow> takeWhile P (xs @ ys) = xs @ takeWhile P ys"
  by (induction xs) auto

lemma dropWhile_all_append: "list_all P xs \<Longrightarrow> dropWhile P (xs @ ys) = dropWhile P ys"
  by (induction xs) auto

lemma takeWhile_all: "list_all P xs \<Longrightarrow> takeWhile P xs = xs"
  by (induction xs) auto

lemma dropWhile_all: "list_all P xs \<Longrightarrow> dropWhile P xs = []"
  by (induction xs) auto

lemma takeWhile_list_all: "list_all P (takeWhile P xs)"
  by (induction xs) auto

lemma not_domain_char: "\<not> domain_char CHR '':''" "\<not> domain_char CHR ''@''"
  by code_simp+

lemma mq_body_complete: "mq_groups pk d p \<Longrightarrow> mq_body (mq_text pk d p) = Some (pk, d, p)"
  by (auto simp: mq_groups_def mq_body_def mq_text_def Let_def takeWhile_all_append
      dropWhile_all_append not_domain_char takeWhile_all dropWhile_all split: option.splits)

lemma mq_body_sound:
  assumes "mq_body t = Some (pk, d, p)"
  shows "t = mq_text pk d p \<and> mq_groups pk d p"
proof -
  from assms have pk: "pk = take 52 t" "length pk = 52" "list_all b58_char pk"
    by (auto simp: mq_body_def Let_def split: if_splits list.splits)
  show ?thesis
  proof (cases "drop 52 t")
    case Nil
    then show ?thesis using assms pk append_take_drop_id [of 52 t]
      by (simp add: mq_body_def mq_text_def mq_groups_def Let_def)
  next
    case (Cons c r)
    define a b where ab: "a = takeWhile domain_char r" "b = dropWhile domain_char r"
    have r: "r = a @ b" "list_all domain_char a" unfolding ab by (simp_all add: takeWhile_list_all)
    have t: "t = pk @ c # r" using pk Cons append_take_drop_id [of 52 t] by simp
    have "(if c = CHR ''@'' \<and> a \<noteq> [] then
        case b of [] \<Rightarrow> Some (pk, Some a, None)
        | c # p \<Rightarrow> if c = CHR '':'' \<and> list_all ascii_digit p then Some (pk, Some a, Some p) else None
      else None) = Some (pk, d, p)"
      using assms pk(2,3)
      unfolding mq_body_def Let_def pk(1) [symmetric] Cons list.case ab [symmetric] by simp
    then show ?thesis
      unfolding t mq_text_def mq_groups_def using pk(2,3) r
      by (cases b) (auto split: if_splits)
  qed
qed

lemma mq_body_iff: "mq_body t = Some (pk, d, p) \<longleftrightarrow> t = mq_text pk d p \<and> mq_groups pk d p"
  using mq_body_sound mq_body_complete by blast

lemma strip_scheme_iff:
  "\<not> starts_with t scheme \<Longrightarrow>
   strip_scheme scheme s = t \<longleftrightarrow> s = t \<or> s = scheme @ t"
  by (auto simp: strip_scheme_def starts_with_iff)

lemma mq_no_scheme:
  assumes "mq_groups pk d p" and "i < length scheme" and "length scheme \<le> 52" and "scheme ! i = CHR '':''"
  shows "\<not> starts_with (mq_text pk d p) scheme"
proof
  assume "starts_with (mq_text pk d p) scheme"
  then have "scheme ! i = mq_text pk d p ! i"
    using assms(2) by (metis nth_append starts_with_iff)
  then have "pk ! i = CHR '':''" using assms by (simp add: mq_text_def mq_groups_def nth_append)
  moreover have "b58_char (pk ! i)" using assms(1-3) by (simp add: mq_groups_def list_all_length)
  ultimately have "b58_char CHR '':''" by simp
  moreover have "\<not> b58_char CHR '':''" by code_simp
  ultimately show False by simp
qed

text \<open>The captures of the expression for grinbox and MWCMQS addresses.\<close>

lemma mq_captures_iff:
  assumes "i < length scheme" and "length scheme \<le> 52" and "scheme ! i = CHR '':''"
  shows "mq_captures scheme s = Some (pk, d, p) \<longleftrightarrow>
    mq_groups pk d p \<and> (s = mq_text pk d p \<or> s = scheme @ mq_text pk d p)"
proof (cases "mq_groups pk d p")
  case True
  then show ?thesis
    using strip_scheme_iff [OF mq_no_scheme [OF True assms]] mq_body_iff by (auto simp: mq_captures_def)
next
  case False
  then show ?thesis using mq_body_iff by (auto simp: mq_captures_def)
qed

lemma mwcmqs_captures:
  "mq_captures ''mwcmqs://'' s = Some (pk, d, p) \<longleftrightarrow>
    mq_groups pk d p \<and> (s = mq_text pk d p \<or> s = ''mwcmqs://'' @ mq_text pk d p)"
  by (rule mq_captures_iff [of 6]) simp_all

lemma grinbox_captures:
  "mq_captures ''mwcmq://'' s = Some (pk, d, p) \<longleftrightarrow>
    mq_groups pk d p \<and> (s = mq_text pk d p \<or> s = ''mwcmq://'' @ mq_text pk d p)"
  by (rule mq_captures_iff [of 5]) simp_all

text \<open>The expression for keybase addresses.\<close>

definition keybase_text :: "string \<Rightarrow> string option \<Rightarrow> string" where
  "keybase_text u t = u @ (case t of None \<Rightarrow> [] | Some t \<Rightarrow> '':'' @ t)"

definition keybase_groups :: "string \<Rightarrow> string option \<Rightarrow> bool" where
  "keybase_groups u t \<longleftrightarrow> 1 \<le> length u \<and> length u \<le> 16 \<and> list_all username_char u \<and>
     (case t of None \<Rightarrow> True | Some t \<Rightarrow> t \<noteq> [] \<and> list_all topic_char t)"

lemma not_username_char: "\<not> username_char CHR '':''" "\<not> topic_char CHR ''/''"
  by code_simp+

lemma keybase_no_scheme:
  assumes "keybase_groups u t"
  shows "\<not> starts_with (keybase_text u t) ''keybase://''"
proof
  assume "starts_with (keybase_text u t) ''keybase://''"
  then obtain r where e: "keybase_text u t = ''keybase://'' @ r" by (auto simp: starts_with_iff)
  have "u = takeWhile username_char (keybase_text u t)"
    using assms by (auto simp: keybase_text_def keybase_groups_def takeWhile_all_append
        not_username_char takeWhile_all split: option.splits)
  also have "\<dots> = ''keybase''" unfolding e
    by (simp add: username_char_def ascii_alnum_def ascii_digit_def)
  finally have "u = ''keybase''" .
  then show False using assms e
    by (auto simp: keybase_text_def keybase_groups_def not_username_char split: option.splits)
qed

lemma keybase_captures_iff:
  "keybase_captures s = Some (u, t) \<longleftrightarrow>
     keybase_groups u t \<and> (s = keybase_text u t \<or> s = ''keybase://'' @ keybase_text u t)"
proof -
  have sound: "keybase_groups u t \<and> strip_scheme ''keybase://'' s = keybase_text u t"
    if "keybase_captures s = Some (u, t)"
  proof -
    define x where "x = strip_scheme ''keybase://'' s"
    define a b where ab: "a = takeWhile username_char x" "b = dropWhile username_char x"
    have "x = a @ b" "list_all username_char a" unfolding ab by (simp_all add: takeWhile_list_all)
    then show ?thesis using that
      unfolding keybase_captures_def x_def [symmetric] keybase_groups_def keybase_text_def Let_def
        ab [symmetric]
      by (cases b) (auto split: if_splits)
  qed
  have complete: "keybase_captures s = Some (u, t)"
    if "keybase_groups u t" "strip_scheme ''keybase://'' s = keybase_text u t"
    using that by (auto simp: keybase_captures_def keybase_groups_def keybase_text_def Let_def
        takeWhile_all_append dropWhile_all_append not_username_char takeWhile_all dropWhile_all
        split: option.splits)
  show ?thesis
    using sound complete strip_scheme_iff [OF keybase_no_scheme, of u t s] by blast
qed


section \<open>Printing and parsing\<close>

text \<open>The trait \<open>Address\<close>: a printed address carries its scheme and parses back.\<close>

locale printable_address =
  fixes from_str :: "string \<Rightarrow> 'a res" and display :: "'a \<Rightarrow> string" and scheme :: "'a \<Rightarrow> string"
    and valid :: "'a \<Rightarrow> bool"
  assumes from_str_display: "valid a \<Longrightarrow> from_str (display a) = Ok a"
    and scheme_known: "valid a \<Longrightarrow> scheme a \<in> set address_types"
    and display_scheme: "valid a \<Longrightarrow>
      \<exists>r. display a = scheme a @ ''://'' @ r \<and> r \<noteq> [] \<and> CHR 0x0A \<notin> set r"
begin

lemma starts_with_scheme:
  "t \<in> set address_types \<Longrightarrow> u \<in> set address_types \<Longrightarrow>
   starts_with (t @ ''://'' @ r) (u @ ''://'') \<longleftrightarrow> t = u"
  by (auto simp: address_types_def starts_with_def)

lemma captures_display: "valid a \<Longrightarrow> address_captures (display a) = Some (scheme a)"
proof -
  assume a: "valid a"
  obtain r where r: "display a = scheme a @ ''://'' @ r" "r \<noteq> []" "CHR 0x0A \<notin> set r"
    using display_scheme [OF a] by blast
  note k = scheme_known [OF a]
  let ?P = "\<lambda>t. starts_with (display a) (t @ ''://'') \<and> drop (length t + 3) (display a) \<noteq> [] \<and>
       CHR 0x0A \<notin> set (drop (length t + 3) (display a))"
  have "?P t \<longleftrightarrow> t = scheme a" if "t \<in> set address_types" for t
    using starts_with_scheme [OF k that, of r] r by (auto simp: r(1))
  then have "find ?P address_types = find (\<lambda>t. t = scheme a) address_types"
    by (intro find_cong) auto
  also have "\<dots> = Some (scheme a)" using k by (auto simp: address_types_def)
  finally show ?thesis by (simp add: address_captures_def)
qed

lemma display_inj: "valid a \<Longrightarrow> valid b \<Longrightarrow> display a = display b \<longleftrightarrow> a = b"
  by (metis from_str_display outcome.inject(1))

end

definition keybase_valid :: "keybase_address \<Rightarrow> bool" where
  "keybase_valid a \<longleftrightarrow> keybase_groups (username a) (topic a)"

lemma char_no_newline:
  "username_char c \<Longrightarrow> c \<noteq> CHR 0x0A" "topic_char c \<Longrightarrow> c \<noteq> CHR 0x0A"
  "domain_char c \<Longrightarrow> c \<noteq> CHR 0x0A" "ascii_digit c \<Longrightarrow> c \<noteq> CHR 0x0A" "b58_char c \<Longrightarrow> c \<noteq> CHR 0x0A"
proof -
  have "\<not> username_char CHR 0x0A" "\<not> topic_char CHR 0x0A" "\<not> domain_char CHR 0x0A"
    "\<not> ascii_digit CHR 0x0A" "\<not> b58_char CHR 0x0A" by code_simp+
  then show "username_char c \<Longrightarrow> c \<noteq> CHR 0x0A" "topic_char c \<Longrightarrow> c \<noteq> CHR 0x0A"
    "domain_char c \<Longrightarrow> c \<noteq> CHR 0x0A" "ascii_digit c \<Longrightarrow> c \<noteq> CHR 0x0A" "b58_char c \<Longrightarrow> c \<noteq> CHR 0x0A"
    by auto
qed

lemma list_all_no_newline: "list_all P xs \<Longrightarrow> (\<And>c. P c \<Longrightarrow> c \<noteq> CHR 0x0A) \<Longrightarrow> CHR 0x0A \<notin> set xs"
  by (auto simp: list_all_iff)

lemma keybase_text_line: "keybase_groups u t \<Longrightarrow> keybase_text u t \<noteq> [] \<and> CHR 0x0A \<notin> set (keybase_text u t)"
  using list_all_no_newline [of username_char u] list_all_no_newline [of topic_char "the t"]
  by (auto simp: keybase_groups_def keybase_text_def char_no_newline split: option.splits)

interpretation kb: printable_address keybase_from_str keybase_display "\<lambda>_. ''keybase''" keybase_valid
proof
  fix a :: keybase_address
  assume "keybase_valid a"
  then have g: "keybase_groups (username a) (topic a)" by (simp add: keybase_valid_def)
  have d: "keybase_display a = ''keybase://'' @ keybase_text (username a) (topic a)"
    by (simp add: keybase_display_def keybase_text_def)
  have "keybase_captures (keybase_display a) = Some (username a, topic a)"
    unfolding d keybase_captures_iff using g by simp
  then show "keybase_from_str (keybase_display a) = Ok a"
    by (simp add: keybase_from_str_def)
  show "\<exists>r. keybase_display a = ''keybase'' @ ''://'' @ r \<and> r \<noteq> [] \<and> CHR 0x0A \<notin> set r"
    using d keybase_text_line [OF g] by (intro exI [of _ "keybase_text (username a) (topic a)"]) simp
qed (simp add: address_types_def)


text \<open>An address string of the running chain that stands for a key the curve library handles.\<close>

definition mq_key :: "('pk, 'sk, 'sig, 'x) env_scheme \<Rightarrow> 'pk \<Rightarrow> string \<Rightarrow> bool" where
  "mq_key E k pk \<longleftrightarrow> pk_ok E k \<and> public_key_to_base58_check (sha256 E) E k (version_bytes E) = Ok pk"

definition mq_domain_ok :: "string \<Rightarrow> u16 option \<Rightarrow> bool" where
  "mq_domain_ok d p \<longleftrightarrow> d \<noteq> [] \<and> list_all domain_char d \<and> p \<noteq> Some 443"

lemma version_bytes_cases: "version_bytes E = [1, 69] \<or> version_bytes E = [1, 121]"
  by (simp add: version_bytes_def GRINBOX_ADDRESS_VERSION_MAINNET_def GRINBOX_ADDRESS_VERSION_TESTNET_def)

lemma mq_key_text:
  assumes "mq_key E k pk"
  shows "length pk = 52" "list_all b58_char pk"
  using address_length [of E k "version_bytes E" "sha256 E" pk] version_bytes_cases assms
  by (auto simp: mq_key_def pk_ok_def serialize_public_key_def)

lemma mq_key_parses:
  assumes "mq_key E k pk"
  shows "public_key_from_base58_check (sha256 E) E pk (version_bytes E) = Ok k"
  using public_key_base58_check_roundtrip [of E k "version_bytes E"] version_bytes_cases [of E] assms
  by (auto simp: mq_key_def)

lemma unat_u16_less: "unat (p :: u16) < 65536"
  using unsigned_less [of p, where ?'a = nat] by simp

lemma parse_port_show: "parse_port (Some (show_nat (unat p))) = Ok (Some p)"
  by (simp add: parse_port_def from_str_radix_show_nat unat_u16_less)

lemma show_nat_digit: "list_all ascii_digit (show_nat n)"
  using show_nat_chars by (auto simp: list_all_iff ascii_digit_def)

text \<open>The suffix that \<open>Display\<close> writes, as the groups it is parsed into.\<close>

definition shown_domain :: "string \<Rightarrow> string \<Rightarrow> u16 option \<Rightarrow> string option" where
  "shown_domain dflt d p = (if d \<noteq> dflt \<or> p \<noteq> None then Some d else None)"

definition shown_port :: "u16 option \<Rightarrow> string option" where
  "shown_port p = map_option (\<lambda>p. show_nat (unat p)) p"

lemma mwcmqs_display_text:
  "mq_port a \<noteq> Some 443 \<Longrightarrow> mwcmqs_display a = ''mwcmqs://'' @
     mq_text (mq_public_key a) (shown_domain DEFAULT_MWCMQS_DOMAIN (mq_domain a) (mq_port a)) (shown_port (mq_port a))"
  by (cases "mq_port a") (auto simp: mwcmqs_display_def Let_def mq_text_def shown_domain_def shown_port_def DEFAULT_GRINBOX_PORT_def)

lemma grinbox_display_text:
  "gb_port a \<noteq> Some 443 \<Longrightarrow> grinbox_display a = ''mwcmq://'' @
     mq_text (gb_public_key a) (shown_domain DEFAULT_GRINBOX_DOMAIN (gb_domain a) (gb_port a)) (shown_port (gb_port a))"
  by (cases "gb_port a") (auto simp: grinbox_display_def Let_def mq_text_def shown_domain_def shown_port_def DEFAULT_GRINBOX_PORT_def)

lemma shown_groups:
  assumes "mq_key E k pk" and "mq_domain_ok d p"
  shows "mq_groups pk (shown_domain dflt d p) (shown_port p)"
  using mq_key_text [OF assms(1)] assms(2) show_nat_digit
  by (cases p) (auto simp: mq_groups_def mq_domain_ok_def shown_domain_def shown_port_def)

lemma mq_text_line: "mq_groups pk d p \<Longrightarrow> mq_text pk d p \<noteq> [] \<and> CHR 0x0A \<notin> set (mq_text pk d p)"
  using list_all_no_newline [of b58_char pk] list_all_no_newline [of domain_char "the d"]
    list_all_no_newline [of ascii_digit "the p"]
  by (auto simp: mq_groups_def mq_text_def char_no_newline split: option.splits)

lemma parse_shown_port: "parse_port (shown_port p) = Ok p"
  by (cases p) (auto simp: shown_port_def parse_port_show parse_port_def [of None])

lemma shown_domain_read: "(case shown_domain dflt d p of None \<Rightarrow> dflt | Some d \<Rightarrow> d) = d"
  by (simp add: shown_domain_def)

definition mwcmqs_valid :: "('pk, 'sk, 'sig, 'x) env_scheme \<Rightarrow> mwcmqs_address \<Rightarrow> bool" where
  "mwcmqs_valid E a \<longleftrightarrow> (\<exists>k. mq_key E k (mq_public_key a)) \<and> mq_domain_ok (mq_domain a) (mq_port a)"

definition grinbox_valid :: "('pk, 'sk, 'sig, 'x) env_scheme \<Rightarrow> grinbox_address \<Rightarrow> bool" where
  "grinbox_valid E a \<longleftrightarrow> (\<exists>k. mq_key E k (gb_public_key a)) \<and> mq_domain_ok (gb_domain a) (gb_port a)"

lemma mwcmqs_reads:
  assumes "mwcmqs_valid E a" and "mq_captures ''mwcmqs://'' s =
    Some (mq_public_key a, shown_domain DEFAULT_MWCMQS_DOMAIN (mq_domain a) (mq_port a), shown_port (mq_port a))"
  shows "mwcmqs_from_str E s = Ok a"
proof -
  obtain k where k: "mq_key E k (mq_public_key a)" using assms(1) by (auto simp: mwcmqs_valid_def)
  then show ?thesis
    using mq_key_parses [OF k]
    by (simp add: mwcmqs_from_str_def assms(2) parse_shown_port mwcmqs_new_def mq_key_def shown_domain_read)
qed

lemma grinbox_reads:
  assumes "grinbox_valid E a" and "mq_captures ''mwcmq://'' s =
    Some (gb_public_key a, shown_domain DEFAULT_GRINBOX_DOMAIN (gb_domain a) (gb_port a), shown_port (gb_port a))"
  shows "grinbox_from_str E s = Ok a"
proof -
  obtain k where k: "mq_key E k (gb_public_key a)" using assms(1) by (auto simp: grinbox_valid_def)
  then show ?thesis
    using mq_key_parses [OF k]
    by (simp add: grinbox_from_str_def assms(2) parse_shown_port grinbox_new_def mq_key_def shown_domain_read)
qed

interpretation mqs: printable_address "mwcmqs_from_str E" mwcmqs_display "\<lambda>_. ''mwcmqs''" "mwcmqs_valid E" for E
proof
  fix a assume v: "mwcmqs_valid E a"
  then obtain k where k: "mq_key E k (mq_public_key a)" and d: "mq_domain_ok (mq_domain a) (mq_port a)"
    by (auto simp: mwcmqs_valid_def)
  note g = shown_groups [OF k d, of DEFAULT_MWCMQS_DOMAIN]
  have t: "mwcmqs_display a = ''mwcmqs://'' @ mq_text (mq_public_key a)
    (shown_domain DEFAULT_MWCMQS_DOMAIN (mq_domain a) (mq_port a)) (shown_port (mq_port a))"
    using d by (intro mwcmqs_display_text) (simp add: mq_domain_ok_def)
  show "mwcmqs_from_str E (mwcmqs_display a) = Ok a"
    by (rule mwcmqs_reads [OF v]) (use g t mwcmqs_captures in simp)
  show "\<exists>r. mwcmqs_display a = ''mwcmqs'' @ ''://'' @ r \<and> r \<noteq> [] \<and> CHR 0x0A \<notin> set r"
    using t mq_text_line [OF g] by auto
qed (simp add: address_types_def)

interpretation gbx: printable_address "grinbox_from_str E" grinbox_display "\<lambda>_. ''mwcmq''" "grinbox_valid E" for E
proof
  fix a assume v: "grinbox_valid E a"
  then obtain k where k: "mq_key E k (gb_public_key a)" and d: "mq_domain_ok (gb_domain a) (gb_port a)"
    by (auto simp: grinbox_valid_def)
  note g = shown_groups [OF k d, of DEFAULT_GRINBOX_DOMAIN]
  have t: "grinbox_display a = ''mwcmq://'' @ mq_text (gb_public_key a)
    (shown_domain DEFAULT_GRINBOX_DOMAIN (gb_domain a) (gb_port a)) (shown_port (gb_port a))"
    using d by (intro grinbox_display_text) (simp add: mq_domain_ok_def)
  show "grinbox_from_str E (grinbox_display a) = Ok a"
    by (rule grinbox_reads [OF v]) (use g t grinbox_captures in simp)
  show "\<exists>r. grinbox_display a = ''mwcmq'' @ ''://'' @ r \<and> r \<noteq> [] \<and> CHR 0x0A \<notin> set r"
    using t mq_text_line [OF g] by auto
qed (simp add: address_types_def)

definition https_scheme :: "https_address \<Rightarrow> string" where
  "https_scheme a = (if starts_with (uri a) ''https://'' then ''https'' else ''http'')"

definition https_valid :: "('pk, 'sk, 'sig, 'x) env_scheme \<Rightarrow> https_address \<Rightarrow> bool" where
  "https_valid E a \<longleftrightarrow> url_parse E (uri a) \<and> CHR 0x0A \<notin> set (uri a) \<and>
     starts_with (uri a) (https_scheme a @ ''://'') \<and> length (https_scheme a) + 3 < length (uri a)"

interpretation hts: printable_address "https_from_str E" https_display https_scheme "https_valid E" for E
proof
  fix a assume v: "https_valid E a"
  then obtain r where r: "uri a = https_scheme a @ ''://'' @ r"
    by (auto simp: https_valid_def starts_with_iff)
  show "https_from_str E (https_display a) = Ok a"
    using v by (simp add: https_valid_def https_from_str_def https_display_def)
  show "\<exists>r. https_display a = https_scheme a @ ''://'' @ r \<and> r \<noteq> [] \<and> CHR 0x0A \<notin> set r"
    using v r by (intro exI [of _ r]) (auto simp: https_valid_def https_display_def)
  show "https_scheme a \<in> set address_types" by (simp add: https_scheme_def address_types_def)
qed

fun address_valid :: "('pk, 'sk, 'sig, 'x) env_scheme \<Rightarrow> dyn_address \<Rightarrow> bool" where
  "address_valid E (AKeybase a) = keybase_valid a"
| "address_valid E (AMWCMQS a) = mwcmqs_valid E a"
| "address_valid E (AGrinbox a) = grinbox_valid E a"
| "address_valid E (AHttps a) = https_valid E a"

lemma address_parse_display: "address_valid E a \<Longrightarrow> address_parse E (address_display a) = Ok a"
proof (cases a)
  case (AHttps x)
  assume "address_valid E a"
  then show ?thesis using hts.captures_display [of E x] hts.from_str_display [of E x] AHttps
    by (auto simp: address_parse_def https_scheme_def)
qed (auto simp: address_parse_def kb.captures_display mqs.captures_display gbx.captures_display
    kb.from_str_display mqs.from_str_display gbx.from_str_display)


section \<open>Stripped addresses\<close>

lemma mq_text_boundary:
  assumes "mq_groups pk d p" and "length scheme = n"
  shows "str_slice (scheme @ mq_text pk d p) n (length (scheme @ mq_text pk d p)) = Ok (mq_text pk d p)"
proof -
  have c: "graphic c" if "b58_char c" for c
  proof -
    have "list_all graphic ALPHABET" by code_simp
    then show ?thesis using that by (auto simp: b58_char_def list_all_iff)
  qed
  have "is_char_boundary (scheme @ mq_text pk d p) (length scheme)"
  proof -
    have "pk \<noteq> []" "graphic (pk ! 0)"
      using assms(1) c by (auto simp: mq_groups_def list_all_length)
    then show ?thesis by (simp add: is_char_boundary_def mq_text_def nth_append graphic_def)
  qed
  then show ?thesis using assms(2) by (auto simp: str_slice_def) (simp add: is_char_boundary_def)
qed

lemma mwcmqs_stripped_reads:
  assumes "mwcmqs_valid E a"
  shows "\<exists>s. mwcmqs_stripped a = Ok s \<and> mwcmqs_display a = ''mwcmqs://'' @ s \<and> mwcmqs_from_str E s = Ok a"
proof -
  obtain k where k: "mq_key E k (mq_public_key a)" and d: "mq_domain_ok (mq_domain a) (mq_port a)"
    using assms by (auto simp: mwcmqs_valid_def)
  note g = shown_groups [OF k d, of DEFAULT_MWCMQS_DOMAIN]
  let ?s = "mq_text (mq_public_key a) (shown_domain DEFAULT_MWCMQS_DOMAIN (mq_domain a) (mq_port a)) (shown_port (mq_port a))"
  have t: "mwcmqs_display a = ''mwcmqs://'' @ ?s"
    using d by (intro mwcmqs_display_text) (simp add: mq_domain_ok_def)
  have "mwcmqs_stripped a = Ok ?s"
    unfolding mwcmqs_stripped_def t by (rule mq_text_boundary [OF g]) simp
  moreover have "mwcmqs_from_str E ?s = Ok a"
    by (rule mwcmqs_reads [OF assms]) (use g mwcmqs_captures in simp)
  ultimately show ?thesis using t by blast
qed

lemma grinbox_stripped_reads:
  assumes "grinbox_valid E a"
  shows "\<exists>s. grinbox_stripped a = Ok s \<and> grinbox_display a = ''mwcmq://'' @ s \<and> grinbox_from_str E s = Ok a"
proof -
  obtain k where k: "mq_key E k (gb_public_key a)" and d: "mq_domain_ok (gb_domain a) (gb_port a)"
    using assms by (auto simp: grinbox_valid_def)
  note g = shown_groups [OF k d, of DEFAULT_GRINBOX_DOMAIN]
  let ?s = "mq_text (gb_public_key a) (shown_domain DEFAULT_GRINBOX_DOMAIN (gb_domain a) (gb_port a)) (shown_port (gb_port a))"
  have t: "grinbox_display a = ''mwcmq://'' @ ?s"
    using d by (intro grinbox_display_text) (simp add: mq_domain_ok_def)
  have "grinbox_stripped a = Ok ?s"
    unfolding grinbox_stripped_def t by (rule mq_text_boundary [OF g]) simp
  moreover have "grinbox_from_str E ?s = Ok a"
    by (rule grinbox_reads [OF assms]) (use g grinbox_captures in simp)
  ultimately show ?thesis using t by blast
qed

lemma port_443_forgotten:
  assumes "mq_key E k (mq_public_key a)" and "mq_domain_ok (mq_domain a) None"
  shows "mwcmqs_from_str E (mwcmqs_display (a\<lparr>mq_port := Some 443\<rparr>)) = Ok (a\<lparr>mq_port := None\<rparr>)"
proof -
  have "mwcmqs_display (a\<lparr>mq_port := Some 443\<rparr>) = mwcmqs_display (a\<lparr>mq_port := None\<rparr>)"
    by (simp add: mwcmqs_display_def Let_def DEFAULT_GRINBOX_PORT_def)
  then show ?thesis using assms by (auto intro!: mqs.from_str_display simp: mwcmqs_valid_def)
qed

text \<open>A port text that is no \<open>u16\<close> kills the caller, before the key is even looked at.\<close>

lemma bad_port_panics:
  assumes "mq_groups pk (Some d) (Some p)" and "from_str_radix 10 65536 p = None"
  shows "mwcmqs_from_str E (''mwcmqs://'' @ mq_text pk (Some d) (Some p)) = Panic"
    "grinbox_from_str E (''mwcmq://'' @ mq_text pk (Some d) (Some p)) = Panic"
proof -
  have "mq_captures ''mwcmqs://'' (''mwcmqs://'' @ mq_text pk (Some d) (Some p)) = Some (pk, Some d, Some p)"
    "mq_captures ''mwcmq://'' (''mwcmq://'' @ mq_text pk (Some d) (Some p)) = Some (pk, Some d, Some p)"
    using assms(1) mwcmqs_captures grinbox_captures by simp_all
  then show "mwcmqs_from_str E (''mwcmqs://'' @ mq_text pk (Some d) (Some p)) = Panic"
    "grinbox_from_str E (''mwcmq://'' @ mq_text pk (Some d) (Some p)) = Panic"
    using assms(2) by (simp_all add: mwcmqs_from_str_def grinbox_from_str_def parse_port_def)
qed

section \<open>Properties\<close>

text \<open>A concrete environment for the witnesses: keys are their own 33 bytes.\<close>

definition demo_env :: "(bytes, bytes, bytes) env" where
  "demo_env =
     \<lparr>pk_from_slice = (\<lambda>bs. if length bs = 33 then Some bs else None), pk_serialize_vec = (\<lambda>k. k),
      sig_from_der = Some, sig_serialize_der = (\<lambda>g. g), sk_from_slice = Some, sk_bytes = (\<lambda>k. k),
      commit_from_vec = (\<lambda>c. c), pk_from_secret_key = Some, message_from_slice = Ok,
      secp_sign = (\<lambda>m k. Some (m @ k)), secp_verify = (\<lambda>m g k. g = m @ k),
      pk_mul_assign = (\<lambda>p s. Some (map2 (+) p s)),
      sha256 = (\<lambda>_. replicate 32 0), is_mainnet = True, url_parse = (\<lambda>s. CHR '':'' \<in> set s)\<rparr>"

definition demo_key :: bytes where
  "demo_key = 2 # replicate 32 7"

definition demo_pk :: string where
  "demo_pk = b58_encode ([1, 69] @ demo_key @ [0, 0, 0, 0])"

lemma demo_mq_key: "mq_key demo_env demo_key demo_pk"
proof -
  have d: "take 4 (double_sha256 (sha256 demo_env) bs) = [0, 0, 0, 0]"
    "length (double_sha256 (sha256 demo_env) bs) = 32" for bs
    by (simp_all add: double_sha256_def demo_env_def numeral_eq_Suc)
  have "length demo_key = 33" by (simp add: demo_key_def)
  moreover have "public_key_to_base58_check (sha256 demo_env) demo_env demo_key (version_bytes demo_env) = Ok demo_pk"
    unfolding public_key_to_base58_check_def
    by (subst to_base58_check_Ok) (simp_all add: d demo_pk_def version_bytes_def serialize_public_key_def
      GRINBOX_ADDRESS_VERSION_MAINNET_def, simp add: demo_env_def)
  ultimately show ?thesis by (simp add: mq_key_def pk_ok_def) (simp add: demo_env_def)
qed

text \<open>
  C10: a well-formed address of any of the four types, printed by \<open>Display\<close>, is parsed by
  \<open>Address::parse\<close> to the same address: the scheme selects the right type, and domain, port,
  topic and key survive.
\<close>

theorem address_roundtrip:
  assumes "address_valid E a"
  shows "address_parse E (address_display a) = Ok a"
  using assms by (rule address_parse_display)

theorem address_roundtrip_witness:
  "address_parse demo_env
     (''mwcmqs://'' @ demo_pk @ ''@mqs.mwc.mw:8080'') =
   Ok (AMWCMQS \<lparr>mq_public_key = demo_pk,
     mq_domain = ''mqs.mwc.mw'', mq_port = Some 8080\<rparr>)"
proof -
  let ?a = "AMWCMQS \<lparr>mq_public_key = demo_pk,
     mq_domain = ''mqs.mwc.mw'', mq_port = Some 8080\<rparr>"
  have "mq_domain_ok ''mqs.mwc.mw'' (Some 8080)" by code_simp
  then have "address_valid demo_env ?a"
    using demo_mq_key by (auto simp: mwcmqs_valid_def)
  moreover have "address_display ?a = ''mwcmqs://'' @ demo_pk @ ''@mqs.mwc.mw:8080''"
  proof -
    have "show_nat (unat (8080 :: u16)) = ''8080''" by code_simp
    then show ?thesis by (simp add: mwcmqs_display_def DEFAULT_GRINBOX_PORT_def)
  qed
  ultimately show ?thesis using address_roundtrip [of demo_env ?a] by simp
qed

text \<open>
  The stripped form of a message-queue address (no scheme) is read back by the
  \<open>from_str\<close> of its type.
\<close>

theorem stripped_roundtrip:
  "(mwcmqs_valid E a \<longrightarrow> (\<exists>s. mwcmqs_stripped a = Ok s \<and> mwcmqs_from_str E s = Ok a)) \<and>
   (grinbox_valid E b \<longrightarrow> (\<exists>s. grinbox_stripped b = Ok s \<and> grinbox_from_str E s = Ok b))"
  using mwcmqs_stripped_reads [of E a] grinbox_stripped_reads [of E b] by blast

theorem stripped_roundtrip_witness:
  "\<exists>s. grinbox_stripped \<lparr>gb_public_key = demo_pk,
       gb_domain = ''mq.mwc.mw'', gb_port = None\<rparr> = Ok s \<and>
     grinbox_from_str demo_env s = Ok \<lparr>gb_public_key = demo_pk,
       gb_domain = ''mq.mwc.mw'', gb_port = None\<rparr>"
proof -
  let ?b = "\<lparr>gb_public_key = demo_pk,
       gb_domain = ''mq.mwc.mw'', gb_port = None\<rparr>"
  have "mq_domain_ok ''mq.mwc.mw'' None" by code_simp
  then have "grinbox_valid demo_env ?b" using demo_mq_key by (auto simp: grinbox_valid_def)
  then show ?thesis using stripped_roundtrip [of demo_env _ ?b] by blast
qed

text \<open>
  C27: the chains are kept apart: the text of a key written on one chain is refused on the
  other one, with \<open>InvalidBase58Version\<close>, whatever domain and port follow it.
\<close>

theorem network_separation:
  assumes "mq_key E k pk" and "mq_groups pk d p" and "parse_port p = Ok port"
  shows "mwcmqs_from_str (E\<lparr>is_mainnet := \<not> is_mainnet E\<rparr>) (mq_text pk d p) = fail InvalidBase58Version"
proof -
  let ?E = "E\<lparr>is_mainnet := \<not> is_mainnet E\<rparr>"
  have v: "version_bytes ?E \<noteq> version_bytes E" "length (version_bytes ?E) = length (version_bytes E)"
    "length (version_bytes E) \<le> 95"
    by (simp_all add: version_bytes_def GRINBOX_ADDRESS_VERSION_MAINNET_def
        GRINBOX_ADDRESS_VERSION_TESTNET_def)
  have k: "length (pk_serialize_vec E k) = 33"
    "public_key_to_base58_check (sha256 E) E k (version_bytes E) = Ok pk"
    using assms(1) by (simp_all add: mq_key_def pk_ok_def)
  have "public_key_from_base58_check (sha256 E) E pk (version_bytes ?E) = fail InvalidBase58Version"
    by (rule public_key_wrong_version [OF k(1) v(3) k(2) v(2) v(1)])
  then have "public_key_from_base58_check (sha256 ?E) ?E pk (version_bytes ?E) = fail InvalidBase58Version"
    by (simp add: public_key_from_base58_check_def cong: if_cong)
  then show ?thesis using assms(2,3) mwcmqs_captures [of "mq_text pk d p" pk d p]
    by (simp add: mwcmqs_from_str_def)
qed

theorem network_separation_witness:
  "mwcmqs_from_str (demo_env\<lparr>is_mainnet := False\<rparr>)
     demo_pk = fail InvalidBase58Version"
proof -
  have "mq_groups demo_pk None None" "parse_port None = Ok None"
    using mq_key_text [OF demo_mq_key] by (simp_all add: mq_groups_def parse_port_def)
  from network_separation [OF demo_mq_key this] show ?thesis
    by (simp add: mq_text_def demo_env_def)
qed

text \<open>
  An address text that matches the regular expression but whose port is no \<open>u16\<close> (an
  empty port included: the expression allows \<open>[0-9]*\<close>) panics in \<open>unwrap\<close> instead of
  returning an error; the key is not even looked at. Addresses come from other parties.
\<close>

theorem address_port_panics:
  assumes "mq_groups pk (Some d) (Some p)" and "from_str_radix 10 65536 p = None"
  shows "mwcmqs_from_str E (''mwcmqs://'' @ mq_text pk (Some d) (Some p)) = Panic \<and>
    grinbox_from_str E (''mwcmq://'' @ mq_text pk (Some d) (Some p)) = Panic"
  using bad_port_panics [OF assms] ..

theorem address_port_panics_witness:
  "mwcmqs_from_str demo_env
     (''mwcmqs://'' @ replicate 52 CHR ''1'' @ ''@a:'') = Panic \<and>
   mwcmqs_from_str demo_env
     (''mwcmqs://'' @ replicate 52 CHR ''1'' @ ''@a:65536'') = Panic"
proof -
  let ?k = "replicate 52 CHR ''1''"
  have "mq_groups ?k (Some ''a'') (Some [])" "from_str_radix 10 65536 [] = None"
    "mq_groups ?k (Some ''a'') (Some ''65536'')" "from_str_radix 10 65536 ''65536'' = None"
    by code_simp+
  from address_port_panics [OF this(1,2), of demo_env] address_port_panics [OF this(3,4), of demo_env]
  show ?thesis by (simp add: mq_text_def)
qed

end
