(* ===== verification/Config.thy ===== *)
theory Config
  imports Addresses
begin

text \<open>
  \<open>src/src/common/config.rs\<close> (the wallet's configuration, its defaults, files and paths)
  and \<open>do_config\<close> of \<open>src/src/main.rs\<close>. TOML, the home and current directory and the short
  name of a chain are fields of \<open>cfg_env\<close>; files are the state \<open>fs\<close>. Fields marked
  \<open>serde(skip)\<close> are not part of the file. \<open>cfg!(windows)\<close> is taken as false.
\<close>

section \<open>The code\<close>

datatype chain_types = AutomatedTesting | UserTesting | Floonet | Mainnet

definition WALLET713_HOME :: string where
  "WALLET713_HOME = ''.mwc713''"

definition WALLET713_DEFAULT_CONFIG_FILENAME :: string where
  "WALLET713_DEFAULT_CONFIG_FILENAME = ''wallet713.toml''"

record 'sk wallet713_config =
  chain :: chain_types
  wallet713_data_path :: string
  keybase_binary :: "string option"
  mwcmq_domain :: "string option"
  mwcmq_port :: "u16 option"
  mwcmqs_domain :: "string option"
  mwcmqs_port :: "u16 option"
  grinbox_protocol_unsecure :: "bool option"
  grinbox_address_index :: "u32 option"
  mwc_node_uri :: "string option"
  mwc_node_secret :: "string option"
  grinbox_listener_auto_start :: "bool option"
  keybase_listener_auto_start :: "bool option"
  max_auto_accept_invoice :: "u64 option"
  default_keybase_ttl :: "string option"
  owner_api :: "bool option"
  owner_api_address :: "string option"
  owner_api_secret :: "string option"
  owner_api_include_foreign :: "bool option"
  foreign_api :: "bool option"
  disable_history :: "bool option"
  foreign_api_address :: "string option"
  foreign_api_secret :: "string option"
  tls_certificate_file :: "string option"
  tls_certificate_key :: "string option"
  config_home :: "string option"
  grinbox_address_key :: "'sk option"
  wallet_updater_frequency_sec :: "u32 option"

definition WALLET713_CONFIG_HELP :: string where
  "WALLET713_CONFIG_HELP = str_join [CHR 0x0A]
     [''#########################################'',
      ''### WALLET 713 CONFIGURATION          ###'',
      ''#########################################'',
      [],
      ''# Blockcahin to use: '' @ [CHR 0x27] @ ''Mainnet'' @ [CHR 0x27] @ '' or '' @ [CHR 0x27] @ ''Floonet'' @ [CHR 0x27],
      ''# chain = '' @ [CHR 0x22] @ ''Floonet'' @ [CHR 0x22],
      [],
      ''# Path for mwc713 wallet data'',
      ''# wallet713_data_path = '' @ [CHR 0x22] @ ''wallet713_data'' @ [CHR 0x22],
      [],
      ''# Path to the keybase binary'',
      ''# keybase_binary = '' @ [CHR 0x22] @ ''keybase'' @ [CHR 0x22],
      [],
      ''# Legacy Grin Box connection URI. Depricated unsecure method of communication, not recommended for usage'',
      ''# If you decided to use it, specify URI.'',
      ''# mwcmq_domain = '' @ [CHR 0x22] @ ''legacy.grin.box'' @ [CHR 0x22],
      ''# mwcmq_port   = 443'',
      [],
      ''# Use SSL for Legacy Grin Box connection.'',
      ''# grinbox_protocol_unsecure = false'',
      [],
      ''# MWC MQS connection settings. By default mwc713 using thhis method for communication.'',
      ''# mwcmqs_domain: mqs.mwc.mw'',
      ''# mwcmqs_port: 443'',
      [],
      ''# MWC MQS/GrinBox address defive index. Every new index will give you a new address that will be used for'',
      ''# communication with message queue'',
      ''# grinbox_address_index = 1'',
      [],
      ''# MWC node connection URI. Please make sure that you are connecting to the node from correct network.'',
      ''# mwc_node_uri = '' @ [CHR 0x22] @ ''https://mwc713.floonet.mwc.mw'' @ [CHR 0x22],
      [],
      ''# MWC node secret'',
      ''# mwc_node_secret = '' @ [CHR 0x22] @ ''11ne3EAUtOXVKwhxm84U'' @ [CHR 0x22],
      [],
      ''# Start Message Queue listener automatically if wallet password was provided at start.'',
      ''# grinbox_listener_auto_start = true'',
      [],
      ''# Start KeyBase listener automatically if wallet password was provided at start.'',
      ''# keybase_listener_auto_start = true'',
      [],
      ''# Specify maximum amount in nano MWC if you want this wallet automatically accept invoices.'',
      ''# Example for 5 MWCs:  max_auto_accept_invoice = 50000000000'',
      ''# Note! Change it if you really understand what you are going!'',
      ''# max_auto_accept_invoice ='',
      [],
      ''# KetBase TTL period'',
      ''# default_keybase_ttl = '' @ [CHR 0x22] @ ''24h'' @ [CHR 0x22],
      [],
      ''# Enable Owner API for this wallet. See for details: https://github.com/mwcproject/mwc713/blob/master/docs/API_documentation.md'',
      ''# owner_api = false'',
      [],
      ''# Owner API listening address. If you want accept connections from'',
      ''# the Internet, please make it '' @ [CHR 0x22] @ ''0.0.0.0:13415'' @ [CHR 0x22],
      ''# owner_api_address = '' @ [CHR 0x22] @ ''127.0.0.1:13415'' @ [CHR 0x22],
      [],
      ''# Owner API secret. REST API call required basic authorization with this secret (user: mwc).'',
      ''# owner_api_secret = '' @ [CHR 0x22] @ ''my_secret_password'' @ [CHR 0x22],
      [],
      ''# Include the foreign API endpoints on the same port as the owner'',
      ''# API. Useful for networking environments like AWS ECS that make'',
      ''# it difficult to access multiple ports on a single service.'',
      ''# owner_api_include_foreign = false'',
      [],
      ''# Enable Foreign API for this wallet. See for details: https://github.com/mwcproject/mwc713/blob/master/docs/API_documentation.md'',
      ''# Note! Use this setting if you disable Owner API. Otherwise concider to use '' @ [CHR 0x27] @ ''owner_api_include_foreign'' @ [CHR 0x27] @ '' setting'',
      ''# foreign_api = false'',
      [],
      ''# Foreign API listening address. If you want accept connections from'',
      ''# the Internet, please make it '' @ [CHR 0x22] @ ''0.0.0.0:13416'' @ [CHR 0x22],
      ''# foreign_api_address = '' @ [CHR 0x22] @ ''127.0.0.1:13416'' @ [CHR 0x22],
      [],
      ''# Foreign API secret. REST API call required basic authorization with this secret (user: mwc).'',
      ''# foreign_api_secret = '' @ [CHR 0x22] @ ''my_secret_password'' @ [CHR 0x22],
      [],
      ''# Disable logging history of your mwc713 commands. Recommended for stronger security.'',
      ''# Also you can disable history with command line argument '' @ [CHR 0x27] @ ''--disable-history'' @ [CHR 0x27],
      ''# disable_history = false'',
      [],
      [],
      ''# If enabled both tls_certificate_file and tls_certificate_key, TSL will be applicable to all rest API'',
      ''# Paths to TLS certificate files:'',
      ''# tls_certificate_file = '' @ [CHR 0x22] @ ''path to TLS certificate file'' @ [CHR 0x22],
      ''# tls_certificate_key = '' @ [CHR 0x22] @ ''path to TLS certificate private key file'' @ [CHR 0x22],
      [],
      ''# Wallet state update frequency. In none, no updates will be run in the background.'',
      ''# If will be set, will run '' @ [CHR 0x27] @ ''sync'' @ [CHR 0x27] @ '' command with defined time interval'',
      ''# wallet_updater_frequency_sec ='',
      [],
      []]"

definition config_default :: "chain_types \<Rightarrow> 'sk wallet713_config" where
  "config_default c =
     \<lparr>chain = c, wallet713_data_path = ''wallet713_data'', keybase_binary = None, mwcmq_domain = None,
      mwcmq_port = None, mwcmqs_domain = None, mwcmqs_port = None, grinbox_protocol_unsecure = None,
      grinbox_address_index = None, mwc_node_uri = None, mwc_node_secret = None,
      grinbox_listener_auto_start = None, keybase_listener_auto_start = None,
      max_auto_accept_invoice = None, default_keybase_ttl = Some ''24h'', owner_api = None,
      owner_api_address = None, owner_api_secret = None, owner_api_include_foreign = Some False,
      foreign_api = None, disable_history = None, foreign_api_address = None, foreign_api_secret = None,
      tls_certificate_file = None, tls_certificate_key = None, config_home = None,
      grinbox_address_key = None, wallet_updater_frequency_sec = None\<rparr>"

text \<open>\<open>Option::unwrap_or\<close>.\<close>

definition unwrap_or :: "'a option \<Rightarrow> 'a \<Rightarrow> 'a" where
  "unwrap_or x d = (case x of None \<Rightarrow> d | Some v \<Rightarrow> v)"

subsection \<open>Files\<close>

record 'sk cfg_env =
  home_dir :: "string option"
  current_dir :: "string res"
  shortname :: "chain_types \<Rightarrow> string"
  toml_to_string :: "'sk wallet713_config \<Rightarrow> string res"
  toml_from_str :: "string \<Rightarrow> 'sk wallet713_config res"

type_synonym 'a fio = "(err, fs, 'a) io"

abbreviation io_error :: "err" where
  "io_error \<equiv> Foreign ''io error''"

definition create_dir_all :: "string \<Rightarrow> unit fio" where
  "create_dir_all d = (\<lambda>w. if denied w d then (Err io_error, w) else (Ok (), w\<lparr>dirs := d # dirs w\<rparr>))"

definition read_file :: "string \<Rightarrow> string fio" where
  "read_file p = (\<lambda>w. case files w p of
     None \<Rightarrow> (Err io_error, w) | Some s \<Rightarrow> if denied w p then (Err io_error, w) else (Ok s, w))"

text \<open>\<open>File::create\<close> followed by \<open>write_all\<close>.\<close>

definition write_file :: "string \<Rightarrow> string \<Rightarrow> unit fio" where
  "write_file p s = (\<lambda>w. if denied w p then (Err io_error, w) else (Ok (), w\<lparr>files := (files w)(p \<mapsto> s)\<rparr>))"

definition default_home_path :: "'sk cfg_env \<Rightarrow> chain_types \<Rightarrow> string fio" where
  "default_home_path V c =
     io_bind (io_lift (case home_dir V of Some home \<Rightarrow> Ok home | None \<Rightarrow> current_dir V)) (\<lambda>path.
     let path = path_join (path_join path WALLET713_HOME) (shortname V c)
     in io_bind (create_dir_all path) (\<lambda>_. io_return path))"

definition default_config_path :: "'sk cfg_env \<Rightarrow> chain_types \<Rightarrow> string fio" where
  "default_config_path V c =
     io_bind (default_home_path V c) (\<lambda>path. io_return (path_join path WALLET713_DEFAULT_CONFIG_FILENAME))"

definition config_exists :: "'sk cfg_env \<Rightarrow> string option \<Rightarrow> chain_types \<Rightarrow> bool fio" where
  "config_exists V config_path c =
     io_bind (default_config_path V c) (\<lambda>default_path.
     io_bind io_get (\<lambda>w. io_return (files w (unwrap_or config_path default_path) \<noteq> None)))"

definition config_from_file :: "'sk cfg_env \<Rightarrow> string option \<Rightarrow> chain_types \<Rightarrow> 'sk wallet713_config fio" where
  "config_from_file V config_path c =
     io_bind (default_config_path V c) (\<lambda>default_path.
     let config_path = unwrap_or config_path default_path
     in io_bind (read_file config_path) (\<lambda>toml_str.
        io_bind (io_lift (toml_from_str V toml_str)) (\<lambda>config.
        io_return (config\<lparr>config_home := Some config_path\<rparr>))))"

text \<open>Returns the configuration with the home that the method records in \<open>self\<close>.\<close>

definition config_to_file :: "'sk cfg_env \<Rightarrow> 'sk wallet713_config \<Rightarrow> string option \<Rightarrow> 'sk wallet713_config fio" where
  "config_to_file V self config_path =
     io_bind (default_config_path V (chain self)) (\<lambda>default_path.
     let config_path = unwrap_or config_path default_path
     in io_bind (io_lift (toml_to_string V self)) (\<lambda>toml_str.
        io_bind (write_file config_path (WALLET713_CONFIG_HELP @ toml_str)) (\<lambda>_.
        io_return (self\<lparr>config_home := Some config_path\<rparr>))))"

subsection \<open>Getters\<close>

definition cfg_disable_history :: "'sk wallet713_config \<Rightarrow> bool" where
  "cfg_disable_history self = unwrap_or (disable_history self) False"

definition cfg_grinbox_protocol_unsecure :: "'sk wallet713_config \<Rightarrow> bool" where
  "cfg_grinbox_protocol_unsecure self = unwrap_or (grinbox_protocol_unsecure self) False"

definition get_mwcmq_domain :: "'sk wallet713_config \<Rightarrow> string" where
  "get_mwcmq_domain self = unwrap_or (mwcmq_domain self) ''mq.mwc.mw''"

definition cfg_mwcmqs_domain :: "'sk wallet713_config \<Rightarrow> string" where
  "cfg_mwcmqs_domain self = unwrap_or (mwcmqs_domain self) ''mqs.mwc.mw''"

definition cfg_mwcmqs_port :: "'sk wallet713_config \<Rightarrow> u16" where
  "cfg_mwcmqs_port self = unwrap_or (mwcmqs_port self) 443"

definition cfg_grinbox_address_index :: "'sk wallet713_config \<Rightarrow> u32" where
  "cfg_grinbox_address_index self = unwrap_or (grinbox_address_index self) 0"

definition get_grinbox_secret_key :: "'sk wallet713_config \<Rightarrow> 'sk res" where
  "get_grinbox_secret_key self = of_option (Kind NoWallet) (grinbox_address_key self)"

definition get_mwcmqs_secret_key :: "'sk wallet713_config \<Rightarrow> 'sk res" where
  "get_mwcmqs_secret_key self = of_option (Kind NoWallet) (grinbox_address_key self)"

definition get_grinbox_public_key ::
  "('pk, 'sk, 'sig, 'x) env_scheme \<Rightarrow> 'sk wallet713_config \<Rightarrow> 'pk res" where
  "get_grinbox_public_key E self = obind (get_grinbox_secret_key self) (public_key_from_secret_key E)"

definition get_grinbox_address ::
  "('pk, 'sk, 'sig, 'x) env_scheme \<Rightarrow> 'sk wallet713_config \<Rightarrow> grinbox_address res" where
  "get_grinbox_address E self =
     obind (get_grinbox_public_key E self) (\<lambda>pk.
       grinbox_new E pk (Some (get_mwcmq_domain self)) (mwcmq_port self))"

definition get_mwcmqs_address ::
  "('pk, 'sk, 'sig, 'x) env_scheme \<Rightarrow> 'sk wallet713_config \<Rightarrow> mwcmqs_address res" where
  "get_mwcmqs_address E self =
     obind (get_grinbox_public_key E self) (\<lambda>pk.
       mwcmqs_new E pk (Some (cfg_mwcmqs_domain self)) (mwcmqs_port self))"

definition get_data_path :: "'sk wallet713_config \<Rightarrow> string" where
  "get_data_path self =
     (let p = path_join [] (wallet713_data_path self)
      in if starts_with p ''/'' then p
         else path_join
           (path_pop (path_join [] (unwrap_or (config_home self) WALLET713_DEFAULT_CONFIG_FILENAME)))
           (wallet713_data_path self))"

definition get_data_path_str :: "'sk wallet713_config \<Rightarrow> string res" where
  "get_data_path_str self = Ok (get_data_path self)"

definition get_top_level_directory :: "'sk wallet713_config \<Rightarrow> string res" where
  "get_top_level_directory self = (case path_parent (get_data_path self) of None \<Rightarrow> Panic | Some d \<Rightarrow> Ok d)"

definition get_wallet_data_directory :: "'sk wallet713_config \<Rightarrow> string res" where
  "get_wallet_data_directory self = (case path_file_name (get_data_path self) of None \<Rightarrow> Panic | Some d \<Rightarrow> Ok d)"

definition cfg_mwc_node_uri :: "'sk wallet713_config \<Rightarrow> string" where
  "cfg_mwc_node_uri self = unwrap_or (mwc_node_uri self)
     (if chain self = Mainnet then ''https://mwc713.mwc.mw'' else ''https://mwc713.floonet.mwc.mw'')"

definition cfg_mwc_node_secret :: "'sk wallet713_config \<Rightarrow> string option" where
  "cfg_mwc_node_secret self =
     (case mwc_node_uri self of Some _ \<Rightarrow> mwc_node_secret self | None \<Rightarrow> Some ''11ne3EAUtOXVKwhxm84U'')"

definition cfg_grinbox_listener_auto_start :: "runtime_mode \<Rightarrow> 'sk wallet713_config \<Rightarrow> bool" where
  "cfg_grinbox_listener_auto_start mode self = unwrap_or (grinbox_listener_auto_start self) (is_cli mode)"

definition cfg_keybase_listener_auto_start :: "'sk wallet713_config \<Rightarrow> bool" where
  "cfg_keybase_listener_auto_start self = unwrap_or (keybase_listener_auto_start self) False"

definition cfg_owner_api_address :: "'sk wallet713_config \<Rightarrow> string" where
  "cfg_owner_api_address self = unwrap_or (owner_api_address self)
     (if chain self = Mainnet then ''127.0.0.1:3420'' else ''127.0.0.1:13420'')"

definition cfg_foreign_api_address :: "'sk wallet713_config \<Rightarrow> string" where
  "cfg_foreign_api_address self = unwrap_or (foreign_api_address self)
     (if chain self = Mainnet then ''127.0.0.1:3415'' else ''127.0.0.1:13415'')"

definition cfg_owner_api :: "'sk wallet713_config \<Rightarrow> bool" where
  "cfg_owner_api self = unwrap_or (owner_api self) False"

definition cfg_foreign_api :: "'sk wallet713_config \<Rightarrow> bool" where
  "cfg_foreign_api self = unwrap_or (foreign_api self) False"

definition is_tls_enabled :: "'sk wallet713_config \<Rightarrow> bool" where
  "is_tls_enabled self \<longleftrightarrow> tls_certificate_file self \<noteq> None \<and> tls_certificate_key self \<noteq> None"

definition config_display :: "'sk wallet713_config \<Rightarrow> string" where
  "config_display self = str_join [CHR 0x0A]
     [''wallet713_data_path='' @ wallet713_data_path self,
      ''mwcmq_port='' @ show_nat (unat (unwrap_or (mwcmq_port self) DEFAULT_GRINBOX_PORT)),
      ''mwc_node_uri='' @ unwrap_or (mwc_node_uri self) ''provided by vault713'',
      ''mwc_node_secret={...}'']"

datatype config_error =
  ParseError string string | FileIOError string string | FileNotFoundError string | SerializationError string

fun config_error_display :: "config_error \<Rightarrow> string" where
  "config_error_display (ParseError file_name message) =
     ''Error parsing configuration file at '' @ file_name @ '' - '' @ message"
| "config_error_display (FileIOError file_name message) = message @ '' '' @ file_name"
| "config_error_display (FileNotFoundError file_name) = ''Configuration file not found: '' @ file_name"
| "config_error_display (SerializationError message) = ''Error serializing configuration: '' @ message"

definition config_error_from_io :: "string \<Rightarrow> config_error" where
  "config_error_from_io error = FileIOError [] (''Error loading config file: '' @ error)"

subsection \<open>The config command\<close>

record config_args =
  ca_data_path :: "string option"
  ca_domain :: "string option"
  ca_port :: "string option"
  ca_node_uri :: "string option"
  ca_node_secret :: "string option"

text \<open>\<open>if let Some(v) = args.value_of(..) { config.field = v; any_matches = true; }\<close>.\<close>

definition set_arg :: "'a option \<Rightarrow> ('a \<Rightarrow> 'c \<Rightarrow> 'c) \<Rightarrow> 'c \<times> bool \<Rightarrow> 'c \<times> bool" where
  "set_arg x f cm = (case x of None \<Rightarrow> cm | Some v \<Rightarrow> (f v (fst cm), True))"

text \<open>The assignments of \<open>do_config\<close>; the flag is \<open>any_matches\<close>.\<close>

definition apply_config_args ::
  "config_args \<Rightarrow> u32 option \<Rightarrow> 'sk wallet713_config \<times> bool \<Rightarrow> ('sk wallet713_config \<times> bool) res" where
  "apply_config_args args new_address_index cm =
     (let cm = set_arg (ca_data_path args) (\<lambda>p c. c\<lparr>wallet713_data_path := p\<rparr>) cm;
          cm = set_arg (ca_domain args) (\<lambda>d c. c\<lparr>mwcmq_domain := Some d\<rparr>) cm
      in obind (case ca_port args of
            None \<Rightarrow> Ok None
          | Some p \<Rightarrow> (case from_str_radix 10 65536 p of
              None \<Rightarrow> fail NumberParsingError | Some n \<Rightarrow> Ok (Some (of_nat n)))) (\<lambda>port.
         let cm = set_arg port (\<lambda>p c. c\<lparr>mwcmq_port := Some p\<rparr>) cm;
             cm = set_arg (ca_node_uri args) (\<lambda>u c. c\<lparr>mwc_node_uri := Some u\<rparr>) cm;
             cm = set_arg (ca_node_secret args) (\<lambda>s c. c\<lparr>mwc_node_secret := Some s\<rparr>) cm
         in Ok (set_arg new_address_index (\<lambda>i c. c\<lparr>grinbox_address_index := Some i\<rparr>) cm)))"

definition do_config ::
  "'sk cfg_env \<Rightarrow> config_args \<Rightarrow> chain_types \<Rightarrow> u32 option \<Rightarrow> string option \<Rightarrow> 'sk wallet713_config fio" where
  "do_config V args c new_address_index config_path =
     io_bind (config_exists V config_path c) (\<lambda>exists.
     io_bind (if exists then config_from_file V config_path c else io_return (config_default c)) (\<lambda>config.
     io_bind (io_lift (apply_config_args args new_address_index (config, \<not> exists))) (\<lambda>(config, any_matches).
     if any_matches then config_to_file V config config_path else io_return config)))"

section \<open>Reading back what was written\<close>

lemma default_config_path_keeps:
  assumes "default_config_path V c w = (r, w')"
  shows "files w' = files w \<and> denied w' = denied w"
  using assms unfolding default_config_path_def default_home_path_def create_dir_all_def Let_def io_bind_def
    io_lift_def io_return_def
  by (auto split: prod.splits outcome.splits if_splits)

text \<open>The default path is a function of the environment and the chain alone.\<close>

lemma default_config_path_det:
  assumes "default_config_path V c w = (Ok p, w1)" and "denied w2 = denied w"
  shows "\<exists>w3. default_config_path V c w2 = (Ok p, w3)"
  using assms unfolding default_config_path_def default_home_path_def create_dir_all_def Let_def
  by (auto simp: io_simps split: if_splits option.splits)

lemma config_exists_keeps:
  "config_exists V p c w = (r, w') \<Longrightarrow> files w' = files w \<and> denied w' = denied w"
  unfolding config_exists_def io_bind_def io_get_def io_return_def
  by (auto split: prod.splits outcome.splits dest: default_config_path_keeps)

lemma config_from_file_keeps:
  "config_from_file V p c w = (r, w') \<Longrightarrow> files w' = files w \<and> denied w' = denied w"
  unfolding config_from_file_def io_bind_def io_lift_def io_return_def read_file_def Let_def
  by (auto split: prod.splits outcome.splits option.splits if_splits dest: default_config_path_keeps)

lemma read_file_Ok: "read_file p w = (Ok s, w') \<longleftrightarrow> files w p = Some s \<and> \<not> denied w p \<and> w' = w"
  by (auto simp: read_file_def split: option.splits)

lemma write_file_Ok:
  "write_file p s w = (Ok x, w') \<longleftrightarrow> \<not> denied w p \<and> w' = w\<lparr>files := (files w)(p \<mapsto> s)\<rparr>"
  by (auto simp: write_file_def)

lemma config_from_file_Ok:
  "config_from_file V p c w = (Ok config, w') \<longleftrightarrow>
     (\<exists>dp s cf. default_config_path V c w = (Ok dp, w') \<and> files w' (unwrap_or p dp) = Some s \<and>
        \<not> denied w' (unwrap_or p dp) \<and> toml_from_str V s = Ok cf \<and>
        config = cf\<lparr>config_home := Some (unwrap_or p dp)\<rparr>)"
  unfolding config_from_file_def Let_def by (auto simp: io_simps read_file_Ok)

lemma config_to_file_Ok:
  "config_to_file V cf p w = (Ok config, w') \<Longrightarrow>
     \<exists>dp s w1. default_config_path V (chain cf) w = (Ok dp, w1) \<and> toml_to_string V cf = Ok s \<and>
        \<not> denied w1 (unwrap_or p dp) \<and>
        w' = w1\<lparr>files := (files w1)(unwrap_or p dp \<mapsto> WALLET713_CONFIG_HELP @ s)\<rparr> \<and>
        config = cf\<lparr>config_home := Some (unwrap_or p dp)\<rparr>"
  unfolding config_to_file_def Let_def by (auto simp: io_simps write_file_Ok)

definition toml_ok :: "'sk cfg_env \<Rightarrow> bool" where
  "toml_ok V \<longleftrightarrow> (\<forall>c s. toml_to_string V c = Ok s \<longrightarrow>
     toml_from_str V (WALLET713_CONFIG_HELP @ s) = Ok (c\<lparr>config_home := None, grinbox_address_key := None\<rparr>))"

lemma config_file_roundtrip:
  assumes "toml_ok V" and "config_to_file V cf p w = (Ok config, w')" and "p \<noteq> None \<or> chain cf = c"
    and "\<exists>dp w1. default_config_path V c w = (Ok dp, w1)"
  shows "\<exists>w''. config_from_file V p c w' = (Ok (config\<lparr>grinbox_address_key := None\<rparr>), w'')"
proof -
  from config_to_file_Ok [OF assms(2)] obtain dp s w1 where
    d: "default_config_path V (chain cf) w = (Ok dp, w1)" and s: "toml_to_string V cf = Ok s"
    and nd: "\<not> denied w1 (unwrap_or p dp)"
    and w': "w' = w1\<lparr>files := (files w1)(unwrap_or p dp \<mapsto> WALLET713_CONFIG_HELP @ s)\<rparr>"
    and cfg: "config = cf\<lparr>config_home := Some (unwrap_or p dp)\<rparr>" by blast
  have den: "denied w' = denied w" using w' default_config_path_keeps [OF d] by simp
  obtain dp2 w2 where d2: "default_config_path V c w' = (Ok dp2, w2)"
    using assms(4) default_config_path_det [OF _ den] by blast
  have "dp2 = dp" if "p = None"
  proof -
    have "chain cf = c" using assms(3) that by simp
    then show ?thesis using default_config_path_det [OF d den] d2 by simp
  qed
  then have path: "unwrap_or p dp2 = unwrap_or p dp" by (cases p) (auto simp: unwrap_or_def)
  have "files w2 (unwrap_or p dp) = Some (WALLET713_CONFIG_HELP @ s)" "\<not> denied w2 (unwrap_or p dp)"
    using default_config_path_keeps [OF d2] w' nd by simp_all
  moreover have "toml_from_str V (WALLET713_CONFIG_HELP @ s) = Ok (cf\<lparr>config_home := None, grinbox_address_key := None\<rparr>)"
    using assms(1) s by (simp add: toml_ok_def)
  ultimately have "config_from_file V p c w' =
    (Ok (cf\<lparr>config_home := None, grinbox_address_key := None, config_home := Some (unwrap_or p dp)\<rparr>), w2)"
    unfolding config_from_file_Ok using d2 path by auto
  then show ?thesis using cfg by (auto intro!: exI [of _ w2])
qed

lemma set_arg_snd: "snd cm \<Longrightarrow> snd (set_arg x f cm)"
  by (auto simp: set_arg_def split: option.splits)

lemma set_arg_unchanged: "\<not> snd (set_arg x f cm) \<Longrightarrow> set_arg x f cm = cm"
  by (auto simp: set_arg_def split: option.splits)

lemma set_arg_chain:
  "(\<And>v c. chain (f v c) = chain c) \<Longrightarrow> chain (fst (set_arg x f cm)) = chain (fst cm)"
  by (auto simp: set_arg_def split: option.splits)

lemma apply_config_args_Ok:
  assumes "apply_config_args args idx cm = Ok cm'"
  shows "snd cm \<longrightarrow> snd cm'" and "\<not> snd cm' \<longrightarrow> cm' = cm" and "chain (fst cm') = chain (fst cm)"
  using assms unfolding apply_config_args_def Let_def obind_Ok_iff
  by (auto simp: set_arg_snd set_arg_chain) (metis set_arg_snd set_arg_unchanged)+

lemma do_config_Ok:
  assumes "do_config V args c idx p w = (Ok config, w')"
  obtains ex w1 cf0 w2 cf any where "config_exists V p c w = (Ok ex, w1)"
    "if ex then config_from_file V p c w1 = (Ok cf0, w2) else cf0 = config_default c \<and> w2 = w1"
    "apply_config_args args idx (cf0, \<not> ex) = Ok (cf, any)"
    "if any then config_to_file V cf p w2 = (Ok config, w') else ex \<and> config = cf0 \<and> w' = w2"
proof -
  from assms obtain ex w1 cf0 w2 cm where
    1: "config_exists V p c w = (Ok ex, w1)"
    and 2: "(if ex then config_from_file V p c else io_return (config_default c)) w1 = (Ok cf0, w2)"
    and 3: "apply_config_args args idx (cf0, \<not> ex) = Ok cm"
    and 4: "(if snd cm then config_to_file V (fst cm) p else io_return (fst cm)) w2 = (Ok config, w')"
    unfolding do_config_def by (auto simp: io_simps case_prod_beta)
  show thesis
  proof (rule that [OF 1])
    show "if ex then config_from_file V p c w1 = (Ok cf0, w2) else cf0 = config_default c \<and> w2 = w1"
      using 2 by (auto simp: io_simps split: if_splits)
    show "apply_config_args args idx (cf0, \<not> ex) = Ok (fst cm, snd cm)" using 3 by simp
    show "if snd cm then config_to_file V (fst cm) p w2 = (Ok config, w') else ex \<and> config = cf0 \<and> w' = w2"
      using 4 apply_config_args_Ok(1,2) [OF 3] by (auto simp: io_simps split: if_splits)
  qed
qed

lemma config_exists_default: "config_exists V p c w = (Ok ex, w1) \<Longrightarrow> \<exists>dp. default_config_path V c w = (Ok dp, w1)"
  unfolding config_exists_def by (auto simp: io_simps)

lemma do_config_reads_back:
  assumes "toml_ok V" and "do_config V args c idx p w = (Ok config, w')" and "p \<noteq> None \<or> chain config = c"
  shows "\<exists>config' w''. config_from_file V p c w' = (Ok config', w'') \<and>
    config'\<lparr>grinbox_address_key := None\<rparr> = config\<lparr>grinbox_address_key := None\<rparr>"
proof -
  from do_config_Ok [OF assms(2)] obtain ex w1 cf0 w2 cf any where
    1: "config_exists V p c w = (Ok ex, w1)"
    and 2: "if ex then config_from_file V p c w1 = (Ok cf0, w2) else cf0 = config_default c \<and> w2 = w1"
    and 4: "if any then config_to_file V cf p w2 = (Ok config, w') else ex \<and> config = cf0 \<and> w' = w2" .
  obtain dp where dp: "default_config_path V c w = (Ok dp, w1)" using config_exists_default [OF 1] by blast
  have den: "denied w1 = denied w" "denied w2 = denied w1"
    using config_exists_keeps [OF 1] 2 config_from_file_keeps [of V p c w1] by (auto split: if_splits)
  show ?thesis
  proof (cases any)
    case True
    then have wr: "config_to_file V cf p w2 = (Ok config, w')" using 4 by simp
    have "chain cf = chain config" using config_to_file_Ok [OF wr] by auto
    then show ?thesis
      using config_file_roundtrip [OF assms(1) wr] assms(3) default_config_path_det [OF dp, of w2] den by fastforce
  next
    case False
    then have ex: ex "config = cf0" "w' = w2" using 4 by auto
    then have rd: "config_from_file V p c w1 = (Ok cf0, w2)" using 2 by simp
    obtain dp1 s cfx where r1: "default_config_path V c w1 = (Ok dp1, w2)" "files w2 (unwrap_or p dp1) = Some s"
      "\<not> denied w2 (unwrap_or p dp1)" "toml_from_str V s = Ok cfx" "cf0 = cfx\<lparr>config_home := Some (unwrap_or p dp1)\<rparr>"
      using rd unfolding config_from_file_Ok by blast
    obtain w3 where r2: "default_config_path V c w2 = (Ok dp1, w3)"
      using default_config_path_det [OF r1(1), of w2] den by auto
    then have "config_from_file V p c w2 = (Ok cf0, w3)"
      unfolding config_from_file_Ok using r1 default_config_path_keeps [OF r2] by auto
    then show ?thesis using ex by blast
  qed
qed

text \<open>A port that is no \<open>u16\<close> stops the command before anything is written.\<close>

lemma do_config_bad_port:
  assumes "ca_port args = Some t" and "from_str_radix 10 65536 t = None"
    and "do_config V args c idx p w = (r, w')"
  shows "\<not> is_ok r \<and> files w' = files w"
proof -
  have a: "apply_config_args args idx cm = fail NumberParsingError" for cm :: "'b wallet713_config \<times> bool"
    using assms(1,2) by (simp add: apply_config_args_def)
  show ?thesis
    using assms(3) config_exists_keeps [of V p c w] config_from_file_keeps [of V p c]
    unfolding do_config_def a io_bind_def io_lift_def io_return_def
    by (auto split: prod.splits outcome.splits if_splits)
qed

section \<open>Directories\<close>

lemma plain_relative: "plain_name n \<Longrightarrow> \<not> starts_with n ''/''"
  by (cases n) (auto simp: plain_name_def starts_with_def)

lemma get_data_path_plain:
  assumes "plain_name (wallet713_data_path cf)"
  shows "get_data_path cf = path_join (path_pop (unwrap_or (config_home cf) WALLET713_DEFAULT_CONFIG_FILENAME)) (wallet713_data_path cf)"
  using plain_relative [OF assms] by (simp add: get_data_path_def path_join_def [of "[]"])


lemma data_directories:
  assumes "config_home cf = Some (path_join dir f)" and "plain_name f" and "plain_name (wallet713_data_path cf)"
    and "dir \<noteq> []" and "path_trim dir = dir"
  shows "get_data_path cf = path_join dir (wallet713_data_path cf)"
    and "get_top_level_directory cf = Ok dir"
    and "get_wallet_data_directory cf = Ok (wallet713_data_path cf)"
proof -
  have "path_pop (path_join dir f) = dir"
    using path_parent_join_dir [OF assms(2,4)] assms(5) by (simp add: path_pop_def)
  then show p: "get_data_path cf = path_join dir (wallet713_data_path cf)"
    using get_data_path_plain [OF assms(3)] assms(1) by (simp add: unwrap_or_def)
  show "get_top_level_directory cf = Ok dir"
    unfolding get_top_level_directory_def p using path_parent_join_dir [OF assms(3,4)] assms(5) by simp
  show "get_wallet_data_directory cf = Ok (wallet713_data_path cf)"
    unfolding get_wallet_data_directory_def p using path_file_name_join [OF assms(3)] by simp
qed

section \<open>Properties\<close>

text \<open>
  C36: what \<open>do_config\<close> returns is what the next start reads from the file: every option given
  on the command line is persisted, all other settings survive, and the secret address key
  is never written. (With no path given, the chain in the file must be the chain asked
  for: the file is written under the former and read under the latter.)
\<close>

theorem do_config_persists:
  assumes "toml_ok V" and "do_config V args c idx p w = (Ok config, w')" and "p \<noteq> None \<or> chain config = c"
  shows "\<exists>config' w''. config_from_file V p c w' = (Ok config', w'') \<and>
    config'\<lparr>grinbox_address_key := None\<rparr> = config\<lparr>grinbox_address_key := None\<rparr>"
  using assms by (rule do_config_reads_back)

definition demo_config :: "unit wallet713_config" where
  "demo_config = (config_default Mainnet)\<lparr>mwcmq_domain := Some ''my.box''\<rparr>"

definition demo_cfg_env :: "unit cfg_env" where
  "demo_cfg_env = \<lparr>home_dir = Some ''/home/u'', current_dir = Ok ''/'', shortname = (\<lambda>_. ''main''),
     toml_to_string = (\<lambda>c. if c\<lparr>config_home := None, grinbox_address_key := None\<rparr> = demo_config then Ok ''cfg'' else Err io_error),
     toml_from_str = (\<lambda>_. Ok demo_config)\<rparr>"

lemma demo_toml_ok: "toml_ok demo_cfg_env"
  by (simp add: toml_ok_def demo_cfg_env_def)

theorem do_config_persists_witness:
  "\<exists>w' w''. do_config demo_cfg_env
      \<lparr>ca_data_path = None, ca_domain = Some ''my.box'', ca_port = None, ca_node_uri = None, ca_node_secret = None\<rparr>
      Mainnet None (Some ''/c.toml'') \<lparr>files = Map.empty, dirs = [], denied = (\<lambda>_. False)\<rparr>
      = (Ok (demo_config\<lparr>config_home := Some ''/c.toml''\<rparr>), w') \<and>
    config_from_file demo_cfg_env (Some ''/c.toml'') Mainnet w' = (Ok (demo_config\<lparr>config_home := Some ''/c.toml''\<rparr>), w'')"
proof -
  let ?a = "\<lparr>ca_data_path = None, ca_domain = Some ''my.box'', ca_port = None, ca_node_uri = None, ca_node_secret = None\<rparr>"
  let ?w = "\<lparr>files = Map.empty, dirs = [], denied = (\<lambda>_. False)\<rparr>"
  have dc: "apply_config_args ?a None (config_default Mainnet, True) = Ok (demo_config, True)"
    by (simp add: apply_config_args_def set_arg_def demo_config_def)
  have t: "toml_to_string demo_cfg_env demo_config = Ok ''cfg''"
    by (simp add: demo_cfg_env_def demo_config_def config_default_def)
  have dp: "\<exists>w3. default_config_path demo_cfg_env c w = (Ok ''/home/u/.mwc713/main/wallet713.toml'', w3) \<and>
      files w3 = files w \<and> denied w3 = denied w" if "denied w = (\<lambda>_. False)" for c w
    using that by (simp add: default_config_path_def default_home_path_def create_dir_all_def io_bind_def io_lift_def
        io_return_def Let_def demo_cfg_env_def path_join_def starts_with_def ends_with_def WALLET713_HOME_def
        WALLET713_DEFAULT_CONFIG_FILENAME_def)
  obtain w1 where w1: "config_exists demo_cfg_env (Some ''/c.toml'') Mainnet ?w = (Ok False, w1)"
    "denied w1 = (\<lambda>_. False)"
    using dp [of ?w Mainnet] unfolding config_exists_def
    by (auto simp: io_bind_apply_Ok io_simps unwrap_or_def)
  obtain w' where w': "config_to_file demo_cfg_env demo_config (Some ''/c.toml'') w1
      = (Ok (demo_config\<lparr>config_home := Some ''/c.toml''\<rparr>), w')"
    using dp [OF w1(2), of "chain demo_config"] w1(2) unfolding config_to_file_def
    by (auto simp: io_bind_apply_Ok io_simps unwrap_or_def t write_file_def Let_def)
  have d: "do_config demo_cfg_env ?a Mainnet None (Some ''/c.toml'') ?w
      = (Ok (demo_config\<lparr>config_home := Some ''/c.toml''\<rparr>), w')"
    unfolding do_config_def
    by (subst io_bind_apply_Ok [where m = "config_exists _ _ _", OF w1(1)]) (simp add: dc w')
  obtain config' w'' where r: "config_from_file demo_cfg_env (Some ''/c.toml'') Mainnet w' = (Ok config', w'')"
    using do_config_persists [OF demo_toml_ok d] by auto
  then have "config' = demo_config\<lparr>config_home := Some ''/c.toml''\<rparr>"
    unfolding config_from_file_Ok by (auto simp: demo_cfg_env_def unwrap_or_def)
  then show ?thesis using d r by blast
qed

text \<open>
  The wallet's data directory is found beside its configuration file: for a configuration
  at \<open>dir/f\<close> and a plain directory name, the data path is that name in \<open>dir\<close>, and it splits
  into the top-level directory and the data directory that the wallet backend is given,
  without a panic in \<open>parent().unwrap()\<close> or \<open>file_name().unwrap()\<close>.
\<close>

theorem config_directories:
  assumes "config_home cf = Some (path_join dir f)" and "plain_name f" and "plain_name (wallet713_data_path cf)"
    and "dir \<noteq> []" and "path_trim dir = dir"
  shows "get_data_path cf = path_join dir (wallet713_data_path cf) \<and>
    get_top_level_directory cf = Ok dir \<and> get_wallet_data_directory cf = Ok (wallet713_data_path cf)"
  using data_directories [OF assms] by blast

theorem config_directories_witness:
  "get_top_level_directory (demo_config\<lparr>config_home := Some ''/etc/w/wallet713.toml''\<rparr>) = Ok ''/etc/w''"
proof -
  let ?c = "demo_config\<lparr>config_home := Some ''/etc/w/wallet713.toml''\<rparr>"
  have "config_home ?c = Some (path_join ''/etc/w'' ''wallet713.toml'')"
    by (simp add: path_join_def starts_with_def ends_with_def)
  moreover have "plain_name ''wallet713.toml''" "plain_name (wallet713_data_path ?c)" "path_trim ''/etc/w'' = ''/etc/w''"
    by (simp_all add: plain_name_def demo_config_def config_default_def path_trim.simps ends_with_def)
  ultimately show ?thesis using config_directories [of ?c "''/etc/w''" "''wallet713.toml''"] by simp
qed

end
