(* ===== verification/Bulk_Validate.thy ===== *)
theory Bulk_Validate
  imports Config "HOL-Library.Multiset" "HOL-Library.Sublist"
begin

text \<open>
  Bulk validation of the transaction log, \<open>src/src/wallet/api/api.rs\<close>: \<open>calc_best_merge\<close>
  assigns the wallet's outputs to its transactions, \<open>txs_bulk_validate\<close> checks them against
  dumps of the chain's kernels and outputs and writes a report. Log entries and outputs
  come from the wallet library; of them the fields the code reads are modelled. The
  arithmetic on amounts and key indices is that of \<open>u64\<close> and \<open>u32\<close> and wraps around.
\<close>

section \<open>The code\<close>

datatype tx_log_entry_type = ConfirmedCoinbase | TxReceived | TxSent | TxReceivedCancelled | TxSentCancelled

record tx_log_entry =
  tl_id :: u32
  tl_parent_key_id :: string
  tl_tx_type :: tx_log_entry_type
  tl_tx_slate_id :: "string option"
  tl_num_outputs :: nat
  tl_amount_credited :: u64
  tl_amount_debited :: u64
  tl_is_cancelled :: bool
  tl_kernel_excess :: "bytes option"
  tl_address :: "string option"
  tl_creation_ts :: string
  tl_output_height :: u64
  tl_fee :: "u64 option"
  tl_messages :: "string option list option"

record output_data =
  od_root_key_id :: string
  od_n_child :: u32
  od_commit :: "string option"
  od_value :: u64
  od_tx_log_entry :: "u32 option"

type_synonym merge_entry = "tx_log_entry \<times> output_data list \<times> bool"

subsection \<open>Assigning outputs to transactions\<close>

definition window :: "nat \<Rightarrow> nat \<Rightarrow> output_data list \<Rightarrow> output_data list" where
  "window i n outputs = take n (drop i outputs)"

definition window_amount :: "nat \<Rightarrow> nat \<Rightarrow> output_data list \<Rightarrow> u64" where
  "window_amount i n outputs = sum_list (map od_value (window i n outputs))"

definition find_window :: "tx_log_entry \<Rightarrow> output_data list \<Rightarrow> nat option" where
  "find_window tx outputs =
     find (\<lambda>i. window_amount i (tl_num_outputs tx) outputs = tl_amount_credited tx)
       [0..<length outputs - (tl_num_outputs tx - 1)]"

text \<open>
  One turn of the loop over the transactions. The state is the outputs left, the result so
  far and the flag \<open>next_canlelled\<close>. A transaction that claims more outputs than are left is
  skipped without an entry.
\<close>

record merge_state =
  ms_outputs :: "output_data list"
  ms_res :: "merge_entry list"
  ms_next_cancelled :: bool

definition push_entry :: "merge_entry \<Rightarrow> merge_state \<Rightarrow> merge_state" where
  "push_entry e s = s\<lparr>ms_res := ms_res s @ [e]\<rparr>"

definition take_window :: "tx_log_entry \<Rightarrow> nat \<Rightarrow> merge_state \<Rightarrow> merge_state" where
  "take_window tx i s =
     (let n = tl_num_outputs tx;
          res_outs = window i n (ms_outputs s);
          outputs = take i (ms_outputs s) @ drop (i + n) (ms_outputs s)
      in \<lparr>ms_outputs = outputs, ms_res = ms_res s @ [(tx, res_outs, True)],
          ms_next_cancelled =
            (if i < length outputs then od_n_child (outputs ! i) - od_n_child (last res_outs) > 1 else True)\<rparr>)"

definition merge_step :: "tx_log_entry \<Rightarrow> merge_state \<Rightarrow> merge_state" where
  "merge_step tx s =
     (if ms_outputs s = [] then push_entry (tx, [], False) s
      else if tl_num_outputs tx = 0 then push_entry (tx, [], True) s
      else
        let s = (if tl_is_cancelled tx \<and> ms_res s = []
                 then s\<lparr>ms_next_cancelled := tl_amount_credited tx \<noteq> od_value (hd (ms_outputs s))\<rparr> else s)
        in if tl_is_cancelled tx \<and> ms_next_cancelled s then push_entry (tx, [], True) s
           else if tl_num_outputs tx \<le> length (ms_outputs s) then
             (case find_window tx (ms_outputs s) of
                None \<Rightarrow> push_entry (tx, [], False) s | Some i \<Rightarrow> take_window tx i s)
           else s)"

definition calc_best_merge ::
  "output_data list \<Rightarrow> tx_log_entry list \<Rightarrow> merge_entry list \<times> output_data list" where
  "calc_best_merge outputs transactions =
     (let s = foldl (\<lambda>s tx. merge_step tx s)
                \<lparr>ms_outputs = outputs, ms_res = [], ms_next_cancelled = True\<rparr> transactions
      in (ms_res s, ms_outputs s))"

subsection \<open>Validation\<close>

record transaction_info =
  ti_tx_log :: tx_log_entry
  ti_tx_kernels :: "string list"
  ti_tx_outputs :: "output_data list"
  ti_validated :: bool
  ti_validation_flags :: string
  ti_warnings :: "string list"

definition transaction_info_new :: "tx_log_entry \<Rightarrow> transaction_info" where
  "transaction_info_new tx_log =
     \<lparr>ti_tx_log = tx_log, ti_tx_kernels = [], ti_tx_outputs = [], ti_validated = False,
      ti_validation_flags = [], ti_warnings = []\<rparr>"

text \<open>What the validation calls of the wallet: stored slates (as their kernels), hexadecimal, amounts.\<close>

record bulk_env =
  stored_tx_kernels :: "string \<Rightarrow> bytes list option"
  util_to_hex :: "bytes \<Rightarrow> string"
  amount_to_hr_string :: "u64 \<Rightarrow> string"

definition warn :: "bool \<Rightarrow> string \<Rightarrow> transaction_info \<Rightarrow> transaction_info" where
  "warn c m t = (if c then t\<lparr>ti_warnings := ti_warnings t @ [m]\<rparr> else t)"

definition collect_kernels :: "bulk_env \<Rightarrow> tx_log_entry \<Rightarrow> transaction_info \<Rightarrow> transaction_info" where
  "collect_kernels B tx t =
     (if tl_tx_type tx \<noteq> TxReceived \<and> tl_tx_type tx \<noteq> TxReceivedCancelled then
        let t = (case tl_tx_slate_id tx of
              None \<Rightarrow> t
            | Some uuid \<Rightarrow> (case stored_tx_kernels B uuid of
                Some ks \<Rightarrow> t\<lparr>ti_tx_kernels := map (util_to_hex B) ks\<rparr>
              | None \<Rightarrow> warn (tl_tx_type tx = TxSent) ''Transaction slate not found'' t))
        in (case tl_kernel_excess tx of
              None \<Rightarrow> t | Some k \<Rightarrow> t\<lparr>ti_tx_kernels := ti_tx_kernels t @ [util_to_hex B k]\<rparr>)
      else t)"

definition make_info :: "bulk_env \<Rightarrow> merge_entry \<Rightarrow> transaction_info" where
  "make_info B e =
     (case e of (tx, outputs, success) \<Rightarrow>
        let t = (transaction_info_new tx)\<lparr>ti_tx_outputs := outputs\<rparr>;
            t = warn (\<not> success) ''Failed to descover outputs'' t;
            t = warn ((tl_tx_type tx = ConfirmedCoinbase \<or> tl_tx_type tx = TxReceived) \<and> tl_num_outputs tx = 0)
                  ''Tx Has no outputs'' t;
            t = warn (tl_tx_type tx = TxSent \<and> tl_tx_slate_id tx = None \<and> tl_kernel_excess tx = None)
                  (''Transaction doesn'' @ apos @ ''t have UUID'') t;
            t = collect_kernels B tx t;
            t = warn (tl_tx_type tx = TxSent \<and> ti_tx_kernels t = []) ''No Kernels found'' t
        in foldl (\<lambda>t out. warn (od_commit out = None) ''Has Output without commit record'' t) t outputs)"

text \<open>The three hash maps, filled while the infos are pushed; a later insert wins.\<close>

definition kernel_index :: "transaction_info list \<Rightarrow> string \<rightharpoonup> nat" where
  "kernel_index txs = foldl (\<lambda>m i. foldl (\<lambda>m k. m(k \<mapsto> i)) m (ti_tx_kernels (txs ! i)))
     Map.empty [0..<length txs]"

definition output_index :: "transaction_info list \<Rightarrow> string \<rightharpoonup> nat" where
  "output_index txs = foldl (\<lambda>m i. foldl (\<lambda>m out. case od_commit out of None \<Rightarrow> m | Some c \<Rightarrow> m(c \<mapsto> i)) m
     (ti_tx_outputs (txs ! i))) Map.empty [0..<length txs]"

definition id_index :: "transaction_info list \<Rightarrow> u32 \<rightharpoonup> nat" where
  "id_index txs = foldl (\<lambda>m i. m(tl_id (ti_tx_log (txs ! i)) \<mapsto> i)) Map.empty [0..<length txs]"

definition mark :: "string \<Rightarrow> nat \<Rightarrow> transaction_info list \<Rightarrow> transaction_info list" where
  "mark flag i txs = txs[i := (txs ! i)\<lparr>ti_validated := True,
     ti_validation_flags := ti_validation_flags (txs ! i) @ flag\<rparr>]"

text \<open>\<open>for line in reader.lines()\<close> over a dump.\<close>

definition scan_dump ::
  "string \<Rightarrow> (string \<rightharpoonup> nat) \<Rightarrow> string list \<Rightarrow> transaction_info list \<Rightarrow> transaction_info list" where
  "scan_dump flag index dump txs =
     foldl (\<lambda>txs line. case index line of None \<Rightarrow> txs | Some i \<Rightarrow> mark flag i txs) txs dump"

text \<open>The cut-through pass: an unvalidated transaction whose output was spent by a validated send.\<close>

definition spent_by_valid_send :: "(u32 \<rightharpoonup> nat) \<Rightarrow> transaction_info list \<Rightarrow> output_data \<Rightarrow> bool" where
  "spent_by_valid_send ids txs out =
     (case od_tx_log_entry out of
        None \<Rightarrow> False
      | Some e \<Rightarrow> (case ids e of
          None \<Rightarrow> False
        | Some j \<Rightarrow> (tl_tx_type (ti_tx_log (txs ! j)) = TxSent \<or> tl_tx_type (ti_tx_log (txs ! j)) = TxSentCancelled)
            \<and> ti_validated (txs ! j)))"

definition cut_step :: "(u32 \<rightharpoonup> nat) \<Rightarrow> transaction_info list \<Rightarrow> nat \<Rightarrow> transaction_info list" where
  "cut_step ids txs i =
     (if \<not> ti_validated (txs ! i) \<and> list_ex (spent_by_valid_send ids txs) (ti_tx_outputs (txs ! i))
      then mark ''S'' i txs else txs)"

definition cut_through :: "(u32 \<rightharpoonup> nat) \<Rightarrow> transaction_info list \<Rightarrow> transaction_info list" where
  "cut_through ids txs = foldl (cut_step ids) txs [0..<length txs]"

text \<open>\<open>BufRead::lines\<close>: separated by newlines, a carriage return before one is dropped.\<close>

definition chomp :: "string \<Rightarrow> string" where
  "chomp l = (if ends_with l [CHR 0x0D] then butlast l else l)"

definition lines :: "string \<Rightarrow> string list" where
  "lines s = (let ls = str_split CHR 0x0A s
              in map chomp (butlast ls) @ (if last ls = [] then [] else [last ls]))"

subsection \<open>The report\<close>

fun tx_type_name :: "tx_log_entry_type \<Rightarrow> string" where
  "tx_type_name ConfirmedCoinbase = ''Coinbase''"
| "tx_type_name TxReceived = ''Received''"
| "tx_type_name TxSent = ''Sent''"
| "tx_type_name TxReceivedCancelled = ''ReceivedCancelled''"
| "tx_type_name TxSentCancelled = ''SentCancelled''"

definition quoted :: "string \<Rightarrow> string" where
  "quoted s = [CHR 0x22] @ s @ [CHR 0x22]"

definition report_line :: "bulk_env \<Rightarrow> transaction_info \<Rightarrow> string" where
  "report_line B t =
     (let l = ti_tx_log t;
          amount = (if tl_amount_credited l \<ge> tl_amount_debited l
                    then amount_to_hr_string B (tl_amount_credited l - tl_amount_debited l)
                    else ''-'' @ amount_to_hr_string B (tl_amount_debited l - tl_amount_credited l))
      in str_join '',''
          [show_nat (unat (tl_id l)), unwrap_or (tl_tx_slate_id l) ''None'', tx_type_name (tl_tx_type l),
           quoted (unwrap_or (tl_address l) ''None''), tl_creation_ts l, show_nat (unat (tl_output_height l)),
           amount, (case tl_fee l of None \<Rightarrow> ''Unknown'' | Some f \<Rightarrow> amount_to_hr_string B f),
           quoted (case tl_messages l of None \<Rightarrow> []
             | Some ms \<Rightarrow> str_replace [CHR 0x22] [CHR 0x22, CHR 0x22] (str_join '','' (List.map_filter (\<lambda>m. m) ms))),
           (if ti_validated t then ''true'' else ''false''), ti_validation_flags t,
           quoted (str_join ''; '' (ti_warnings t))] @ [CHR 0x0A])"

definition report_header :: string where
  "report_header = ''id,uuid,type,address,create time,height,amount,fee,messages,node validation,validation flags,validation warnings'' @ [CHR 0x0A]"

definition validate_infos ::
  "bulk_env \<Rightarrow> string list \<Rightarrow> string list \<Rightarrow> merge_entry list \<Rightarrow> transaction_info list" where
  "validate_infos B kernel_lines output_lines entries =
     (let txs = map (make_info B) entries;
          ids = id_index txs; outs = output_index txs;
          txs = scan_dump ''K'' (kernel_index txs) kernel_lines txs;
          txs = scan_dump ''O'' outs output_lines txs
      in cut_through ids txs)"

definition open_lines :: "string \<Rightarrow> string list fio" where
  "open_lines p = (\<lambda>w. case files w p of
     None \<Rightarrow> (fail (FileNotFound p), w)
   | Some s \<Rightarrow> if denied w p then (fail (FileNotFound p), w) else (Ok (lines s), w))"

text \<open>The result is the outputs left over, which the code reports on the console.\<close>

definition txs_bulk_validate ::
  "bulk_env \<Rightarrow> string \<Rightarrow> output_data list \<Rightarrow> tx_log_entry list \<Rightarrow> string \<Rightarrow> string \<Rightarrow> string \<Rightarrow> output_data list fio" where
  "txs_bulk_validate B parent_key_id wallet_iter tx_log_iter kernels_fn outputs_fn result_fn =
     (let wallet_outputs = filter (\<lambda>out. od_root_key_id out = parent_key_id \<and> od_commit out \<noteq> None) wallet_iter;
          wallet_transactions = filter (\<lambda>t. tl_parent_key_id t = parent_key_id) tx_log_iter
      in case calc_best_merge wallet_outputs wallet_transactions of (tx_to_output, outstanding_outputs) \<Rightarrow>
         io_bind (open_lines kernels_fn) (\<lambda>kernel_lines.
         io_bind (open_lines outputs_fn) (\<lambda>output_lines.
         io_bind (\<lambda>w. if denied w result_fn then (fail (FileUnableToCreate result_fn), w) else (Ok (), w)) (\<lambda>_.
         io_bind (write_file result_fn (report_header @
             concat (map (report_line B) (validate_infos B kernel_lines output_lines tx_to_output)))) (\<lambda>_.
         io_return outstanding_outputs)))))"

section \<open>The assignment\<close>

lemma find_window_Some:
  assumes "find_window tx outputs = Some i" and "0 < tl_num_outputs tx" and "tl_num_outputs tx \<le> length outputs"
  shows "i + tl_num_outputs tx \<le> length outputs"
    and "window_amount i (tl_num_outputs tx) outputs = tl_amount_credited tx"
  using assms unfolding find_window_def find_Some_iff by auto

lemma window_rest:
  "mset (window i n xs) + mset (take i xs @ drop (i + n) xs) = mset xs"
proof -
  have "xs = take i xs @ window i n xs @ drop (i + n) xs"
    unfolding window_def by (metis append_take_drop_id drop_drop add.commute)
  then show ?thesis by (metis mset_append add.left_commute)
qed

lemma length_window: "i + n \<le> length xs \<Longrightarrow> length (window i n xs) = n"
  by (simp add: window_def)

text \<open>What the merge says of an entry with outputs: as many as logged, worth what was credited.\<close>

definition entry_ok :: "merge_entry \<Rightarrow> bool" where
  "entry_ok e = (case e of (tx, outs, success) \<Rightarrow> outs \<noteq> [] \<longrightarrow>
     success \<and> length outs = tl_num_outputs tx \<and> sum_list (map od_value outs) = tl_amount_credited tx)"

abbreviation assigned :: "merge_entry list \<Rightarrow> output_data list" where
  "assigned res \<equiv> concat (map (\<lambda>e. fst (snd e)) res)"

lemma merge_window_entry:
  assumes "find_window tx outputs = Some i" and "0 < tl_num_outputs tx" and "tl_num_outputs tx \<le> length outputs"
  shows "entry_ok (tx, window i (tl_num_outputs tx) outputs, True)"
  using find_window_Some [OF assms] length_window by (simp add: entry_ok_def window_amount_def)

text \<open>A step appends at most one entry, for its transaction, and moves outputs into it.\<close>

lemma merge_step_cases:
  obtains (push) success where "ms_res (merge_step tx s) = ms_res s @ [(tx, [], success)]"
      "ms_outputs (merge_step tx s) = ms_outputs s"
  | (move) outs where "ms_res (merge_step tx s) = ms_res s @ [(tx, outs, True)]"
      "mset outs + mset (ms_outputs (merge_step tx s)) = mset (ms_outputs s)" "entry_ok (tx, outs, True)"
  | (skip) "ms_res (merge_step tx s) = ms_res s" "ms_outputs (merge_step tx s) = ms_outputs s"
      "length (ms_outputs s) < tl_num_outputs tx"
proof -
  let ?s = "if tl_is_cancelled tx \<and> ms_res s = []
    then s\<lparr>ms_next_cancelled := tl_amount_credited tx \<noteq> od_value (hd (ms_outputs s))\<rparr> else s"
  have q: "ms_outputs ?s = ms_outputs s" "ms_res ?s = ms_res s" by simp_all
  consider "ms_outputs s = [] \<or> tl_num_outputs tx = 0 \<or> tl_is_cancelled tx \<and> ms_next_cancelled ?s"
    | "ms_outputs s \<noteq> []" "tl_num_outputs tx \<noteq> 0" "\<not> (tl_is_cancelled tx \<and> ms_next_cancelled ?s)"
      "length (ms_outputs s) < tl_num_outputs tx"
    | "ms_outputs s \<noteq> []" "tl_num_outputs tx \<noteq> 0" "\<not> (tl_is_cancelled tx \<and> ms_next_cancelled ?s)"
      "tl_num_outputs tx \<le> length (ms_outputs s)" by linarith
  then show thesis
  proof cases
    case 1
    then have "merge_step tx s = (if ms_outputs s = [] then push_entry (tx, [], False) s
        else if tl_num_outputs tx = 0 then push_entry (tx, [], True) s else push_entry (tx, [], True) ?s)"
      by (auto simp: merge_step_def Let_def)
    then show ?thesis using push [of False] push [of True] q by (auto simp: push_entry_def split: if_splits)
  next
    case 2
    then have "merge_step tx s = ?s" by (auto simp: merge_step_def Let_def)
    then show ?thesis using skip 2 q by simp
  next
    case 3
    have r: "merge_step tx s = (case find_window tx (ms_outputs s) of
      None \<Rightarrow> push_entry (tx, [], False) ?s | Some i \<Rightarrow> take_window tx i ?s)"
      using 3 by (auto simp: merge_step_def Let_def)
    show ?thesis
    proof (cases "find_window tx (ms_outputs s)")
      case None
      then show ?thesis using r push [of False] q by (simp add: push_entry_def)
    next
      case (Some i)
      show ?thesis
      proof (rule move)
        show "ms_res (merge_step tx s) = ms_res s @ [(tx, window i (tl_num_outputs tx) (ms_outputs s), True)]"
          using r Some q by (simp add: take_window_def Let_def)
        show "mset (window i (tl_num_outputs tx) (ms_outputs s)) + mset (ms_outputs (merge_step tx s)) = mset (ms_outputs s)"
          using r Some q window_rest [of i "tl_num_outputs tx" "ms_outputs s"] by (simp add: take_window_def Let_def)
        show "entry_ok (tx, window i (tl_num_outputs tx) (ms_outputs s), True)"
          using merge_window_entry [OF Some] 3 by simp
      qed
    qed
  qed
qed

definition merge_inv :: "output_data list \<Rightarrow> tx_log_entry list \<Rightarrow> merge_state \<Rightarrow> bool" where
  "merge_inv outputs txs s \<longleftrightarrow>
     mset (assigned (ms_res s)) + mset (ms_outputs s) = mset outputs \<and>
     list_all entry_ok (ms_res s) \<and> subseq (map fst (ms_res s)) txs"

lemma merge_step_inv:
  assumes "merge_inv outputs txs s"
  shows "merge_inv outputs (txs @ [tx]) (merge_step tx s)"
proof (cases rule: merge_step_cases [where tx = tx and s = s])
  case (push success)
  then show ?thesis using assms by (auto simp: merge_inv_def entry_ok_def)
next
  case (move outs)
  then show ?thesis using assms by (auto simp: merge_inv_def move(2) [symmetric] ac_simps)
next
  case skip
  then show ?thesis using assms by (auto simp: merge_inv_def)
qed

lemma merge_all_inv:
  "merge_inv outputs txs (foldl (\<lambda>s tx. merge_step tx s)
     \<lparr>ms_outputs = outputs, ms_res = [], ms_next_cancelled = True\<rparr> txs)"
proof (induction txs rule: rev_induct)
  case Nil
  then show ?case by (simp add: merge_inv_def)
next
  case (snoc tx txs)
  then show ?case by (simp add: merge_step_inv)
qed

lemma calc_best_merge_inv:
  assumes "calc_best_merge outputs txs = (res, outstanding)"
  shows "mset (assigned res) + mset outstanding = mset outputs" "list_all entry_ok res"
    "subseq (map fst res) txs"
  using merge_all_inv [of outputs txs] assms by (auto simp: calc_best_merge_def Let_def merge_inv_def)

text \<open>Every transaction gets an entry as long as enough outputs are left for it.\<close>

lemma merge_complete:
  assumes "\<forall>tx \<in> set txs. tl_num_outputs tx \<le> 1"
  shows "map fst (fst (calc_best_merge outputs txs)) = txs"
proof -
  have one: "map fst (ms_res (merge_step tx s)) = map fst (ms_res s) @ [tx]"
    if "tl_num_outputs tx \<le> 1" for tx s
  proof (cases rule: merge_step_cases [where tx = tx and s = s])
    case skip
    then have "ms_outputs s = []" using that by (cases "ms_outputs s") auto
    then show ?thesis by (simp add: merge_step_def push_entry_def)
  qed auto
  have "map fst (ms_res (foldl (\<lambda>s tx. merge_step tx s) s txs)) = map fst (ms_res s) @ txs" for s
    using assms by (induction txs arbitrary: s) (auto simp: one)
  then show ?thesis by (simp add: calc_best_merge_def Let_def)
qed


section \<open>The validation\<close>

text \<open>What marking leaves alone.\<close>

definition same_tx :: "transaction_info \<Rightarrow> transaction_info \<Rightarrow> bool" where
  "same_tx a b \<longleftrightarrow> ti_tx_log a = ti_tx_log b \<and> ti_tx_kernels a = ti_tx_kernels b \<and> ti_tx_outputs a = ti_tx_outputs b"

lemma same_tx_refl [simp]: "same_tx a a"
  by (simp add: same_tx_def)

lemma same_tx_trans: "same_tx a b \<Longrightarrow> same_tx b c \<Longrightarrow> same_tx a c"
  by (simp add: same_tx_def)

lemma mark_nth:
  assumes "j < length txs"
  shows "same_tx (mark f i txs ! j) (txs ! j)" and "ti_validated (mark f i txs ! j) \<longleftrightarrow> ti_validated (txs ! j) \<or> i = j"
  using assms by (cases "i = j"; simp add: mark_def same_tx_def)+

lemma length_mark [simp]: "length (mark f i txs) = length txs"
  by (simp add: mark_def)

lemma scan_dump_nth:
  assumes "j < length txs"
  shows "length (scan_dump f ix dump txs) = length txs \<and> same_tx (scan_dump f ix dump txs ! j) (txs ! j) \<and>
    (ti_validated (scan_dump f ix dump txs ! j) \<longleftrightarrow> ti_validated (txs ! j) \<or> (\<exists>l \<in> set dump. ix l = Some j))"
  using assms
proof (induction dump arbitrary: txs)
  case Nil
  then show ?case by (simp add: scan_dump_def)
next
  case (Cons l dump)
  let ?txs = "case ix l of None \<Rightarrow> txs | Some i \<Rightarrow> mark f i txs"
  have "scan_dump f ix (l # dump) txs = scan_dump f ix dump ?txs" by (simp add: scan_dump_def)
  moreover have "same_tx (?txs ! j) (txs ! j)" "length ?txs = length txs"
    "ti_validated (?txs ! j) \<longleftrightarrow> ti_validated (txs ! j) \<or> ix l = Some j"
    using mark_nth [OF Cons.prems] by (auto split: option.splits)
  ultimately show ?case using Cons.IH [of ?txs] Cons.prems same_tx_trans by auto
qed

lemma scan_dump_length: "length (scan_dump f ix dump txs) = length txs"
  unfolding scan_dump_def by (induction dump arbitrary: txs) (auto split: option.splits)

text \<open>
  The cut-through pass keeps the transactions, and any reason \<open>ev\<close> for being validated that holds of
  those validated before it and passes on from a send to the transactions whose outputs it spent.
\<close>

definition cut_inv :: "(nat \<Rightarrow> bool) \<Rightarrow> transaction_info list \<Rightarrow> transaction_info list \<Rightarrow> bool" where
  "cut_inv ev txs ts \<longleftrightarrow> length ts = length txs \<and>
     (\<forall>j < length txs. same_tx (ts ! j) (txs ! j) \<and> (ti_validated (ts ! j) \<longrightarrow> ev j))"

definition passes_on :: "(u32 \<rightharpoonup> nat) \<Rightarrow> transaction_info list \<Rightarrow> (nat \<Rightarrow> bool) \<Rightarrow> bool" where
  "passes_on ids txs ev \<longleftrightarrow> (\<forall>j out e i. j < length txs \<longrightarrow> out \<in> set (ti_tx_outputs (txs ! j)) \<longrightarrow> od_tx_log_entry out = Some e \<longrightarrow>
     ids e = Some i \<longrightarrow> i < length txs \<longrightarrow> tl_tx_type (ti_tx_log (txs ! i)) \<in> {TxSent, TxSentCancelled} \<longrightarrow> ev i \<longrightarrow> ev j)"

lemma cut_step_inv:
  assumes ts: "cut_inv ev txs ts" and ev: "passes_on ids txs ev" and ids: "\<forall>i \<in> ran ids. i < length txs" and k: "k < length txs"
  shows "cut_inv ev txs (cut_step ids ts k)"
proof (cases "\<not> ti_validated (ts ! k) \<and> list_ex (spent_by_valid_send ids ts) (ti_tx_outputs (ts ! k))")
  case True
  have len: "length ts = length txs" and same: "\<And>j. j < length txs \<Longrightarrow> same_tx (ts ! j) (txs ! j)"
    and old: "\<And>j. j < length txs \<Longrightarrow> ti_validated (ts ! j) \<Longrightarrow> ev j"
    using ts by (auto simp: cut_inv_def)
  obtain out e i where o: "out \<in> set (ti_tx_outputs (txs ! k))" "od_tx_log_entry out = Some e" "ids e = Some i"
      "tl_tx_type (ti_tx_log (ts ! i)) \<in> {TxSent, TxSentCancelled}" "ti_validated (ts ! i)"
    using True same [OF k] by (auto simp: list_ex_iff same_tx_def spent_by_valid_send_def split: option.splits)
  have i: "i < length txs" using ids o(3) by (auto simp: ran_def)
  have "ev k" using ev k i o old [OF i] same [OF i] unfolding passes_on_def same_tx_def by metis
  moreover have "cut_step ids ts k = mark ''S'' k ts" using True by (simp add: cut_step_def)
  moreover have "same_tx (mark ''S'' k ts ! j) (txs ! j)" if "j < length txs" for j
    using mark_nth(1) [of j ts "''S''" k] same that len same_tx_trans by simp
  ultimately show ?thesis
    using len old mark_nth(2) [of _ ts "''S''" k] by (auto simp: cut_inv_def)
next
  case False
  then show ?thesis using ts by (auto simp: cut_step_def)
qed

lemma cut_through_inv:
  assumes "passes_on ids txs ev" and "\<forall>i \<in> ran ids. i < length txs" and "\<And>j. j < length txs \<Longrightarrow> ti_validated (txs ! j) \<Longrightarrow> ev j"
  shows "cut_inv ev txs (cut_through ids txs)"
proof -
  have "cut_inv ev txs (foldl (cut_step ids) txs ks)" if "\<forall>k \<in> set ks. k < length txs" for ks
    using that
  proof (induction ks rule: rev_induct)
    case Nil
    then show ?case using assms(3) by (simp add: cut_inv_def)
  next
    case (snoc k ks)
    then show ?case using cut_step_inv [OF _ assms(1,2)] by simp
  qed
  then show ?thesis unfolding cut_through_def by simp
qed

lemma cut_through_same:
  assumes "\<forall>i \<in> ran ids. i < length txs"
  shows "length (cut_through ids txs) = length txs" "j < length txs \<Longrightarrow> same_tx (cut_through ids txs ! j) (txs ! j)"
  using cut_through_inv [OF _ assms, of "\<lambda>_. True"] by (auto simp: passes_on_def cut_inv_def)

text \<open>The indices: where they point, the key is.\<close>

lemma fold_index_Some:
  assumes "foldl (\<lambda>m i. foldl (\<lambda>m x. case key x of None \<Rightarrow> m | Some c \<Rightarrow> m(c \<mapsto> i)) m (f i)) m0 is c = Some i"
  shows "m0 c = Some i \<or> i \<in> set is \<and> (\<exists>x \<in> set (f i). key x = Some c)"
  using assms
proof (induction "is" rule: rev_induct)
  case Nil
  then show ?case by simp
next
  case (snoc k ks)
  let ?m = "foldl (\<lambda>m i. foldl (\<lambda>m x. case key x of None \<Rightarrow> m | Some c \<Rightarrow> m(c \<mapsto> i)) m (f i)) m0 ks"
  have inner: "foldl (\<lambda>m x. case key x of None \<Rightarrow> m | Some c \<Rightarrow> m(c \<mapsto> k)) m xs c = Some i \<Longrightarrow>
    m c = Some i \<or> i = k \<and> (\<exists>x \<in> set xs. key x = Some c)" for m xs
    by (induction xs arbitrary: m) (fastforce split: option.splits if_splits)+
  have "?m c = Some i \<or> i = k \<and> (\<exists>x \<in> set (f k). key x = Some c)"
    using snoc.prems inner [of ?m "f k"] by simp
  then show ?case using snoc.IH by auto
qed

lemma kernel_index_Some: "kernel_index txs k = Some i \<Longrightarrow> i < length txs \<and> k \<in> set (ti_tx_kernels (txs ! i))"
  using fold_index_Some [of Some "\<lambda>i. ti_tx_kernels (txs ! i)" Map.empty "[0..<length txs]" k i]
  by (auto simp: kernel_index_def)

lemma output_index_Some:
  "output_index txs c = Some i \<Longrightarrow> i < length txs \<and> (\<exists>out \<in> set (ti_tx_outputs (txs ! i)). od_commit out = Some c)"
  using fold_index_Some [of od_commit "\<lambda>i. ti_tx_outputs (txs ! i)" Map.empty "[0..<length txs]" c i]
  by (auto simp: output_index_def)

lemma id_index_Some: "id_index txs n = Some i \<Longrightarrow> i < length txs \<and> tl_id (ti_tx_log (txs ! i)) = n"
  using fold_index_Some [of Some "\<lambda>i. [tl_id (ti_tx_log (txs ! i))]" Map.empty "[0..<length txs]" n i]
  by (auto simp: id_index_def)


lemma warn_fields [simp]:
  "ti_tx_log (warn c m t) = ti_tx_log t" "ti_tx_outputs (warn c m t) = ti_tx_outputs t"
  "ti_validated (warn c m t) = ti_validated t" "ti_tx_kernels (warn c m t) = ti_tx_kernels t"
  by (simp_all add: warn_def)

lemma collect_kernels_fields [simp]:
  "ti_tx_log (collect_kernels B tx t) = ti_tx_log t" "ti_tx_outputs (collect_kernels B tx t) = ti_tx_outputs t"
  "ti_validated (collect_kernels B tx t) = ti_validated t"
  by (simp_all add: collect_kernels_def Let_def split: option.splits)

lemma foldl_warn_fields:
  "ti_tx_log (foldl (\<lambda>t out. warn (P out) m t) t outs) = ti_tx_log t"
  "ti_tx_outputs (foldl (\<lambda>t out. warn (P out) m t) t outs) = ti_tx_outputs t"
  "ti_validated (foldl (\<lambda>t out. warn (P out) m t) t outs) = ti_validated t"
  by (induction outs arbitrary: t) simp_all

lemma make_info_fields:
  "ti_tx_log (make_info B e) = fst e" "ti_tx_outputs (make_info B e) = fst (snd e)"
  "\<not> ti_validated (make_info B e)"
  by (simp_all add: make_info_def Let_def foldl_warn_fields transaction_info_new_def case_prod_beta)

lemma id_index_range: "\<forall>i \<in> ran (id_index txs). i < length txs"
  using id_index_Some by (auto simp: ran_def)

lemma validate_infos_length: "length (validate_infos B ks os es) = length es"
  using id_index_range [of "map (make_info B) es"]
  by (simp add: validate_infos_def Let_def, subst cut_through_same(1)) (simp_all add: scan_dump_length)

text \<open>
  The reasons for which a transaction may be reported as validated, each led back to the dumps: a
  kernel of it is in the dump of kernels, an output of it is in the dump of outputs, or an output of
  it went into a send that has such a reason itself.
\<close>

inductive chain_evidence :: "string list \<Rightarrow> string list \<Rightarrow> transaction_info list \<Rightarrow> transaction_info \<Rightarrow> bool" for ks os ts where
  in_kernels: "k \<in> set (ti_tx_kernels t) \<Longrightarrow> k \<in> set ks \<Longrightarrow> chain_evidence ks os ts t"
| in_outputs: "out \<in> set (ti_tx_outputs t) \<Longrightarrow> od_commit out = Some c \<Longrightarrow> c \<in> set os \<Longrightarrow> chain_evidence ks os ts t"
| spent: "out \<in> set (ti_tx_outputs t) \<Longrightarrow> od_tx_log_entry out = Some (tl_id (ti_tx_log u)) \<Longrightarrow> u \<in> set ts \<Longrightarrow>
    tl_tx_type (ti_tx_log u) \<in> {TxSent, TxSentCancelled} \<Longrightarrow> chain_evidence ks os ts u \<Longrightarrow> chain_evidence ks os ts t"

text \<open>With empty dumps there is no evidence for anything.\<close>

lemma no_evidence_without_dumps: "\<not> chain_evidence [] [] ts t"
proof
  assume "chain_evidence [] [] ts t"
  then show False by induction simp_all
qed

lemma validate_infos_sound:
  assumes "j < length es" and "ti_validated (validate_infos B ks os es ! j)"
  shows "chain_evidence ks os (validate_infos B ks os es) (validate_infos B ks os es ! j)"
proof -
  define t0 where "t0 = map (make_info B) es"
  define t1 where "t1 = scan_dump ''K'' (kernel_index t0) ks t0"
  define t2 where "t2 = scan_dump ''O'' (output_index t0) os t1"
  define r where "r = cut_through (id_index t0) t2"
  let ?ev = "\<lambda>i. chain_evidence ks os r (r ! i)"
  have r: "validate_infos B ks os es = r" by (simp add: validate_infos_def Let_def t0_def t1_def t2_def r_def)
  have len: "length t0 = length es" "length t1 = length es" "length t2 = length es"
    by (simp_all add: t0_def t1_def t2_def scan_dump_length)
  have s1: "same_tx (t1 ! i) (t0 ! i)" "ti_validated (t1 ! i) \<longleftrightarrow> (\<exists>l \<in> set ks. kernel_index t0 l = Some i)"
    if "i < length es" for i
    using scan_dump_nth [of i t0 "''K''" "kernel_index t0" ks] that len make_info_fields(3)
    by (auto simp: t1_def t0_def)
  have s2: "same_tx (t2 ! i) (t0 ! i)"
    "ti_validated (t2 ! i) \<longleftrightarrow> ti_validated (t1 ! i) \<or> (\<exists>l \<in> set os. output_index t0 l = Some i)"
    if "i < length es" for i
    using scan_dump_nth [of i t1 "''O''" "output_index t0" os] that len s1(1) [OF that] same_tx_trans
    by (auto simp: t2_def)
  have range: "\<forall>i \<in> ran (id_index t0). i < length t2" using id_index_range [of t0] len by simp
  have lr: "length r = length es" and rt: "\<And>i. i < length es \<Longrightarrow> same_tx (r ! i) (t2 ! i)"
    using cut_through_same [OF range] len by (simp_all add: r_def)
  have s3: "same_tx (r ! i) (t0 ! i)" if "i < length es" for i
    using same_tx_trans [OF rt [OF that] s2(1) [OF that]] .
  have "?ev i" if i: "i < length t2" and v: "ti_validated (t2 ! i)" for i
  proof -
    from i have i': "i < length es" by (simp add: len)
    then consider l where "l \<in> set ks" "kernel_index t0 l = Some i" | l where "l \<in> set os" "output_index t0 l = Some i"
      using s1(2) s2(2) v by blast
    then show ?thesis
    proof cases
      case 1
      then show ?thesis using kernel_index_Some s3 [OF i'] by (auto simp: same_tx_def intro!: chain_evidence.in_kernels [of l])
    next
      case 2
      obtain out where "out \<in> set (ti_tx_outputs (r ! i))" "od_commit out = Some l"
        using output_index_Some [OF 2(2)] s3 [OF i'] by (auto simp: same_tx_def)
      then show ?thesis using 2(1) by (rule chain_evidence.in_outputs)
    qed
  qed
  moreover have "passes_on (id_index t0) t2 ?ev"
    unfolding passes_on_def
  proof (intro allI impI)
    fix j out e i
    assume "j < length t2" "out \<in> set (ti_tx_outputs (t2 ! j))" "od_tx_log_entry out = Some e" "id_index t0 e = Some i" "i < length t2"
      "tl_tx_type (ti_tx_log (t2 ! i)) \<in> {TxSent, TxSentCancelled}" "?ev i"
    moreover from this have "tl_id (ti_tx_log (t0 ! i)) = e" using id_index_Some by blast
    ultimately show "?ev j"
      using rt s3 lr len by (intro chain_evidence.spent [of out "r ! j" "r ! i"]) (auto simp: same_tx_def)
  qed
  ultimately have "cut_inv ?ev t2 r" unfolding r_def [symmetric] using cut_through_inv [OF _ range] r_def by blast
  then show ?thesis using assms len unfolding r cut_inv_def by auto
qed

section \<open>Properties\<close>

text \<open>
  C6: the assignment of outputs to transactions loses and duplicates nothing: the outputs
  handed to transactions together with the outstanding ones are, as a multiset, the wallet's
  outputs; a transaction that got outputs got as many as it logged, worth exactly the
  amount it was credited; and the entries follow the order of the log.
\<close>

theorem merge_conserves_outputs:
  assumes "calc_best_merge outputs txs = (res, outstanding)"
  shows "mset (assigned res) + mset outstanding = mset outputs \<and> list_all entry_ok res \<and> subseq (map fst res) txs"
  using calc_best_merge_inv [OF assms] by blast

definition demo_tx :: tx_log_entry where
  "demo_tx = \<lparr>tl_id = 1, tl_parent_key_id = ''k'', tl_tx_type = TxReceived, tl_tx_slate_id = None,
     tl_num_outputs = 2, tl_amount_credited = 7, tl_amount_debited = 0, tl_is_cancelled = False,
     tl_kernel_excess = None, tl_address = None, tl_creation_ts = ''t'', tl_output_height = 0,
     tl_fee = None, tl_messages = None\<rparr>"

definition demo_out :: "u32 \<Rightarrow> u64 \<Rightarrow> output_data" where
  "demo_out n v = \<lparr>od_root_key_id = ''k'', od_n_child = n, od_commit = Some (show_nat (unat n)), od_value = v,
     od_tx_log_entry = Some 1\<rparr>"

theorem merge_conserves_outputs_witness:
  "calc_best_merge [demo_out 0 9, demo_out 1 3, demo_out 2 4] [demo_tx] =
     ([(demo_tx, [demo_out 1 3, demo_out 2 4], True)], [demo_out 0 9]) \<and>
   entry_ok (demo_tx, [demo_out 1 3, demo_out 2 4], True)"
proof -
  have e: "calc_best_merge [demo_out 0 9, demo_out 1 3, demo_out 2 4] [demo_tx] =
     ([(demo_tx, [demo_out 1 3, demo_out 2 4], True)], [demo_out 0 9])" by code_simp
  then show ?thesis using merge_conserves_outputs [OF e] by simp
qed

text \<open>
  A transaction that logs more outputs than are left in the queue disappears: it gets no
  entry at all, not even the failed one that an empty queue or a search without success gives,
  and so no line in the report. When every transaction logs at most one output, none is lost.
\<close>

theorem merge_drops_large_transactions:
  "(length outputs < tl_num_outputs tx \<and> outputs \<noteq> [] \<and> \<not> tl_is_cancelled tx \<longrightarrow>
     calc_best_merge outputs [tx] = ([], outputs)) \<and>
   ((\<forall>tx \<in> set txs. tl_num_outputs tx \<le> 1) \<longrightarrow> map fst (fst (calc_best_merge outputs txs)) = txs)"
  using merge_complete [of txs outputs] by (auto simp: calc_best_merge_def merge_step_def Let_def)

theorem merge_drops_large_transactions_witness:
  "calc_best_merge [demo_out 0 9] [demo_tx] = ([], [demo_out 0 9])"
  using merge_drops_large_transactions [of "[demo_out 0 9]" demo_tx] by (simp add: demo_tx_def)

text \<open>
  C3: bulk validation never reports a transaction as validated without evidence from the
  chain: one of its kernels is in the kernel dump, or one of its outputs is in the output
  dump, or one of its outputs belongs to a send for which there is such evidence
  in turn (cut-through). The evidence is well-founded: it ends in the dumps.
\<close>

theorem bulk_validation_sound:
  assumes "t \<in> set (validate_infos B ks os es)" and "ti_validated t"
  shows "chain_evidence ks os (validate_infos B ks os es) t"
proof -
  obtain j where "j < length es" "t = validate_infos B ks os es ! j"
    using assms(1) by (auto simp: in_set_conv_nth validate_infos_length)
  then show ?thesis using validate_infos_sound assms(2) by simp
qed

definition demo_bulk :: bulk_env where
  "demo_bulk = \<lparr>stored_tx_kernels = (\<lambda>_. None), util_to_hex = to_hex, amount_to_hr_string = (\<lambda>a. show_nat (unat a))\<rparr>"

theorem bulk_validation_sound_witness:
  "\<exists>t. validate_infos demo_bulk [] [''1''] [(demo_tx, [demo_out 1 3, demo_out 2 4], True)] = [t] \<and>
     ti_validated t \<and> chain_evidence [] [''1''] [t] t"
proof -
  define t where "t = hd (validate_infos demo_bulk [] [''1''] [(demo_tx, [demo_out 1 3, demo_out 2 4], True)])"
  have l: "validate_infos demo_bulk [] [''1''] [(demo_tx, [demo_out 1 3, demo_out 2 4], True)] = [t]"
    using validate_infos_length [of demo_bulk "[]" "[''1'']" "[(demo_tx, [demo_out 1 3, demo_out 2 4], True)]"]
    by (auto simp: t_def length_Suc_conv)
  have "ti_validated t" unfolding t_def by code_simp
  then show ?thesis
    using bulk_validation_sound [of t demo_bulk "[]" "[''1'']" "[(demo_tx, [demo_out 1 3, demo_out 2 4], True)]"] l
    by simp
qed

end
