(* ===== verification/Message.thy ===== *)
theory Message
  imports Addresses
begin

text \<open>
  \<open>src/src/common/message.rs\<close>: the encrypted slate envelope of the message-queue
  transports. The key derivation, the AEAD cipher (crate \<open>ring\<close>) and the curve are
  parameters; the salt and the nonce that the code draws at random are arguments.
\<close>

section \<open>The code\<close>

text \<open>UTF-8 validity, as \<open>String::from_utf8\<close> checks it.\<close>

definition utf8_cont :: "nat \<Rightarrow> bool" where
  "utf8_cont c \<longleftrightarrow> 128 \<le> c \<and> c \<le> 191"

fun utf8_valid :: "nat list \<Rightarrow> bool" where
  "utf8_valid [] = True"
| "utf8_valid (b # bs) =
     (if b < 128 then utf8_valid bs
      else if 194 \<le> b \<and> b \<le> 223 then
        (case bs of c1 # r \<Rightarrow> utf8_cont c1 \<and> utf8_valid r | _ \<Rightarrow> False)
      else if 224 \<le> b \<and> b \<le> 239 then
        (case bs of c1 # c2 # r \<Rightarrow>
           utf8_cont c1 \<and> utf8_cont c2 \<and> (b = 224 \<longrightarrow> 160 \<le> c1) \<and> (b = 237 \<longrightarrow> c1 \<le> 159) \<and> utf8_valid r
         | _ \<Rightarrow> False)
      else if 240 \<le> b \<and> b \<le> 244 then
        (case bs of c1 # c2 # c3 # r \<Rightarrow>
           utf8_cont c1 \<and> utf8_cont c2 \<and> utf8_cont c3 \<and> (b = 240 \<longrightarrow> 144 \<le> c1) \<and>
           (b = 244 \<longrightarrow> c1 \<le> 143) \<and> utf8_valid r
         | _ \<Rightarrow> False)
      else False)"

definition from_utf8 :: "bytes \<Rightarrow> string option" where
  "from_utf8 bs = (if utf8_valid (map unat bs) then Some (map byte_char bs) else None)"

record ('pk, 'sk, 'sig) menv = "('pk, 'sk, 'sig) env" +
  pbkdf2 :: "bytes \<Rightarrow> bytes \<Rightarrow> bytes"
  tag_len :: nat
  sealing_key_new :: "bytes \<Rightarrow> bool"
  seal_in_place :: "bytes \<Rightarrow> bytes \<Rightarrow> bytes \<Rightarrow> nat \<Rightarrow> bytes option"
  opening_key_new :: "bytes \<Rightarrow> bool"
  open_in_place :: "bytes \<Rightarrow> bytes \<Rightarrow> bytes \<Rightarrow> bytes option"

record encrypted_message =
  em_destination :: "grinbox_address option"
  em_encrypted_message :: string
  em_salt :: string
  em_nonce :: string

text \<open>\<open>&common_secret_ser[1..33]\<close>.\<close>

definition secret_slice :: "bytes \<Rightarrow> bytes res" where
  "secret_slice ser = (if length ser < 33 then Panic else Ok (take 32 (drop 1 ser)))"

definition encrypted_message_new ::
  "('pk, 'sk, 'sig, 'x) menv_scheme \<Rightarrow> bytes \<Rightarrow> bytes \<Rightarrow> string \<Rightarrow> grinbox_address \<Rightarrow> 'pk \<Rightarrow> 'sk \<Rightarrow>
   encrypted_message res" where
  "encrypted_message_new E salt nonce message destination receiver_public_key secret_key =
     obind (of_option (Kind Encryption) (pk_mul_assign E receiver_public_key secret_key)) (\<lambda>common_secret.
     obind (secret_slice (pk_serialize_vec E common_secret)) (\<lambda>slice.
     let key = pbkdf2 E salt slice;
         enc_bytes = as_bytes message @ replicate (tag_len E) 0
     in if \<not> sealing_key_new E key then fail Encryption
        else obind (of_option (Kind Encryption) (seal_in_place E key nonce enc_bytes (tag_len E))) (\<lambda>enc_bytes.
          Ok \<lparr>em_destination = Some destination, em_encrypted_message = to_hex enc_bytes,
              em_salt = to_hex salt, em_nonce = to_hex nonce\<rparr>)))"

definition encrypted_message_key ::
  "('pk, 'sk, 'sig, 'x) menv_scheme \<Rightarrow> encrypted_message \<Rightarrow> 'pk \<Rightarrow> 'sk \<Rightarrow> bytes res" where
  "encrypted_message_key E self sender_public_key secret_key =
     obind (omap_err (\<lambda>_. Kind Decryption) (from_hex (em_salt self))) (\<lambda>salt.
     obind (of_option (Kind Decryption) (pk_mul_assign E sender_public_key secret_key)) (\<lambda>common_secret.
     obind (secret_slice (pk_serialize_vec E common_secret)) (\<lambda>slice. Ok (pbkdf2 E salt slice))))"

definition decrypt_with_key ::
  "('pk, 'sk, 'sig, 'x) menv_scheme \<Rightarrow> encrypted_message \<Rightarrow> bytes \<Rightarrow> string res" where
  "decrypt_with_key E self key =
     obind (omap_err (\<lambda>_. Kind Decryption) (from_hex (em_encrypted_message self))) (\<lambda>encrypted_message.
     obind (omap_err (\<lambda>_. Kind Decryption) (from_hex (em_nonce self))) (\<lambda>nonce.
     if \<not> opening_key_new E key then fail Decryption
     else obind (of_option (Kind Decryption) (open_in_place E key nonce encrypted_message)) (\<lambda>decrypted_data.
       of_option (Kind Decryption) (from_utf8 decrypted_data))))"

section \<open>Decryption inverts encryption\<close>

lemma from_utf8_as_bytes: "utf8_valid (map of_char s) \<Longrightarrow> from_utf8 (as_bytes s) = Some s"
proof -
  have "map unat (as_bytes s) = map of_char s" by (simp add: as_bytes_def)
  then show "utf8_valid (map of_char s) \<Longrightarrow> ?thesis" by (simp add: from_utf8_def)
qed

text \<open>What the documentation of the cipher promises: opening undoes sealing.\<close>

definition aead_ok :: "('pk, 'sk, 'sig, 'x) menv_scheme \<Rightarrow> bytes \<Rightarrow> bytes \<Rightarrow> bytes \<Rightarrow> bool" where
  "aead_ok E key nonce msg \<longleftrightarrow> sealing_key_new E key \<and> opening_key_new E key \<and>
     (case seal_in_place E key nonce (msg @ replicate (tag_len E) 0) (tag_len E) of
        None \<Rightarrow> False
      | Some c \<Rightarrow> c \<noteq> [] \<and> open_in_place E key nonce c = Some msg)"

lemma message_decrypts:
  assumes "pk_mul_assign E receiver_pk sender_sk = Some P" and "pk_mul_assign E sender_pk receiver_sk = Some P"
    and "length (pk_serialize_vec E P) = 33"
    and "salt \<noteq> []" and "nonce \<noteq> []" and "utf8_valid (map of_char message)"
    and "aead_ok E (pbkdf2 E salt (drop 1 (pk_serialize_vec E P))) nonce (as_bytes message)"
  shows "\<exists>m. encrypted_message_new E salt nonce message dest receiver_pk sender_sk = Ok m \<and>
    em_destination m = Some dest \<and>
    obind (encrypted_message_key E m sender_pk receiver_sk) (decrypt_with_key E m) = Ok message"
proof -
  define slice where "slice = drop 1 (pk_serialize_vec E P)"
  let ?key = "pbkdf2 E salt slice"
  have sl: "secret_slice (pk_serialize_vec E P) = Ok slice"
    using assms(3) by (simp add: secret_slice_def slice_def)
  obtain c where c: "seal_in_place E ?key nonce (as_bytes message @ replicate (tag_len E) 0) (tag_len E) = Some c"
    "c \<noteq> []" "open_in_place E ?key nonce c = Some (as_bytes message)"
    "sealing_key_new E ?key" "opening_key_new E ?key"
    using assms(7) by (auto simp: aead_ok_def slice_def split: option.splits)
  let ?m = "\<lparr>em_destination = Some dest, em_encrypted_message = to_hex c, em_salt = to_hex salt,
    em_nonce = to_hex nonce\<rparr>"
  have n: "encrypted_message_new E salt nonce message dest receiver_pk sender_sk = Ok ?m"
    by (simp add: encrypted_message_new_def assms(1) sl c Let_def)
  have k: "encrypted_message_key E ?m sender_pk receiver_sk = Ok ?key"
    by (simp add: encrypted_message_key_def from_hex_to_hex assms(2,4) sl)
  have d: "decrypt_with_key E ?m ?key = Ok message"
    by (simp add: decrypt_with_key_def from_hex_to_hex c assms(5,6) from_utf8_as_bytes)
  show ?thesis by (rule exI [of _ ?m]) (simp add: n k d)
qed

section \<open>Properties\<close>

text \<open>A concrete cipher for the witness: keys add up, sealing is concatenation with the key.\<close>

definition demo_menv :: "(bytes, bytes, bytes) menv" where
  "demo_menv = env.extend demo_env
     \<lparr>pbkdf2 = (\<lambda>salt s. salt @ s), tag_len = 2,
      sealing_key_new = (\<lambda>_. True),
      seal_in_place = (\<lambda>key nonce buf n. Some (take (length buf - n) buf @ [1, 1])),
      opening_key_new = (\<lambda>_. True),
      open_in_place = (\<lambda>key nonce buf. if drop (length buf - 2) buf = [1, 1] then Some (take (length buf - 2) buf) else None)\<rparr>"

text \<open>
  C18: a message that a sender encrypts to a receiver is recovered by the receiver with the
  sender's public key, whatever salt and nonce were drawn, when the two Diffie-Hellman
  products agree and the cipher opens what it sealed. The hexadecimal armour and the
  UTF-8 check never stand in the way.
\<close>

theorem message_roundtrip:
  assumes "pk_mul_assign E receiver_pk sender_sk = Some P" and "pk_mul_assign E sender_pk receiver_sk = Some P"
    and "length (pk_serialize_vec E P) = 33"
    and "salt \<noteq> []" and "nonce \<noteq> []" and "utf8_valid (map of_char message)"
    and "aead_ok E (pbkdf2 E salt (drop 1 (pk_serialize_vec E P))) nonce (as_bytes message)"
  shows "\<exists>m. encrypted_message_new E salt nonce message dest receiver_pk sender_sk = Ok m \<and>
    em_destination m = Some dest \<and>
    obind (encrypted_message_key E m sender_pk receiver_sk) (decrypt_with_key E m) = Ok message"
  using assms by (rule message_decrypts)

theorem message_roundtrip_witness:
  "\<exists>m. encrypted_message_new demo_menv [9, 9] [5] ''hello''
      \<lparr>gb_public_key = ''k'', gb_domain = ''d'', gb_port = None\<rparr> (replicate 33 4) (replicate 33 3) = Ok m \<and>
    obind (encrypted_message_key demo_menv m (replicate 33 3) (replicate 33 4)) (decrypt_with_key demo_menv m)
      = Ok ''hello''"
proof -
  have "pk_mul_assign demo_menv (replicate 33 4) (replicate 33 3) = Some (replicate 33 7)"
    "pk_mul_assign demo_menv (replicate 33 3) (replicate 33 4) = Some (replicate 33 7)"
    "length (pk_serialize_vec demo_menv (replicate 33 7)) = 33"
    "utf8_valid (map of_char ''hello'')"
    "aead_ok demo_menv (pbkdf2 demo_menv [9, 9] (drop 1 (pk_serialize_vec demo_menv (replicate 33 7)))) [5]
       (as_bytes ''hello'')"
    by (code_simp)+
  from message_roundtrip [OF this(1-3) _ _ this(4,5), of "\<lparr>gb_public_key = ''k'', gb_domain = ''d'', gb_port = None\<rparr>"]
  show ?thesis by auto
qed

end
