(* ===== verification/Tx_Proof.thy ===== *)
theory Tx_Proof
  imports Message
begin

text \<open>
  \<open>src/src/wallet/types/tx_proof.rs\<close>: a transaction proof, its verification, its construction
  from a response of the message queue, and its files. JSON of messages and proofs and the
  slate parser are parameters (fields of \<open>penv\<close>); the file system is a map from paths to
  contents with a set of paths on which the system refuses access.
\<close>

section \<open>The code\<close>

record 'sig tx_proof =
  tp_address :: grinbox_address
  tp_message :: string
  tp_challenge :: string
  tp_signature :: 'sig
  tp_key :: bytes
  tp_amount :: u64
  tp_fee :: u64
  tp_inputs :: "bytes list"
  tp_outputs :: "bytes list"

record ('pk, 'sk, 'sig, 'slate) penv = "('pk, 'sk, 'sig) menv" +
  message_from_json :: "string \<Rightarrow> encrypted_message option"
  deserialize_upgrade :: "string \<Rightarrow> 'slate option"
  proof_to_json :: "'sig tx_proof \<Rightarrow> string res"
  proof_from_json :: "string \<Rightarrow> 'sig tx_proof res"

text \<open>The destination check, skipped where either side names no destination.\<close>

definition destination_differs :: "grinbox_address option \<Rightarrow> grinbox_address option \<Rightarrow> bool" where
  "destination_differs destination expected =
     (case (destination, expected) of
        (Some d, Some x) \<Rightarrow> gb_public_key d \<noteq> gb_public_key x | _ \<Rightarrow> False)"

definition verify_extract ::
  "('pk, 'sk, 'sig, 'slate, 'x) penv_scheme \<Rightarrow> 'sig tx_proof \<Rightarrow> grinbox_address option \<Rightarrow>
   (grinbox_address option \<times> 'slate) res" where
  "verify_extract E self expected_destination =
     (let challenge = tp_message self @ tp_challenge self
      in obind (omap_err (\<lambda>_. Kind TxProofParsePublicKey) (grinbox_public_key E (tp_address self))) (\<lambda>public_key.
         obind (omap_err (\<lambda>_. Kind TxProofVerifySignature)
                  (verify_signature (sha256 E) E challenge (tp_signature self) public_key)) (\<lambda>_.
         obind (of_option (Kind TxProofParseEncryptedMessage) (message_from_json E (tp_message self))) (\<lambda>em.
         let destination = em_destination em
         in if destination_differs destination expected_destination
            then fail TxProofVerifyDestination
            else obind (omap_err (\<lambda>_. Kind TxProofDecryptMessage) (decrypt_with_key E em (tp_key self))) (\<lambda>decrypted.
                 obind (of_option (Kind TxProofParseSlate) (deserialize_upgrade E decrypted)) (\<lambda>slate.
                 Ok (destination, slate)))))))"

definition from_response ::
  "('pk, 'sk, 'sig, 'slate, 'x) penv_scheme \<Rightarrow> string \<Rightarrow> string \<Rightarrow> string \<Rightarrow> string \<Rightarrow> 'sk \<Rightarrow>
   grinbox_address option \<Rightarrow> ('slate \<times> 'sig tx_proof) res" where
  "from_response E from message challenge signature secret_key expected_destination =
     obind (omap_err (\<lambda>_. Kind (TxProofParseAddress from)) (grinbox_from_str E from)) (\<lambda>address.
     obind (omap_err (\<lambda>_. Kind (TxProofParseSignature signature)) (signature_from_hex E signature)) (\<lambda>signature.
     obind (omap_err (\<lambda>_. Kind TxProofParsePublicKey) (grinbox_public_key E address)) (\<lambda>public_key.
     obind (of_option (Kind TxProofParseEncryptedMessage) (message_from_json E message)) (\<lambda>em.
     obind (omap_err (\<lambda>_. Kind TxProofDecryptionKey) (encrypted_message_key E em public_key secret_key)) (\<lambda>key.
     let proof = \<lparr>tp_address = address, tp_message = message, tp_challenge = challenge,
                  tp_signature = signature, tp_key = key, tp_amount = 0, tp_fee = 0,
                  tp_inputs = [], tp_outputs = []\<rparr>
     in obind (verify_extract E proof expected_destination) (\<lambda>(_, slate). Ok (slate, proof)))))))"

subsection \<open>Stored proofs\<close>

definition TX_PROOF_SAVE_DIR :: string where
  "TX_PROOF_SAVE_DIR = ''saved_proofs''"

definition proof_path :: "string \<Rightarrow> string \<Rightarrow> string" where
  "proof_path data_file_dir uuid =
     path_join (path_join data_file_dir TX_PROOF_SAVE_DIR) (uuid @ ''.proof'')"

text \<open>\<open>create_dir_all(..).expect(..)\<close>.\<close>

definition init_proof_backend :: "string \<Rightarrow> fs \<Rightarrow> unit res \<times> fs" where
  "init_proof_backend data_file_dir w =
     (let d = path_join data_file_dir TX_PROOF_SAVE_DIR
      in if denied w d then (Panic, w) else (Ok (), w\<lparr>dirs := d # dirs w\<rparr>))"

definition has_stored_tx_proof :: "string \<Rightarrow> string \<Rightarrow> fs \<Rightarrow> bool res" where
  "has_stored_tx_proof data_file_dir uuid w = Ok (files w (proof_path data_file_dir uuid) \<noteq> None)"

definition get_stored_tx_proof ::
  "('pk, 'sk, 'sig, 'slate, 'x) penv_scheme \<Rightarrow> string \<Rightarrow> string \<Rightarrow> fs \<Rightarrow> 'sig tx_proof res" where
  "get_stored_tx_proof E data_file_dir uuid w =
     (let p = proof_path data_file_dir uuid
      in case files w p of
           None \<Rightarrow> fail TransactionHasNoProof
         | Some content \<Rightarrow> if denied w p then Err (Foreign ''io error'') else proof_from_json E content)"

text \<open>\<open>File::create\<close> truncates the file before the proof is serialized.\<close>

definition store_tx_proof ::
  "('pk, 'sk, 'sig, 'slate, 'x) penv_scheme \<Rightarrow> 'sig tx_proof \<Rightarrow> string \<Rightarrow> string \<Rightarrow> fs \<Rightarrow> unit res \<times> fs" where
  "store_tx_proof E self data_file_dir uuid w =
     (let p = proof_path data_file_dir uuid
      in if denied w p then (Err (Foreign ''io error''), w)
         else let w1 = w\<lparr>files := (files w)(p \<mapsto> [])\<rparr>
              in case proof_to_json E self of
                   Ok proof_ser \<Rightarrow> (Ok (), w1\<lparr>files := (files w1)(p \<mapsto> proof_ser)\<rparr>)
                 | Err e \<Rightarrow> (Err e, w1) | Panic \<Rightarrow> (Panic, w1) | Hang \<Rightarrow> (Hang, w1))"

section \<open>What an accepted proof says\<close>

lemma verify_extract_Ok:
  "verify_extract E pf expected = Ok (dest, slate) \<longleftrightarrow>
     (\<exists>pk em text. grinbox_public_key E (tp_address pf) = Ok pk \<and>
        verify_signature (sha256 E) E (tp_message pf @ tp_challenge pf) (tp_signature pf) pk = Ok () \<and>
        message_from_json E (tp_message pf) = Some em \<and> dest = em_destination em \<and>
        \<not> destination_differs dest expected \<and>
        decrypt_with_key E em (tp_key pf) = Ok text \<and> deserialize_upgrade E text = Some slate)"
  unfolding verify_extract_def Let_def outcome_simps by auto

lemma from_response_Ok:
  assumes "from_response E from message challenge signature sk expected = Ok (slate, pf)"
  shows "\<exists>dest. verify_extract E pf expected = Ok (dest, slate)"
    and "grinbox_from_str E from = Ok (tp_address pf)"
    and "signature_from_hex E signature = Ok (tp_signature pf)"
    and "tp_message pf = message \<and> tp_challenge pf = challenge"
    and "\<exists>pk em. grinbox_public_key E (tp_address pf) = Ok pk \<and> message_from_json E message = Some em \<and>
      encrypted_message_key E em pk sk = Ok (tp_key pf)"
  using assms unfolding from_response_def Let_def outcome_simps by auto

lemma verify_signature_Ok:
  "verify_signature sha S ch g pk = Ok () \<longleftrightarrow>
     (\<exists>m. message_from_slice S (sha (as_bytes ch)) = Ok m \<and> secp_verify S m g pk)"
  unfolding verify_signature_def by (auto simp: obind_Ok_iff)

section \<open>Storage\<close>

lemma proof_path_inj:
  "proof_path d u = proof_path d v \<Longrightarrow> \<not> starts_with u ''/'' \<Longrightarrow> \<not> starts_with v ''/'' \<Longrightarrow> u = v"
  using path_join_inj [of "path_join d TX_PROOF_SAVE_DIR" "u @ ''.proof''" "v @ ''.proof''"]
  by (cases u; cases v) (auto simp: proof_path_def starts_with_def)

lemma store_tx_proof_get:
  assumes "store_tx_proof E pf d u w = (Ok (), w')"
  shows "\<exists>s. proof_to_json E pf = Ok s \<and> get_stored_tx_proof E d u w' = proof_from_json E s \<and>
    has_stored_tx_proof d u w' = Ok True"
  using assms unfolding store_tx_proof_def get_stored_tx_proof_def has_stored_tx_proof_def Let_def
  by (auto split: if_splits outcome.splits)

lemma store_tx_proof_other:
  assumes "store_tx_proof E pf d u w = (r, w')" and "v \<noteq> u"
    and "\<not> starts_with u ''/''" and "\<not> starts_with v ''/''"
  shows "get_stored_tx_proof E d v w' = get_stored_tx_proof E d v w"
proof -
  have "proof_path d v \<noteq> proof_path d u" using proof_path_inj assms(2-4) by metis
  then show ?thesis
    using assms(1) unfolding store_tx_proof_def get_stored_tx_proof_def Let_def
    by (auto split: if_splits outcome.splits option.splits)
qed


section \<open>Properties\<close>

text \<open>A concrete environment for the witnesses; a signature is the digest followed by the key.\<close>

definition demo_em :: encrypted_message where
  "demo_em = \<lparr>em_destination = None, em_encrypted_message = to_hex (as_bytes ''slate'' @ [1, 1]),
     em_salt = to_hex [9, 9], em_nonce = to_hex [5]\<rparr>"

definition demo_penv :: "(bytes, bytes, bytes, string) penv" where
  "demo_penv = menv.extend demo_menv
     \<lparr>message_from_json = (\<lambda>_. Some demo_em), deserialize_upgrade = Some,
      proof_to_json = (\<lambda>p. Ok (tp_message p)),
      proof_from_json = (\<lambda>s. Ok \<lparr>tp_address = \<lparr>gb_public_key = demo_pk, gb_domain = ''mq.mwc.mw'', gb_port = None\<rparr>,
        tp_message = s, tp_challenge = [], tp_signature = [], tp_key = [], tp_amount = 0, tp_fee = 0,
        tp_inputs = [], tp_outputs = []\<rparr>)\<rparr>"

lemmas demo_penv_defs = demo_penv_def demo_menv_def demo_env_def penv.defs menv.defs env.defs

lemma demo_penv_key: "mq_key demo_penv demo_key demo_pk"
  using demo_mq_key
  by (simp add: mq_key_def pk_ok_def public_key_to_base58_check_def serialize_public_key_def version_bytes_def
      demo_penv_defs)

abbreviation demo_sender :: grinbox_address where
  "demo_sender \<equiv> \<lparr>gb_public_key = demo_pk, gb_domain = DEFAULT_GRINBOX_DOMAIN, gb_port = None\<rparr>"

lemma demo_sender_reads: "grinbox_from_str demo_penv demo_pk = Ok demo_sender"
proof -
  have "mq_domain_ok DEFAULT_GRINBOX_DOMAIN None" by code_simp
  then have v: "grinbox_valid demo_penv demo_sender" using demo_penv_key by (auto simp: grinbox_valid_def)
  have "mq_groups demo_pk None None" using mq_key_text [OF demo_penv_key] by (simp add: mq_groups_def)
  moreover have "mq_text demo_pk None None = demo_pk" by (simp add: mq_text_def)
  ultimately have "mq_captures ''mwcmq://'' demo_pk = Some (demo_pk, None, None)"
    using grinbox_captures [of demo_pk demo_pk None None] by simp
  then show ?thesis
    by (intro grinbox_reads [OF v]) (simp add: shown_domain_def shown_port_def)
qed

text \<open>
  C9: a response turned into a proof is authentic: the signature verifies under the public key
  of the sender's address over exactly the message followed by the challenge, the destination
  in the message (when it names one) has the expected key, and the proof kept for later
  verifies again, with the same slate.
\<close>

theorem from_response_sound:
  assumes "from_response E from message challenge signature sk expected = Ok (slate, pf)"
  shows "\<exists>pk m dest. grinbox_from_str E from = Ok (tp_address pf) \<and>
    grinbox_public_key E (tp_address pf) = Ok pk \<and>
    message_from_slice E (sha256 E (as_bytes (message @ challenge))) = Ok m \<and>
    secp_verify E m (tp_signature pf) pk \<and>
    \<not> destination_differs dest expected \<and> verify_extract E pf expected = Ok (dest, slate)"
proof -
  obtain dest where v: "verify_extract E pf expected = Ok (dest, slate)"
    using from_response_Ok(1) [OF assms] by blast
  then show ?thesis
    using from_response_Ok(2,4) [OF assms] unfolding verify_extract_Ok verify_signature_Ok by auto
qed

lemma demo_response:
  "\<exists>pf. from_response demo_penv demo_pk ''{}'' ''c'' (to_hex (replicate 32 0 @ demo_key)) (replicate 33 4) None =
     Ok (''slate'', pf)"
proof -
  have k: "grinbox_public_key demo_penv demo_sender = Ok demo_key"
    using mq_key_parses [OF demo_penv_key] by (simp add: grinbox_public_key_def)
  have g: "signature_from_hex demo_penv (to_hex (replicate 32 0 @ demo_key)) = Ok (replicate 32 0 @ demo_key)"
    using from_hex_to_hex [of "replicate 32 0 @ demo_key"]
    by (simp add: signature_from_hex_def demo_penv_defs demo_key_def)
  obtain key where key: "encrypted_message_key demo_penv demo_em demo_key (replicate 33 4) = Ok key"
    by (simp add: encrypted_message_key_def demo_em_def from_hex_to_hex secret_slice_def demo_penv_defs demo_key_def)
  have s: "verify_signature (sha256 demo_penv) demo_penv ch (replicate 32 0 @ demo_key) demo_key = Ok ()" for ch
    by (simp add: verify_signature_def demo_penv_defs)
  have u: "from_utf8 (as_bytes ''slate'') = Some ''slate''"
    by (rule from_utf8_as_bytes) simp
  have d: "decrypt_with_key demo_penv demo_em key = Ok ''slate''" for key
    using u by (simp add: decrypt_with_key_def demo_em_def from_hex_to_hex demo_penv_defs)
  have j: "message_from_json demo_penv t = Some demo_em" "deserialize_upgrade demo_penv t = Some t" for t
    by (simp_all add: demo_penv_defs)
  show ?thesis
    by (simp add: from_response_def verify_extract_def Let_def demo_sender_reads k g key s d j
        destination_differs_def demo_em_def [THEN arg_cong [where f = em_destination]])
qed

theorem from_response_sound_witness:
  "\<exists>pf pk m. from_response demo_penv demo_pk ''{}'' ''c'' (to_hex (replicate 32 0 @ demo_key)) (replicate 33 4) None =
     Ok (''slate'', pf) \<and> secp_verify demo_penv m (tp_signature pf) pk"
proof -
  obtain pf where "from_response demo_penv demo_pk ''{}'' ''c'' (to_hex (replicate 32 0 @ demo_key))
    (replicate 33 4) None = Ok (''slate'', pf)" using demo_response by auto
  with from_response_sound [OF this] show ?thesis by fast
qed

text \<open>
  A stored proof is the proof that is read back under its transaction id, and storing it
  does not disturb the proofs of other transactions.
\<close>

theorem stored_proof_roundtrip:
  assumes "store_tx_proof E pf d u w = (Ok (), w')"
    and "\<And>s. proof_to_json E pf = Ok s \<Longrightarrow> proof_from_json E s = Ok pf"
    and "v \<noteq> u" and "\<not> starts_with u ''/''" and "\<not> starts_with v ''/''"
  shows "get_stored_tx_proof E d u w' = Ok pf \<and> has_stored_tx_proof d u w' = Ok True \<and>
    get_stored_tx_proof E d v w' = get_stored_tx_proof E d v w"
  using store_tx_proof_get [OF assms(1)] assms(2) store_tx_proof_other [OF assms(1,3,4,5)] by auto

theorem stored_proof_roundtrip_witness:
  "\<exists>pf w'. store_tx_proof demo_penv pf ''/w'' ''u1'' \<lparr>files = Map.empty, dirs = [], denied = (\<lambda>_. False)\<rparr> = (Ok (), w') \<and>
     get_stored_tx_proof demo_penv ''/w'' ''u1'' w' = Ok pf"
proof -
  define pf where "pf = \<lparr>tp_address = \<lparr>gb_public_key = demo_pk, gb_domain = ''mq.mwc.mw'', gb_port = None\<rparr>,
        tp_message = ''msg'', tp_challenge = [], tp_signature = [] :: bytes, tp_key = [], tp_amount = 0, tp_fee = 0,
        tp_inputs = [], tp_outputs = []\<rparr>"
  let ?w = "\<lparr>files = Map.empty, dirs = [], denied = (\<lambda>_. False)\<rparr>"
  obtain w' where w: "store_tx_proof demo_penv pf ''/w'' ''u1'' ?w = (Ok (), w')"
    by (simp add: store_tx_proof_def Let_def demo_penv_defs)
  have "proof_to_json demo_penv pf = Ok s \<Longrightarrow> proof_from_json demo_penv s = Ok pf" for s
    by (auto simp: demo_penv_defs pf_def)
  from stored_proof_roundtrip [OF w this, of "''u2''"] w show ?thesis by (auto simp: starts_with_def)
qed

end
