(* ===== verification/Libwallet.thy ===== *)
theory Libwallet
  imports Bulk_Validate Tx_Proof
begin

text \<open>
  What the wallet code of \<open>src/src/wallet\<close> calls of the crates \<open>grin_wallet_libwallet\<close>,
  \<open>grin_wallet_impls\<close>, \<open>grin_wallet_controller\<close>, \<open>grin_keychain\<close> and \<open>grin_util::secp\<close>.
  None of that code is in the repository: every function is a field of the record \<open>wenv\<close>,
  a state transformer on an opaque state \<open>'st\<close> (the wallet database, the node, the seed
  file). Of the libraries' structures the fields that the code reads are modelled.

  The wallet code runs on a \<open>world\<close>: the library's state, the mutex around the wallet
  instance, the files, the number of console threads whose \<open>running\<close> flag is set, the
  console, and the sequence of library calls made so far.
\<close>

section \<open>Structures of the libraries\<close>

record transaction =
  tx_inputs :: "bytes list"
  tx_outputs :: "bytes list"
  tx_offset :: bytes

record 'pk participant_data =
  pd_public_blind_excess :: 'pk
  pd_message :: "string option"

record 'pk slate =
  sl_id :: string
  sl_amount :: u64
  sl_fee :: u64
  sl_num_participants :: nat
  sl_participant_data :: "'pk participant_data list"
  sl_tx :: transaction

record init_tx_args =
  ia_src_acct_name :: "string option"
  ia_amount :: u64
  ia_minimum_confirmations :: u64
  ia_max_outputs :: u32
  ia_num_change_outputs :: u32
  ia_selection_strategy_is_use_all :: bool
  ia_message :: "string option"
  ia_target_slate_version :: "u16 option"
  ia_ttl_blocks :: "u64 option"
  ia_payment_proof_recipient_address :: "string option"
  ia_address :: "string option"
  ia_estimate_only :: "bool option"
  ia_send_args :: "unit option"

record issue_invoice_tx_args =
  ii_dest_acct_name :: "string option"
  ii_amount :: u64
  ii_message :: "string option"
  ii_target_slate_version :: "u16 option"
  ii_address :: "string option"

record tx_context =
  cx_amount :: u64
  cx_fee :: u64
  cx_input_commits :: "bytes list"
  cx_output_commits :: "bytes list"

record wallet_output = output_data +
  od_height :: u64

record acct_path_mapping =
  am_label :: string
  am_path :: string

text \<open>A commitment with its range proof as the node returns it, at a height and MMR index.\<close>

record pmmr_output =
  po_commit :: bytes
  po_proof :: bytes
  po_height :: u64
  po_mmr_index :: u64

record node_info =
  ni_height :: u64
  ni_total_difficulty :: u64
  ni_peers :: "string list"

record ('sk, 'sig) ext_keychain = "('sk, bytes, nat) keychain" +
  public_root_key_hex :: string
  kc_sign :: "bytes \<Rightarrow> u64 \<Rightarrow> string \<Rightarrow> 'sig res"
  kc_derive_key :: "u64 \<Rightarrow> string \<Rightarrow> 'sk res"

text \<open>A wallet instance, the value inside \<open>Arc<Mutex<Box<dyn WalletInst>>>\<close>: the node client it was made with.\<close>

record inst =
  in_node_uri :: string
  in_node_secret :: "string option"

section \<open>The libraries' functions\<close>

type_synonym ('st, 'a) lio = "(err, 'st, 'a) io"

record ('pk, 'sk, 'sig) cenv = "('pk, 'sk, 'sig, 'pk slate) penv" +
  hash_from_vec :: "bytes \<Rightarrow> bytes"
  grin_from_hex :: "string \<Rightarrow> bytes res"
  grin_to_hex :: "bytes \<Rightarrow> string"
  ser_vec :: "transaction \<Rightarrow> bytes res"
  pk_from_combination :: "'pk list \<Rightarrow> 'pk res"
  commit_value :: "u64 \<Rightarrow> bytes res"
  commit_blind :: "u64 \<Rightarrow> 'sk \<Rightarrow> bytes res"
  commit_sum :: "bytes list \<Rightarrow> bytes list \<Rightarrow> bytes res"
  commit_to_pubkey :: "bytes \<Rightarrow> 'pk res"
  offset_secret_key :: "bytes \<Rightarrow> 'sk res"
  floonet :: bool
  blake2b :: "bytes \<Rightarrow> bytes \<Rightarrow> bytes"
  rewind_bullet_proof :: "bytes \<Rightarrow> 'sk \<Rightarrow> bytes \<Rightarrow> u64 option"
  eligible_to_spend :: "wallet_output \<Rightarrow> u64 \<Rightarrow> u64 \<Rightarrow> bool"
  verify_messages :: "'pk slate \<Rightarrow> unit res"
  show_pk :: "'pk \<Rightarrow> string"

text \<open>The node client, the wallet backend and the console.\<close>

record ('pk, 'sk, 'sig, 'st) benv = "('pk, 'sk, 'sig) cenv" +
  get_chain_tip :: "inst \<Rightarrow> ('st, u64 \<times> string \<times> u64) lio"
  get_connected_peer_info :: "inst \<Rightarrow> ('st, string list) lio"
  node_post_tx :: "inst \<Rightarrow> string \<Rightarrow> bool \<Rightarrow> ('st, unit) lio"
  get_outputs_by_pmmr_index :: "inst \<Rightarrow> u64 \<Rightarrow> u64 \<Rightarrow> ('st, u64 \<times> u64 \<times> pmmr_output list) lio"
  lc_provider :: "inst \<Rightarrow> ('st, unit) lio"
  lc_wallet_inst :: "inst \<Rightarrow> ('st, unit) lio"
  lc_close_wallet :: "inst \<Rightarrow> ('st, unit) lio"
  lc_set_top_level_directory :: "inst \<Rightarrow> string \<Rightarrow> ('st, unit) lio"
  lc_open_wallet :: "inst \<Rightarrow> string \<Rightarrow> string \<Rightarrow> ('st, unit) lio"
  set_parent_key_id_by_name :: "inst \<Rightarrow> string \<Rightarrow> ('st, unit) lio"
  wallet_impl_new :: "inst \<Rightarrow> ('st, unit) lio"
  seed_file_exists :: "string \<Rightarrow> ('st, bool) lio"
  seed_from_file :: "string \<Rightarrow> string \<Rightarrow> ('st, bytes) lio"
  seed_init_file :: "string \<Rightarrow> nat \<Rightarrow> string option \<Rightarrow> string \<Rightarrow> bool \<Rightarrow> bool \<Rightarrow> bytes option \<Rightarrow> ('st, bytes) lio"
  seed_recover_from_phrase :: "string \<Rightarrow> string \<Rightarrow> string \<Rightarrow> ('st, unit) lio"
  seed_to_mnemonic :: "bytes \<Rightarrow> string res"
  spawn_updater :: "inst \<Rightarrow> nat \<Rightarrow> ('st, unit) lio"
  join_updater :: "('st, unit) lio"
  start_console_thread :: "('st, unit) lio"
  display_txs :: "('st, unit) lio"
  display_outputs :: "('st, unit) lio"
  display_tx_messages :: "tx_log_entry \<Rightarrow> ('st, unit) lio"
  display_payment_proof :: "tx_log_entry \<Rightarrow> ('st, unit) lio"

text \<open>
  The operations on the wallet. The functions that are given the shared instance rather
  than the locked wallet take as their second argument whether the calling thread holds the
  instance's mutex.
\<close>

record ('pk, 'sk, 'sig, 'st) wenv = "('pk, 'sk, 'sig, 'st) benv" +
  update_wallet_state :: "inst \<Rightarrow> bool \<Rightarrow> ('st, bool) lio"
  owner_retrieve_summary_info :: "inst \<Rightarrow> bool \<Rightarrow> bool \<Rightarrow> u64 \<Rightarrow> ('st, bool \<times> string) lio"
  owner_cancel_tx :: "inst \<Rightarrow> bool \<Rightarrow> u32 option \<Rightarrow> string option \<Rightarrow> ('st, unit) lio"
  owner_scan :: "inst \<Rightarrow> bool \<Rightarrow> u64 option \<Rightarrow> bool \<Rightarrow> ('st, unit) lio"
  owner_dump_wallet_data :: "inst \<Rightarrow> bool \<Rightarrow> string option \<Rightarrow> ('st, unit) lio"
  owner_process_invoice_tx :: "inst \<Rightarrow> 'pk slate \<Rightarrow> init_tx_args \<Rightarrow> ('st, 'pk slate) lio"
  owner_init_send_tx :: "inst \<Rightarrow> init_tx_args \<Rightarrow> string list option \<Rightarrow> nat \<Rightarrow> ('st, 'pk slate) lio"
  owner_issue_invoice_tx :: "inst \<Rightarrow> issue_invoice_tx_args \<Rightarrow> nat \<Rightarrow> ('st, 'pk slate) lio"
  owner_tx_lock_outputs :: "inst \<Rightarrow> 'pk slate \<Rightarrow> string option \<Rightarrow> nat \<Rightarrow> ('st, unit) lio"
  owner_finalize_tx :: "inst \<Rightarrow> 'pk slate \<Rightarrow> ('st, 'pk slate \<times> tx_context) lio"
  foreign_finalize_invoice_tx :: "inst \<Rightarrow> 'pk slate \<Rightarrow> ('st, 'pk slate) lio"
  foreign_receive_tx :: "inst \<Rightarrow> 'pk slate \<Rightarrow> string option \<Rightarrow> string option \<Rightarrow> u64 list option \<Rightarrow>
    string option \<Rightarrow> string option \<Rightarrow> ('st, 'pk slate) lio"
  updater_build_coinbase :: "inst \<Rightarrow> string \<Rightarrow> ('st, string) lio"
  updater_retrieve_txs :: "inst \<Rightarrow> u32 option \<Rightarrow> string option \<Rightarrow> string option \<Rightarrow> u32 option \<Rightarrow> u32 option \<Rightarrow>
    ('st, tx_log_entry list) lio"
  updater_retrieve_outputs :: "inst \<Rightarrow> bool \<Rightarrow> tx_log_entry option \<Rightarrow> string \<Rightarrow> u32 option \<Rightarrow> u32 option \<Rightarrow>
    ('st, wallet_output list) lio"
  keys_accounts :: "inst \<Rightarrow> ('st, acct_path_mapping list) lio"
  keys_new_acct_path :: "inst \<Rightarrow> string \<Rightarrow> ('st, string) lio"
  keys_rename_acct_path :: "inst \<Rightarrow> acct_path_mapping list \<Rightarrow> string \<Rightarrow> string \<Rightarrow> ('st, unit) lio"
  keys_next_available_key :: "inst \<Rightarrow> ('st, string) lio"
  w_keychain :: "inst \<Rightarrow> ('st, ('sk, 'sig) ext_keychain) lio"
  parent_key_id :: "inst \<Rightarrow> 'st \<Rightarrow> string"
  data_file_dir :: "inst \<Rightarrow> 'st \<Rightarrow> string"
  last_confirmed_height :: "inst \<Rightarrow> ('st, u64) lio"
  get_stored_tx_by_uuid :: "inst \<Rightarrow> string \<Rightarrow> ('st, transaction) lio"
  w_batch :: "inst \<Rightarrow> ('st, unit) lio"
  save_last_scanned_blocks :: "inst \<Rightarrow> u64 \<Rightarrow> (u64 \<times> string) list \<Rightarrow> ('st, unit) lio"
  lib_batch_commit :: "inst \<Rightarrow> ('st, unit) lio"
  w_iter :: "inst \<Rightarrow> 'st \<Rightarrow> output_data list"
  w_tx_log_iter :: "inst \<Rightarrow> 'st \<Rightarrow> tx_log_entry list"
  w_bulk_env :: "inst \<Rightarrow> 'st \<Rightarrow> bulk_env"

section \<open>The world of the wallet code\<close>

text \<open>Library calls, as the trace records them; accessors are not recorded.\<close>

datatype lib_call =
    Update_wallet_state | Retrieve_summary_info | Cancel_tx "u32 option" "string option"
  | Scan "u64 option" bool | Dump_wallet_data
  | Process_invoice_tx string init_tx_args | Init_send_tx init_tx_args | Issue_invoice_tx issue_invoice_tx_args
  | Tx_lock_outputs string nat | Finalize_tx string | Finalize_invoice_tx string
  | Receive_tx string "string option" | Build_coinbase
  | Retrieve_txs "u32 option" "string option" | Retrieve_outputs bool | Get_stored_tx string
  | Accounts | New_acct_path string | Rename_acct_path string string | Next_available_key
  | Get_chain_tip | Get_peer_info | Post_tx string bool | Get_pmmr_outputs u64
  | Save_last_scanned_blocks u64 "(u64 \<times> string) list" | Batch_commit
  | Close_wallet | Open_wallet string | Set_parent_key_id string | Seed_from_file string | Seed_init_file string
  | Seed_recover string | Spawn_updater | Join_updater | Start_console_thread | Display

record 'st world =
  w_lib :: 'st
  w_held :: bool
  w_fs :: fs
  w_consoles :: nat
  w_out :: "string list"
  w_trace :: "lib_call list"

type_synonym ('st, 'a) wio = "(err, 'st world, 'a) io"

definition lib_quiet :: "('st, 'a) lio \<Rightarrow> ('st, 'a) wio" where
  "lib_quiet op = (\<lambda>w. case op (w_lib w) of (r, s) \<Rightarrow> (r, w\<lparr>w_lib := s\<rparr>))"

definition lib :: "lib_call \<Rightarrow> ('st, 'a) lio \<Rightarrow> ('st, 'a) wio" where
  "lib c op = (\<lambda>w. case op (w_lib w) of (r, s) \<Rightarrow> (r, w\<lparr>w_lib := s, w_trace := w_trace w @ [c]\<rparr>))"

text \<open>A call that is given the shared instance and locks it itself.\<close>

definition lib_shared :: "lib_call \<Rightarrow> (bool \<Rightarrow> ('st, 'a) lio) \<Rightarrow> ('st, 'a) wio" where
  "lib_shared c op = (\<lambda>w. lib c (op (w_held w)) w)"

definition lib_read :: "('st \<Rightarrow> 'a) \<Rightarrow> ('st, 'a) wio" where
  "lib_read f = (\<lambda>w. (Ok (f (w_lib w)), w))"

definition on_fs :: "'a fio \<Rightarrow> ('st, 'a) wio" where
  "on_fs m = (\<lambda>w. case m (w_fs w) of (r, s) \<Rightarrow> (r, w\<lparr>w_fs := s\<rparr>))"

definition println :: "string \<Rightarrow> ('st, unit) wio" where
  "println s = io_modify (\<lambda>w. w\<lparr>w_out := w_out w @ [s]\<rparr>)"

definition io_map_err :: "('e \<Rightarrow> 'f) \<Rightarrow> ('e, 'w, 'a) io \<Rightarrow> ('f, 'w, 'a) io" where
  "io_map_err f m = (\<lambda>w. case m w of (r, w') \<Rightarrow> (omap_err f r, w'))"

text \<open>\<open>match m { Ok(x) => k, Err(e) => h }\<close>, and \<open>Result::ok\<close>.\<close>

definition io_match :: "('e, 'w, 'a) io \<Rightarrow> ('a \<Rightarrow> ('f, 'w, 'b) io) \<Rightarrow> ('e \<Rightarrow> ('f, 'w, 'b) io) \<Rightarrow> ('f, 'w, 'b) io" where
  "io_match m k h = (\<lambda>w. case m w of
     (Ok x, w') \<Rightarrow> k x w' | (Err e, w') \<Rightarrow> h e w' | (Panic, w') \<Rightarrow> (Panic, w') | (Hang, w') \<Rightarrow> (Hang, w'))"

lemma io_bind_match: "io_bind m f = io_match m f (\<lambda>e. io_lift (Err e))"
  by (rule ext) (auto simp: io_bind_def io_match_def io_lift_def split: prod.splits outcome.splits)

text \<open>\<open>for x in xs { f(x)?; }\<close>\<close>

primrec io_for :: "('a \<Rightarrow> ('e, 'w, unit) io) \<Rightarrow> 'a list \<Rightarrow> ('e, 'w, unit) io" where
  "io_for f [] = io_return ()"
| "io_for f (x # xs) = io_bind (f x) (\<lambda>_. io_for f xs)"

fun hangs :: "('e, 'a) outcome \<Rightarrow> bool" where
  "hangs Hang = True"
| "hangs _ = False"

text \<open>
  \<open>wallet_lock!\<close>: the mutex is not reentrant, so locking it twice in one thread blocks for
  ever; the guard is dropped at the end of the scope, also on an early return or a panic.
\<close>

definition mutex_scope :: "('st, 'a) wio \<Rightarrow> ('st, 'a) wio" where
  "mutex_scope body = (\<lambda>w.
     if w_held w then (Hang, w)
     else case body (w\<lparr>w_held := True\<rparr>) of (r, w') \<Rightarrow> (r, if hangs r then w' else w'\<lparr>w_held := False\<rparr>))"

definition wallet_lock :: "('pk, 'sk, 'sig, 'st) wenv \<Rightarrow> inst \<Rightarrow> ('st, 'a) wio \<Rightarrow> ('st, 'a) wio" where
  "wallet_lock E i body =
     mutex_scope (io_bind (lib_quiet (lc_provider E i)) (\<lambda>_. io_bind (lib_quiet (lc_wallet_inst E i)) (\<lambda>_. body)))"

text \<open>\<open>expect\<close>, and \<open>let _ =\<close> before a \<open>Result\<close>.\<close>

definition io_expect :: "('e, 'w, 'a) io \<Rightarrow> ('e, 'w, 'a) io" where
  "io_expect m = io_match m io_return (\<lambda>_. io_lift Panic)"

definition io_ignore :: "('e, 'w, 'a) io \<Rightarrow> ('e, 'w, unit) io" where
  "io_ignore m = io_match m (\<lambda>_. io_return ()) (\<lambda>_. io_return ())"

text \<open>
  The console thread around a long call: started with a flag that is cleared, and the thread
  joined, once the call has returned \<open>Ok\<close>; an error leaves by \<open>?\<close> with the flag still set.
\<close>

definition with_console :: "('pk, 'sk, 'sig, 'st) wenv \<Rightarrow> ('st, 'a) wio \<Rightarrow> ('st, 'a) wio" where
  "with_console E body =
     io_bind (lib Start_console_thread (start_console_thread E)) (\<lambda>_.
     io_bind (io_modify (\<lambda>w. w\<lparr>w_consoles := Suc (w_consoles w)\<rparr>)) (\<lambda>_.
     io_bind body (\<lambda>res.
     io_bind (io_modify (\<lambda>w. w\<lparr>w_consoles := w_consoles w - 1\<rparr>)) (\<lambda>_.
     io_return res))))"

section \<open>Frames\<close>

text \<open>
  A relation between the worlds before and after a call that every piece of wallet code
  respects: it holds over a library call, the file system, the console, a locked scope and a
  console thread, and composes.
\<close>

definition frame :: "('st world \<Rightarrow> 'st world \<Rightarrow> bool) \<Rightarrow> ('st, 'a) wio \<Rightarrow> bool" where
  "frame R m \<longleftrightarrow> (\<forall>w. \<not> hangs (fst (m w)) \<longrightarrow> R w (snd (m w)))"

named_theorems frame_intro

locale world_frame =
  fixes R :: "'st world \<Rightarrow> 'st world \<Rightarrow> bool"
  assumes R_refl: "R w w"
    and R_trans: "R w1 w2 \<Longrightarrow> R w2 w3 \<Longrightarrow> R w1 w3"
    and R_lib: "R w (w\<lparr>w_lib := s, w_trace := w_trace w @ cs\<rparr>)"
    and R_fs: "R w (w\<lparr>w_fs := f\<rparr>)"
    and R_out: "R w (w\<lparr>w_out := w_out w @ out\<rparr>)"
    and R_locked: "\<not> w_held w \<Longrightarrow> R (w\<lparr>w_held := True\<rparr>) w' \<Longrightarrow> R w (w'\<lparr>w_held := False\<rparr>)"
    and R_console: "R w (w\<lparr>w_consoles := Suc (w_consoles w)\<rparr>)"
    and R_console_scope: "R (w\<lparr>w_consoles := Suc (w_consoles w)\<rparr>) w' \<Longrightarrow> R w (w'\<lparr>w_consoles := w_consoles w' - 1\<rparr>)"
begin

lemma frame_return: "frame R (io_return x)"
  by (simp add: frame_def io_return_def R_refl)

lemma frame_lift: "frame R (io_lift r)"
  by (simp add: frame_def io_lift_def R_refl)

lemma frame_read: "frame R (lib_read f)"
  by (simp add: frame_def lib_read_def R_refl)

lemma frame_get: "frame R io_get"
  by (simp add: frame_def io_get_def R_refl)

lemma frame_lib: "frame R (lib c op)"
  unfolding frame_def lib_def using R_lib [where cs = "[c]"] by (auto split: prod.split)

lemma frame_lib_quiet: "frame R (lib_quiet op)"
  unfolding frame_def lib_quiet_def using R_lib [where cs = "[]"] by (auto split: prod.split)

lemma frame_lib_shared: "frame R (lib_shared c op)"
  using frame_lib unfolding frame_def lib_shared_def by blast

lemma frame_on_fs: "frame R (on_fs m)"
  unfolding frame_def on_fs_def using R_fs by (auto split: prod.split)

lemma frame_println: "frame R (println s)"
  unfolding frame_def println_def io_modify_def using R_out by simp

lemma frame_match:
  assumes "frame R m" and "\<And>x. frame R (k x)" and "\<And>e. frame R (h e)"
  shows "frame R (io_match m k h)"
  unfolding frame_def
proof (intro allI impI)
  fix w
  assume nh: "\<not> hangs (fst (io_match m k h w))"
  obtain r w' where mw: "m w = (r, w')" by fastforce
  have R: "R w w'" if "\<not> hangs r" using assms(1) that mw by (metis frame_def fst_conv snd_conv)
  have k: "R w' (snd (k x w'))" if "\<not> hangs (fst (k x w'))" for x using assms(2) that by (simp add: frame_def)
  have h: "R w' (snd (h e w'))" if "\<not> hangs (fst (h e w'))" for e using assms(3) that by (simp add: frame_def)
  show "R w (snd (io_match m k h w))"
    using nh mw R k h R_trans by (cases r) (auto simp: io_match_def)
qed

lemma frame_bind: "frame R m \<Longrightarrow> (\<And>x. frame R (f x)) \<Longrightarrow> frame R (io_bind m f)"
  unfolding io_bind_match by (intro frame_match frame_lift)

lemma frame_map_err: "frame R m \<Longrightarrow> frame R (io_map_err f m)"
  unfolding frame_def io_map_err_def
  by (metis (mono_tags, lifting) case_prod_beta fst_conv snd_conv hangs.simps omap_err.simps outcome.exhaust)

lemma frame_for: "(\<And>x. frame R (f x)) \<Longrightarrow> frame R (io_for f xs)"
  by (induction xs) (auto intro: frame_return frame_bind)

lemma frame_if: "(c \<Longrightarrow> frame R m) \<Longrightarrow> (\<not> c \<Longrightarrow> frame R m') \<Longrightarrow> frame R (if c then m else m')"
  by simp

lemma frame_option: "frame R m \<Longrightarrow> (\<And>x. frame R (f x)) \<Longrightarrow> frame R (case y of None \<Rightarrow> m | Some x \<Rightarrow> f x)"
  by (cases y) auto

lemma frame_prod: "(\<And>a b. frame R (f a b)) \<Longrightarrow> frame R (case p of (a, b) \<Rightarrow> f a b)"
  by (cases p) auto

lemma frame_Let: "frame R (f x) \<Longrightarrow> frame R (Let x f)"
  by simp

lemma frame_mutex_scope:
  assumes "frame R body"
  shows "frame R (mutex_scope body)"
proof -
  have R: "R w w'" if "body w = (r, w')" "\<not> hangs r" for w w' r
    using that assms by (metis frame_def fst_conv snd_conv)
  show ?thesis using R_locked [OF _ R] unfolding frame_def mutex_scope_def by (auto split: prod.split if_splits)
qed

lemma frame_wallet_lock: "frame R body \<Longrightarrow> frame R (wallet_lock E i body)"
  unfolding wallet_lock_def by (intro frame_mutex_scope frame_bind frame_lib_quiet)

lemma frame_expect: "frame R m \<Longrightarrow> frame R (io_expect m)"
  unfolding io_expect_def by (intro frame_match frame_return frame_lift)

lemma frame_ignore: "frame R m \<Longrightarrow> frame R (io_ignore m)"
  unfolding io_ignore_def by (intro frame_match frame_return)

lemma frame_with_console:
  assumes "frame R body"
  shows "frame R (with_console E body)"
proof -
  let ?up = "\<lambda>w. w\<lparr>w_consoles := Suc (w_consoles w)\<rparr>" and ?down = "\<lambda>w. w\<lparr>w_consoles := w_consoles w - 1\<rparr>"
  let ?scope = "io_bind (io_modify ?up) (\<lambda>_. io_bind body (\<lambda>res. io_bind (io_modify ?down) (\<lambda>_. io_return res)))"
  have "R w (snd (?scope w))" if "\<not> hangs (fst (?scope w))" for w
  proof (cases "body (?up w)")
    case (Pair r w')
    then have "\<not> hangs r" using that by (cases r) (auto simp: io_bind_def io_modify_def io_return_def)
    then have "R (?up w) w'" using assms Pair by (metis frame_def fst_conv snd_conv)
    then have "R w w'" and "R w (?down w')" using R_trans R_console R_console_scope by blast+
    then show ?thesis using Pair
      by (auto simp: io_bind_def io_modify_def io_return_def split: outcome.split)
  qed
  then have "frame R ?scope" by (simp add: frame_def)
  then show ?thesis unfolding with_console_def by (rule frame_bind [OF frame_lib])
qed

lemmas frame_rules = frame_bind frame_match frame_map_err frame_return frame_lift frame_read frame_get frame_lib
  frame_lib_quiet frame_lib_shared frame_on_fs frame_println frame_for frame_if frame_option frame_prod frame_Let
  frame_mutex_scope frame_wallet_lock frame_expect frame_ignore frame_with_console

end

text \<open>The mutex is as it was; the trace grew; no console flag of another call was cleared.\<close>

definition same_held :: "'st world \<Rightarrow> 'st world \<Rightarrow> bool" where
  "same_held w w' \<longleftrightarrow> w_held w' = w_held w"

definition trace_grows :: "'st world \<Rightarrow> 'st world \<Rightarrow> bool" where
  "trace_grows w w' \<longleftrightarrow> prefix (w_trace w) (w_trace w')"

definition consoles_kept :: "'st world \<Rightarrow> 'st world \<Rightarrow> bool" where
  "consoles_kept w w' \<longleftrightarrow> w_consoles w \<le> w_consoles w'"

interpretation held: world_frame same_held
  by unfold_locales (auto simp: same_held_def)

interpretation traced: world_frame trace_grows
  by unfold_locales (auto simp: trace_grows_def prefix_def)

interpretation consoles: world_frame consoles_kept
  by unfold_locales (auto simp: consoles_kept_def)

end
