(* ===== verification/Wallet_Api.thy ===== *)
theory Wallet_Api
  imports Libwallet
begin

text \<open>
  \<open>src/src/wallet/api/api.rs\<close> (without the bulk validation, theory \<open>Bulk_Validate\<close>) and
  \<open>src/src/wallet/api/restore.rs\<close>: one definition per function, with the order of the
  library calls, the scopes in which the wallet's mutex is held and every early return.
\<close>

section \<open>The code\<close>

text \<open>\<open>start_updater_console_thread\<close>, the call, \<open>running.store(false)\<close>, \<open>join\<close>.\<close>

definition api_sync :: "('pk, 'sk, 'sig, 'st) wenv \<Rightarrow> inst \<Rightarrow> bool \<Rightarrow> ('st, bool) wio" where
  "api_sync E i print_progress =
     (if print_progress then with_console E (lib_shared Update_wallet_state (update_wallet_state E i))
      else lib_shared Update_wallet_state (update_wallet_state E i))"

definition invoice_tx ::
  "('pk, 'sk, 'sig, 'st) wenv \<Rightarrow> inst \<Rightarrow> string option \<Rightarrow> 'pk slate \<Rightarrow> string option \<Rightarrow> u64 \<Rightarrow> u32 \<Rightarrow> u32 \<Rightarrow>
   bool \<Rightarrow> string option \<Rightarrow> ('st, 'pk slate) wio" where
  "invoice_tx E i active_account slate address minimum_confirmations max_outputs num_change_outputs
     selection_strategy_is_use_all message =
     io_bind (lib_shared Update_wallet_state (update_wallet_state E i)) (\<lambda>_.
     wallet_lock E i (
       let params = \<lparr>ia_src_acct_name = active_account, ia_amount = sl_amount slate,
             ia_minimum_confirmations = minimum_confirmations, ia_max_outputs = max_outputs,
             ia_num_change_outputs = num_change_outputs,
             ia_selection_strategy_is_use_all = selection_strategy_is_use_all, ia_message = message,
             ia_target_slate_version = None, ia_ttl_blocks = None, ia_payment_proof_recipient_address = None,
             ia_address = address, ia_estimate_only = None, ia_send_args = None\<rparr>
       in lib (Process_invoice_tx (sl_id slate) params) (owner_process_invoice_tx E i slate params)))"

text \<open>\<open>ExtKeychainPath::new(0,0,0,0,0).to_identifier()\<close> is the library's: an argument.\<close>

definition show_rootpublickey ::
  "('pk, 'sk, 'sig, 'st) wenv \<Rightarrow> string \<Rightarrow> inst \<Rightarrow> string option \<Rightarrow> ('st, unit) wio" where
  "show_rootpublickey E root_id i message =
     wallet_lock E i (
       io_bind (lib_quiet (w_keychain E i)) (\<lambda>keychain.
       io_bind (println (''Root public key: '' @ public_root_key_hex keychain)) (\<lambda>_.
       case message of
         None \<Rightarrow> io_return ()
       | Some msg \<Rightarrow>
           io_bind (io_lift (message_from_slice E (hash_from_vec E (as_bytes msg)))) (\<lambda>msg_message.
           io_bind (io_lift (kc_sign keychain msg_message 0 root_id)) (\<lambda>signature.
           println (''Signature: '' @ to_hex (sig_serialize_der E signature)))))))"

definition api_verifysignature :: "('pk, 'sk, 'sig, 'st) wenv \<Rightarrow> string \<Rightarrow> string \<Rightarrow> string \<Rightarrow> ('st, unit) wio" where
  "api_verifysignature E message signature pubkey =
     io_bind (io_lift (message_from_slice E (hash_from_vec E (as_bytes message)))) (\<lambda>msg.
     io_bind (io_lift (grin_from_hex E pubkey)) (\<lambda>pk.
     io_bind (io_lift (of_option (Foreign ''secp error'') (pk_from_slice E pk))) (\<lambda>pk.
     io_bind (io_lift (grin_from_hex E signature)) (\<lambda>signature.
     io_bind (io_lift (of_option (Foreign ''secp error'') (sig_from_der E signature))) (\<lambda>signature.
     println (if secp_verify E msg signature pk then ''Message, signature and public key are valid!''
              else ''WARNING: Message, signature and public key are INVALID!''))))))"

definition api_getnextkey :: "('pk, 'sk, 'sig, 'st) wenv \<Rightarrow> inst \<Rightarrow> u64 \<Rightarrow> ('st, string) wio" where
  "api_getnextkey E i amount =
     wallet_lock E i (
       io_bind (lib Next_available_key (keys_next_available_key E i)) (\<lambda>id.
       io_bind (lib_quiet (w_keychain E i)) (\<lambda>keychain.
       io_bind (io_lift (kc_derive_key keychain amount id)) (\<lambda>sec_key.
       io_bind (io_lift (of_option (Foreign ''secp error'') (pk_from_secret_key E sec_key))) (\<lambda>pubkey.
       io_return (id @ '', '' @ show_pk E pubkey))))))"

definition api_accounts :: "('pk, 'sk, 'sig, 'st) wenv \<Rightarrow> inst \<Rightarrow> ('st, acct_path_mapping list) wio" where
  "api_accounts E i = wallet_lock E i (lib Accounts (keys_accounts E i))"

definition create_account_path :: "('pk, 'sk, 'sig, 'st) wenv \<Rightarrow> inst \<Rightarrow> string \<Rightarrow> ('st, string) wio" where
  "create_account_path E i label = wallet_lock E i (lib (New_acct_path label) (keys_new_acct_path E i label))"

definition rename_account_path :: "('pk, 'sk, 'sig, 'st) wenv \<Rightarrow> inst \<Rightarrow> string \<Rightarrow> string \<Rightarrow> ('st, unit) wio" where
  "rename_account_path E i old_label new_label =
     io_bind (api_accounts E i) (\<lambda>accounts.
     wallet_lock E i (lib (Rename_acct_path old_label new_label)
       (keys_rename_acct_path E i accounts old_label new_label)))"

text \<open>\<open>let mut ret = 1000000000; for t in &tx { ret = t.id; }\<close>\<close>

definition retrieve_tx_id_by_slate_id :: "('pk, 'sk, 'sig, 'st) wenv \<Rightarrow> inst \<Rightarrow> string \<Rightarrow> ('st, u32) wio" where
  "retrieve_tx_id_by_slate_id E i slate_id =
     wallet_lock E i (
       io_bind (lib (Retrieve_txs None (Some slate_id))
                  (updater_retrieve_txs E i None (Some slate_id) None None None)) (\<lambda>tx.
       io_return (foldl (\<lambda>_ t. tl_id t) 1000000000 tx)))"

definition api_retrieve_outputs ::
  "('pk, 'sk, 'sig, 'st) wenv \<Rightarrow> inst \<Rightarrow> bool \<Rightarrow> bool \<Rightarrow> tx_log_entry option \<Rightarrow> u32 option \<Rightarrow> u32 option \<Rightarrow>
   ('st, bool \<times> wallet_output list) wio" where
  "api_retrieve_outputs E i include_spent refresh_from_node tx pagination_start pagination_len =
     io_bind (if refresh_from_node then api_sync E i True else io_return False) (\<lambda>validated.
     wallet_lock E i (
       io_bind (lib_read (parent_key_id E i)) (\<lambda>pkid.
       io_bind (lib (Retrieve_outputs include_spent)
                  (updater_retrieve_outputs E i include_spent tx pkid pagination_start pagination_len)) (\<lambda>outputs.
       io_return (validated, outputs)))))"

text \<open>The wallet is locked before \<open>sync\<close>, which locks it again.\<close>

definition api_retrieve_txs ::
  "('pk, 'sk, 'sig, 'st) wenv \<Rightarrow> inst \<Rightarrow> bool \<Rightarrow> u32 option \<Rightarrow> string option \<Rightarrow> ('st, bool \<times> tx_log_entry list) wio" where
  "api_retrieve_txs E i refresh_from_node tx_id tx_slate_id =
     wallet_lock E i (
       io_bind (lib_read (parent_key_id E i)) (\<lambda>pkid.
       io_bind (if refresh_from_node then api_sync E i True else io_return False) (\<lambda>validated.
       io_bind (lib (Retrieve_txs tx_id tx_slate_id)
                  (updater_retrieve_txs E i tx_id tx_slate_id (Some pkid) None None)) (\<lambda>txs.
       io_return (validated, txs)))))"

definition ok_or_false :: "bool res \<Rightarrow> bool" where
  "ok_or_false r = (case r of Ok b \<Rightarrow> b | _ \<Rightarrow> False)"

definition retrieve_txs_with_proof_flag ::
  "('pk, 'sk, 'sig, 'st) wenv \<Rightarrow> inst \<Rightarrow> bool \<Rightarrow> u32 option \<Rightarrow> string option \<Rightarrow> u32 option \<Rightarrow> u32 option \<Rightarrow>
   ('st, bool \<times> (tx_log_entry \<times> bool) list) wio" where
  "retrieve_txs_with_proof_flag E i refresh_from_node tx_id tx_slate_id pagination_start pagination_length =
     io_bind (if refresh_from_node then api_sync E i True else io_return False) (\<lambda>validated.
     wallet_lock E i (
       io_bind (lib_read (parent_key_id E i)) (\<lambda>pkid.
       io_bind (lib (Retrieve_txs tx_id tx_slate_id)
                  (updater_retrieve_txs E i tx_id tx_slate_id (Some pkid) pagination_start pagination_length)) (\<lambda>txs.
       io_bind (lib_read (data_file_dir E i)) (\<lambda>dir.
       io_bind io_get (\<lambda>w.
       io_return (validated, map (\<lambda>t. (t,
         case tl_tx_slate_id t of None \<Rightarrow> False
         | Some sid \<Rightarrow> ok_or_false (has_stored_tx_proof dir sid (w_fs w)))) txs)))))))"

definition api_retrieve_summary_info ::
  "('pk, 'sk, 'sig, 'st) wenv \<Rightarrow> inst \<Rightarrow> bool \<Rightarrow> u64 \<Rightarrow> ('st, bool \<times> string) wio" where
  "api_retrieve_summary_info E i refresh_from_node minimum_confirmations =
     with_console E (lib_shared Retrieve_summary_info
       (\<lambda>held. owner_retrieve_summary_info E i held refresh_from_node minimum_confirmations))"

definition initiate_tx ::
  "('pk, 'sk, 'sig, 'st) wenv \<Rightarrow> inst \<Rightarrow> string option \<Rightarrow> string option \<Rightarrow> u64 \<Rightarrow> u64 \<Rightarrow> u32 \<Rightarrow> u32 \<Rightarrow> bool \<Rightarrow>
   string option \<Rightarrow> string list option \<Rightarrow> u16 option \<Rightarrow> nat \<Rightarrow> ('st, 'pk slate) wio" where
  "initiate_tx E i active_account address amount minimum_confirmations max_outputs num_change_outputs
     selection_strategy_is_use_all message outputs version routputs =
     io_bind (lib_shared Update_wallet_state (update_wallet_state E i)) (\<lambda>_.
     wallet_lock E i (
       let params = \<lparr>ia_src_acct_name = active_account, ia_amount = amount,
             ia_minimum_confirmations = minimum_confirmations, ia_max_outputs = max_outputs,
             ia_num_change_outputs = num_change_outputs,
             ia_selection_strategy_is_use_all = selection_strategy_is_use_all, ia_message = message,
             ia_target_slate_version = version, ia_ttl_blocks = None, ia_payment_proof_recipient_address = None,
             ia_address = address, ia_estimate_only = None, ia_send_args = None\<rparr>
       in lib (Init_send_tx params) (owner_init_send_tx E i params outputs routputs)))"

definition api_tx_lock_outputs ::
  "('pk, 'sk, 'sig, 'st) wenv \<Rightarrow> inst \<Rightarrow> 'pk slate \<Rightarrow> string option \<Rightarrow> nat \<Rightarrow> ('st, unit) wio" where
  "api_tx_lock_outputs E i slate address participant_id =
     wallet_lock E i (lib (Tx_lock_outputs (sl_id slate) participant_id)
       (owner_tx_lock_outputs E i slate address participant_id))"

text \<open>
  Code with a \<open>&mut Slate\<close>: the slate is part of the state, and what was written to it stays
  written when the code fails afterwards. \<open>mut_slate\<close> runs code that returns the slate it
  leaves with its own result.
\<close>

type_synonym ('pk, 'st, 'a) sio = "(err, 'st world \<times> 'pk slate, 'a) io"

definition on_world :: "('st, 'a) wio \<Rightarrow> (err, 'st world \<times> 'b, 'a) io" where
  "on_world m = (\<lambda>(w, s). case m w of (r, w') \<Rightarrow> (r, (w', s)))"

fun seal_slate :: "'pk slate \<Rightarrow> ('pk slate \<times> (err + 'a)) res \<Rightarrow> 'a res \<times> 'pk slate" where
  "seal_slate s (Ok (s', Inr x)) = (Ok x, s')"
| "seal_slate s (Ok (s', Inl e)) = (Err e, s')"
| "seal_slate s (Err e) = (Err e, s)"
| "seal_slate s Panic = (Panic, s)"
| "seal_slate s Hang = (Hang, s)"

definition mut_slate :: "('pk slate \<Rightarrow> ('st, 'pk slate \<times> (err + 'a)) wio) \<Rightarrow> ('pk, 'st, 'a) sio" where
  "mut_slate m = (\<lambda>(w, s). case m s w of (r, w') \<Rightarrow> (case seal_slate s r of (r', s') \<Rightarrow> (r', (w', s'))))"

definition get_slate :: "('pk, 'st, 'pk slate) sio" where
  "get_slate = (\<lambda>(w, s). (Ok s, (w, s)))"

definition fill_proof :: "'sig tx_proof \<Rightarrow> tx_context \<Rightarrow> 'sig tx_proof" where
  "fill_proof pf context =
     pf\<lparr>tp_amount := cx_amount context, tp_fee := cx_fee context,
        tp_inputs := tp_inputs pf @ cx_input_commits context,
        tp_outputs := tp_outputs pf @ cx_output_commits context\<rparr>"

definition finalize_and_store ::
  "('pk, 'sk, 'sig, 'st) wenv \<Rightarrow> inst \<Rightarrow> 'sig tx_proof option \<Rightarrow> 'pk slate \<Rightarrow> ('st, 'pk slate \<times> (err + bool)) wio" where
  "finalize_and_store E i tx_proof slate =
     io_bind (lib (Finalize_tx (sl_id slate)) (owner_finalize_tx E i slate)) (\<lambda>(slate, context).
     case tx_proof of
       None \<Rightarrow> io_return (slate, Inr True)
     | Some pf \<Rightarrow>
         let pf = fill_proof pf context
         in io_bind (lib_read (data_file_dir E i)) (\<lambda>dir.
            io_match (on_fs (store_tx_proof E pf dir (sl_id slate)))
              (\<lambda>_. io_return (slate, Inr True)) (\<lambda>e. io_return (slate, Inl e))))"

definition api_finalize_tx ::
  "('pk, 'sk, 'sig, 'st) wenv \<Rightarrow> inst \<Rightarrow> 'sig tx_proof option \<Rightarrow> ('pk, 'st, bool) sio" where
  "api_finalize_tx E i tx_proof = mut_slate (\<lambda>slate. wallet_lock E i (finalize_and_store E i tx_proof slate))"

definition api_finalize_invoice_tx ::
  "('pk, 'sk, 'sig, 'st) wenv \<Rightarrow> inst \<Rightarrow> ('pk, 'st, bool) sio" where
  "api_finalize_invoice_tx E i = mut_slate (\<lambda>slate.
     wallet_lock E i (
       io_bind (lib (Finalize_invoice_tx (sl_id slate)) (foreign_finalize_invoice_tx E i slate)) (\<lambda>slate.
       io_return (slate, Inr True))))"

definition api_cancel_tx :: "('pk, 'sk, 'sig, 'st) wenv \<Rightarrow> inst \<Rightarrow> u32 option \<Rightarrow> string option \<Rightarrow> ('st, unit) wio" where
  "api_cancel_tx E i tx_id tx_slate_id =
     with_console E (lib_shared (Cancel_tx tx_id tx_slate_id)
       (\<lambda>held. owner_cancel_tx E i held tx_id tx_slate_id))"

definition api_get_stored_tx :: "('pk, 'sk, 'sig, 'st) wenv \<Rightarrow> inst \<Rightarrow> string \<Rightarrow> ('st, transaction) wio" where
  "api_get_stored_tx E i uuid = wallet_lock E i (lib (Get_stored_tx uuid) (get_stored_tx_by_uuid E i uuid))"

definition api_node_info :: "('pk, 'sk, 'sig, 'st) wenv \<Rightarrow> inst \<Rightarrow> ('st, node_info) wio" where
  "api_node_info E i =
     wallet_lock E i (
       io_bind (io_match (lib Get_chain_tip (get_chain_tip E i))
                  (\<lambda>(hght, _, total_diff). io_return (hght, total_diff)) (\<lambda>_. io_return (0, 0)))
         (\<lambda>(height, total_difficulty).
       io_bind (io_match (lib Get_peer_info (get_connected_peer_info E i)) io_return (\<lambda>_. io_return [])) (\<lambda>peers.
       io_return \<lparr>ni_height = height, ni_total_difficulty = total_difficulty, ni_peers = peers\<rparr>)))"

text \<open>The lock is held only while the node client is cloned.\<close>

definition api_post_tx :: "('pk, 'sk, 'sig, 'st) wenv \<Rightarrow> inst \<Rightarrow> transaction \<Rightarrow> bool \<Rightarrow> ('st, unit) wio" where
  "api_post_tx E i tx fluff =
     io_bind (io_lift (unwrap (ser_vec E tx))) (\<lambda>ser.
     let tx_hex = grin_to_hex E ser
     in io_bind (wallet_lock E i (io_return i)) (\<lambda>client.
        lib (Post_tx tx_hex fluff) (node_post_tx E client tx_hex fluff)))"

definition verify_slate_messages :: "('pk, 'sk, 'sig, 'st) wenv \<Rightarrow> 'pk slate \<Rightarrow> ('st, unit) wio" where
  "verify_slate_messages E slate = io_lift (verify_messages E slate)"

definition api_check_repair :: "('pk, 'sk, 'sig, 'st) wenv \<Rightarrow> inst \<Rightarrow> u64 \<Rightarrow> bool \<Rightarrow> ('st, unit) wio" where
  "api_check_repair E i start_height delete_unconfirmed =
     with_console E (lib_shared (Scan (Some start_height) delete_unconfirmed)
       (\<lambda>held. owner_scan E i held (Some start_height) delete_unconfirmed))"

definition api_restore :: "('pk, 'sk, 'sig, 'st) wenv \<Rightarrow> inst \<Rightarrow> ('st, unit) wio" where
  "api_restore E i = api_check_repair E i 1 True"

definition api_dump_wallet_data :: "('pk, 'sk, 'sig, 'st) wenv \<Rightarrow> inst \<Rightarrow> string option \<Rightarrow> ('st, unit) wio" where
  "api_dump_wallet_data E i file_name =
     with_console E (lib_shared Dump_wallet_data (\<lambda>held. owner_dump_wallet_data E i held file_name))"

text \<open>Without a node, the height is the highest of the wallet's outputs.\<close>

definition api_node_height :: "('pk, 'sk, 'sig, 'st) wenv \<Rightarrow> inst \<Rightarrow> ('st, u64 \<times> bool) wio" where
  "api_node_height E i =
     io_match (wallet_lock E i (io_match (lib Get_chain_tip (get_chain_tip E i))
         (\<lambda>tip. io_return (Some (fst tip))) (\<lambda>_. io_return None)))
       (\<lambda>res. case res of
          Some height \<Rightarrow> io_return (height, True)
        | None \<Rightarrow>
            io_bind (api_retrieve_outputs E i True False None None None) (\<lambda>outputs.
            io_return (case map od_height (snd outputs) of [] \<Rightarrow> 0 | h # hs \<Rightarrow> foldl max h hs, False)))
       (\<lambda>e. io_lift (Err e))"

definition api_get_stored_tx_proof :: "('pk, 'sk, 'sig, 'st) wenv \<Rightarrow> inst \<Rightarrow> u32 \<Rightarrow> ('st, 'sig tx_proof) wio" where
  "api_get_stored_tx_proof E i tx_id =
     wallet_lock E i (
       io_bind (lib_read (parent_key_id E i)) (\<lambda>pkid.
       io_bind (lib (Retrieve_txs (Some tx_id) None) (updater_retrieve_txs E i (Some tx_id) None (Some pkid) None None)) (\<lambda>txs.
       if length txs \<noteq> 1 then io_lift (fail TransactionHasNoProof)
       else
         io_bind (io_lift (of_option (Kind TransactionHasNoProof) (tl_tx_slate_id (txs ! 0)))) (\<lambda>uuid.
         io_bind (lib_read (data_file_dir E i)) (\<lambda>dir.
         io_bind io_get (\<lambda>w. io_lift (get_stored_tx_proof E dir uuid (w_fs w))))))))"

definition api_derive_address_key :: "('pk, 'sk, 'sig, 'st) wenv \<Rightarrow> inst \<Rightarrow> u32 \<Rightarrow> ('st, 'sk) wio" where
  "api_derive_address_key E i index =
     wallet_lock E i (
       io_bind (lib_quiet (w_keychain E i)) (\<lambda>keychain.
       io_lift (derive_address_key (keychain.truncate keychain) (floonet E) (unat index))))"

definition api_initiate_receive_tx ::
  "('pk, 'sk, 'sig, 'st) wenv \<Rightarrow> inst \<Rightarrow> string option \<Rightarrow> string option \<Rightarrow> u64 \<Rightarrow> nat \<Rightarrow> string option \<Rightarrow>
   ('st, 'pk slate) wio" where
  "api_initiate_receive_tx E i address active_account amount num_outputs message =
     wallet_lock E i (
       let params = \<lparr>ii_dest_acct_name = active_account, ii_amount = amount, ii_message = message,
             ii_target_slate_version = None, ii_address = address\<rparr>
       in lib (Issue_invoice_tx params) (owner_issue_invoice_tx E i params num_outputs))"

definition api_build_coinbase :: "('pk, 'sk, 'sig, 'st) wenv \<Rightarrow> inst \<Rightarrow> string \<Rightarrow> ('st, string) wio" where
  "api_build_coinbase E i block_fees = wallet_lock E i (lib Build_coinbase (updater_build_coinbase E i block_fees))"

definition api_receive_tx ::
  "('pk, 'sk, 'sig, 'st) wenv \<Rightarrow> inst \<Rightarrow> string option \<Rightarrow> 'pk slate \<Rightarrow> string option \<Rightarrow> string option \<Rightarrow>
   u64 list option \<Rightarrow> string option \<Rightarrow> ('st, 'pk slate) wio" where
  "api_receive_tx E i address slate message key_id output_amounts dest_acct_name =
     wallet_lock E i (lib (Receive_tx (sl_id slate) dest_acct_name)
       (foreign_receive_tx E i slate address key_id output_amounts dest_acct_name message))"

definition api_txs_bulk_validate ::
  "('pk, 'sk, 'sig, 'st) wenv \<Rightarrow> inst \<Rightarrow> string \<Rightarrow> string \<Rightarrow> string \<Rightarrow> ('st, unit) wio" where
  "api_txs_bulk_validate E i kernels_fn outputs_fn result_fn =
     wallet_lock E i (
       io_bind (lib_read (\<lambda>s. (w_bulk_env E i s, parent_key_id E i s, w_iter E i s, w_tx_log_iter E i s)))
         (\<lambda>(B, pkid, outputs, txs).
       io_bind (on_fs (txs_bulk_validate B pkid outputs txs kernels_fn outputs_fn result_fn)) (\<lambda>_. io_return ())))"


subsection \<open>Verifying a transaction proof\<close>

text \<open>
  The receiver's outputs are those of the slate that the proof does not list as the sender's
  own; the proof is accepted when they carry the amount (first check) and when the whole
  transaction balances (second check). \<open>participant_data[1]\<close> panics on a slate with fewer
  than two participants.
\<close>

definition foreign_commits :: "bytes list \<Rightarrow> bytes list \<Rightarrow> bytes list" where
  "foreign_commits own cs = filter (\<lambda>c. c \<notin> set own) cs"

definition api_verify_tx_proof ::
  "('pk, 'sk, 'sig, 'st) wenv \<Rightarrow> 'sig tx_proof \<Rightarrow>
   (grinbox_address option \<times> grinbox_address \<times> u64 \<times> bytes list \<times> bytes) res" where
  "api_verify_tx_proof E tx_proof =
     obind (omap_err (\<lambda>_. Kind VerifyProof) (verify_extract E tx_proof None)) (\<lambda>(destination, slate).
     let inputs = foreign_commits (tp_inputs tx_proof) (tx_inputs (sl_tx slate));
         outputs = foreign_commits (tp_outputs tx_proof) (tx_outputs (sl_tx slate))
     in if length (sl_participant_data slate) < 2 then Panic
        else
          let excess = pd_public_blind_excess (sl_participant_data slate ! 1);
              excess_parts = map pd_public_blind_excess (sl_participant_data slate)
          in obind (omap_err (\<lambda>_. Kind VerifyProof) (pk_from_combination E excess_parts)) (\<lambda>excess_sum.
             obind (commit_value E (tp_amount tx_proof)) (\<lambda>commit_amount.
             obind (commit_sum E outputs (inputs @ [commit_amount])) (\<lambda>commit_excess.
             obind (commit_to_pubkey E commit_excess) (\<lambda>pubkey_excess.
             if excess \<noteq> pubkey_excess then fail VerifyProof
             else
               obind (offset_secret_key E (tx_offset (sl_tx slate))) (\<lambda>offset.
               obind (commit_blind E 0 offset) (\<lambda>commit_offset.
               obind (commit_value E (sl_fee slate)) (\<lambda>commit_fee.
               obind (commit_sum E (tx_outputs (sl_tx slate) @ [commit_fee])
                        (tx_inputs (sl_tx slate) @ [commit_offset])) (\<lambda>excess_sum_com.
               obind (commit_to_pubkey E excess_sum_com) (\<lambda>pubkey_sum.
               if pubkey_sum \<noteq> excess_sum then fail VerifyProof
               else Ok (destination, tp_address tx_proof, tp_amount tx_proof, outputs, excess_sum_com)))))))))))"

subsection \<open>Scanning the chain for the outputs of public keys\<close>

record pub_key_info =
  pki_pub_key_hex :: string
  pki_rewind_hash :: bytes

definition pub_key_info_of :: "('pk, 'sk, 'sig, 'st) wenv \<Rightarrow> 'pk \<Rightarrow> pub_key_info" where
  "pub_key_info_of E pk =
     \<lparr>pki_pub_key_hex = public_key_to_hex E pk, pki_rewind_hash = blake2b E [] (pk_serialize_vec E pk)\<rparr>"

definition open_append :: "string \<Rightarrow> unit fio" where
  "open_append p = (\<lambda>w. if denied w p then (Err io_error, w)
     else (Ok (), w\<lparr>files := (files w)(p \<mapsto> unwrap_or (files w p) [])\<rparr>))"

definition append_file :: "string \<Rightarrow> string \<Rightarrow> unit fio" where
  "append_file p t = (\<lambda>w. (Ok (), w\<lparr>files := (files w)(p \<mapsto> unwrap_or (files w p) [] @ t)\<rparr>))"

definition scan_line :: "pub_key_info \<Rightarrow> pmmr_output \<Rightarrow> u64 \<Rightarrow> string" where
  "scan_line info out value =
     ''PublicKey='' @ pki_pub_key_hex info @ '' Commit='' @ commitment_to_hex (po_commit out) @
     '' amount='' @ show_nat (unat value) @ '' height='' @ show_nat (unat (po_height out)) @
     '' mmr_index='' @ show_nat (unat (po_mmr_index out)) @ [CHR 0x0A]"

definition scan_key :: "('pk, 'sk, 'sig, 'st) wenv \<Rightarrow> string \<Rightarrow> pmmr_output \<Rightarrow> pub_key_info \<Rightarrow> ('st, unit) wio" where
  "scan_key E output_fn out info =
     io_bind (io_lift (of_option (Kind (GenericError ''error: Unable to create nonce: InvalidSecretKey''))
                (sk_from_slice E (blake2b E (po_commit out) (pki_rewind_hash info))))) (\<lambda>nonce.
     case rewind_bullet_proof E (po_commit out) nonce (po_proof out) of
       None \<Rightarrow> io_return ()
     | Some value \<Rightarrow> on_fs (append_file output_fn (scan_line info out value)))"

definition scan_page ::
  "('pk, 'sk, 'sig, 'st) wenv \<Rightarrow> pub_key_info list \<Rightarrow> string \<Rightarrow> pmmr_output list \<Rightarrow> ('st, unit) wio" where
  "scan_page E infos output_fn outputs = io_for (\<lambda>out. io_for (scan_key E output_fn out) infos) outputs"

text \<open>The loop over the pages, with the number of pages it may fetch; \<open>Hang\<close> is running out of it.\<close>

primrec scan_loop ::
  "nat \<Rightarrow> ('pk, 'sk, 'sig, 'st) wenv \<Rightarrow> inst \<Rightarrow> pub_key_info list \<Rightarrow> string \<Rightarrow> u64 \<Rightarrow> ('st, unit) wio" where
  "scan_loop 0 E i infos output_fn start_index = io_lift Hang"
| "scan_loop (Suc fuel) E i infos output_fn start_index =
     io_bind (lib (Get_pmmr_outputs start_index) (get_outputs_by_pmmr_index E i start_index 1000))
       (\<lambda>(highest_index, last_retrieved_index, outputs).
     io_bind (println (''Scanning '' @ show_nat (length outputs) @ '' outputs, up to index '' @
        show_nat (unat highest_index) @ ''. (Highest index: '' @ show_nat (unat last_retrieved_index) @ '')'')) (\<lambda>_.
     io_bind (scan_page E infos output_fn outputs) (\<lambda>_.
     if highest_index = last_retrieved_index then io_return ()
     else scan_loop fuel E i infos output_fn (last_retrieved_index + 1))))"

definition scan_outputs ::
  "nat \<Rightarrow> ('pk, 'sk, 'sig, 'st) wenv \<Rightarrow> inst \<Rightarrow> 'pk list \<Rightarrow> string \<Rightarrow> ('st, unit) wio" where
  "scan_outputs fuel E i pub_keys output_fn =
     io_bind (println ''Starting scan outputs.'') (\<lambda>_.
     io_bind (on_fs (open_append output_fn)) (\<lambda>_.
     scan_loop fuel E i (map (pub_key_info_of E) pub_keys) output_fn 1))"

definition api_scan_outputs ::
  "nat \<Rightarrow> ('pk, 'sk, 'sig, 'st) wenv \<Rightarrow> inst \<Rightarrow> 'pk list \<Rightarrow> string \<Rightarrow> ('st, unit) wio" where
  "api_scan_outputs fuel E i pub_keys output_fn = wallet_lock E i (scan_outputs fuel E i pub_keys output_fn)"

end
