(* ===== verification/Wallet.thy ===== *)
theory Wallet
  imports Wallet_Api
begin

text \<open>
  \<open>src/src/wallet/wallet.rs\<close>: the wallet object. Methods with \<open>&self\<close> are functions of the
  wallet value on the world; methods with \<open>&mut self\<close> also have the wallet in their state.
\<close>

section \<open>The code\<close>

record wallet =
  active_account :: string
  wl_backend :: "inst option"
  wl_max_auto_accept_invoice :: "u64 option"
  updater_running :: bool
  updater_handler :: "unit option"

type_synonym ('st, 'a) mio = "(err, 'st world \<times> wallet, 'a) io"

definition wallet_new :: "u64 option \<Rightarrow> wallet" where
  "wallet_new max_auto = \<lparr>active_account = ''default'', wl_backend = None, wl_max_auto_accept_invoice = max_auto,
     updater_running = False, updater_handler = None\<rparr>"

definition get_self :: "('st, wallet) mio" where
  "get_self = (\<lambda>(w, self). (Ok self, (w, self)))"

definition set_self :: "(wallet \<Rightarrow> wallet) \<Rightarrow> ('st, unit) mio" where
  "set_self f = (\<lambda>(w, self). (Ok (), (w, f self)))"

definition get_wallet_instance :: "wallet \<Rightarrow> inst res" where
  "get_wallet_instance self = of_option (Kind NoWallet) (wl_backend self)"

definition with_inst :: "wallet \<Rightarrow> (inst \<Rightarrow> ('st, 'a) wio) \<Rightarrow> ('st, 'a) wio" where
  "with_inst self f = io_bind (io_lift (get_wallet_instance self)) f"

definition is_locked :: "wallet \<Rightarrow> bool" where
  "is_locked self \<longleftrightarrow> wl_backend self = None"

subsection \<open>Locking and unlocking\<close>

definition wl_lock :: "('pk, 'sk, 'sig, 'st) wenv \<Rightarrow> ('st, unit) mio" where
  "wl_lock E =
     io_bind (set_self (\<lambda>s. s\<lparr>updater_running := False\<rparr>)) (\<lambda>_.
     io_bind get_self (\<lambda>self.
     io_bind (case updater_handler self of
         None \<Rightarrow> io_return ()
       | Some thr \<Rightarrow>
           io_bind (set_self (\<lambda>s. s\<lparr>updater_handler := None\<rparr>)) (\<lambda>_.
           on_world (io_expect (lib Join_updater (join_updater E))))) (\<lambda>_.
     io_bind (case wl_backend self of
         None \<Rightarrow> io_return ()
       | Some i \<Rightarrow> on_world (mutex_scope (io_ignore (
           io_bind (lib_quiet (lc_provider E i)) (\<lambda>_. lib Close_wallet (lc_close_wallet E i)))))) (\<lambda>_.
     set_self (\<lambda>s. s\<lparr>wl_backend := None\<rparr>)))))"

definition start_updater :: "('pk, 'sk, 'sig, 'st) wenv \<Rightarrow> nat \<Rightarrow> ('st, unit) mio" where
  "start_updater E frequency =
     io_bind (set_self (\<lambda>s. s\<lparr>updater_running := True\<rparr>)) (\<lambda>_.
     io_bind get_self (\<lambda>self.
     io_bind (io_lift (get_wallet_instance self)) (\<lambda>i.
     on_world (lib Spawn_updater (spawn_updater E i frequency)))))"

text \<open>The part of \<open>create_wallet_instance\<close> that builds the instance, before \<open>self\<close> changes.\<close>

definition open_instance ::
  "('pk, 'sk, 'sig, 'st) wenv \<Rightarrow> 'sk wallet713_config \<Rightarrow> string \<Rightarrow> string \<Rightarrow> ('st, inst) wio" where
  "open_instance E config account passphrase =
     io_bind (io_lift (get_data_path_str config)) (\<lambda>data_path.
     io_bind (on_fs (init_proof_backend data_path)) (\<lambda>_.
     let i = \<lparr>in_node_uri = cfg_mwc_node_uri config, in_node_secret = cfg_mwc_node_secret config\<rparr>
     in io_bind (lib (Seed_from_file data_path) (seed_from_file E data_path passphrase)) (\<lambda>_.
        io_bind (io_expect (lib_quiet (wallet_impl_new E i))) (\<lambda>_.
        io_bind (io_expect (lib_quiet (lc_provider E i))) (\<lambda>_.
        io_bind (io_lift (get_top_level_directory config)) (\<lambda>top.
        io_bind (lib_quiet (lc_set_top_level_directory E i top)) (\<lambda>_.
        io_bind (io_lift (get_wallet_data_directory config)) (\<lambda>data_dir.
        io_bind (lib (Open_wallet data_dir) (lc_open_wallet E i passphrase data_dir)) (\<lambda>_.
        io_bind (lib_quiet (lc_wallet_inst E i)) (\<lambda>_.
        io_bind (lib (Set_parent_key_id account) (set_parent_key_id_by_name E i account)) (\<lambda>_.
        io_return i)))))))))))"

definition create_wallet_instance ::
  "('pk, 'sk, 'sig, 'st) wenv \<Rightarrow> 'sk wallet713_config \<Rightarrow> string \<Rightarrow> string \<Rightarrow> ('st, unit) mio" where
  "create_wallet_instance E config account passphrase =
     io_bind (on_world (open_instance E config account passphrase)) (\<lambda>i.
     io_bind (set_self (\<lambda>s. s\<lparr>wl_backend := Some i\<rparr>)) (\<lambda>_.
     case wallet_updater_frequency_sec config of
       None \<Rightarrow> io_return ()
     | Some freq \<Rightarrow>
         io_bind (start_updater E (unat freq)) (\<lambda>handler.
         set_self (\<lambda>s. s\<lparr>updater_handler := Some handler\<rparr>))))"

definition unlock ::
  "('pk, 'sk, 'sig, 'st) wenv \<Rightarrow> 'sk wallet713_config \<Rightarrow> string \<Rightarrow> string \<Rightarrow> ('st, unit) mio" where
  "unlock E config account passphrase =
     io_bind (wl_lock E) (\<lambda>_.
     io_bind (io_map_err (\<lambda>_. Kind WalletUnlockFailed) (create_wallet_instance E config account passphrase)) (\<lambda>_.
     set_self (\<lambda>s. s\<lparr>active_account := account\<rparr>)))"

subsection \<open>Seeds\<close>

definition seed_exists :: "('pk, 'sk, 'sig, 'st) wenv \<Rightarrow> 'sk wallet713_config \<Rightarrow> ('st, bool) wio" where
  "seed_exists E config =
     (case get_data_path_str config of
        Ok path \<Rightarrow> io_match (lib_quiet (seed_file_exists E path)) io_return (\<lambda>_. io_return False)
      | _ \<Rightarrow> io_return False)"

definition init_seed ::
  "('pk, 'sk, 'sig, 'st) wenv \<Rightarrow> 'sk wallet713_config \<Rightarrow> string \<Rightarrow> bool \<Rightarrow> bool \<Rightarrow> bytes option \<Rightarrow> ('st, bytes) wio" where
  "init_seed E config passphrase create_new create_file seed =
     io_bind (io_lift (get_data_path_str config)) (\<lambda>data_file_dir.
     io_match (lib (Seed_from_file data_file_dir) (seed_from_file E data_file_dir passphrase)) io_return (\<lambda>_.
       if create_new then lib (Seed_init_file data_file_dir)
           (seed_init_file E data_file_dir 32 None passphrase create_file (\<not> create_file) seed)
       else io_lift (fail WalletSeedCouldNotBeOpened)))"

definition wl_complete ::
  "('pk, 'sk, 'sig, 'st) wenv \<Rightarrow> bytes \<Rightarrow> 'sk wallet713_config \<Rightarrow> string \<Rightarrow> string \<Rightarrow> bool \<Rightarrow> ('st, bytes) mio" where
  "wl_complete E seed config account passphrase create_new =
     io_bind (on_world (init_seed E config passphrase create_new True (Some seed))) (\<lambda>seed.
     io_bind (unlock E config account passphrase) (\<lambda>_.
     io_return seed))"

definition wl_init :: "('pk, 'sk, 'sig, 'st) wenv \<Rightarrow> 'sk wallet713_config \<Rightarrow> string \<Rightarrow> bool \<Rightarrow> ('st, bytes) wio" where
  "wl_init E config passphrase create_new = init_seed E config passphrase create_new False None"

definition restore_seed :: "('pk, 'sk, 'sig, 'st) wenv \<Rightarrow> 'sk wallet713_config \<Rightarrow> string list \<Rightarrow> string \<Rightarrow> ('st, unit) wio" where
  "restore_seed E config words passphrase =
     io_bind (io_lift (get_data_path_str config)) (\<lambda>path.
     lib (Seed_recover path) (seed_recover_from_phrase E path (str_join '' '' words) passphrase))"

definition show_mnemonic :: "('pk, 'sk, 'sig, 'st) wenv \<Rightarrow> 'sk wallet713_config \<Rightarrow> string \<Rightarrow> ('st, unit) wio" where
  "show_mnemonic E config passphrase =
     io_bind (io_lift (get_data_path_str config)) (\<lambda>path.
     io_bind (lib (Seed_from_file path) (seed_from_file E path passphrase)) (\<lambda>seed.
     io_bind (io_lift (seed_to_mnemonic E seed)) (\<lambda>phrase. println phrase)))"

subsection \<open>Keys and accounts\<close>

definition generic_err :: "err \<Rightarrow> err" where
  "generic_err e = Kind (GenericError (err_display e))"

definition getrootpublickey :: "('pk, 'sk, 'sig, 'st) wenv \<Rightarrow> string \<Rightarrow> wallet \<Rightarrow> string option \<Rightarrow> ('st, unit) wio" where
  "getrootpublickey E root_id self message =
     with_inst self (\<lambda>i. io_map_err generic_err (show_rootpublickey E root_id i message))"

definition wl_verifysignature :: "('pk, 'sk, 'sig, 'st) wenv \<Rightarrow> string \<Rightarrow> string \<Rightarrow> string \<Rightarrow> ('st, unit) wio" where
  "wl_verifysignature E message signature pubkey =
     io_map_err generic_err (api_verifysignature E message signature pubkey)"

definition wl_scan_outputs :: "nat \<Rightarrow> ('pk, 'sk, 'sig, 'st) wenv \<Rightarrow> wallet \<Rightarrow> 'pk list \<Rightarrow> string \<Rightarrow> ('st, unit) wio" where
  "wl_scan_outputs fuel E self pub_keys output_fn =
     with_inst self (\<lambda>i. api_scan_outputs fuel E i pub_keys output_fn)"

definition getnextkey :: "('pk, 'sk, 'sig, 'st) wenv \<Rightarrow> wallet \<Rightarrow> u64 \<Rightarrow> ('st, unit) wio" where
  "getnextkey E self amount =
     with_inst self (\<lambda>i. io_bind (api_getnextkey E i amount) (\<lambda>key. println (quoted key)))"

definition wl_node_info :: "('pk, 'sk, 'sig, 'st) wenv \<Rightarrow> wallet \<Rightarrow> ('st, unit) wio" where
  "wl_node_info E self =
     with_inst self (\<lambda>i. io_bind (api_node_info E i) (\<lambda>ni.
       if ni_height ni = 0 \<and> ni_total_difficulty ni = 0
       then println ''Error: Error occured trying to contact node!''
       else
         io_bind (println ''Node Info:'') (\<lambda>_.
         io_bind (println (''Height: '' @ show_nat (unat (ni_height ni)))) (\<lambda>_.
         io_bind (println (''Total_Difficulty: '' @ show_nat (unat (ni_total_difficulty ni)))) (\<lambda>_.
         println (''PeerInfo: ['' @ str_join '', '' (ni_peers ni) @ '']''))))))"

text \<open>\<open>for m in acct_mappings { if m.label == account { ret = true; } }\<close>\<close>

definition account_exists :: "('pk, 'sk, 'sig, 'st) wenv \<Rightarrow> wallet \<Rightarrow> string \<Rightarrow> ('st, bool) wio" where
  "account_exists E self account =
     with_inst self (\<lambda>i. io_bind (api_accounts E i) (\<lambda>acct_mappings.
       io_return (foldl (\<lambda>ret m. if am_label m = account then True else ret) False acct_mappings)))"

definition display_call :: "('st, unit) wio" where
  "display_call = lib Display (\<lambda>s. (Ok (), s))"

definition list_accounts :: "('pk, 'sk, 'sig, 'st) wenv \<Rightarrow> wallet \<Rightarrow> ('st, unit) wio" where
  "list_accounts E self = with_inst self (\<lambda>i. io_bind (api_accounts E i) (\<lambda>_. display_call))"

definition rename_account :: "('pk, 'sk, 'sig, 'st) wenv \<Rightarrow> wallet \<Rightarrow> string \<Rightarrow> string \<Rightarrow> ('st, unit) wio" where
  "rename_account E self old_name new_name = with_inst self (\<lambda>i. rename_account_path E i old_name new_name)"

definition create_account :: "('pk, 'sk, 'sig, 'st) wenv \<Rightarrow> wallet \<Rightarrow> string \<Rightarrow> ('st, unit) wio" where
  "create_account E self name =
     with_inst self (\<lambda>i. io_bind (create_account_path E i name) (\<lambda>_. io_return ()))"

definition wl_derive_address_key :: "('pk, 'sk, 'sig, 'st) wenv \<Rightarrow> wallet \<Rightarrow> u32 \<Rightarrow> ('st, 'sk) wio" where
  "wl_derive_address_key E self index = with_inst self (\<lambda>i. api_derive_address_key E i index)"

subsection \<open>Reading the wallet\<close>

definition update_tip_as_last_scanned :: "('pk, 'sk, 'sig, 'st) wenv \<Rightarrow> wallet \<Rightarrow> ('st, unit) wio" where
  "update_tip_as_last_scanned E self =
     with_inst self (\<lambda>i. wallet_lock E i (
       io_bind (lib Get_chain_tip (get_chain_tip E i)) (\<lambda>(tip_height, tip_hash, _).
       io_bind (lib_quiet (w_batch E i)) (\<lambda>_.
       io_bind (lib (Save_last_scanned_blocks 0 [(tip_height, tip_hash)])
                  (save_last_scanned_blocks E i 0 [(tip_height, tip_hash)])) (\<lambda>_.
       lib Batch_commit (lib_batch_commit E i))))))"

definition wl_info :: "('pk, 'sk, 'sig, 'st) wenv \<Rightarrow> wallet \<Rightarrow> bool \<Rightarrow> u64 \<Rightarrow> ('st, unit) wio" where
  "wl_info E self refresh confirmations =
     with_inst self (\<lambda>i. io_bind (api_retrieve_summary_info E i refresh confirmations) (\<lambda>_. display_call))"

definition get_id :: "('pk, 'sk, 'sig, 'st) wenv \<Rightarrow> wallet \<Rightarrow> string \<Rightarrow> ('st, u32) wio" where
  "get_id E self slate_id =
     with_inst self (\<lambda>i. io_bind (api_node_height E i) (\<lambda>_.
     with_inst self (\<lambda>i. retrieve_tx_id_by_slate_id E i slate_id)))"

definition txs_count :: "('pk, 'sk, 'sig, 'st) wenv \<Rightarrow> wallet \<Rightarrow> ('st, nat) wio" where
  "txs_count E self =
     with_inst self (\<lambda>i. io_bind (retrieve_txs_with_proof_flag E i False None None None None) (\<lambda>(_, txs).
       io_return (length txs)))"

definition wl_retrieve_outputs ::
  "('pk, 'sk, 'sig, 'st) wenv \<Rightarrow> wallet \<Rightarrow> bool \<Rightarrow> bool \<Rightarrow> tx_log_entry option \<Rightarrow> ('st, bool \<times> wallet_output list) wio" where
  "wl_retrieve_outputs E self include_spent refresh_from_node tx =
     with_inst self (\<lambda>i. api_retrieve_outputs E i include_spent refresh_from_node tx None None)"

definition current_height :: "('pk, 'sk, 'sig, 'st) wenv \<Rightarrow> inst \<Rightarrow> bool \<Rightarrow> ('st, u64) wio" where
  "current_height E i refresh_from_node =
     (if refresh_from_node then io_bind (api_node_height E i) (\<lambda>(h, _). io_return h)
      else wallet_lock E i (lib_quiet (last_confirmed_height E i)))"

text \<open>The id whose details are shown: the one asked for, or that of the transaction with the slate id.\<close>

definition shown_id :: "u32 option \<Rightarrow> string option \<Rightarrow> tx_log_entry list \<Rightarrow> ('st, u32 option) wio" where
  "shown_id tx_id tx_slate_id txs =
     (if tx_id \<noteq> None then io_return tx_id
      else if tx_slate_id \<noteq> None then
        (case find (\<lambda>t. tl_tx_slate_id t = tx_slate_id) txs of
           Some tx \<Rightarrow> io_return (Some (tl_id tx))
         | None \<Rightarrow> io_bind (println (''Could not find a transaction matching given tx Uuid.'' @ [CHR 0x0A])) (\<lambda>_. io_return None))
      else io_return None)"

definition wl_txs ::
  "('pk, 'sk, 'sig, 'st) wenv \<Rightarrow> wallet \<Rightarrow> bool \<Rightarrow> u32 option \<Rightarrow> u32 option \<Rightarrow> u32 option \<Rightarrow> string option \<Rightarrow>
   ('st, unit) wio" where
  "wl_txs E self refresh_from_node pagination_start pagination_length tx_id tx_slate_id =
     with_inst self (\<lambda>i.
     io_bind (current_height E i refresh_from_node) (\<lambda>height.
     io_bind (retrieve_txs_with_proof_flag E i refresh_from_node tx_id tx_slate_id pagination_start pagination_length)
       (\<lambda>(validated, txs).
     let txs = map fst txs
     in io_bind (wallet_lock E i (lib_read (data_file_dir E i))) (\<lambda>data_dir.
        io_bind (shown_id tx_id tx_slate_id txs) (\<lambda>shown.
        io_bind (lib Display (display_txs E)) (\<lambda>_.
        if length txs \<noteq> 1 \<or> shown = None then io_return ()
        else
          io_bind (wl_retrieve_outputs E self True False (Some (txs ! 0))) (\<lambda>_.
          io_bind (lib Display (display_outputs E)) (\<lambda>_.
          io_for (\<lambda>tx. io_bind (lib Display (display_tx_messages E tx)) (\<lambda>_.
            lib Display (display_payment_proof E tx))) txs))))))))"

definition wl_txs_bulk_validate :: "('pk, 'sk, 'sig, 'st) wenv \<Rightarrow> wallet \<Rightarrow> string \<Rightarrow> string \<Rightarrow> string \<Rightarrow> ('st, unit) wio" where
  "wl_txs_bulk_validate E self kernels_fn outputs_fn result_fn =
     with_inst self (\<lambda>i. api_txs_bulk_validate E i kernels_fn outputs_fn result_fn)"

text \<open>The two loops over the outputs; \<open>value\<close> is a \<open>u64\<close> and wraps around.\<close>

primrec total_loop ::
  "('pk, 'sk, 'sig, 'st) wenv \<Rightarrow> u64 \<Rightarrow> u64 \<Rightarrow> string list option \<Rightarrow> wallet_output list \<Rightarrow> u64 \<Rightarrow> u64 res" where
  "total_loop E height minconf output_list [] value = Ok value"
| "total_loop E height minconf output_list (out # outs) value =
     (if eligible_to_spend E out height minconf then
        (case output_list of
           None \<Rightarrow> total_loop E height minconf output_list outs (value + od_value out)
         | Some ol \<Rightarrow> (case od_commit out of
             None \<Rightarrow> Panic
           | Some commit_str \<Rightarrow> total_loop E height minconf output_list outs
               (if commit_str \<in> set ol then value + od_value out else value)))
      else total_loop E height minconf output_list outs value)"

definition total_value ::
  "('pk, 'sk, 'sig, 'st) wenv \<Rightarrow> wallet \<Rightarrow> bool \<Rightarrow> u64 \<Rightarrow> string list option \<Rightarrow> ('st, u64) wio" where
  "total_value E self refresh_from_node minimum_confirmations output_list =
     with_inst self (\<lambda>i.
     io_bind (api_node_height E i) (\<lambda>(height, _).
     io_bind (api_retrieve_outputs E i False refresh_from_node None None None) (\<lambda>(_, outputs).
     io_lift (total_loop E height minimum_confirmations output_list outputs 0))))"

definition all_output_count :: "('pk, 'sk, 'sig, 'st) wenv \<Rightarrow> wallet \<Rightarrow> bool \<Rightarrow> ('st, nat) wio" where
  "all_output_count E self show_spent =
     with_inst self (\<lambda>i. io_bind (api_retrieve_outputs E i show_spent False None None None) (\<lambda>(_, outputs).
       io_return (length outputs)))"

primrec count_loop ::
  "('pk, 'sk, 'sig, 'st) wenv \<Rightarrow> u64 \<Rightarrow> u64 \<Rightarrow> string list option \<Rightarrow> wallet_output list \<Rightarrow> nat \<Rightarrow> nat res" where
  "count_loop E height minconf output_list [] n = Ok n"
| "count_loop E height minconf output_list (out # outs) n =
     (if eligible_to_spend E out height minconf then
        (case output_list of
           None \<Rightarrow> count_loop E height minconf output_list outs (n + 1)
         | Some ol \<Rightarrow> (case od_commit out of
             None \<Rightarrow> Panic
           | Some commit_str \<Rightarrow> count_loop E height minconf output_list outs
               (if commit_str \<in> set ol then n + 1 else n)))
      else count_loop E height minconf output_list outs n)"

definition output_count ::
  "('pk, 'sk, 'sig, 'st) wenv \<Rightarrow> wallet \<Rightarrow> bool \<Rightarrow> u64 \<Rightarrow> string list option \<Rightarrow> ('st, nat) wio" where
  "output_count E self refresh_from_node minimum_confirmations output_list =
     with_inst self (\<lambda>i.
     io_bind (api_node_height E i) (\<lambda>(height, _).
     io_bind (api_retrieve_outputs E i False refresh_from_node None None None) (\<lambda>(_, outputs).
     io_lift (count_loop E height minimum_confirmations output_list outputs 0))))"

definition wl_outputs :: "('pk, 'sk, 'sig, 'st) wenv \<Rightarrow> wallet \<Rightarrow> bool \<Rightarrow> bool \<Rightarrow> u32 option \<Rightarrow> u32 option \<Rightarrow> ('st, unit) wio" where
  "wl_outputs E self refresh_from_node show_spent pagination_start pagination_length =
     with_inst self (\<lambda>i.
     io_bind (current_height E i refresh_from_node) (\<lambda>height.
     io_bind (api_retrieve_outputs E i show_spent refresh_from_node None pagination_start pagination_length) (\<lambda>_.
     lib Display (display_outputs E))))"


definition wl_retrieve_summary_info :: "('pk, 'sk, 'sig, 'st) wenv \<Rightarrow> wallet \<Rightarrow> bool \<Rightarrow> u64 \<Rightarrow> ('st, string) wio" where
  "wl_retrieve_summary_info E self refresh confirmations =
     with_inst self (\<lambda>i. io_bind (api_retrieve_summary_info E i refresh confirmations) (\<lambda>(_, wallet_info).
       io_return wallet_info))"

definition wl_retrieve_txs ::
  "('pk, 'sk, 'sig, 'st) wenv \<Rightarrow> wallet \<Rightarrow> bool \<Rightarrow> u32 option \<Rightarrow> string option \<Rightarrow> ('st, bool \<times> tx_log_entry list) wio" where
  "wl_retrieve_txs E self refresh_from_node tx_id tx_slate_id =
     with_inst self (\<lambda>i. api_retrieve_txs E i refresh_from_node tx_id tx_slate_id)"

definition wl_get_stored_tx :: "('pk, 'sk, 'sig, 'st) wenv \<Rightarrow> wallet \<Rightarrow> string \<Rightarrow> ('st, transaction) wio" where
  "wl_get_stored_tx E self uuid = with_inst self (\<lambda>i. api_get_stored_tx E i uuid)"

definition wl_node_height :: "('pk, 'sk, 'sig, 'st) wenv \<Rightarrow> wallet \<Rightarrow> ('st, u64 \<times> bool) wio" where
  "wl_node_height E self = with_inst self (api_node_height E)"

definition get_tx_proof :: "('pk, 'sk, 'sig, 'st) wenv \<Rightarrow> wallet \<Rightarrow> u32 \<Rightarrow> ('st, 'sig tx_proof) wio" where
  "get_tx_proof E self tx_id = with_inst self (\<lambda>i. api_get_stored_tx_proof E i tx_id)"

definition wl_verify_tx_proof ::
  "('pk, 'sk, 'sig, 'st) wenv \<Rightarrow> 'sig tx_proof \<Rightarrow> (string option \<times> string \<times> u64 \<times> string list \<times> string) res" where
  "wl_verify_tx_proof E tx_proof =
     obind (api_verify_tx_proof E tx_proof) (\<lambda>(sender, receiver, amount, outputs, excess_sum).
     Ok (map_option gb_public_key sender, gb_public_key receiver, amount, map (grin_to_hex E) outputs,
         commitment_to_hex excess_sum))"

subsection \<open>Transactions\<close>

definition initiate_send_tx ::
  "('pk, 'sk, 'sig, 'st) wenv \<Rightarrow> wallet \<Rightarrow> string option \<Rightarrow> u64 \<Rightarrow> u64 \<Rightarrow> string \<Rightarrow> u32 \<Rightarrow> u32 \<Rightarrow> string option \<Rightarrow>
   string list option \<Rightarrow> u16 option \<Rightarrow> nat \<Rightarrow> ('st, 'pk slate) wio" where
  "initiate_send_tx E self address amount minimum_confirmations selection_strategy change_outputs max_outputs
     message outputs version routputs =
     with_inst self (\<lambda>i. initiate_tx E i (Some (active_account self)) address amount minimum_confirmations
       max_outputs change_outputs (selection_strategy = ''all'') message outputs version routputs)"

definition wl_initiate_receive_tx ::
  "('pk, 'sk, 'sig, 'st) wenv \<Rightarrow> wallet \<Rightarrow> string option \<Rightarrow> u64 \<Rightarrow> nat \<Rightarrow> ('st, 'pk slate) wio" where
  "wl_initiate_receive_tx E self address amount num_outputs =
     with_inst self (\<lambda>i. api_initiate_receive_tx E i address (Some (active_account self)) amount num_outputs None)"

definition repost :: "('pk, 'sk, 'sig, 'st) wenv \<Rightarrow> wallet \<Rightarrow> u32 \<Rightarrow> bool \<Rightarrow> ('st, unit) wio" where
  "repost E self tx_id fluff =
     with_inst self (\<lambda>i.
     io_bind (api_retrieve_txs E i True (Some tx_id) None) (\<lambda>(_, txs).
     if length txs = 0 then io_lift (fail (GenericError
          (''could not find transaction with id '' @ show_nat (unat tx_id) @ ''!'')))
     else (case tl_tx_slate_id (txs ! 0) of
         Some slate_id \<Rightarrow>
           io_bind (api_get_stored_tx E i slate_id) (\<lambda>stored_tx.
           api_post_tx E i stored_tx fluff)
       | None \<Rightarrow> io_lift (fail (GenericError
           (''no transaction data stored for id '' @ show_nat (unat tx_id) @ '', can not repost!''))))))"

definition wl_cancel :: "('pk, 'sk, 'sig, 'st) wenv \<Rightarrow> wallet \<Rightarrow> u32 \<Rightarrow> ('st, unit) wio" where
  "wl_cancel E self tx_id = with_inst self (\<lambda>i. api_cancel_tx E i (Some tx_id) None)"

definition restore_state :: "('pk, 'sk, 'sig, 'st) wenv \<Rightarrow> wallet \<Rightarrow> ('st, unit) wio" where
  "restore_state E self = with_inst self (api_restore E)"

definition wl_check_repair :: "('pk, 'sk, 'sig, 'st) wenv \<Rightarrow> wallet \<Rightarrow> u64 \<Rightarrow> bool \<Rightarrow> ('st, unit) wio" where
  "wl_check_repair E self start_height delete_unconfirmed =
     with_inst self (\<lambda>i. api_check_repair E i start_height delete_unconfirmed)"

definition wl_sync :: "('pk, 'sk, 'sig, 'st) wenv \<Rightarrow> wallet \<Rightarrow> ('st, bool) wio" where
  "wl_sync E self = with_inst self (\<lambda>i. api_sync E i True)"

definition wl_dump_wallet_data :: "('pk, 'sk, 'sig, 'st) wenv \<Rightarrow> wallet \<Rightarrow> string option \<Rightarrow> ('st, unit) wio" where
  "wl_dump_wallet_data E self file_name = with_inst self (\<lambda>i. api_dump_wallet_data E i file_name)"

definition wl_build_coinbase :: "('pk, 'sk, 'sig, 'st) wenv \<Rightarrow> wallet \<Rightarrow> string \<Rightarrow> ('st, string) wio" where
  "wl_build_coinbase E self block_fees = with_inst self (\<lambda>i. api_build_coinbase E i block_fees)"

definition process_sender_initiated_slate ::
  "('pk, 'sk, 'sig, 'st) wenv \<Rightarrow> wallet \<Rightarrow> string option \<Rightarrow> string option \<Rightarrow> u64 list option \<Rightarrow> string option \<Rightarrow>
   ('pk, 'st, unit) sio" where
  "process_sender_initiated_slate E self address key_id output_amounts dest_acct_name = mut_slate (\<lambda>slate.
     with_inst self (\<lambda>i.
     io_bind (io_map_err (\<lambda>_. Kind GrinWalletReceiveError)
                (api_receive_tx E i address slate None key_id output_amounts dest_acct_name)) (\<lambda>s.
     io_return (s, Inr ()))))"

text \<open>The guards come before the wallet is asked for; the slate is written before the outputs are locked.\<close>

definition process_receiver_initiated_slate ::
  "('pk, 'sk, 'sig, 'st) wenv \<Rightarrow> wallet \<Rightarrow> string option \<Rightarrow> ('pk, 'st, unit) sio" where
  "process_receiver_initiated_slate E self address = mut_slate (\<lambda>slate.
     io_bind (io_lift (of_option (Kind DoesNotAcceptInvoices) (wl_max_auto_accept_invoice self))) (\<lambda>max_auto.
     if sl_amount slate > max_auto then io_lift (fail (InvoiceAmountTooBig (sl_amount slate)))
     else
       io_bind (with_inst self (\<lambda>i.
         invoice_tx E i (Some (active_account self)) slate address 10 500 1 False None)) (\<lambda>slate.
       io_match (with_inst self (\<lambda>i. api_tx_lock_outputs E i slate address 1))
         (\<lambda>_. io_return (slate, Inr ())) (\<lambda>e. io_return (slate, Inl e)))))"

definition wl_tx_lock_outputs ::
  "('pk, 'sk, 'sig, 'st) wenv \<Rightarrow> wallet \<Rightarrow> 'pk slate \<Rightarrow> string option \<Rightarrow> nat \<Rightarrow> ('st, unit) wio" where
  "wl_tx_lock_outputs E self slate address participant_id =
     with_inst self (\<lambda>i. api_tx_lock_outputs E i slate address participant_id)"

definition submit :: "('pk, 'sk, 'sig, 'st) wenv \<Rightarrow> wallet \<Rightarrow> transaction \<Rightarrow> ('st, unit) wio" where
  "submit E self txn =
     with_inst self (\<lambda>i. io_map_err (\<lambda>_. Kind GrinWalletPostError) (api_post_tx E i txn False))"

definition wl_post_tx :: "('pk, 'sk, 'sig, 'st) wenv \<Rightarrow> wallet \<Rightarrow> transaction \<Rightarrow> bool \<Rightarrow> ('st, unit) wio" where
  "wl_post_tx E self tx fluff = with_inst self (\<lambda>i. api_post_tx E i tx fluff)"

text \<open>The common shape of the two finalizations: check the messages, finalize, post.\<close>

definition verify_finalize_post ::
  "('pk, 'sk, 'sig, 'st) wenv \<Rightarrow> wallet \<Rightarrow> (inst \<Rightarrow> ('pk, 'st, bool) sio) \<Rightarrow> ('pk, 'st, unit) sio" where
  "verify_finalize_post E self finalize =
     io_bind (io_lift (get_wallet_instance self)) (\<lambda>i.
     io_bind get_slate (\<lambda>slate.
     io_bind (io_map_err (\<lambda>_. Kind GrinWalletVerifySlateMessagesError)
                (on_world (verify_slate_messages E slate))) (\<lambda>_.
     io_bind (io_map_err (\<lambda>_. Kind GrinWalletFinalizeError) (finalize i)) (\<lambda>should_post.
     if should_post then
       io_bind get_slate (\<lambda>slate.
       io_map_err (\<lambda>_. Kind GrinWalletPostError) (on_world (api_post_tx E i (sl_tx slate) False)))
     else io_return ()))))"

definition finalize_slate :: "('pk, 'sk, 'sig, 'st) wenv \<Rightarrow> wallet \<Rightarrow> 'sig tx_proof option \<Rightarrow> ('pk, 'st, unit) sio" where
  "finalize_slate E self tx_proof = verify_finalize_post E self (\<lambda>i. api_finalize_tx E i tx_proof)"

definition finalize_invoice_slate :: "('pk, 'sk, 'sig, 'st) wenv \<Rightarrow> wallet \<Rightarrow> ('pk, 'st, unit) sio" where
  "finalize_invoice_slate E self = verify_finalize_post E self (\<lambda>i. api_finalize_invoice_tx E i)"

end
