(* ===== verification/Wallet_Reasoning.thy ===== *)
theory Wallet_Reasoning
  imports Wallet
begin

text \<open>
  How properties of the wallet code are derived: rules for code that returns with the mutex
  in the state it found (\<open>keeps\<close>), the calls that a locked scope makes, the contract of a
  library that answers (\<open>responsive\<close>), and a concrete library for the witnesses.
\<close>

section \<open>Returning with the mutex free\<close>

text \<open>
  \<open>keeps P m\<close>: entered in a state with \<open>P\<close>, the code does not block, and leaves a state with
  \<open>P\<close>. Used with the state of the mutex, alone or beside a slate or the wallet.
\<close>

definition keeps :: "('w \<Rightarrow> bool) \<Rightarrow> ('e, 'w, 'a) io \<Rightarrow> bool" where
  "keeps P m \<longleftrightarrow> (\<forall>w. P w \<longrightarrow> \<not> hangs (fst (m w)) \<and> P (snd (m w)))"

definition mutex :: "bool \<Rightarrow> 'st world \<Rightarrow> bool" where
  "mutex h w \<longleftrightarrow> w_held w = h"

definition answers :: "('st, 'a) lio \<Rightarrow> bool" where
  "answers op \<longleftrightarrow> (\<forall>s. \<not> hangs (fst (op s)))"

lemma keepsD: "keeps P m \<Longrightarrow> P w \<Longrightarrow> m w = (r, w') \<Longrightarrow> \<not> hangs r \<and> P w'"
  unfolding keeps_def by (metis fst_conv snd_conv)

lemma hangs_omap_err [simp]: "hangs (omap_err f r) = hangs r"
  by (cases r) auto

lemma hangs_of_option [simp]: "\<not> hangs (of_option e x)"
  by (cases x) auto

lemma keeps_return: "keeps P (io_return x)"
  by (simp add: keeps_def io_return_def)

lemma keeps_lift: "\<not> hangs r \<Longrightarrow> keeps P (io_lift r)"
  by (simp add: keeps_def io_lift_def)

lemma keeps_get: "keeps P io_get"
  by (simp add: keeps_def io_get_def)

lemma keeps_match:
  assumes "keeps P m" and "\<And>x. keeps P (k x)" and "\<And>e. keeps P (f e)"
  shows "keeps P (io_match m k f)"
  unfolding keeps_def
proof (intro allI impI)
  fix w
  assume w: "P w"
  obtain r w' where mw: "m w = (r, w')" by fastforce
  then have "\<not> hangs r" and "P w'" using keepsD [OF assms(1) w] by auto
  then show "\<not> hangs (fst (io_match m k f w)) \<and> P (snd (io_match m k f w))"
    using mw assms(2,3) by (cases r) (auto simp: io_match_def keeps_def)
qed

lemma keeps_bind: "keeps P m \<Longrightarrow> (\<And>x. keeps P (f x)) \<Longrightarrow> keeps P (io_bind m f)"
  unfolding io_bind_match by (intro keeps_match keeps_lift) auto

lemma keeps_map_err: "keeps P m \<Longrightarrow> keeps P (io_map_err f m)"
  by (simp add: keeps_def io_map_err_def case_prod_beta)

lemma keeps_if: "(c \<Longrightarrow> keeps P m) \<Longrightarrow> (\<not> c \<Longrightarrow> keeps P m') \<Longrightarrow> keeps P (if c then m else m')"
  by simp

lemma keeps_option: "keeps P m \<Longrightarrow> (\<And>x. keeps P (f x)) \<Longrightarrow> keeps P (case y of None \<Rightarrow> m | Some x \<Rightarrow> f x)"
  by (cases y) auto

lemma keeps_prod: "(\<And>a b. keeps P (f a b)) \<Longrightarrow> keeps P (case p of (a, b) \<Rightarrow> f a b)"
  by (cases p) auto

lemma keeps_read: "keeps (mutex h) (lib_read f)"
  by (simp add: keeps_def lib_read_def)

lemma keeps_println: "keeps (mutex h) (println s)"
  by (simp add: keeps_def println_def io_modify_def mutex_def)

lemma keeps_lib: "answers op \<Longrightarrow> keeps (mutex h) (lib c op)"
  by (simp add: keeps_def mutex_def answers_def lib_def case_prod_beta)

lemma keeps_lib_quiet: "answers op \<Longrightarrow> keeps (mutex h) (lib_quiet op)"
  by (simp add: keeps_def mutex_def answers_def lib_quiet_def case_prod_beta)

lemma keeps_lib_shared: "answers (op h) \<Longrightarrow> keeps (mutex h) (lib_shared c op)"
  using keeps_lib [of "op h" h c] by (simp add: keeps_def mutex_def lib_shared_def)

lemma keeps_on_fs: "(\<And>s. \<not> hangs (fst (m s))) \<Longrightarrow> keeps (mutex h) (on_fs m)"
  by (simp add: keeps_def mutex_def on_fs_def case_prod_beta)

lemma keeps_mutex_scope: "keeps (mutex True) body \<Longrightarrow> keeps (mutex False) (mutex_scope body)"
  by (simp add: keeps_def mutex_def mutex_scope_def case_prod_beta)

lemma keeps_consoles: "(\<And>w. w_held (f w) = w_held w) \<Longrightarrow> keeps (mutex h) (io_modify f)"
  by (simp add: keeps_def mutex_def io_modify_def)

lemma keeps_on_world: "keeps P m \<Longrightarrow> keeps (P \<circ> fst) (on_world m)"
  by (simp add: keeps_def on_world_def case_prod_beta)

lemma keeps_get_slate: "keeps P get_slate"
  by (simp add: keeps_def get_slate_def case_prod_beta)

text \<open>The library answers when the wallet's mutex is free.\<close>

definition responsive :: "('pk, 'sk, 'sig, 'st) wenv \<Rightarrow> bool" where
  "responsive E \<longleftrightarrow>
     (\<forall>i. answers (lc_provider E i) \<and> answers (lc_wallet_inst E i) \<and> answers (update_wallet_state E i False) \<and>
        answers (get_chain_tip E i)) \<and>
     answers (start_console_thread E) \<and>
     (\<forall>i a b. answers (owner_cancel_tx E i False a b)) \<and>
     (\<forall>i s p. answers (owner_process_invoice_tx E i s p)) \<and>
     (\<forall>i p os n. answers (owner_init_send_tx E i p os n)) \<and>
     (\<forall>i s a n. answers (owner_tx_lock_outputs E i s a n)) \<and>
     (\<forall>i s. answers (owner_finalize_tx E i s) \<and> answers (foreign_finalize_invoice_tx E i s)) \<and>
     (\<forall>i s a k n d m. answers (foreign_receive_tx E i s a k n d m)) \<and>
     (\<forall>i a b c d e. answers (updater_retrieve_txs E i a b c d e)) \<and>
     (\<forall>i a b c d e. answers (updater_retrieve_outputs E i a b c d e)) \<and>
     (\<forall>i u. answers (get_stored_tx_by_uuid E i u)) \<and>
     (\<forall>i t f. answers (node_post_tx E i t f)) \<and>
     (\<forall>s. \<not> hangs (verify_messages E s)) \<and> (\<forall>t. \<not> hangs (ser_vec E t)) \<and> (\<forall>p. \<not> hangs (proof_to_json E p))"

lemma keeps_wallet_lock:
  assumes "responsive E" and "keeps (mutex True) body"
  shows "keeps (mutex False) (wallet_lock E i body)"
  unfolding wallet_lock_def using assms
  by (intro keeps_mutex_scope keeps_bind keeps_lib_quiet) (auto simp: responsive_def)

lemma keeps_with_console:
  assumes "responsive E" and "keeps (mutex h) body"
  shows "keeps (mutex h) (with_console E body)"
  unfolding with_console_def using assms
  by (intro keeps_bind keeps_lib keeps_consoles keeps_return) (auto simp: responsive_def)

lemma hangs_seal_slate: "hangs (fst (seal_slate s r)) \<longleftrightarrow> hangs r"
  by (cases "(s, r)" rule: seal_slate.cases) auto

lemma keeps_mut_slate: "(\<And>s. keeps P (m s)) \<Longrightarrow> keeps (P \<circ> fst) (mut_slate m)"
  by (simp add: keeps_def mut_slate_def case_prod_beta hangs_seal_slate)

lemma hangs_store_tx_proof: "(\<And>p. \<not> hangs (proof_to_json E p)) \<Longrightarrow> \<not> hangs (fst (store_tx_proof E pf d u w))"
  by (auto simp: store_tx_proof_def Let_def split: outcome.split) (metis hangs.simps(1))

lemma hangs_unwrap [simp]: "hangs (unwrap r) = hangs r"
  by (cases r) auto


lemmas keeps_rules = keeps_bind keeps_match keeps_map_err keeps_return keeps_if keeps_option keeps_prod keeps_read
  keeps_get keeps_println keeps_lib keeps_lib_quiet keeps_lib_shared keeps_on_fs keeps_on_world keeps_get_slate
  keeps_mut_slate keeps_wallet_lock keeps_with_console keeps_lift

section \<open>Calls and locked scopes\<close>

lemma with_inst_locked: "is_locked self \<Longrightarrow> with_inst self f w = (fail NoWallet, w)"
  by (simp add: with_inst_def is_locked_def get_wallet_instance_def io_lift_apply)

lemma with_inst_open: "wl_backend self = Some i \<Longrightarrow> with_inst self f = f i"
  by (simp add: with_inst_def get_wallet_instance_def)

lemma lib_trace: "lib c op w = (r, w') \<Longrightarrow> w_trace w' = w_trace w @ [c]"
  by (auto simp: lib_def split: prod.splits)

lemma lib_quiet_trace: "lib_quiet op w = (r, w') \<Longrightarrow> w_trace w' = w_trace w"
  by (auto simp: lib_quiet_def split: prod.splits)

text \<open>A locked scope that returns: the accessors succeeded and the body ran with the mutex held.\<close>

definition accessible :: "('pk, 'sk, 'sig, 'st) wenv \<Rightarrow> inst \<Rightarrow> 'st \<Rightarrow> 'st \<Rightarrow> bool" where
  "accessible E i s s' \<longleftrightarrow> (\<exists>s1. lc_provider E i s = (Ok (), s1) \<and> lc_wallet_inst E i s1 = (Ok (), s'))"

lemma wallet_lock_held: "w_held w \<Longrightarrow> wallet_lock E i body w = (Hang, w)"
  by (simp add: wallet_lock_def mutex_scope_def)

lemma wallet_lock_entered:
  assumes "\<not> w_held w" and "accessible E i (w_lib w) s'" and "body (w\<lparr>w_held := True, w_lib := s'\<rparr>) = (r, w1)"
  shows "wallet_lock E i body w = (r, if hangs r then w1 else w1\<lparr>w_held := False\<rparr>)"
  using assms by (auto simp: wallet_lock_def mutex_scope_def lib_quiet_def io_bind_def accessible_def)

lemma wallet_lock_refused:
  assumes "\<not> w_held w" and "\<nexists>s'. accessible E i (w_lib w) s'" and "wallet_lock E i body w = (r, w')"
  shows "\<not> is_ok r \<and> w_trace w' = w_trace w \<and> w_fs w' = w_fs w"
proof -
  obtain p s1 where p: "lc_provider E i (w_lib w) = (p, s1)" by fastforce
  obtain q s2 where q: "lc_wallet_inst E i s1 = (q, s2)" by fastforce
  have "\<not> (p = Ok () \<and> q = Ok ())" using assms(2) p q by (auto simp: accessible_def)
  then have "\<not> is_ok (fst (wallet_lock E i body w)) \<and> w_trace (snd (wallet_lock E i body w)) = w_trace w \<and>
      w_fs (snd (wallet_lock E i body w)) = w_fs w"
    using assms(1) p q
    by (cases p; cases q) (simp_all add: wallet_lock_def mutex_scope_def lib_quiet_def io_bind_def)
  then show ?thesis using assms(3) by simp
qed

text \<open>The calls of a locked scope are those of its body.\<close>

lemma wallet_lock_cases:
  assumes lock: "wallet_lock E i body w = (r, w')"
  obtains (stopped) "\<not> is_ok r" "w_trace w' = w_trace w" "w_fs w' = w_fs w"
  | (entered) s' w1 where "\<not> w_held w" "accessible E i (w_lib w) s'"
      "body (w\<lparr>w_held := True, w_lib := s'\<rparr>) = (r, w1)" "w_trace w' = w_trace w1" "w_fs w' = w_fs w1"
proof (cases "w_held w")
  case True
  then show ?thesis using lock by (intro stopped) (simp_all add: wallet_lock_held)
next
  case False
  show ?thesis
  proof (cases "\<exists>s'. accessible E i (w_lib w) s'")
    case True
    then obtain s' where s': "accessible E i (w_lib w) s'" by blast
    obtain r1 w1 where body: "body (w\<lparr>w_held := True, w_lib := s'\<rparr>) = (r1, w1)" by fastforce
    from wallet_lock_entered [where body = body, OF False s' body] lock
    have "r1 = r" and "w' = (if hangs r then w1 else w1\<lparr>w_held := False\<rparr>)" by auto
    then show ?thesis using entered [OF False s'] body by auto
  next
    case no: False
    show ?thesis using wallet_lock_refused [OF False no lock] stopped by blast
  qed
qed

section \<open>A concrete library\<close>

text \<open>A concrete library for the witnesses: it answers every call, blocks when asked to lock the
  mutex twice, and finalizes a slate by adding a second participant.\<close>

definition demo_slate :: "bytes slate" where
  "demo_slate = \<lparr>sl_id = ''7'', sl_amount = 5, sl_fee = 1, sl_num_participants = 2,
     sl_participant_data = [\<lparr>pd_public_blind_excess = [1], pd_message = None\<rparr>, \<lparr>pd_public_blind_excess = [4], pd_message = None\<rparr>],
     sl_tx = \<lparr>tx_inputs = [[3]], tx_outputs = [[4]], tx_offset = [0]\<rparr>\<rparr>"

definition demo_tx_log :: tx_log_entry where
  "demo_tx_log = \<lparr>tl_id = 4, tl_parent_key_id = ''root'', tl_tx_type = TxSent, tl_tx_slate_id = Some ''7'',
     tl_num_outputs = 1, tl_amount_credited = 5, tl_amount_debited = 0, tl_is_cancelled = False,
     tl_kernel_excess = None, tl_address = None, tl_creation_ts = [], tl_output_height = 1, tl_fee = None,
     tl_messages = None\<rparr>"

definition demo_output :: wallet_output where
  "demo_output = \<lparr>od_root_key_id = ''root'', od_n_child = 1, od_commit = Some ''c'', od_value = 5,
     od_tx_log_entry = None, od_height = 9\<rparr>"

definition demo_cenv :: "(bytes, bytes, bytes) cenv" where
  "demo_cenv = penv.extend (menv.extend demo_menv
     \<lparr>message_from_json = (\<lambda>_. Some demo_em), deserialize_upgrade = (\<lambda>_. Some demo_slate),
      proof_to_json = (\<lambda>p. Ok (tp_message p)), proof_from_json = (\<lambda>s. Err (Foreign s))\<rparr>)
     \<lparr>hash_from_vec = take 32, grin_from_hex = from_hex, grin_to_hex = to_hex, ser_vec = (\<lambda>t. Ok (concat (tx_inputs t))),
      pk_from_combination = (\<lambda>ks. Ok (concat ks)), commit_value = (\<lambda>v. Ok [ucast v]), commit_blind = (\<lambda>v k. Ok k),
      commit_sum = (\<lambda>ps ns. Ok (concat (rev ps))), commit_to_pubkey = Ok, offset_secret_key = Ok, floonet = False,
      blake2b = (\<lambda>k d. replicate 32 1), rewind_bullet_proof = (\<lambda>c k p. if p = [] then None else Some 6),
      eligible_to_spend = (\<lambda>out h c. od_height out + c \<le> h), verify_messages = (\<lambda>_. Ok ()), show_pk = to_hex\<rparr>"

definition demo_benv :: "(bytes, bytes, bytes, unit) benv" where
  "demo_benv = cenv.extend demo_cenv
     \<lparr>get_chain_tip = (\<lambda>_ s. (Ok (20, ''tip'', 7), s)), get_connected_peer_info = (\<lambda>_ s. (Ok [], s)),
      node_post_tx = (\<lambda>_ _ _ s. (Ok (), s)),
      get_outputs_by_pmmr_index = (\<lambda>_ start n s. (Ok (3, start + 1, [\<lparr>po_commit = [1], po_proof = [2], po_height = 1, po_mmr_index = start\<rparr>]), s)),
      lc_provider = (\<lambda>_ s. (Ok (), s)), lc_wallet_inst = (\<lambda>_ s. (Ok (), s)), lc_close_wallet = (\<lambda>_ s. (Ok (), s)),
      lc_set_top_level_directory = (\<lambda>_ _ s. (Ok (), s)), lc_open_wallet = (\<lambda>_ p _ s. (if p = ''secret'' then Ok () else Err (Foreign ''password''), s)),
      set_parent_key_id_by_name = (\<lambda>_ _ s. (Ok (), s)), wallet_impl_new = (\<lambda>_ s. (Ok (), s)),
      seed_file_exists = (\<lambda>_ s. (Ok True, s)), seed_from_file = (\<lambda>_ _ s. (Ok [1], s)),
      seed_init_file = (\<lambda>_ _ _ _ _ _ _ s. (Ok [2], s)), seed_recover_from_phrase = (\<lambda>_ _ _ s. (Ok (), s)),
      seed_to_mnemonic = (\<lambda>_. Ok ''word''), spawn_updater = (\<lambda>_ _ s. (Ok (), s)), join_updater = (\<lambda>s. (Ok (), s)),
      start_console_thread = (\<lambda>s. (Ok (), s)), display_txs = (\<lambda>s. (Ok (), s)), display_outputs = (\<lambda>s. (Ok (), s)),
      display_tx_messages = (\<lambda>_ s. (Ok (), s)), display_payment_proof = (\<lambda>_ s. (Ok (), s))\<rparr>"

definition demo_wenv :: "(bytes, bytes, bytes, unit) wenv" where
  "demo_wenv = benv.extend demo_benv
     \<lparr>update_wallet_state = (\<lambda>_ held s. (if held then Hang else Ok True, s)),
      owner_retrieve_summary_info = (\<lambda>_ held _ _ s. (if held then Hang else Ok (True, []), s)),
      owner_cancel_tx = (\<lambda>_ held _ _ s. (if held then Hang else Ok (), s)),
      owner_scan = (\<lambda>_ held _ _ s. (if held then Hang else Err (Foreign ''node''), s)),
      owner_dump_wallet_data = (\<lambda>_ held _ s. (if held then Hang else Ok (), s)),
      owner_process_invoice_tx = (\<lambda>_ sl _ s. (Ok sl, s)), owner_init_send_tx = (\<lambda>_ _ _ _ s. (Ok demo_slate, s)),
      owner_issue_invoice_tx = (\<lambda>_ _ _ s. (Ok demo_slate, s)), owner_tx_lock_outputs = (\<lambda>_ _ _ _ s. (Ok (), s)),
      owner_finalize_tx = (\<lambda>_ sl s. (Ok (sl\<lparr>sl_fee := 2\<rparr>, \<lparr>cx_amount = 5, cx_fee = 2, cx_input_commits = [[3]], cx_output_commits = []\<rparr>), s)),
      foreign_finalize_invoice_tx = (\<lambda>_ sl s. (Ok sl, s)), foreign_receive_tx = (\<lambda>_ sl _ _ _ _ _ s. (Ok sl, s)),
      updater_build_coinbase = (\<lambda>_ b s. (Ok b, s)), updater_retrieve_txs = (\<lambda>_ _ _ _ _ _ s. (Ok [demo_tx_log], s)),
      updater_retrieve_outputs = (\<lambda>_ _ _ _ _ _ s. (Ok [demo_output], s)), keys_accounts = (\<lambda>_ s. (Ok [], s)),
      keys_new_acct_path = (\<lambda>_ l s. (Ok l, s)), keys_rename_acct_path = (\<lambda>_ _ _ _ s. (Ok (), s)),
      keys_next_available_key = (\<lambda>_ s. (Ok ''k'', s)), w_keychain = (\<lambda>_ s. (Err (Foreign ''no keychain''), s)),
      parent_key_id = (\<lambda>_ _. ''root''), data_file_dir = (\<lambda>_ _. ''/w''), last_confirmed_height = (\<lambda>_ s. (Ok 1, s)),
      get_stored_tx_by_uuid = (\<lambda>_ _ s. (Ok (sl_tx demo_slate), s)), w_batch = (\<lambda>_ s. (Ok (), s)),
      save_last_scanned_blocks = (\<lambda>_ _ _ s. (Ok (), s)), lib_batch_commit = (\<lambda>_ s. (Ok (), s)),
      w_iter = (\<lambda>_ _. []), w_tx_log_iter = (\<lambda>_ _. []),
      w_bulk_env = (\<lambda>_ _. \<lparr>stored_tx_kernels = (\<lambda>_. None), util_to_hex = to_hex, amount_to_hr_string = (\<lambda>_. [])\<rparr>)\<rparr>"

lemmas demo_wenv_defs = demo_wenv_def demo_benv_def demo_cenv_def benv.defs cenv.defs penv.defs
  demo_menv_def menv.defs demo_env_def env.defs

definition demo_inst :: inst where
  "demo_inst = \<lparr>in_node_uri = ''http://node'', in_node_secret = None\<rparr>"

definition demo_world :: "unit world" where
  "demo_world = \<lparr>w_lib = (), w_held = False, w_fs = \<lparr>files = Map.empty, dirs = [], denied = (\<lambda>_. False)\<rparr>,
     w_consoles = 0, w_out = [], w_trace = []\<rparr>"

lemma demo_responsive: "responsive demo_wenv"
  by (simp add: responsive_def answers_def demo_wenv_defs)

lemma demo_accessible: "accessible demo_wenv i () ()"
  by (simp add: accessible_def demo_wenv_defs)

definition demo_wallet :: wallet where
  "demo_wallet = (wallet_new (Some 100))\<lparr>wl_backend := Some demo_inst\<rparr>"

end
