(* ===== verification/Wallet_Correct.thy ===== *)
theory Wallet_Correct
  imports Wallet_Reasoning
begin

text \<open>
  Properties of the wallet object and its API: the transaction protocol (finalizing, paying
  invoices), locking and unlocking, the mutex, balances, transaction proofs, seeds, and the
  chain scan.
\<close>

section \<open>Operations that return\<close>

lemma keeps_with_inst: "(\<And>i. keeps P (f i)) \<Longrightarrow> keeps P (with_inst self f)"
  unfolding with_inst_def get_wallet_instance_def by (intro keeps_bind keeps_lift) auto

lemma keeps_post_tx: "responsive E \<Longrightarrow> keeps (mutex False) (api_post_tx E i tx fluff)"
  unfolding api_post_tx_def Let_def by (intro keeps_rules) (auto simp: responsive_def)

lemma keeps_invoice_tx: "responsive E \<Longrightarrow> keeps (mutex False) (invoice_tx E i a s d m n k b msg)"
  unfolding invoice_tx_def Let_def by (intro keeps_rules) (auto simp: responsive_def)

lemma keeps_lock_outputs: "responsive E \<Longrightarrow> keeps (mutex False) (api_tx_lock_outputs E i s a n)"
  unfolding api_tx_lock_outputs_def by (intro keeps_rules) (auto simp: responsive_def)

lemma keeps_retrieve_outputs: "responsive E \<Longrightarrow> keeps (mutex False) (api_retrieve_outputs E i a b c d e)"
  unfolding api_retrieve_outputs_def api_sync_def by (intro keeps_rules) (auto simp: responsive_def)

lemma keeps_node_height: "responsive E \<Longrightarrow> keeps (mutex False) (api_node_height E i)"
  unfolding api_node_height_def by (intro keeps_rules keeps_retrieve_outputs) (auto simp: responsive_def)

lemma keeps_finalize_tx: "responsive E \<Longrightarrow> keeps (mutex False \<circ> fst) (api_finalize_tx E i pf)"
  unfolding api_finalize_tx_def finalize_and_store_def Let_def
  by (intro keeps_rules hangs_store_tx_proof) (auto simp: responsive_def)

lemma keeps_finalize_invoice_tx: "responsive E \<Longrightarrow> keeps (mutex False \<circ> fst) (api_finalize_invoice_tx E i)"
  unfolding api_finalize_invoice_tx_def by (intro keeps_rules) (auto simp: responsive_def)

lemma keeps_verify_finalize_post:
  assumes "responsive E" and "\<And>i. keeps (mutex False \<circ> fst) (finalize i)"
  shows "keeps (mutex False \<circ> fst) (verify_finalize_post E self finalize)"
  unfolding verify_finalize_post_def get_wallet_instance_def verify_slate_messages_def using assms
  by (intro keeps_rules keeps_post_tx) (auto simp: responsive_def)

lemma total_loop_returns: "\<not> hangs (total_loop E h c ol outs v)"
  by (induction outs arbitrary: v) (auto split: option.split)

lemma wallet_ops_keep:
  assumes "responsive E"
  shows "keeps (mutex False) (initiate_send_tx E self addr amount conf strat change maxo msg outs ver routs)"
    and "keeps (mutex False) (wl_tx_lock_outputs E self slate addr pid)"
    and "keeps (mutex False) (wl_cancel E self tx_id)"
    and "keeps (mutex False) (wl_post_tx E self tx fluff)"
    and "keeps (mutex False) (total_value E self refresh minconf ol)"
    and "keeps (mutex False \<circ> fst) (process_sender_initiated_slate E self addr key amounts acct)"
    and "keeps (mutex False \<circ> fst) (process_receiver_initiated_slate E self addr)"
    and "keeps (mutex False \<circ> fst) (finalize_slate E self pf)"
    and "keeps (mutex False \<circ> fst) (finalize_invoice_slate E self)"
proof -
  show "keeps (mutex False) (initiate_send_tx E self addr amount conf strat change maxo msg outs ver routs)"
    unfolding initiate_send_tx_def initiate_tx_def Let_def using assms
    by (intro keeps_with_inst keeps_rules) (auto simp: responsive_def)
  show "keeps (mutex False) (wl_tx_lock_outputs E self slate addr pid)"
    unfolding wl_tx_lock_outputs_def using assms by (intro keeps_with_inst keeps_lock_outputs)
  show "keeps (mutex False) (wl_cancel E self tx_id)"
    unfolding wl_cancel_def api_cancel_tx_def using assms
    by (intro keeps_with_inst keeps_rules) (auto simp: responsive_def)
  show "keeps (mutex False) (wl_post_tx E self tx fluff)"
    unfolding wl_post_tx_def using assms by (intro keeps_with_inst keeps_post_tx)
  show "keeps (mutex False) (total_value E self refresh minconf ol)"
    unfolding total_value_def using assms
    by (intro keeps_with_inst keeps_rules keeps_node_height keeps_retrieve_outputs) (auto simp: total_loop_returns)
  show "keeps (mutex False \<circ> fst) (process_sender_initiated_slate E self addr key amounts acct)"
    unfolding process_sender_initiated_slate_def api_receive_tx_def using assms
    by (intro keeps_rules keeps_with_inst) (auto simp: responsive_def)
  show "keeps (mutex False \<circ> fst) (process_receiver_initiated_slate E self addr)"
    unfolding process_receiver_initiated_slate_def using assms
    by (intro keeps_rules keeps_with_inst keeps_invoice_tx keeps_lock_outputs) auto
  show "keeps (mutex False \<circ> fst) (finalize_slate E self pf)"
    unfolding finalize_slate_def using assms by (intro keeps_verify_finalize_post keeps_finalize_tx)
  show "keeps (mutex False \<circ> fst) (finalize_invoice_slate E self)"
    unfolding finalize_invoice_slate_def using assms by (intro keeps_verify_finalize_post keeps_finalize_invoice_tx)
qed

text \<open>
  C20: with a library that answers when the wallet's mutex is free, the operations of the
  transaction life cycle return, with the mutex free again.
\<close>

theorem wallet_operations_return:
  assumes "responsive E"
  shows "keeps (mutex False) (initiate_send_tx E self addr amount conf strat change maxo msg outs ver routs) \<and>
    keeps (mutex False) (wl_tx_lock_outputs E self slate addr pid) \<and>
    keeps (mutex False) (wl_cancel E self tx_id) \<and> keeps (mutex False) (wl_post_tx E self tx fluff) \<and>
    keeps (mutex False) (total_value E self refresh minconf ol) \<and>
    keeps (mutex False \<circ> fst) (process_sender_initiated_slate E self addr key amounts acct) \<and>
    keeps (mutex False \<circ> fst) (process_receiver_initiated_slate E self addr) \<and>
    keeps (mutex False \<circ> fst) (finalize_slate E self pf) \<and>
    keeps (mutex False \<circ> fst) (finalize_invoice_slate E self)"
  using assms by (simp add: wallet_ops_keep)

theorem wallet_operations_return_witness:
  "\<not> hangs (fst (finalize_slate demo_wenv demo_wallet None (demo_world, demo_slate)))"
  using wallet_operations_return [OF demo_responsive] by (simp add: keeps_def mutex_def demo_world_def)

section \<open>Finalizing\<close>

lemma post_tx_trace:
  assumes "api_post_tx E i tx fluff w = (r, w')"
  shows "(w_trace w' = w_trace w \<and> r \<noteq> Ok ()) \<or>
    (\<exists>ser. ser_vec E tx = Ok ser \<and> w_trace w' = w_trace w @ [Post_tx (grin_to_hex E ser) fluff])"
proof (cases "ser_vec E tx")
  case (Ok ser)
  obtain p w1 where lock: "wallet_lock E i (io_return i) w = (p, w1)" by fastforce
  then have t: "w_trace w1 = w_trace w"
    by (cases rule: wallet_lock_cases) (auto simp: io_return_def)
  show ?thesis
    using assms Ok lock t unfolding api_post_tx_def Let_def
    by (cases p) (auto simp: io_bind_def io_lift_apply dest: lib_trace)
qed (use assms in \<open>auto simp: api_post_tx_def io_bind_def io_lift_apply\<close>)

lemma seal_slate_fail: "\<not> is_ok q \<Longrightarrow> seal_slate s q = (r, s') \<Longrightarrow> \<not> is_ok r \<and> s' = s"
  by (cases "(s, q)" rule: seal_slate.cases) auto

lemma mut_slateE:
  assumes "mut_slate m (w, s) = (r, (w', s'))"
  obtains q where "m s w = (q, w')" and "seal_slate s q = (r, s')"
  using assms by (auto simp: mut_slate_def split: prod.splits)

lemma lib_res: "lib c op w = (r, w') \<Longrightarrow> op (w_lib w) = (r, w_lib w')"
  by (auto simp: lib_def split: prod.splits)

text \<open>What finalizing does: the library's finalization, and the proof file when there is a proof.\<close>

lemma finalize_body:
  assumes "finalize_and_store E i tx_proof s w = (q, w')"
  shows "w_trace w' = w_trace w @ [Finalize_tx (sl_id s)]"
    and "q = Ok (s', b) \<Longrightarrow> \<exists>st cx. owner_finalize_tx E i s (w_lib w) = (Ok (s', cx), st)"
    and "q = Ok (s', Inr v) \<Longrightarrow> v = True"
proof -
  obtain p w1 where p: "lib (Finalize_tx (sl_id s)) (owner_finalize_tx E i s) w = (p, w1)" by fastforce
  note t = lib_trace [OF p] and o = lib_res [OF p]
  show "w_trace w' = w_trace w @ [Finalize_tx (sl_id s)]"
    using assms p t
    by (cases p) (auto simp: finalize_and_store_def io_bind_def io_match_def io_return_def lib_read_def on_fs_def Let_def
        split: option.splits prod.splits outcome.splits)
  show "q = Ok (s', b) \<Longrightarrow> \<exists>st cx. owner_finalize_tx E i s (w_lib w) = (Ok (s', cx), st)"
    using assms p o
    by (cases p) (auto simp: finalize_and_store_def io_bind_def io_match_def io_return_def lib_read_def on_fs_def Let_def
        split: option.splits prod.splits outcome.splits)
  show "q = Ok (s', Inr v) \<Longrightarrow> v = True"
    using assms p
    by (cases p) (auto simp: finalize_and_store_def io_bind_def io_match_def io_return_def lib_read_def on_fs_def Let_def
        split: option.splits prod.splits outcome.splits)
qed

lemma finalize_tx_effect:
  assumes "api_finalize_tx E i pf (w, s) = (r, (w', s'))"
  shows "(\<not> is_ok r \<and> w_trace w' = w_trace w \<and> s' = s) \<or>
    (w_trace w' = w_trace w @ [Finalize_tx (sl_id s)] \<and>
     (is_ok r \<longrightarrow> r = Ok True \<and> (\<exists>st st' cx. owner_finalize_tx E i s st = (Ok (s', cx), st'))))"
proof -
  obtain q where q: "wallet_lock E i (finalize_and_store E i pf s) w = (q, w')"
    and r: "seal_slate s q = (r, s')"
    using assms unfolding api_finalize_tx_def by (elim mut_slateE)
  from q show ?thesis
  proof (cases rule: wallet_lock_cases)
    case stopped
    then show ?thesis using seal_slate_fail [OF _ r] by auto
  next
    case (entered s1 w1)
    note body = finalize_body [OF entered(3)]
    have "r = Ok True \<and> (\<exists>st st' cx. owner_finalize_tx E i s st = (Ok (s', cx), st'))" if ok: "is_ok r"
    proof -
      obtain v where v: "q = Ok (s', Inr v)" "r = Ok v"
        using r ok by (cases "(s, q)" rule: seal_slate.cases) auto
      then show ?thesis using body(2) [OF v(1)] body(3) [OF v(1)] by blast
    qed
    then show ?thesis using body(1) entered(4) by simp
  qed
qed

text \<open>Posting starts only once \<open>finalize\<close> succeeded; an error says which of the three stages failed.\<close>

lemma verify_finalize_post_cases:
  assumes "verify_finalize_post E self finalize (w, s) = (r, (w', s'))"
  obtains (refused) "\<not> is_ok r" "w' = w" "s' = s" "\<forall>e. r = Err e \<longrightarrow> e \<in> {Kind NoWallet, Kind GrinWalletVerifySlateMessagesError}"
  | (unfinalized) i q where "wl_backend self = Some i" "verify_messages E s = Ok ()"
      "finalize i (w, s) = (q, (w', s'))" "\<not> is_ok q \<and> r = omap_err (\<lambda>_. Kind GrinWalletFinalizeError) (obind q (\<lambda>_. Panic))
        \<or> q = Ok False \<and> r = Ok ()"
  | (posted) i w1 p where "wl_backend self = Some i" "verify_messages E s = Ok ()"
      "finalize i (w, s) = (Ok True, (w1, s'))" "api_post_tx E i (sl_tx s') False w1 = (p, w')"
      "r = omap_err (\<lambda>_. Kind GrinWalletPostError) p"
proof (cases "wl_backend self")
  case None
  then have "r = fail NoWallet" "w' = w" "s' = s"
    using assms by (auto simp: verify_finalize_post_def get_wallet_instance_def io_lift_apply)
  then show ?thesis by (intro refused) auto
next
  case (Some i)
  show ?thesis
  proof (cases "verify_messages E s")
    case (Ok u)
    obtain q w1 s1 where q: "finalize i (w, s) = (q, (w1, s1))" by (metis prod.exhaust)
    obtain p w2 where p: "api_post_tx E i (sl_tx s1) False w1 = (p, w2)" by fastforce
    have v: "verify_messages E s = Ok ()" using Ok by simp
    show ?thesis
    proof (cases "q = Ok True")
      case True
      then have "r = omap_err (\<lambda>_. Kind GrinWalletPostError) p \<and> w' = w2 \<and> s' = s1"
        using assms Some Ok q p
        by (simp add: verify_finalize_post_def get_wallet_instance_def get_slate_def on_world_def
            verify_slate_messages_def io_map_err_def io_bind_def io_lift_apply)
      then show ?thesis using posted [OF Some v] q p True by simp
    next
      case False
      then have "w' = w1 \<and> s' = s1 \<and> (\<not> is_ok q \<and> r = omap_err (\<lambda>_. Kind GrinWalletFinalizeError) (obind q (\<lambda>_. Panic))
        \<or> q = Ok False \<and> r = Ok ())"
        using assms Some Ok q
        by (cases q) (simp_all add: verify_finalize_post_def get_wallet_instance_def get_slate_def on_world_def
            verify_slate_messages_def io_map_err_def io_bind_def io_lift_apply io_return_def)
      then show ?thesis using unfinalized [OF Some v] q by simp
    qed
  qed (use assms Some in \<open>auto intro!: refused simp: verify_finalize_post_def get_wallet_instance_def get_slate_def on_world_def
       verify_slate_messages_def io_map_err_def io_bind_def io_lift_apply\<close>)
qed

text \<open>
  C1: finalizing a slate follows the protocol: nothing is done unless the slate's messages
  verify, a transaction is posted only after the library finalized the slate, what is posted
  is the finalized slate's transaction, and success means that it was posted.
\<close>

theorem finalize_slate_protocol:
  assumes "finalize_slate E self pf (w, s) = (r, (w', s'))"
  shows "\<exists>cs. w_trace w' = w_trace w @ cs \<and>
    (cs = [] \<and> \<not> is_ok r \<or>
     cs = [Finalize_tx (sl_id s)] \<and> verify_messages E s = Ok () \<and> \<not> is_ok r \<or>
     (\<exists>ser i st st' cx. cs = [Finalize_tx (sl_id s), Post_tx (grin_to_hex E ser) False] \<and>
        verify_messages E s = Ok () \<and> wl_backend self = Some i \<and> owner_finalize_tx E i s st = (Ok (s', cx), st') \<and>
        ser_vec E (sl_tx s') = Ok ser))"
  using assms unfolding finalize_slate_def
proof (cases rule: verify_finalize_post_cases)
  case refused
  then show ?thesis by simp
next
  case (unfinalized i q)
  then have "\<not> is_ok r" using finalize_tx_effect [OF unfinalized(3)] by (cases q) auto
  then show ?thesis using finalize_tx_effect [OF unfinalized(3)] unfinalized(2) by auto
next
  case (posted i w1 p)
  have fin: "w_trace w1 = w_trace w @ [Finalize_tx (sl_id s)]"
    and lib: "\<exists>st st' cx. owner_finalize_tx E i s st = (Ok (s', cx), st')"
    using finalize_tx_effect [OF posted(3)] by auto
  show ?thesis
    using post_tx_trace [OF posted(4)]
  proof
    assume "w_trace w' = w_trace w1 \<and> p \<noteq> Ok ()"
    then show ?thesis using fin posted(2,5) by (cases p) auto
  next
    assume "\<exists>ser. ser_vec E (sl_tx s') = Ok ser \<and> w_trace w' = w_trace w1 @ [Post_tx (grin_to_hex E ser) False]"
    then show ?thesis using fin lib posted(1,2) by auto
  qed
qed

theorem finalize_slate_protocol_witness:
  "\<exists>r w' s' cs. finalize_slate demo_wenv demo_wallet None (demo_world, demo_slate) = (r, (w', s')) \<and>
     w_trace w' = w_trace demo_world @ cs"
proof -
  obtain r w' s' where e: "finalize_slate demo_wenv demo_wallet None (demo_world, demo_slate) = (r, (w', s'))"
    by (metis prod.exhaust)
  from finalize_slate_protocol [OF e] e show ?thesis by blast
qed

section \<open>The mutex\<close>

text \<open>The library's state updates lock the shared instance themselves.\<close>

definition locks_instance :: "('pk, 'sk, 'sig, 'st) wenv \<Rightarrow> bool" where
  "locks_instance E \<longleftrightarrow> (\<forall>i s. hangs (fst (update_wallet_state E i True s)))"

lemma io_bind_read [simp]: "io_bind (lib_read f) k w = k (f (w_lib w)) w"
  by (simp add: io_bind_def lib_read_def)

lemma io_bind_apply_Hang: "m w = (Hang, w') \<Longrightarrow> io_bind m f w = (Hang, w')"
  by (simp add: io_bind_def)

lemma hangs_iff: "hangs r \<longleftrightarrow> r = Hang"
  by (cases r) auto

lemma sync_held:
  assumes "locks_instance E" and "w_held w" and "start_console_thread E (w_lib w) = (Ok (), s1)"
  shows "\<exists>w'. api_sync E i p w = (Hang, w')"
proof -
  have u: "\<exists>w'. lib_shared Update_wallet_state (update_wallet_state E i) w = (Hang, w')" if "w_held w" for w
    using assms(1) that by (simp add: locks_instance_def lib_shared_def lib_def case_prod_beta hangs_iff)
  let ?w1 = "w\<lparr>w_lib := s1, w_trace := w_trace w @ [Start_console_thread], w_consoles := Suc (w_consoles w)\<rparr>"
  obtain w2 where "lib_shared Update_wallet_state (update_wallet_state E i) ?w1 = (Hang, w2)"
    using u [of ?w1] assms(2) by auto
  moreover have "lib Start_console_thread (start_console_thread E) w =
      (Ok (), w\<lparr>w_lib := s1, w_trace := w_trace w @ [Start_console_thread]\<rparr>)"
    using assms(3) by (simp add: lib_def)
  ultimately show ?thesis
    using u [OF assms(2)] by (auto simp: api_sync_def with_console_def io_bind_def io_modify_def)
qed

text \<open>
  C38: refreshing the transaction list blocks for ever: \<open>api::retrieve_txs\<close> holds the
  wallet's mutex while it calls \<open>sync\<close>, whose state update locks the instance again. So
  \<open>repost\<close>, which always refreshes, never posts anything.
\<close>

theorem refreshing_transactions_deadlocks:
  assumes "locks_instance E" and "start_console_thread E s' = (Ok (), s1)"
    and "accessible E i (w_lib w) s'" and "wl_backend self = Some i"
  shows "hangs (fst (wl_retrieve_txs E self True tx_id tx_slate_id w)) \<and> hangs (fst (repost E self tid fluff w))"
proof -
  have "hangs (fst (api_retrieve_txs E i True a b w))" for a b
  proof (cases "w_held w")
    case True
    then show ?thesis by (simp add: api_retrieve_txs_def wallet_lock_held)
  next
    case False
    let ?w = "w\<lparr>w_held := True, w_lib := s'\<rparr>"
    obtain w1 where sync: "api_sync E i True ?w = (Hang, w1)" using sync_held [OF assms(1), of ?w s1 i True] assms(2) by auto
    let ?body = "io_bind (lib_read (parent_key_id E i)) (\<lambda>pkid.
       io_bind (if True then api_sync E i True else io_return False) (\<lambda>validated.
       io_bind (lib (Retrieve_txs a b) (updater_retrieve_txs E i a b (Some pkid) None None)) (\<lambda>txs.
       io_return (validated, txs))))"
    have "?body ?w = (Hang, w1)"
      using sync by (simp add: io_bind_apply_Hang)
    from wallet_lock_entered [where body = ?body, OF False assms(3) this] show ?thesis by (simp add: api_retrieve_txs_def)
  qed
  then have hang: "fst (api_retrieve_txs E i True a b w) = Hang" for a b
    by (simp add: hangs_iff)
  then have "fst (repost E self tid fluff w) = Hang"
    using assms(4) by (simp add: repost_def with_inst_open io_bind_def case_prod_beta)
  then show ?thesis using assms(4) hang by (simp add: wl_retrieve_txs_def with_inst_open)
qed

theorem refreshing_transactions_deadlocks_witness:
  "hangs (fst (wl_retrieve_txs demo_wenv demo_wallet True None None demo_world)) \<and>
   hangs (fst (repost demo_wenv demo_wallet 4 False demo_world))"
proof (rule refreshing_transactions_deadlocks)
  show "locks_instance demo_wenv" by (simp add: locks_instance_def demo_wenv_defs)
  show "start_console_thread demo_wenv () = (Ok (), ())" by (simp add: demo_wenv_defs)
  show "accessible demo_wenv demo_inst (w_lib demo_world) ()" using demo_accessible by (simp add: demo_world_def)
  show "wl_backend demo_wallet = Some demo_inst" by (simp add: demo_wallet_def)
qed

section \<open>Invoices\<close>

lemma invoice_tx_trace:
  assumes "invoice_tx E i acct s addr conf maxo change all_outs msg w = (r, w')"
  shows "\<exists>cs. w_trace w' = w_trace w @ cs \<and>
    (cs = [Update_wallet_state] \<and> \<not> is_ok r \<or>
     (\<exists>args. cs = [Update_wallet_state, Process_invoice_tx (sl_id s) args] \<and> ia_amount args = sl_amount s \<and>
        ia_src_acct_name args = acct \<and> ia_minimum_confirmations args = conf))"
proof -
  obtain u w1 where u: "lib_shared Update_wallet_state (update_wallet_state E i) w = (u, w1)" by fastforce
  then have t: "w_trace w1 = w_trace w @ [Update_wallet_state]" by (simp add: lib_shared_def lib_trace)
  show ?thesis
  proof (cases u)
    case (Ok v)
    from assms u Ok show ?thesis unfolding invoice_tx_def Let_def
      by (simp add: io_bind_apply_Ok) (erule wallet_lock_cases; use t in \<open>force dest: lib_trace\<close>)
  qed (use assms u t in \<open>auto simp: invoice_tx_def io_bind_def\<close>)
qed

lemma lock_outputs_trace:
  assumes "api_tx_lock_outputs E i s addr n w = (r, w')"
  shows "w_trace w' = w_trace w \<and> \<not> is_ok r \<or> w_trace w' = w_trace w @ [Tx_lock_outputs (sl_id s) n]"
  using assms unfolding api_tx_lock_outputs_def
  by (cases rule: wallet_lock_cases) (auto dest: lib_trace)

text \<open>
  C2: an invoice is paid only within the limit the owner set. Without a limit, or above it,
  the invoice is rejected and nothing happens; otherwise the wallet state is updated first,
  the payment is prepared for exactly the invoiced amount from the active account with ten
  confirmations, and the outputs are locked last, for participant 1.
\<close>

theorem invoices_within_limit:
  assumes "process_receiver_initiated_slate E self addr (w, s) = (r, (w', s'))"
  shows "(case wl_max_auto_accept_invoice self of
      None \<Rightarrow> r = fail DoesNotAcceptInvoices \<and> w' = w \<and> s' = s
    | Some limit \<Rightarrow>
        if sl_amount s > limit then r = fail (InvoiceAmountTooBig (sl_amount s)) \<and> w' = w \<and> s' = s
        else if is_locked self then r = fail NoWallet \<and> w' = w \<and> s' = s
        else \<exists>cs. w_trace w' = w_trace w @ cs \<and>
          (cs = [Update_wallet_state] \<and> \<not> is_ok r \<or>
           (\<exists>args. ia_amount args = sl_amount s \<and> ia_src_acct_name args = Some (active_account self) \<and>
              ia_minimum_confirmations args = 10 \<and>
              (cs = [Update_wallet_state, Process_invoice_tx (sl_id s) args] \<and> \<not> is_ok r \<or>
               (\<exists>sid. cs = [Update_wallet_state, Process_invoice_tx (sl_id s) args, Tx_lock_outputs sid 1] \<and>
                  (is_ok r \<longrightarrow> sid = sl_id s'))))))"
proof (cases "wl_max_auto_accept_invoice self")
  case None
  then show ?thesis using assms
    by (auto simp: process_receiver_initiated_slate_def mut_slate_def io_lift_apply)
next
  case (Some limit)
  consider (big) "sl_amount s > limit" | (locked) "\<not> limit < sl_amount s" "is_locked self"
    | (opened) i where "\<not> limit < sl_amount s" "wl_backend self = Some i"
    by (metis is_locked_def not_None_eq)
  then show ?thesis
  proof cases
    case big
    then show ?thesis using Some assms
      by (auto simp: process_receiver_initiated_slate_def mut_slate_def io_lift_apply)
  next
    case locked
    then show ?thesis using Some assms
      by (auto simp: process_receiver_initiated_slate_def mut_slate_def io_bind_def with_inst_locked io_lift_apply)
  next
    case (opened i)
    obtain p w1 where p: "invoice_tx E i (Some (active_account self)) s addr 10 500 1 False None w = (p, w1)" by fastforce
    note t = invoice_tx_trace [OF p]
    have prep: "process_receiver_initiated_slate E self addr (w, s) =
        (case (case p of Ok sl \<Rightarrow> io_match (api_tx_lock_outputs E i sl addr 1)
              (\<lambda>_. io_return (sl, Inr ())) (\<lambda>e. io_return (sl, Inl e)) w1
           | Err e \<Rightarrow> (Err e, w1) | Panic \<Rightarrow> (Panic, w1) | Hang \<Rightarrow> (Hang, w1)) of
         (r, w') \<Rightarrow> (case seal_slate s r of (r', s') \<Rightarrow> (r', (w', s'))))"
      using opened Some p
      by (simp add: process_receiver_initiated_slate_def mut_slate_def with_inst_open io_bind_def io_lift_apply
          del: One_nat_def)
    show ?thesis
    proof (cases p)
      case (Ok sl)
      obtain q w2 where q: "api_tx_lock_outputs E i sl addr 1 w1 = (q, w2)" by fastforce
      have w2: "w' = w2" and ok: "is_ok r = is_ok q" and sl: "is_ok r \<Longrightarrow> s' = sl"
        using assms prep Ok q by (cases q; auto simp: io_match_def io_return_def)+
      obtain args where args: "w_trace w1 = w_trace w @ [Update_wallet_state, Process_invoice_tx (sl_id s) args]"
          "ia_amount args = sl_amount s" "ia_src_acct_name args = Some (active_account self)"
          "ia_minimum_confirmations args = 10"
        using t Ok by auto
      have "\<exists>cs. w_trace w' = w_trace w @ cs \<and>
          (cs = [Update_wallet_state, Process_invoice_tx (sl_id s) args] \<and> \<not> is_ok r \<or>
           (\<exists>sid. cs = [Update_wallet_state, Process_invoice_tx (sl_id s) args, Tx_lock_outputs sid 1] \<and>
              (is_ok r \<longrightarrow> sid = sl_id s')))"
        using lock_outputs_trace [OF q] args(1) w2 ok sl by auto
      then show ?thesis using args(2-) opened Some by (auto simp: is_locked_def)
    qed (use assms prep t opened Some in \<open>auto simp: is_locked_def\<close>)
  qed
qed


theorem invoices_within_limit_witness:
  "\<exists>r w' s'. process_receiver_initiated_slate demo_wenv demo_wallet None (demo_world, demo_slate) = (r, (w', s')) \<and>
     (\<exists>cs. w_trace w' = w_trace demo_world @ cs \<and> cs \<noteq> [])"
proof -
  obtain r w' s' where e: "process_receiver_initiated_slate demo_wenv demo_wallet None (demo_world, demo_slate) = (r, (w', s'))"
    by (metis prod.exhaust)
  from invoices_within_limit [OF e] show ?thesis
    using e by (auto simp: demo_wallet_def wallet_new_def demo_slate_def is_locked_def)
qed

section \<open>Unlocking\<close>

lemma self_simps [simp]:
  "io_bind (set_self f) k (w, self) = k () (w, f self)"
  "io_bind get_self k1 (w, self) = k1 self (w, self)"
  "set_self f (w, self) = (Ok (), (w, f self))"
  by (simp_all add: set_self_def get_self_def io_bind_def)

lemma expect_no_Err: "io_expect m w \<noteq> (Err e, w')"
  by (auto simp: io_expect_def io_match_def io_return_def io_lift_def split: prod.splits outcome.splits)

lemma ignore_no_Err: "mutex_scope (io_ignore m) w \<noteq> (Err e, w')"
  by (auto simp: mutex_scope_def io_ignore_def io_match_def io_return_def split: prod.splits outcome.splits)

lemma wl_lock_result:
  assumes "wl_lock E (w, self) = (r, (w', self'))"
  shows "active_account self' = active_account self \<and> (\<forall>e. r \<noteq> Err e) \<and>
    (is_ok r \<longrightarrow> wl_backend self' = None \<and> updater_handler self' = None \<and> \<not> updater_running self')"
proof -
  let ?join = "case updater_handler self of None \<Rightarrow> io_return ()
      | Some thr \<Rightarrow> io_expect (lib Join_updater (join_updater E))"
  let ?close = "case wl_backend self of None \<Rightarrow> io_return () | Some i \<Rightarrow> mutex_scope (io_ignore (
           io_bind (lib_quiet (lc_provider E i)) (\<lambda>_. lib Close_wallet (lc_close_wallet E i))))"
  let ?self = "self\<lparr>updater_running := False, updater_handler := None\<rparr>"
  obtain j w1 where j: "?join w = (j, w1)" by fastforce
  obtain c w2 where c: "?close w1 = (c, w2)" by fastforce
  have nj: "j \<noteq> Err e" for e using j by (auto simp: io_return_def expect_no_Err split: option.splits)
  have nc: "c \<noteq> Err e" for e using c by (auto simp: io_return_def ignore_no_Err split: option.splits)
  have res: "wl_lock E (w, self) = (case j of Ok u \<Rightarrow>
      (case c of Ok u \<Rightarrow> (Ok (), (w2, ?self\<lparr>wl_backend := None\<rparr>)) | _ \<Rightarrow> (c, (w2, ?self))) | _ \<Rightarrow> (j, (w1, ?self)))"
    using j c
    by (cases "updater_handler self"; cases "wl_backend self"; cases j; cases c)
      (auto simp: wl_lock_def io_bind_def on_world_def io_return_def set_self_def get_self_def)
  then show ?thesis using assms nj nc by (cases j; cases c) auto
qed

definition config_inst :: "'sk wallet713_config \<Rightarrow> inst" where
  "config_inst cfg = \<lparr>in_node_uri = cfg_mwc_node_uri cfg, in_node_secret = cfg_mwc_node_secret cfg\<rparr>"

lemma open_instance_result: "open_instance E cfg acct pass w = (Ok i, w') \<Longrightarrow> i = config_inst cfg"
  unfolding open_instance_def Let_def io_simps config_inst_def by auto

lemma create_instance_result:
  assumes "create_wallet_instance E cfg acct pass (w, self) = (r, (w', self'))"
  shows "active_account self' = active_account self"
    and "r = Ok u \<Longrightarrow> self' = self\<lparr>wl_backend := Some (config_inst cfg),
      updater_running := (updater_running self \<or> wallet_updater_frequency_sec cfg \<noteq> None),
      updater_handler := (if wallet_updater_frequency_sec cfg = None then updater_handler self else Some ())\<rparr>"
    and "r = Err e \<Longrightarrow> self' = self \<or>
      (\<exists>f s s'. wallet_updater_frequency_sec cfg = Some f \<and> spawn_updater E (config_inst cfg) (unat f) s = (Err e, s') \<and>
        wl_backend self' = Some (config_inst cfg))"
proof -
  obtain q w1 where q: "open_instance E cfg acct pass w = (q, w1)" by fastforce
  note i = open_instance_result [of E cfg acct pass w _ w1]
  show "active_account self' = active_account self"
    using assms q
    by (cases q) (auto simp: create_wallet_instance_def start_updater_def get_wallet_instance_def on_world_def io_bind_def
        io_return_def io_lift_apply set_self_def get_self_def lib_def split: option.splits prod.splits outcome.splits)
  show "r = Ok u \<Longrightarrow> self' = self\<lparr>wl_backend := Some (config_inst cfg),
      updater_running := (updater_running self \<or> wallet_updater_frequency_sec cfg \<noteq> None),
      updater_handler := (if wallet_updater_frequency_sec cfg = None then updater_handler self else Some ())\<rparr>"
    using assms q i
    by (cases q) (auto simp: create_wallet_instance_def start_updater_def get_wallet_instance_def on_world_def io_bind_def
        io_return_def io_lift_apply set_self_def get_self_def lib_def split: option.splits prod.splits outcome.splits)
  show "r = Err e \<Longrightarrow> self' = self \<or>
      (\<exists>f s s'. wallet_updater_frequency_sec cfg = Some f \<and> spawn_updater E (config_inst cfg) (unat f) s = (Err e, s') \<and>
        wl_backend self' = Some (config_inst cfg))"
    using assms q i
    by (cases q) (auto simp: create_wallet_instance_def start_updater_def get_wallet_instance_def on_world_def io_bind_def
        io_return_def io_lift_apply set_self_def get_self_def lib_def split: option.splits prod.splits outcome.splits)
qed

lemma unlock_result:
  assumes "unlock E cfg acct pass (w, self) = (r, (w', self'))"
  shows "(is_ok r \<longrightarrow> wl_backend self' = Some (config_inst cfg) \<and> active_account self' = acct \<and>
      updater_running self' = (wallet_updater_frequency_sec cfg \<noteq> None) \<and>
      updater_handler self' = (if wallet_updater_frequency_sec cfg = None then None else Some ())) \<and>
    (\<forall>e. r = Err e \<longrightarrow> e = Kind WalletUnlockFailed \<and> active_account self' = active_account self \<and>
      (is_locked self' \<or> (\<exists>f s s' e'. wallet_updater_frequency_sec cfg = Some f \<and>
         spawn_updater E (config_inst cfg) (unat f) s = (Err e', s'))))"
proof -
  obtain l w1 self1 where l: "wl_lock E (w, self) = (l, (w1, self1))" by (metis prod.exhaust)
  note L = wl_lock_result [OF l]
  obtain c w2 self2 where c: "create_wallet_instance E cfg acct pass (w1, self1) = (c, (w2, self2))"
    by (metis prod.exhaust)
  note C = create_instance_result [OF c]
  show ?thesis
  proof (cases "is_ok l")
    case True
    then obtain u where u: "l = Ok u" by (auto simp: is_ok_iff)
    have eq: "unlock E cfg acct pass (w, self) = (case c of Ok u \<Rightarrow> (Ok (), (w2, self2\<lparr>active_account := acct\<rparr>))
      | Err e \<Rightarrow> (fail WalletUnlockFailed, (w2, self2)) | Panic \<Rightarrow> (Panic, (w2, self2)) | Hang \<Rightarrow> (Hang, (w2, self2)))"
      unfolding unlock_def io_bind_apply_Ok [where m = "wl_lock E", OF l [unfolded u]]
      by (cases c) (simp_all add: io_bind_def io_map_err_def c)
    have r: "r = (case c of Ok u \<Rightarrow> Ok () | Err e \<Rightarrow> fail WalletUnlockFailed | Panic \<Rightarrow> Panic | Hang \<Rightarrow> Hang)"
      and s: "self' = (if is_ok c then self2\<lparr>active_account := acct\<rparr> else self2)"
      using eq assms by (cases c; simp)+
    show ?thesis
    proof (cases c)
      case (Ok u)
      have "self' = self2\<lparr>active_account := acct\<rparr>" and "r = Ok ()" using r s Ok by simp_all
      moreover have "\<not> updater_running self1" "updater_handler self1 = None" using L True by simp_all
      ultimately show ?thesis by (simp add: C(2) [OF Ok])
    next
      case (Err e)
      then show ?thesis using r s C(1) C(3) [OF Err] L True by (auto simp: is_locked_def)
    qed (use r in auto)
  next
    case False
    then have "r = l" using assms l L by (cases l) (auto simp: unlock_def io_bind_def)
    then show ?thesis using False L by (cases l) auto
  qed
qed

text \<open>
  C26: unlocking. Success opens the instance on the configured node, switches to the account
  and runs the updater exactly when a frequency is configured. Failure is always reported as
  \<open>WalletUnlockFailed\<close>, keeps the active account, and leaves the wallet locked unless the
  updater thread could not be started.
\<close>

theorem unlock_outcome:
  assumes "unlock E cfg acct pass (w, self) = (r, (w', self'))"
  shows "(is_ok r \<longrightarrow> wl_backend self' = Some (config_inst cfg) \<and> active_account self' = acct \<and>
      updater_running self' = (wallet_updater_frequency_sec cfg \<noteq> None) \<and>
      updater_handler self' = (if wallet_updater_frequency_sec cfg = None then None else Some ())) \<and>
    (\<forall>e. r = Err e \<longrightarrow> e = Kind WalletUnlockFailed \<and> active_account self' = active_account self \<and>
      (is_locked self' \<or> (\<exists>f s s' e'. wallet_updater_frequency_sec cfg = Some f \<and>
         spawn_updater E (config_inst cfg) (unat f) s = (Err e', s'))))"
  by (rule unlock_result [OF assms])

theorem unlock_outcome_witness:
  "\<exists>r w' self'. unlock demo_wenv (config_default Mainnet) ''acc'' ''secret'' (demo_world, wallet_new None) = (r, (w', self')) \<and>
     (is_ok r \<longrightarrow> active_account self' = ''acc'')"
proof -
  obtain r w' self' where "unlock demo_wenv (config_default Mainnet) ''acc'' ''secret'' (demo_world, wallet_new None) = (r, (w', self'))"
    by (metis prod.exhaust)
  with unlock_outcome [OF this] show ?thesis by blast
qed

section \<open>Balances\<close>

definition counted :: "('pk, 'sk, 'sig, 'st) wenv \<Rightarrow> u64 \<Rightarrow> u64 \<Rightarrow> string list option \<Rightarrow> wallet_output \<Rightarrow> bool" where
  "counted E height minconf ol out \<longleftrightarrow> eligible_to_spend E out height minconf \<and>
     (case ol of None \<Rightarrow> True | Some l \<Rightarrow> \<exists>c \<in> set l. od_commit out = Some c)"

definition commits_known :: "('pk, 'sk, 'sig, 'st) wenv \<Rightarrow> u64 \<Rightarrow> u64 \<Rightarrow> string list option \<Rightarrow> wallet_output list \<Rightarrow> bool" where
  "commits_known E height minconf ol outs \<longleftrightarrow>
     ol = None \<or> (\<forall>out \<in> set outs. eligible_to_spend E out height minconf \<longrightarrow> od_commit out \<noteq> None)"

lemma total_loop_spec:
  "total_loop E h c ol outs v = (if commits_known E h c ol outs
     then Ok (v + sum_list (map od_value (filter (counted E h c ol) outs))) else Panic)"
proof (induction outs arbitrary: v)
  case Nil
  then show ?case by (simp add: commits_known_def)
next
  case (Cons out outs)
  then show ?case by (auto simp: commits_known_def counted_def [of E h c ol out] ac_simps split: option.split)
qed

lemma count_loop_spec:
  "count_loop E h c ol outs n = (if commits_known E h c ol outs
     then Ok (n + length (filter (counted E h c ol) outs)) else Panic)"
proof (induction outs arbitrary: n)
  case Nil
  then show ?case by (simp add: commits_known_def)
next
  case (Cons out outs)
  then show ?case by (auto simp: commits_known_def counted_def [of E h c ol out] split: option.split)
qed

text \<open>
  The balance and the number of outputs shown before a payment speak of the same
  outputs: when \<open>output_count\<close> gives \<open>n\<close>, \<open>total_value\<close> gives the \<open>u64\<close> sum over exactly \<open>n\<close>
  outputs, each spendable at the node's height and, with a list of commitments, on that list.
\<close>

theorem count_and_value_agree:
  assumes "output_count E self refresh minconf ol w = (Ok n, w')"
  shows "\<exists>height outs. length outs = n \<and> (\<forall>out \<in> set outs. counted E height minconf ol out) \<and>
    total_value E self refresh minconf ol w = (Ok (sum_list (map od_value outs)), w')"
proof -
  obtain i where i: "wl_backend self = Some i"
    using assms by (cases "wl_backend self") (auto simp: output_count_def with_inst_locked is_locked_def)
  let ?rest = "\<lambda>loop (height, _). io_bind (api_retrieve_outputs E i False refresh None None None)
      (\<lambda>(_, outputs). io_lift (loop height outputs))"
  have "io_bind (api_node_height E i) (?rest (\<lambda>h outs. count_loop E h minconf ol outs 0)) w = (Ok n, w')"
    using assms by (simp add: output_count_def with_inst_open [OF i])
  then obtain height hv w1 where h: "api_node_height E i w = (Ok (height, hv), w1)"
    and "?rest (\<lambda>h outs. count_loop E h minconf ol outs 0) (height, hv) w1 = (Ok n, w')"
    unfolding io_bind_Ok_iff by (metis prod.exhaust)
  then obtain v outs where o: "api_retrieve_outputs E i False refresh None None None w1 = (Ok (v, outs), w')"
    and n: "count_loop E height minconf ol outs 0 = Ok n"
    by (auto simp: io_simps)
  have k: "commits_known E height minconf ol outs" and
    n': "n = length (filter (counted E height minconf ol) outs)"
    using n unfolding count_loop_spec by (auto split: if_splits)
  have "total_value E self refresh minconf ol w =
      (Ok (sum_list (map od_value (filter (counted E height minconf ol) outs))), w')"
    by (simp add: total_value_def with_inst_open [OF i] io_bind_apply_Ok [where m = "api_node_height E i", OF h]
        io_bind_apply_Ok [where m = "api_retrieve_outputs E i False refresh None None None", OF o] io_lift_apply
        total_loop_spec k)
  then show ?thesis using n' by (intro exI [of _ height] exI [of _ "filter (counted E height minconf ol) outs"]) auto
qed

theorem count_and_value_agree_witness:
  "\<exists>n w'. output_count demo_wenv demo_wallet False 3 None demo_world = (Ok n, w') \<and>
     total_value demo_wenv demo_wallet False 3 None demo_world = (Ok 5, w')"
proof -
  have "fst (output_count demo_wenv demo_wallet False 3 None demo_world) = Ok 1"
    and v: "fst (total_value demo_wenv demo_wallet False 3 None demo_world) = Ok 5"
    by code_simp+
  then obtain w' where w': "output_count demo_wenv demo_wallet False 3 None demo_world = (Ok 1, w')"
    by (metis prod.collapse)
  from count_and_value_agree [OF this] show ?thesis using w' v by auto
qed

section \<open>Transaction proofs\<close>

text \<open>
  C7: an accepted transaction proof proves the payment: it carries an authentic slate, the
  amount is the proof's, the outputs are outputs of the slate's transaction that are not the
  sender's own, their commitments less the foreign inputs and the amount open to the
  receiver's excess key, and the transaction as a whole balances to the participants' keys.
\<close>

theorem verify_tx_proof_sound:
  assumes "api_verify_tx_proof E pf = Ok (dest, addr, amount, outputs, excess)"
  shows "\<exists>slate amount_com excess_com key key_sum. verify_extract E pf None = Ok (dest, slate) \<and>
    addr = tp_address pf \<and> amount = tp_amount pf \<and>
    set outputs = set (tx_outputs (sl_tx slate)) - set (tp_outputs pf) \<and>
    2 \<le> length (sl_participant_data slate) \<and>
    key = pd_public_blind_excess (sl_participant_data slate ! 1) \<and>
    commit_value E amount = Ok amount_com \<and>
    commit_sum E outputs (foreign_commits (tp_inputs pf) (tx_inputs (sl_tx slate)) @ [amount_com]) = Ok excess_com \<and>
    commit_to_pubkey E excess_com = Ok key \<and>
    pk_from_combination E (map pd_public_blind_excess (sl_participant_data slate)) = Ok key_sum \<and>
    commit_to_pubkey E excess = Ok key_sum"
proof -
  obtain slate where v: "verify_extract E pf None = Ok (dest, slate)" and two: "2 \<le> length (sl_participant_data slate)"
    using assms unfolding api_verify_tx_proof_def Let_def outcome_simps by (auto split: if_splits simp: outcome_simps)
  have "addr = tp_address pf" "amount = tp_amount pf"
      "outputs = foreign_commits (tp_outputs pf) (tx_outputs (sl_tx slate))"
    using assms v two unfolding api_verify_tx_proof_def Let_def by (auto simp: outcome_simps split: if_splits)
  then show ?thesis
    using assms v two unfolding api_verify_tx_proof_def Let_def
    by (auto simp: outcome_simps foreign_commits_def split: if_splits)
qed

definition demo_proof :: "bytes tx_proof" where
  "demo_proof = \<lparr>tp_address = demo_sender, tp_message = ''m'', tp_challenge = ''c'',
     tp_signature = replicate 32 0 @ demo_key, tp_key = [], tp_amount = 5, tp_fee = 1, tp_inputs = [[3]], tp_outputs = []\<rparr>"

definition demo_wenv_with :: "bytes slate \<Rightarrow> (bytes, bytes, bytes, unit) wenv" where
  "demo_wenv_with sl = demo_wenv\<lparr>deserialize_upgrade := (\<lambda>_. Some sl)\<rparr>"

lemmas demo_with_defs = demo_wenv_with_def demo_wenv_defs

lemma demo_extract: "verify_extract (demo_wenv_with sl) demo_proof None = Ok (None, sl)"
proof -
  let ?E = "demo_wenv_with sl"
  have key: "mq_key ?E demo_key demo_pk"
    using demo_mq_key
    by (simp add: mq_key_def pk_ok_def public_key_to_base58_check_def serialize_public_key_def version_bytes_def
        demo_with_defs)
  have k: "grinbox_public_key ?E demo_sender = Ok demo_key"
    using mq_key_parses [OF key] by (simp add: grinbox_public_key_def)
  have s: "verify_signature (sha256 ?E) ?E ch (replicate 32 0 @ demo_key) demo_key = Ok ()" for ch
    by (simp add: verify_signature_def demo_with_defs)
  have u: "from_utf8 (as_bytes ''slate'') = Some ''slate''"
    by (rule from_utf8_as_bytes) simp
  have d: "decrypt_with_key ?E demo_em key = Ok ''slate''" for key
    using u by (simp add: decrypt_with_key_def demo_em_def from_hex_to_hex demo_with_defs)
  have j: "message_from_json ?E t = Some demo_em" "deserialize_upgrade ?E t = Some sl" for t
    by (simp_all add: demo_with_defs)
  show ?thesis
    by (simp add: verify_extract_def demo_proof_def Let_def k s d j destination_differs_def
        demo_em_def [THEN arg_cong [where f = em_destination]])
qed

lemma demo_proof_extract: "verify_extract demo_wenv demo_proof None = Ok (None, demo_slate)"
proof -
  have "demo_wenv_with demo_slate = demo_wenv" by (simp add: demo_with_defs)
  then show ?thesis using demo_extract [of demo_slate] by simp
qed

lemma demo_proof_accepted: "api_verify_tx_proof demo_wenv demo_proof = Ok (None, demo_sender, 5, [[4]], [1, 4])"
  unfolding api_verify_tx_proof_def demo_proof_extract
  by (simp add: foreign_commits_def demo_slate_def demo_proof_def demo_wenv_defs)

theorem verify_tx_proof_sound_witness:
  "\<exists>slate. verify_extract demo_wenv demo_proof None = Ok (None, slate) \<and> 2 \<le> length (sl_participant_data slate)"
  using verify_tx_proof_sound [OF demo_proof_accepted] by blast

text \<open>
  Verifying a proof panics on every authentic slate that has fewer than two participants,
  a proof anyone can make.
\<close>

theorem verify_tx_proof_panics:
  assumes "verify_extract E pf None = Ok (dest, slate)" and "length (sl_participant_data slate) < 2"
  shows "api_verify_tx_proof E pf = Panic \<and> wl_verify_tx_proof E pf = Panic"
  using assms by (simp add: wl_verify_tx_proof_def api_verify_tx_proof_def Let_def)

theorem verify_tx_proof_panics_witness:
  "api_verify_tx_proof (demo_wenv_with (demo_slate\<lparr>sl_participant_data := []\<rparr>)) demo_proof = Panic"
  using verify_tx_proof_panics [OF demo_extract] by simp

section \<open>Console threads\<close>

lemma with_console_shared:
  assumes "start_console_thread E (w_lib w) = (Ok (), s)"
  shows "w_consoles (snd (with_console E (lib_shared c op) w)) =
    w_consoles w + (if is_ok (fst (with_console E (lib_shared c op) w)) then 0 else 1)"
  using assms
  by (auto simp: with_console_def lib_shared_def lib_def io_bind_def io_modify_def io_return_def
      split: prod.splits outcome.splits)

text \<open>
  A long operation that fails leaves its console thread running: \<open>running\<close> is cleared and
  the thread joined only on success, so each failed scan, cancel or synchronisation adds a
  thread that is never told to stop.
\<close>

theorem failed_call_leaves_console_thread:
  assumes "wl_backend self = Some i" and "start_console_thread E (w_lib w) = (Ok (), s)"
  shows "w_consoles (snd (wl_check_repair E self h del w)) =
      w_consoles w + (if is_ok (fst (wl_check_repair E self h del w)) then 0 else 1) \<and>
    w_consoles (snd (wl_cancel E self tid w)) = w_consoles w + (if is_ok (fst (wl_cancel E self tid w)) then 0 else 1) \<and>
    w_consoles (snd (wl_sync E self w)) = w_consoles w + (if is_ok (fst (wl_sync E self w)) then 0 else 1)"
  using assms
  by (simp add: wl_check_repair_def api_check_repair_def wl_cancel_def api_cancel_tx_def wl_sync_def api_sync_def
      with_inst_open with_console_shared)

theorem failed_call_leaves_console_thread_witness:
  "\<not> is_ok (fst (wl_check_repair demo_wenv demo_wallet 1 True demo_world)) \<and>
   w_consoles (snd (wl_check_repair demo_wenv demo_wallet 1 True demo_world)) = 1"
proof -
  have "\<not> is_ok (fst (wl_check_repair demo_wenv demo_wallet 1 True demo_world))" by code_simp
  moreover have "wl_backend demo_wallet = Some demo_inst" and "start_console_thread demo_wenv (w_lib demo_world) = (Ok (), ())"
    by (simp_all add: demo_wallet_def demo_wenv_defs)
  from failed_call_leaves_console_thread [OF this, of 1 True]
  have "w_consoles (snd (wl_check_repair demo_wenv demo_wallet 1 True demo_world)) = w_consoles demo_world +
    (if is_ok (fst (wl_check_repair demo_wenv demo_wallet 1 True demo_world)) then 0 else 1)" by blast
  ultimately show ?thesis by (simp add: demo_world_def)
qed

section \<open>Scanning ends\<close>

text \<open>A node that answers, with pages that reach at least to the index asked for and up to the highest.\<close>

definition node_progresses :: "('pk, 'sk, 'sig, 'st) wenv \<Rightarrow> inst \<Rightarrow> u64 \<Rightarrow> bool" where
  "node_progresses E i H \<longleftrightarrow> (\<forall>start n s. start \<le> H \<longrightarrow>
     (case fst (get_outputs_by_pmmr_index E i start n s) of
        Ok (highest, last_retrieved, outs) \<Rightarrow> highest = H \<and> start \<le> last_retrieved \<and> last_retrieved \<le> H
      | Hang \<Rightarrow> False | _ \<Rightarrow> True))"

lemma io_for_no_Hang: "(\<And>x w. \<not> hangs (fst (f x w))) \<Longrightarrow> \<not> hangs (fst (io_for f xs w))"
proof (induction xs arbitrary: w)
  case (Cons x xs)
  have "\<not> hangs (fst (f x w))" by (rule Cons.prems)
  then show ?case using Cons by (cases "f x w"; cases "fst (f x w)") (auto simp: io_bind_def)
qed (simp add: io_return_def)

lemma scan_page_no_Hang: "\<not> hangs (fst (scan_page E infos fn outs w))"
  unfolding scan_page_def
proof (intro io_for_no_Hang)
  fix out info w
  show "\<not> hangs (fst (scan_key E fn out info w))"
    by (cases "sk_from_slice E (blake2b E (po_commit out) (pki_rewind_hash info))")
      (auto simp: scan_key_def io_lift_apply io_return_def on_fs_def append_file_def split: option.split)
qed

lemma scan_loop_ends:
  assumes "node_progresses E i H" and "start \<le> H" and "unat H - unat start < fuel"
  shows "\<not> hangs (fst (scan_loop fuel E i infos fn start w))"
  using assms(2,3)
proof (induction fuel arbitrary: start w)
  case 0
  then show ?case by simp
next
  case (Suc fuel)
  obtain r w1 where call: "lib (Get_pmmr_outputs start) (get_outputs_by_pmmr_index E i start 1000) w = (r, w1)"
    by fastforce
  then have r: "r = fst (get_outputs_by_pmmr_index E i start 1000 (w_lib w))"
    by (auto simp: lib_def split: prod.splits)
  have node: "case r of Ok (highest, last_retrieved, outs) \<Rightarrow> highest = H \<and> start \<le> last_retrieved \<and> last_retrieved \<le> H
      | Hang \<Rightarrow> False | _ \<Rightarrow> True"
    using assms(1) Suc.prems(1) unfolding node_progresses_def r by blast
  show ?case
  proof (cases r)
    case (Ok page)
    obtain highest last outs where page: "page = (highest, last, outs)" by (cases page)
    have b: "highest = H" "start \<le> last" "last \<le> H" using node Ok page by auto
    define w2 where "w2 = snd (println (''Scanning '' @ show_nat (length outs) @ '' outputs, up to index '' @
        show_nat (unat highest) @ ''. (Highest index: '' @ show_nat (unat last) @ '')'') w1)"
    obtain q w3 where q: "scan_page E infos fn outs w2 = (q, w3)" by fastforce
    have nq: "\<not> hangs q" using scan_page_no_Hang [of E infos fn outs w2] q by simp
    have next_page: "\<not> hangs (fst (scan_loop fuel E i infos fn (last + 1) w3))" if "H \<noteq> last"
    proof (rule Suc.IH)
      have lt: "unat last < unat H" using b(3) that by (metis word_le_nat_alt word_unat_eq_iff le_neq_implies_less)
      then have s: "unat (last + 1) = unat last + 1" by unat_arith
      show "last + 1 \<le> H" using lt s by (simp add: word_le_nat_alt)
      show "unat H - unat (last + 1) < fuel" using s lt b(2) Suc.prems(2) by (simp add: word_le_nat_alt)
    qed
    have "fst (scan_loop (Suc fuel) E i infos fn start w) =
        (case q of Ok u \<Rightarrow> if H = last then Ok () else fst (scan_loop fuel E i infos fn (last + 1) w3)
         | Err e \<Rightarrow> Err e | Panic \<Rightarrow> Panic | Hang \<Rightarrow> Hang)"
      using call Ok page b(1) q w2_def
      by (cases q) (auto simp: io_bind_def println_def io_modify_def io_return_def)
    then show ?thesis using nq next_page by (cases q) auto
  qed (use call node in \<open>auto simp: io_bind_def\<close>)
qed

text \<open>
  C39: scanning the chain ends on a node that makes progress: as many pages as there are
  indices are enough, and the next start index never wraps around.
\<close>

theorem scan_outputs_terminates:
  assumes "node_progresses E i H" and "1 \<le> H" and "unat H \<le> fuel"
  shows "\<not> hangs (fst (scan_outputs fuel E i keys fn w))"
proof -
  have "unat (1::u64) = 1" by simp
  moreover have "1 \<le> unat H" using assms(2) by (simp add: word_le_nat_alt)
  ultimately have "\<not> hangs (fst (scan_loop fuel E i infos fn 1 w))" for infos w
    using assms by (intro scan_loop_ends [of E i H]) auto
  then show ?thesis
    by (auto simp: scan_outputs_def println_def io_modify_def on_fs_def open_append_def io_bind_def split: prod.split outcome.split if_splits)
qed

theorem scan_outputs_terminates_witness:
  "\<not> hangs (fst (scan_outputs 3 (demo_wenv\<lparr>get_outputs_by_pmmr_index := (\<lambda>_ start n s. (Ok (3, start, []), s))\<rparr>)
     demo_inst [] ''out'' demo_world))"
  by (rule scan_outputs_terminates [of _ _ 3]) (auto simp: node_progresses_def)

section \<open>What every call respects\<close>

context world_frame
begin

lemma frame_with_inst: "(\<And>i. frame R (f i)) \<Longrightarrow> frame R (with_inst self f)"
  unfolding with_inst_def by (intro frame_bind frame_lift)

lemma frame_sync: "frame R (api_sync E i p)"
  unfolding api_sync_def by (intro frame_rules)

lemma frame_retrieve_outputs: "frame R (api_retrieve_outputs E i a b c d e)"
  unfolding api_retrieve_outputs_def by (intro frame_rules frame_sync)

lemma frame_retrieve_txs: "frame R (api_retrieve_txs E i a b c)"
  unfolding api_retrieve_txs_def by (intro frame_rules frame_sync)

lemma frame_proof_flags: "frame R (retrieve_txs_with_proof_flag E i a b c d e)"
  unfolding retrieve_txs_with_proof_flag_def by (intro frame_rules frame_sync)

lemma frame_node_height: "frame R (api_node_height E i)"
  unfolding api_node_height_def by (intro frame_rules frame_retrieve_outputs)

lemma frame_post_tx: "frame R (api_post_tx E i t f)"
  unfolding api_post_tx_def by (intro frame_rules)

lemma frame_current_height: "frame R (current_height E i b)"
  unfolding current_height_def by (intro frame_rules frame_node_height)

lemma frame_txs: "frame R (wl_txs E self a b c d e)"
  unfolding wl_txs_def shown_id_def wl_retrieve_outputs_def
  by (intro frame_with_inst frame_rules frame_current_height frame_proof_flags frame_retrieve_outputs)

lemma frame_repost: "frame R (repost E self tid fluff)"
  unfolding repost_def api_get_stored_tx_def
  by (intro frame_with_inst frame_rules frame_retrieve_txs frame_post_tx)

lemma frame_total_value: "frame R (total_value E self b c ol)"
  unfolding total_value_def by (intro frame_with_inst frame_rules frame_node_height frame_retrieve_outputs)

lemma frame_scan_loop: "frame R (scan_loop fuel E i infos fn start)"
proof (induction fuel arbitrary: start)
  case (Suc fuel)
  show ?case unfolding scan_loop.simps scan_page_def scan_key_def by (intro frame_rules Suc)
qed (simp add: frame_lift)

lemma frame_scan: "frame R (wl_scan_outputs fuel E self keys fn)"
  unfolding wl_scan_outputs_def api_scan_outputs_def scan_outputs_def
  by (intro frame_with_inst frame_rules frame_scan_loop)

lemma frame_bulk: "frame R (wl_txs_bulk_validate E self a b c)"
  unfolding wl_txs_bulk_validate_def api_txs_bulk_validate_def by (intro frame_with_inst frame_rules)

lemma frame_tip: "frame R (update_tip_as_last_scanned E self)"
  unfolding update_tip_as_last_scanned_def by (intro frame_with_inst frame_rules)

lemma frame_rename: "frame R (rename_account E self a b)"
  unfolding rename_account_def rename_account_path_def api_accounts_def by (intro frame_with_inst frame_rules)

end

definition respectful :: "('st, 'a) wio \<Rightarrow> bool" where
  "respectful m \<longleftrightarrow> frame same_held m \<and> frame trace_grows m \<and> frame consoles_kept m"

text \<open>
  Whatever its outcome (an error or a panic included), a call that returns gives the
  wallet's mutex back as it found it, only adds to the library calls made before, and clears
  the console flag of no other call. This is the frame that the primitives and
  the control structures share, for seven of the operations.
\<close>

lemma wallet_calls_respect_the_world:
  "respectful (wl_txs E self refresh start len tx_id slate_id) \<and> respectful (repost E self tid fluff) \<and>
   respectful (total_value E self refresh minconf ol) \<and> respectful (wl_scan_outputs fuel E self keys fn) \<and>
   respectful (wl_txs_bulk_validate E self kernels_fn outputs_fn result_fn) \<and>
   respectful (update_tip_as_last_scanned E self) \<and> respectful (rename_account E self old_name new_name)"
  by (simp add: respectful_def held.frame_txs held.frame_repost held.frame_total_value held.frame_scan held.frame_bulk
      held.frame_tip held.frame_rename traced.frame_txs traced.frame_repost traced.frame_total_value traced.frame_scan
      traced.frame_bulk traced.frame_tip traced.frame_rename consoles.frame_txs consoles.frame_repost
      consoles.frame_total_value consoles.frame_scan consoles.frame_bulk consoles.frame_tip consoles.frame_rename)

section \<open>Seeds\<close>

text \<open>
  An existing seed is never overwritten: when the seed file opens with the passphrase,
  initialising returns that seed and creates no file; when it does not open, a seed is
  created only on request, otherwise the call fails with \<open>WalletSeedCouldNotBeOpened\<close>.
\<close>

theorem init_seed_keeps_existing:
  assumes "get_data_path_str cfg = Ok dir"
  shows "case seed_from_file E dir pass (w_lib w) of
      (Ok old, st) \<Rightarrow> init_seed E cfg pass create_new create_file seed w =
        (Ok old, w\<lparr>w_lib := st, w_trace := w_trace w @ [Seed_from_file dir]\<rparr>)
    | (Err e, st) \<Rightarrow>
        (let w1 = w\<lparr>w_lib := st, w_trace := w_trace w @ [Seed_from_file dir]\<rparr>
         in if create_new then init_seed E cfg pass create_new create_file seed w =
              lib (Seed_init_file dir) (seed_init_file E dir 32 None pass create_file (\<not> create_file) seed) w1
            else init_seed E cfg pass create_new create_file seed w = (fail WalletSeedCouldNotBeOpened, w1))
    | _ \<Rightarrow> \<not> is_ok (fst (init_seed E cfg pass create_new create_file seed w))"
  using assms
  by (auto simp: init_seed_def io_match_def lib_def io_return_def io_lift_apply Let_def split: prod.split outcome.split)

theorem init_seed_keeps_existing_witness:
  "fst (init_seed demo_wenv (config_default Mainnet :: bytes wallet713_config) ''p'' True True (Some [9]) demo_world) = Ok [1]"
proof -
  obtain dir where "get_data_path_str (config_default Mainnet :: bytes wallet713_config) = Ok dir"
    by (simp add: get_data_path_str_def)
  from init_seed_keeps_existing [OF this, where E = demo_wenv and pass = "''p''" and w = demo_world and
      create_new = True and create_file = True and seed = "Some [9]"]
  show ?thesis by (simp add: demo_wenv_defs)
qed

end
