(* ===== verification/Contacts.thy ===== *)
theory Contacts
  imports Message
begin

text \<open>
  \<open>src/src/contacts/types.rs\<close> (contacts and the address book), \<open>src/src/contacts/backend.rs\<close>
  (the stored contacts) and \<open>do_contacts\<close> of \<open>src/src/main.rs\<close>. The trait object
  \<open>AddressBookBackend\<close> is a record of operations that the address book calls; its contract is
  the locale \<open>address_book_backend\<close>, interpreted on the backend of the code. The key-value
  store (\<open>grin_store\<close>) and JSON (\<open>serde_json\<close>) are crates: the record \<open>store\<close>.
\<close>

section \<open>The code\<close>

record contact =
  c_name :: string
  c_address :: string

definition contact_new :: "string \<Rightarrow> dyn_address \<Rightarrow> contact res" where
  "contact_new name address = Ok \<lparr>c_name = name, c_address = address_display address\<rparr>"

definition get_name :: "contact \<Rightarrow> string" where
  "get_name self = c_name self"

definition get_address :: "contact \<Rightarrow> string" where
  "get_address self = c_address self"

definition contact_display :: "contact \<Rightarrow> string" where
  "contact_display self = c_name self @ '': '' @ c_address self"

subsection \<open>The address book over its backend\<close>

text \<open>
  \<open>dyn AddressBookBackend\<close> and \<open>dyn AddressBookBatch\<close>: \<open>'s\<close> is the backend, \<open>'b\<close> an open batch. The
  contacts are an iterator: the list of what its steps give, each looked at only when it is asked for.
\<close>

record ('s, 'b) backend_ops =
  be_get_contact :: "'s \<Rightarrow> bytes \<Rightarrow> contact res"
  be_contacts :: "'s \<Rightarrow> contact res list res"
  be_batch :: "'s \<Rightarrow> 'b res"
  ba_save_contact :: "'b \<Rightarrow> contact \<Rightarrow> 'b res"
  ba_delete_contact :: "'b \<Rightarrow> bytes \<Rightarrow> 'b res"
  ba_commit :: "'b \<Rightarrow> 's res"

definition get_contact :: "('s, 'b) backend_ops \<Rightarrow> 's \<Rightarrow> string \<Rightarrow> contact res" where
  "get_contact B self name = obind (be_get_contact B self (as_bytes name)) Ok"

definition contacts :: "('s, 'b) backend_ops \<Rightarrow> 's \<Rightarrow> contact res list res" where
  "contacts B self = be_contacts B self"

text \<open>The whole iterator, up to a step that does not return.\<close>

fun iter_collect :: "contact res list \<Rightarrow> contact list res" where
  "iter_collect [] = Ok []"
| "iter_collect (r # rs) = obind r (\<lambda>c. obind (iter_collect rs) (\<lambda>cs. Ok (c # cs)))"

text \<open>A batch that is not committed leaves the backend as it was.\<close>

definition run_batch :: "('s, 'b) backend_ops \<Rightarrow> 's \<Rightarrow> ('b \<Rightarrow> 'b res) \<Rightarrow> unit res \<times> 's" where
  "run_batch B self f =
     (case obind (be_batch B self) (\<lambda>batch. obind (f batch) (ba_commit B)) of
        Ok s' \<Rightarrow> (Ok (), s') | Err e \<Rightarrow> (Err e, self) | Panic \<Rightarrow> (Panic, self) | Hang \<Rightarrow> (Hang, self))"

definition add_contact :: "('s, 'b) backend_ops \<Rightarrow> 's \<Rightarrow> contact \<Rightarrow> unit res \<times> 's" where
  "add_contact B self c =
     (case get_contact B self (c_name c) of
        Ok _ \<Rightarrow> (fail (ContactAlreadyExists (c_name c)), self)
      | Panic \<Rightarrow> (Panic, self)
      | Hang \<Rightarrow> (Hang, self)
      | Err _ \<Rightarrow> run_batch B self (\<lambda>batch. ba_save_contact B batch c))"

definition remove_contact :: "('s, 'b) backend_ops \<Rightarrow> 's \<Rightarrow> string \<Rightarrow> unit res \<times> 's" where
  "remove_contact B self name = run_batch B self (\<lambda>batch. ba_delete_contact B batch (as_bytes name))"

fun first_with_address :: "string \<Rightarrow> contact res list \<Rightarrow> contact res" where
  "first_with_address address [] = fail (ContactNotFound address)"
| "first_with_address address (r # rs) =
     obind r (\<lambda>c. if c_address c = address then Ok c else first_with_address address rs)"

definition get_contact_by_address :: "('s, 'b) backend_ops \<Rightarrow> 's \<Rightarrow> string \<Rightarrow> contact res" where
  "get_contact_by_address B self address = obind (contacts B self) (first_with_address address)"

subsection \<open>The stored backend\<close>

text \<open>
  What the backend calls of \<open>grin_store\<close> and \<open>serde_json\<close>. \<open>json_contact\<close> writes the object with
  the two fields; \<open>json_fields\<close> parses a text and gives the fields \<open>name\<close> and \<open>address\<close> as far as
  they are strings. \<open>frame\<close> and \<open>unframe\<close> are the length-prefixed bytes of the serializer.
\<close>

record ('db, 'bt) store =
  st_to_key :: "u8 \<Rightarrow> bytes \<Rightarrow> bytes"
  st_get :: "'db \<Rightarrow> bytes \<Rightarrow> bytes option res"
  st_iter :: "'db \<Rightarrow> bytes \<Rightarrow> (bytes \<times> bytes) list res"
  st_batch :: "'db \<Rightarrow> 'bt res"
  st_put :: "'bt \<Rightarrow> bytes \<Rightarrow> bytes \<Rightarrow> 'bt res"
  st_delete :: "'bt \<Rightarrow> bytes \<Rightarrow> 'bt res"
  st_commit :: "'bt \<Rightarrow> 'db res"
  st_not_found :: "string \<Rightarrow> string"
  st_frame :: "bytes \<Rightarrow> bytes"
  st_unframe :: "bytes \<Rightarrow> bytes option"
  json_contact :: "string \<Rightarrow> string \<Rightarrow> string"
  json_fields :: "string \<Rightarrow> (string option \<times> string option) option"

definition CONTACT_PREFIX :: u8 where
  "CONTACT_PREFIX = char_byte CHR ''X''"

abbreviation corrupted :: "'a res" where
  "corrupted \<equiv> Err (Foreign ''corrupted data'')"

definition contact_write :: "('db, 'bt) store \<Rightarrow> contact \<Rightarrow> bytes" where
  "contact_write ST self = st_frame ST (as_bytes (json_contact ST (get_name self) (get_address self)))"

definition contact_read ::
  "('pk, 'sk, 'sig, 'x) env_scheme \<Rightarrow> ('db, 'bt) store \<Rightarrow> bytes \<Rightarrow> contact res" where
  "contact_read E ST reader =
     obind (of_option (Foreign ''corrupted data'') (st_unframe ST reader)) (\<lambda>data.
     obind (of_option (Foreign ''corrupted data'') (from_utf8 data)) (\<lambda>data.
     case json_fields ST data of
       None \<Rightarrow> corrupted
     | Some (name, address) \<Rightarrow>
         (case address of
            None \<Rightarrow> Panic
          | Some address \<Rightarrow>
              obind (omap_err (\<lambda>_. Foreign ''corrupted data'') (address_parse E address)) (\<lambda>address.
              case name of
                None \<Rightarrow> Panic
              | Some name \<Rightarrow> omap_err (\<lambda>_. Foreign ''corrupted data'') (contact_new name address)))))"

text \<open>\<open>format!("{:x?}", name.to_vec())\<close>.\<close>

definition debug_hex :: "bytes \<Rightarrow> string" where
  "debug_hex bs = ''['' @ str_join '', ''
     (map (\<lambda>b. if unat b < 16 then [digit_char (unat b)] else hex_byte b) bs) @ '']''"

definition backend_get_contact ::
  "('pk, 'sk, 'sig, 'x) env_scheme \<Rightarrow> ('db, 'bt) store \<Rightarrow> 'db \<Rightarrow> bytes \<Rightarrow> contact res" where
  "backend_get_contact E ST db name =
     obind (st_get ST db (st_to_key ST CONTACT_PREFIX name)) (\<lambda>v.
       case v of
         None \<Rightarrow> Err (Foreign (st_not_found ST (''Contact id: '' @ debug_hex name)))
       | Some v \<Rightarrow> contact_read E ST v)"

text \<open>The iterator deserializes lazily and ends at the first entry it cannot read.\<close>

fun iter_read :: "('pk, 'sk, 'sig, 'x) env_scheme \<Rightarrow> ('db, 'bt) store \<Rightarrow> (bytes \<times> bytes) list \<Rightarrow> contact res list" where
  "iter_read E ST [] = []"
| "iter_read E ST ((k, v) # kvs) =
     (case contact_read E ST v of
        Ok c \<Rightarrow> Ok c # iter_read E ST kvs
      | Err e \<Rightarrow> [] | Panic \<Rightarrow> [Panic] | Hang \<Rightarrow> [Hang])"

definition backend_contacts ::
  "('pk, 'sk, 'sig, 'x) env_scheme \<Rightarrow> ('db, 'bt) store \<Rightarrow> 'db \<Rightarrow> contact res list res" where
  "backend_contacts E ST db = obind (unwrap (st_iter ST db [CONTACT_PREFIX])) (\<lambda>kvs. Ok (iter_read E ST kvs))"

text \<open>A batch: \<open>RefCell<Option<grin_store::Batch>>\<close>, \<open>None\<close> once committed.\<close>

definition backend_batch :: "('db, 'bt) store \<Rightarrow> 'db \<Rightarrow> 'bt option res" where
  "backend_batch ST db = obind (st_batch ST db) (\<lambda>b. Ok (Some b))"

definition batch_save_contact :: "('db, 'bt) store \<Rightarrow> 'bt option \<Rightarrow> contact \<Rightarrow> 'bt option res" where
  "batch_save_contact ST db c = (case db of
     None \<Rightarrow> Panic
   | Some b \<Rightarrow> obind (st_put ST b (st_to_key ST CONTACT_PREFIX (as_bytes (get_name c))) (contact_write ST c))
       (\<lambda>b. Ok (Some b)))"

definition batch_delete_contact :: "('db, 'bt) store \<Rightarrow> 'bt option \<Rightarrow> bytes \<Rightarrow> 'bt option res" where
  "batch_delete_contact ST db name = (case db of
     None \<Rightarrow> Panic
   | Some b \<Rightarrow> obind (st_delete ST b (st_to_key ST CONTACT_PREFIX name)) (\<lambda>b. Ok (Some b)))"

definition batch_commit :: "('db, 'bt) store \<Rightarrow> 'bt option \<Rightarrow> 'db res" where
  "batch_commit ST db = (case db of None \<Rightarrow> Panic | Some b \<Rightarrow> st_commit ST b)"

definition backend ::
  "('pk, 'sk, 'sig, 'x) env_scheme \<Rightarrow> ('db, 'bt) store \<Rightarrow> ('db, 'bt option) backend_ops" where
  "backend E ST =
     \<lparr>be_get_contact = backend_get_contact E ST, be_contacts = backend_contacts E ST,
      be_batch = backend_batch ST, ba_save_contact = batch_save_contact ST,
      ba_delete_contact = batch_delete_contact ST, ba_commit = batch_commit ST\<rparr>"

subsection \<open>The contacts command\<close>

datatype contacts_args = ContactsAdd string string | ContactsRemove string | ContactsList

text \<open>The value of the listing is what is printed, a line per contact.\<close>

fun do_contacts ::
  "('pk, 'sk, 'sig, 'x) env_scheme \<Rightarrow> ('s, 'b) backend_ops \<Rightarrow> contacts_args \<Rightarrow> 's \<Rightarrow> string list res \<times> 's" where
  "do_contacts E B (ContactsAdd name address) book =
     (let contact_address = (case address_parse E address of
            Ok a \<Rightarrow> Ok a
          | Err e \<Rightarrow> obind (omap_err (\<lambda>_. e) (grinbox_from_str E address)) (\<lambda>a. Ok (AGrinbox a))
          | Panic \<Rightarrow> Panic | Hang \<Rightarrow> Hang)
      in case obind contact_address (contact_new name) of
           Ok c \<Rightarrow> (case add_contact B book c of (r, book) \<Rightarrow> (obind r (\<lambda>_. Ok []), book))
         | Err e \<Rightarrow> (Err e, book) | Panic \<Rightarrow> (Panic, book) | Hang \<Rightarrow> (Hang, book))"
| "do_contacts E B (ContactsRemove name) book =
     (case remove_contact B book name of (r, book) \<Rightarrow> (obind r (\<lambda>_. Ok []), book))"
| "do_contacts E B ContactsList book =
     (obind (obind (contacts B book) iter_collect) (\<lambda>cs.
        if cs = [] then Ok [''your contact list is empty. consider using `contacts add` to add a new contact.'']
        else Ok (map (\<lambda>c. ''@'' @ get_name c @ '' = '' @ get_address c) cs)), book)"

section \<open>The contract of a backend\<close>

text \<open>An address book as its clients see it: a map from names to contacts.\<close>

definition book_view :: "('s, 'b) backend_ops \<Rightarrow> 's \<Rightarrow> string \<rightharpoonup> contact" where
  "book_view B s = (\<lambda>n. case get_contact B s n of Ok c \<Rightarrow> Some c | _ \<Rightarrow> None)"

lemma get_contact_eq: "get_contact B s n = be_get_contact B s (as_bytes n)"
  by (simp add: get_contact_def)

lemma as_bytes_inj: "as_bytes a = as_bytes b \<longleftrightarrow> a = b"
  by (metis map_byte_char_as_bytes)

lemma run_batch_Ok:
  "run_batch B s f = (Ok (), s') \<longleftrightarrow>
     (\<exists>b b'. be_batch B s = Ok b \<and> f b = Ok b' \<and> ba_commit B b' = Ok s')"
  unfolding run_batch_def
  by (cases "obind (be_batch B s) (\<lambda>batch. obind (f batch) (ba_commit B))") (auto simp: outcome_simps)

text \<open>A failed update leaves the backend as it was.\<close>

lemma run_batch_failed: "run_batch B s f = (r, s') \<Longrightarrow> r \<noteq> Ok () \<Longrightarrow> s' = s"
  unfolding run_batch_def by (auto split: outcome.splits)

lemma add_contact_failed: "add_contact B s c = (r, s') \<Longrightarrow> r \<noteq> Ok () \<Longrightarrow> s' = s"
  unfolding add_contact_def by (auto split: outcome.splits dest: run_batch_failed)

lemma remove_contact_failed: "remove_contact B s n = (r, s') \<Longrightarrow> r \<noteq> Ok () \<Longrightarrow> s' = s"
  unfolding remove_contact_def by (rule run_batch_failed)

lemma add_contact_Ok:
  "add_contact B s c = (Ok (), s') \<Longrightarrow>
     book_view B s (c_name c) = None \<and> run_batch B s (\<lambda>b. ba_save_contact B b c) = (Ok (), s')"
  unfolding add_contact_def book_view_def by (auto split: outcome.splits)

locale address_book_backend =
  fixes B :: "('s, 'b) backend_ops" and ok :: "'s \<Rightarrow> bool" and storable :: "contact \<Rightarrow> bool"
  assumes saved: "\<lbrakk>ok s; storable c; be_batch B s = Ok b; ba_save_contact B b c = Ok b'; ba_commit B b' = Ok s'\<rbrakk>
      \<Longrightarrow> ok s' \<and> (\<forall>n. be_get_contact B s' n = (if n = as_bytes (c_name c) then Ok c else be_get_contact B s n))"
    and deleted: "\<lbrakk>ok s; be_batch B s = Ok b; ba_delete_contact B b n = Ok b'; ba_commit B b' = Ok s'\<rbrakk>
      \<Longrightarrow> ok s' \<and> (\<exists>e. be_get_contact B s' n = Err e) \<and> (\<forall>m. m \<noteq> n \<longrightarrow> be_get_contact B s' m = be_get_contact B s m)"
begin

lemma add_view:
  assumes "ok s" and "storable c" and "add_contact B s c = (Ok (), s')"
  shows "ok s' \<and> book_view B s (c_name c) = None \<and> book_view B s' = (book_view B s)(c_name c \<mapsto> c)"
  using add_contact_Ok [OF assms(3)] saved [OF assms(1,2)]
  by (auto simp: run_batch_Ok book_view_def get_contact_eq as_bytes_inj fun_eq_iff)

lemma remove_view:
  assumes "ok s" and "remove_contact B s n = (Ok (), s')"
  shows "ok s' \<and> book_view B s' = (book_view B s)(n := None)"
  using assms(2) deleted [OF assms(1)]
  by (fastforce simp: remove_contact_def run_batch_Ok book_view_def get_contact_eq as_bytes_inj fun_eq_iff)

lemma add_existing:
  assumes "book_view B s (c_name c) \<noteq> None"
  shows "add_contact B s c = (fail (ContactAlreadyExists (c_name c)), s)"
  using assms by (auto simp: add_contact_def book_view_def split: outcome.splits)

end

section \<open>The stored backend fulfils it\<close>

text \<open>
  What the documentation of the store promises, with \<open>view\<close> and \<open>bview\<close> the contents of a store
  and of an open batch: reads see the contents, a batch starts from them, puts and deletes
  change the batch, a commit publishes it, and keys of different names differ.
\<close>

definition store_ok :: "('db, 'bt) store \<Rightarrow> ('db \<Rightarrow> bytes \<rightharpoonup> bytes) \<Rightarrow> ('bt \<Rightarrow> bytes \<rightharpoonup> bytes) \<Rightarrow> bool" where
  "store_ok ST view bview \<longleftrightarrow>
     (\<forall>db k. st_get ST db k = Ok (view db k)) \<and>
     (\<forall>db b. st_batch ST db = Ok b \<longrightarrow> bview b = view db) \<and>
     (\<forall>b k v b'. st_put ST b k v = Ok b' \<longrightarrow> bview b' = (bview b)(k \<mapsto> v)) \<and>
     (\<forall>b k b'. st_delete ST b k = Ok b' \<longrightarrow> bview b' = (bview b)(k := None)) \<and>
     (\<forall>b db. st_commit ST b = Ok db \<longrightarrow> view db = bview b) \<and>
     inj (st_to_key ST CONTACT_PREFIX)"

text \<open>A contact that survives storage: its JSON text is read back, its address is as printed.\<close>

definition storable :: "('pk, 'sk, 'sig, 'x) env_scheme \<Rightarrow> ('db, 'bt) store \<Rightarrow> contact \<Rightarrow> bool" where
  "storable E ST c \<longleftrightarrow>
     (let j = json_contact ST (c_name c) (c_address c)
      in st_unframe ST (st_frame ST (as_bytes j)) = Some (as_bytes j) \<and> utf8_valid (map of_char j) \<and>
         json_fields ST j = Some (Some (c_name c), Some (c_address c))) \<and>
     (case address_parse E (c_address c) of Ok a \<Rightarrow> address_display a = c_address c | _ \<Rightarrow> False)"

lemma contact_read_write: "storable E ST c \<Longrightarrow> contact_read E ST (contact_write ST c) = Ok c"
  by (auto simp: storable_def Let_def contact_read_def contact_write_def get_name_def get_address_def
      from_utf8_as_bytes contact_new_def split: outcome.splits)

lemma store_key_inj:
  "store_ok ST view bview \<Longrightarrow> st_to_key ST CONTACT_PREFIX a = st_to_key ST CONTACT_PREFIX b \<longleftrightarrow> a = b"
  by (auto simp: store_ok_def inj_def)

lemma backend_get:
  "store_ok ST view bview \<Longrightarrow> be_get_contact (backend E ST) db n =
     (case view db (st_to_key ST CONTACT_PREFIX n) of
        None \<Rightarrow> Err (Foreign (st_not_found ST (''Contact id: '' @ debug_hex n)))
      | Some v \<Rightarrow> contact_read E ST v)"
  by (simp add: backend_def backend_get_contact_def store_ok_def)

lemma backend_saved_view:
  assumes "store_ok ST view bview" and "be_batch (backend E ST) s = Ok b"
    and "ba_save_contact (backend E ST) b c = Ok b'" and "ba_commit (backend E ST) b' = Ok s'"
  shows "view s' = (view s)(st_to_key ST CONTACT_PREFIX (as_bytes (c_name c)) \<mapsto> contact_write ST c)"
  using assms by (auto simp: backend_def backend_batch_def batch_save_contact_def batch_commit_def
      store_ok_def get_name_def outcome_simps split: option.splits)

lemma backend_deleted_view:
  assumes "store_ok ST view bview" and "be_batch (backend E ST) s = Ok b"
    and "ba_delete_contact (backend E ST) b n = Ok b'" and "ba_commit (backend E ST) b' = Ok s'"
  shows "view s' = (view s)(st_to_key ST CONTACT_PREFIX n := None)"
  using assms by (auto simp: backend_def backend_batch_def batch_delete_contact_def batch_commit_def
      store_ok_def outcome_simps split: option.splits)

interpretation ab: address_book_backend "backend E ST" "\<lambda>_. store_ok ST view bview" "storable E ST"
  for E ST view bview
proof
  fix s c b b' s'
  assume ok: "store_ok ST view bview" and c: "storable E ST c"
    and ops: "be_batch (backend E ST) s = Ok b" "ba_save_contact (backend E ST) b c = Ok b'"
      "ba_commit (backend E ST) b' = Ok s'"
  show "store_ok ST view bview \<and> (\<forall>n. be_get_contact (backend E ST) s' n =
      (if n = as_bytes (c_name c) then Ok c else be_get_contact (backend E ST) s n))"
    using ok contact_read_write [OF c]
    by (simp add: backend_get [OF ok] backend_saved_view [OF ok ops] store_key_inj [OF ok])
next
  fix s b n b' s'
  assume ok: "store_ok ST view bview"
    and ops: "be_batch (backend E ST) s = Ok b" "ba_delete_contact (backend E ST) b n = Ok b'"
      "ba_commit (backend E ST) b' = Ok s'"
  show "store_ok ST view bview \<and> (\<exists>e. be_get_contact (backend E ST) s' n = Err e) \<and>
      (\<forall>m. m \<noteq> n \<longrightarrow> be_get_contact (backend E ST) s' m = be_get_contact (backend E ST) s m)"
    using ok by (simp add: backend_get [OF ok] backend_deleted_view [OF ok ops] store_key_inj [OF ok])
qed

section \<open>Properties\<close>

text \<open>A concrete store for the witnesses: a map, with an unframed two-field text as JSON.\<close>

definition demo_store :: "(bytes \<rightharpoonup> bytes, bytes \<rightharpoonup> bytes) store" where
  "demo_store =
     \<lparr>st_to_key = (\<lambda>p k. p # 58 # k), st_get = (\<lambda>db k. Ok (db k)), st_iter = (\<lambda>db p. Ok []),
      st_batch = Ok, st_put = (\<lambda>b k v. Ok (b(k \<mapsto> v))), st_delete = (\<lambda>b k. Ok (b(k := None))),
      st_commit = Ok, st_not_found = (\<lambda>m. m), st_frame = (\<lambda>x. x), st_unframe = Some,
      json_contact = (\<lambda>n a. n @ ''|'' @ a),
      json_fields = (\<lambda>s. case str_split CHR ''|'' s of [n, a] \<Rightarrow> Some (Some n, Some a) | _ \<Rightarrow> None)\<rparr>"

definition demo_contact :: contact where
  "demo_contact = \<lparr>c_name = ''bob'', c_address = ''keybase://bob''\<rparr>"

lemma demo_store_ok: "store_ok demo_store (\<lambda>db. db) (\<lambda>b. b)"
  by (simp add: store_ok_def demo_store_def inj_def)

lemma demo_storable: "storable demo_env demo_store demo_contact"
  by code_simp

text \<open>
  C8: the stored address book implements a map from names to contacts: a successful
  \<open>add_contact\<close> happens only on a free name and binds exactly it, a taken name is refused, a
  successful \<open>remove_contact\<close> unbinds exactly the name given, and \<open>get_contact\<close> reads the map.
\<close>

theorem address_book_refines_map:
  assumes "store_ok ST view bview"
  shows "(storable E ST c \<and> add_contact (backend E ST) s c = (Ok (), s') \<longrightarrow>
      book_view (backend E ST) s (c_name c) = None \<and>
      book_view (backend E ST) s' = (book_view (backend E ST) s)(c_name c \<mapsto> c)) \<and>
    (book_view (backend E ST) s (c_name c) \<noteq> None \<longrightarrow>
      add_contact (backend E ST) s c = (fail (ContactAlreadyExists (c_name c)), s)) \<and>
    (remove_contact (backend E ST) s n = (Ok (), s') \<longrightarrow>
      book_view (backend E ST) s' = (book_view (backend E ST) s)(n := None))"
  using ab.add_view [OF assms, of E c s s'] ab.add_existing [of E ST s c]
    ab.remove_view [OF assms, of E s n s'] by blast

theorem address_book_refines_map_witness:
  "\<exists>s'. add_contact (backend demo_env demo_store) Map.empty demo_contact = (Ok (), s') \<and>
     get_contact (backend demo_env demo_store) s' ''bob'' = Ok demo_contact \<and>
     add_contact (backend demo_env demo_store) s' demo_contact = (fail (ContactAlreadyExists ''bob''), s')"
proof -
  let ?B = "backend demo_env demo_store"
  obtain s' where s': "add_contact ?B Map.empty demo_contact = (Ok (), s')"
    by (simp add: add_contact_def get_contact_eq backend_get [OF demo_store_ok] run_batch_def)
      (simp add: backend_def backend_batch_def batch_save_contact_def batch_commit_def demo_store_def)
  have n: "c_name demo_contact = ''bob''" by (simp add: demo_contact_def)
  have v: "book_view ?B s' ''bob'' = Some demo_contact"
    using address_book_refines_map [OF demo_store_ok, of demo_env demo_contact Map.empty s'] s' demo_storable n
    by simp
  then have "get_contact ?B s' ''bob'' = Ok demo_contact"
    by (simp add: book_view_def split: outcome.splits)
  moreover have "add_contact ?B s' demo_contact = (fail (ContactAlreadyExists ''bob''), s')"
    using address_book_refines_map [OF demo_store_ok, of demo_env demo_contact s'] v n by simp
  ultimately show ?thesis using s' by blast
qed

text \<open>
  A \<open>contacts\<close> command that does not succeed, for whatever reason (unparsable address, name
  taken, store failure, panic), leaves the address book as it was; so does listing it.
\<close>

theorem do_contacts_failure_unchanged:
  assumes "do_contacts E B args book = (r, book')" and "\<not> is_ok r \<or> args = ContactsList"
  shows "book' = book"
  using assms
  by (cases args) (auto simp: Let_def split: outcome.splits prod.splits
      dest!: add_contact_failed remove_contact_failed)

theorem do_contacts_failure_unchanged_witness:
  "do_contacts demo_env (backend demo_env demo_store) (ContactsAdd ''bob'' ''?'') Map.empty =
     (fail (GrinboxAddressParsingError ''?''), Map.empty)"
proof -
  have "address_parse demo_env ''?'' = fail (GrinboxAddressParsingError ''?'')"
    "grinbox_from_str demo_env ''?'' = fail (GrinboxAddressParsingError ''?'')" by code_simp+
  then have r: "fst (do_contacts demo_env (backend demo_env demo_store) (ContactsAdd ''bob'' ''?'') Map.empty) =
    fail (GrinboxAddressParsingError ''?'')" by simp
  then show ?thesis
    using do_contacts_failure_unchanged [of demo_env "backend demo_env demo_store"
      "ContactsAdd ''bob'' ''?''" Map.empty, OF prod.collapse [symmetric]]
    by (metis is_ok.simps(2) prod.collapse)
qed

end
