(* ===== verification/Controller.thy ===== *)
theory Controller
  imports Wallet_Correct Contacts
begin

text \<open>
  The controller of \<open>src/src/main.rs\<close>: what the wallet does with a slate that a listener
  received. The state is the world, the wallet and the slate (a \<open>&mut Slate\<close>); the address
  book lookup and the publisher are fields of the controller record; the statics
  \<open>RECV_ACCOUNT\<close> and \<open>RECV_PASS\<close> are the record \<open>recv\<close>. Messages are modelled without their
  colours.
\<close>

section \<open>The code\<close>

record recv =
  recv_account :: "string option"
  recv_pass :: "string option"

record ('pk, 'st) controller =
  ctl_name :: string
  ctl_book :: "string \<Rightarrow> contact res"
  ctl_post :: "'pk slate \<Rightarrow> dyn_address \<Rightarrow> ('st, unit) wio"

definition controller_new ::
  "string \<Rightarrow> ('s, 'b) backend_ops \<Rightarrow> 's \<Rightarrow> ('pk slate \<Rightarrow> dyn_address \<Rightarrow> ('st, unit) wio) \<Rightarrow>
   ('pk, 'st) controller res" where
  "controller_new name B book publisher =
     Ok \<lparr>ctl_name = name, ctl_book = get_contact_by_address B book, ctl_post = publisher\<rparr>"

type_synonym ('pk, 'st, 'a) cio = "(err, 'st world \<times> wallet \<times> 'pk slate, 'a) io"

definition on_wallet :: "('st, 'a) mio \<Rightarrow> ('pk, 'st, 'a) cio" where
  "on_wallet m = (\<lambda>(w, self, s). case m (w, self) of (r, w', self') \<Rightarrow> (r, (w', self', s)))"

definition with_self :: "(wallet \<Rightarrow> ('pk, 'st, 'a) sio) \<Rightarrow> ('pk, 'st, 'a) cio" where
  "with_self m = (\<lambda>(w, self, s). case m self (w, s) of (r, w', s') \<Rightarrow> (r, (w', self, s')))"

definition say :: "string \<Rightarrow> ('pk, 'st, unit) cio" where
  "say t = on_world (println t)"

definition ctl_slate :: "('pk, 'st, 'pk slate) cio" where
  "ctl_slate = (\<lambda>(w, self, s). (Ok s, (w, self, s)))"

definition ctl_account :: "('pk, 'st, string) cio" where
  "ctl_account = (\<lambda>(w, self, s). (Ok (active_account self), (w, self, s)))"

text \<open>The slate still needs a participant.\<close>

definition needs_participant :: "'pk slate \<Rightarrow> bool" where
  "needs_participant s \<longleftrightarrow> sl_num_participants s > length (sl_participant_data s)"

text \<open>Switch to the receiving account, receive, and switch back.\<close>

definition receive_slate ::
  "('pk, 'sk, 'sig, 'st) wenv \<Rightarrow> recv \<Rightarrow> string option \<Rightarrow> 'sk wallet713_config option \<Rightarrow> string option \<Rightarrow>
   ('pk, 'st, unit) cio" where
  "receive_slate E recv address config dest_acct_name =
     io_bind ctl_account (\<lambda>old_account.
     let pass = unwrap_or (recv_pass recv) []
     in case (config, recv_account recv) of
          (Some cfg, Some dst_account) \<Rightarrow>
            io_bind (on_wallet (unlock E cfg dst_account pass)) (\<lambda>_.
            io_bind (with_self (\<lambda>w. process_sender_initiated_slate E w address None None (Some dst_account))) (\<lambda>_.
            on_wallet (unlock E cfg old_account pass)))
        | _ \<Rightarrow> with_self (\<lambda>w. process_sender_initiated_slate E w address None None dest_acct_name))"

definition process_incoming_slate ::
  "('pk, 'sk, 'sig, 'st) wenv \<Rightarrow> recv \<Rightarrow> string option \<Rightarrow> 'sig tx_proof option \<Rightarrow> 'sk wallet713_config option \<Rightarrow>
   string option \<Rightarrow> ('pk, 'st, bool) cio" where
  "process_incoming_slate E recv address tx_proof config dest_acct_name =
     io_bind ctl_slate (\<lambda>slate.
     if needs_participant slate then
       io_bind (if tx_inputs (sl_tx slate) = []
                then with_self (\<lambda>w. process_receiver_initiated_slate E w address)
                else receive_slate E recv address config dest_acct_name) (\<lambda>_.
       io_return False)
     else
       io_bind (io_match (with_self (\<lambda>w. finalize_slate E w tx_proof)) io_return
                  (\<lambda>_. with_self (\<lambda>w. finalize_invoice_slate E w))) (\<lambda>_.
       io_return True))"

subsection \<open>The subscription handler\<close>

definition on_open :: "('pk, 'st) controller \<Rightarrow> ('pk, 'st, unit) cio" where
  "on_open self = say (''listener started for ['' @ ctl_name self @ '']'')"

definition announce ::
  "(u64 \<Rightarrow> string) \<Rightarrow> string \<Rightarrow> 'pk slate \<Rightarrow> ('pk, 'st, unit) cio" where
  "announce amount_hr display_from slate =
     (if needs_participant slate then
        (case sl_participant_data slate of
           [] \<Rightarrow> io_lift Panic
         | pd # _ \<Rightarrow> (case pd_message pd of
             Some message \<Rightarrow> say (''slate ['' @ sl_id slate @ ''] received from ['' @ display_from @ ''] for ['' @
               amount_hr (sl_amount slate) @ ''] MWCs. Message: ['' @ quoted message @ '']'')
           | None \<Rightarrow> say (''slate ['' @ sl_id slate @ ''] received from ['' @ display_from @ ''] for ['' @
               amount_hr (sl_amount slate) @ ''] MWCs.'')))
      else say (''slate ['' @ sl_id slate @ ''] received back from ['' @ display_from @ ''] for ['' @
             amount_hr (sl_amount slate) @ ''] MWCs''))"

text \<open>\<open>publisher.post_slate(..).map_err(print).expect(..)\<close>, or the report of a finalized slate.\<close>

definition reply ::
  "('pk, 'st) controller \<Rightarrow> dyn_address \<Rightarrow> string \<Rightarrow> bool \<Rightarrow> ('pk, 'st, unit) cio" where
  "reply self from display_from is_finalized =
     io_bind ctl_slate (\<lambda>slate.
     if \<not> is_finalized then
       io_bind (io_match (on_world (ctl_post self slate from)) io_return (\<lambda>e.
          io_bind (say (''ERROR: '' @ err_display e)) (\<lambda>_. io_lift Panic))) (\<lambda>_.
       say (''slate ['' @ sl_id slate @ ''] sent back to ['' @ display_from @ ''] successfully''))
     else say (''slate ['' @ sl_id slate @ ''] finalized successfully''))"

text \<open>The name the console shows: that of the contact with the address, if there is one.\<close>

definition display_name :: "('pk, 'st) controller \<Rightarrow> dyn_address \<Rightarrow> string \<Rightarrow> string res" where
  "display_name self from stripped =
     (case ctl_book self (address_display from) of
        Ok contact \<Rightarrow> Ok (get_name contact) | Err _ \<Rightarrow> Ok stripped | Panic \<Rightarrow> Panic | Hang \<Rightarrow> Hang)"

definition on_slate ::
  "('pk, 'sk, 'sig, 'st) wenv \<Rightarrow> (u64 \<Rightarrow> string) \<Rightarrow> recv \<Rightarrow> ('pk, 'st) controller \<Rightarrow> dyn_address \<Rightarrow>
   'sig tx_proof option \<Rightarrow> 'sk wallet713_config option \<Rightarrow> ('pk, 'st, unit) cio" where
  "on_slate E amount_hr recv self from tx_proof config =
     io_bind (io_lift (unwrap (address_stripped from))) (\<lambda>stripped.
     io_bind (io_lift (display_name self from stripped)) (\<lambda>display_from.
     io_bind ctl_slate (\<lambda>slate.
     io_bind (announce amount_hr display_from slate) (\<lambda>_.
     io_bind (if address_type_of from = Grinbox
              then io_lift (obind (unwrap (grinbox_from_str E (address_display from))) (\<lambda>_. Ok ()))
              else io_return ()) (\<lambda>_.
     io_bind ctl_account (\<lambda>account.
     io_match (io_bind (process_incoming_slate E recv (Some (address_display from)) tx_proof config (Some account))
                 (reply self from display_from))
       io_return (\<lambda>e. say (''Error: '' @ err_display e))))))))"

datatype close_reason = Close_Normal | Close_Abnormal err

definition on_close :: "('pk, 'st) controller \<Rightarrow> close_reason \<Rightarrow> ('pk, 'st, unit) cio" where
  "on_close self reason =
     (case reason of
        Close_Normal \<Rightarrow> say (''listener ['' @ ctl_name self @ ''] stopped'')
      | Close_Abnormal _ \<Rightarrow> say (''ERROR: listener ['' @ ctl_name self @ ''] stopped unexpectedly''))"

definition on_dropped :: "('pk, 'st) controller \<Rightarrow> ('pk, 'st, unit) cio" where
  "on_dropped self = say (''WARNING: listener ['' @ ctl_name self @
     ''] lost connection. it will keep trying to restore connection in the background.'')"

definition on_reestablished :: "('pk, 'st) controller \<Rightarrow> ('pk, 'st, unit) cio" where
  "on_reestablished self = say (''INFO: listener ['' @ ctl_name self @ ''] reestablished connection.'')"

section \<open>The active account\<close>

lemma with_selfD: "with_self m (w, self, s) = (r, (w', self', s')) \<Longrightarrow> self' = self \<and> m self (w, s) = (r, (w', s'))"
  by (auto simp: with_self_def split: prod.splits)

lemma on_walletD: "on_wallet m (w, self, s) = (r, (w', self', s')) \<Longrightarrow> s' = s \<and> m (w, self) = (r, (w', self'))"
  by (auto simp: on_wallet_def split: prod.splits)

lemma ctl_simps [simp]:
  "io_bind ctl_slate k (w, self, s) = k s (w, self, s)"
  "io_bind ctl_account k1 (w, self, s) = k1 (active_account self) (w, self, s)"
  by (simp_all add: ctl_slate_def ctl_account_def io_bind_def)

lemma on_wallet_unlock:
  assumes "on_wallet (unlock E cfg acct pass) (w, self, s) = (r, (w', self', s'))"
  shows "(is_ok r \<longrightarrow> active_account self' = acct) \<and> (\<forall>e. r = Err e \<longrightarrow> active_account self' = active_account self)"
  using unlock_result [of E cfg acct pass w self r w' self'] on_walletD [OF assms] by blast

text \<open>
  Receiving with a receiving account: the outcome is that of one of the three steps, and the
  active account is the old one again only if the last step was reached and succeeded.
\<close>

lemma receive_slate_account:
  assumes "receive_slate E rv addr config dest (w, self, s) = (r, (w', self', s'))"
  shows "(is_ok r \<longrightarrow> active_account self' = active_account self) \<and>
    (\<forall>e. r = Err e \<longrightarrow> active_account self' = active_account self \<or> Some (active_account self') = recv_account rv)"
proof (cases "\<exists>cfg acct. config = Some cfg \<and> recv_account rv = Some acct")
  case False
  then have "with_self (\<lambda>w. process_sender_initiated_slate E w addr None None dest) (w, self, s) = (r, (w', self', s'))"
    using assms by (auto simp: receive_slate_def Let_def split: option.splits)
  then show ?thesis by (auto dest: with_selfD)
next
  case True
  then obtain cfg acct where c: "config = Some cfg" "recv_account rv = Some acct" by blast
  let ?pass = "unwrap_or (recv_pass rv) []"
  obtain u w1 self1 s1 where u: "on_wallet (unlock E cfg acct ?pass) (w, self, s) = (u, (w1, self1, s1))"
    by (metis prod.exhaust)
  obtain p w2 self2 s2 where
    p: "with_self (\<lambda>w. process_sender_initiated_slate E w addr None None (Some acct)) (w1, self1, s1) = (p, (w2, self2, s2))"
    by (metis prod.exhaust)
  obtain v w3 self3 s3 where v: "on_wallet (unlock E cfg (active_account self) ?pass) (w2, self2, s2) = (v, (w3, self3, s3))"
    by (metis prod.exhaust)
  have self2: "self2 = self1" using with_selfD [OF p] by simp
  have "receive_slate E rv addr config dest (w, self, s) = (case u of
      Ok x \<Rightarrow> (case p of Ok y \<Rightarrow> (v, (w3, self3, s3)) | _ \<Rightarrow> (p, (w2, self2, s2)))
    | _ \<Rightarrow> (u, (w1, self1, s1)))"
    using c u p v by (cases u; cases p) (simp_all add: receive_slate_def Let_def io_bind_def ctl_account_def)
  then have eq: "(r, (w', self', s')) = (case u of
      Ok x \<Rightarrow> (case p of Ok y \<Rightarrow> (v, (w3, self3, s3)) | _ \<Rightarrow> (p, (w2, self2, s2)))
    | _ \<Rightarrow> (u, (w1, self1, s1)))" using assms by simp
  show ?thesis
    using eq on_wallet_unlock [OF u] on_wallet_unlock [OF v] self2 c by (cases u; cases p; cases v) auto
qed

lemma incoming_slate_result:
  assumes "process_incoming_slate E rv addr pf config dest (w, self, s) = (Ok finalized, (w', self', s'))"
  shows "active_account self' = active_account self \<and> finalized = (\<not> needs_participant s)"
proof (cases "needs_participant s")
  case True
  let ?m = "if tx_inputs (sl_tx s) = [] then with_self (\<lambda>w. process_receiver_initiated_slate E w addr)
     else receive_slate E rv addr config dest"
  from assms True obtain x where "?m (w, self, s) = (Ok x, (w', self', s'))" "\<not> finalized"
    unfolding process_incoming_slate_def by (auto simp: io_simps)
  then show ?thesis using True receive_slate_account [of E rv addr config dest w self s "Ok x" w' self' s']
    by (auto dest: with_selfD split: if_splits)
next
  case False
  let ?m = "io_match (with_self (\<lambda>w. finalize_slate E w pf)) io_return (\<lambda>_. with_self (\<lambda>w. finalize_invoice_slate E w))"
  from assms False obtain x where m: "?m (w, self, s) = (Ok x, (w', self', s'))" and f: "finalized"
    unfolding process_incoming_slate_def by (auto simp: io_simps)
  obtain q w1 self1 s1 where q: "with_self (\<lambda>w. finalize_slate E w pf) (w, self, s) = (q, (w1, self1, s1))"
    by (metis prod.exhaust)
  have "self1 = self" using with_selfD [OF q] by simp
  then have "self' = self" using m q by (cases q) (auto simp: io_match_def io_return_def dest: with_selfD)
  then show ?thesis using f False by simp
qed

text \<open>
  C5: handling an incoming slate. When it succeeds the wallet is on the account it was on
  before, although a receiving account may have been opened in between.
\<close>

theorem incoming_slate_keeps_account:
  assumes "process_incoming_slate E rv addr pf config dest (w, self, s) = (Ok finalized, (w', self', s'))"
  shows "active_account self' = active_account self \<and> finalized = (\<not> needs_participant s)"
  using assms by (rule incoming_slate_result)

text \<open>
  C28: when receiving fails after the switch, the early return skips the switch back: the
  wallet stays on the receiving account.
\<close>

theorem failed_receive_leaves_receiving_account:
  assumes "needs_participant s" and "tx_inputs (sl_tx s) \<noteq> []" and "recv_account rv = Some acct"
    and "unlock E cfg acct (unwrap_or (recv_pass rv) []) (w, self) = (Ok u, (w1, self1))"
    and "process_sender_initiated_slate E self1 addr None None (Some acct) (w1, s) = (Err e, (w2, s2))"
  shows "process_incoming_slate E rv addr pf (Some cfg) dest (w, self, s) = (Err e, (w2, self1, s2)) \<and>
    active_account self1 = acct"
proof -
  have "active_account self1 = acct" using unlock_result [OF assms(4)] by simp
  moreover have "receive_slate E rv addr (Some cfg) dest (w, self, s) = (Err e, (w2, self1, s2))"
    using assms(3-5) by (simp add: receive_slate_def Let_def io_bind_def ctl_account_def on_wallet_def with_self_def)
  ultimately show ?thesis
    using assms(1,2) by (simp add: process_incoming_slate_def io_bind_def ctl_slate_def)
qed

section \<open>Replies\<close>

definition says :: "string \<Rightarrow> 'st world \<Rightarrow> 'st world" where
  "says t w = w\<lparr>w_out := w_out w @ [t]\<rparr>"

lemma say_apply: "say t (w, self, s) = (Ok (), (says t w, self, s))"
  by (simp add: say_def on_world_def println_def io_modify_def says_def)

lemma announce_keeps: "announce hr t s (w, self, s') = (r, y) \<Longrightarrow> \<exists>w0. y = (w0, self, s')"
  by (auto simp: announce_def say_apply io_lift_apply split: if_splits list.splits option.splits)

lemma bind_cong_run:
  "m x = m' x \<Longrightarrow> (\<And>v y. m x = (Ok v, y) \<Longrightarrow> f v y = f' v y) \<Longrightarrow> io_bind m f x = io_bind m' f' x"
  unfolding io_bind_def by (auto split: prod.split outcome.split)

lemma match_cong_run: "m x = m' x \<Longrightarrow> io_match m k h x = io_match m' k h x"
  by (simp add: io_match_def)

text \<open>The two ways of an outcome to the publisher: a finalized slate has none, another one has its own.\<close>

lemma reply_cong:
  assumes "\<not> finalized \<Longrightarrow> ctl_post c s from w = ctl_post c' s from w"
  shows "reply c from t finalized (w, self, s) = reply c' from t finalized (w, self, s)"
  using assms by (cases finalized) (simp_all add: reply_def io_match_def on_world_def, simp add: io_bind_def)

text \<open>
  C21: the handler of a listener talks to the network only to answer: two publishers that agree on
  sending the slate back to its sender, once it was received and processed with success, cannot be
  told apart. A slate that came back complete, one that failed, and every other slate or address is
  never posted, whatever the type of the sender's address is and however the rest goes.
\<close>

theorem only_received_slates_answered:
  assumes "ctl_book c' = ctl_book c"
    and "\<And>w0 w1 self1 s1. needs_participant s \<Longrightarrow>
      process_incoming_slate E rv (Some (address_display from)) pf config (Some (active_account self)) (w0, self, s)
        = (Ok False, (w1, self1, s1)) \<Longrightarrow> ctl_post c' s1 from w1 = ctl_post c s1 from w1"
  shows "on_slate E hr rv c' from pf config (w, self, s) = on_slate E hr rv c from pf config (w, self, s)"
proof -
  let ?p = "process_incoming_slate E rv (Some (address_display from)) pf config (Some (active_account self))"
  have run: "io_bind ?p (reply c' from t) (w0, self, s) = io_bind ?p (reply c from t) (w0, self, s)" for t w0
  proof (rule bind_cong_run [OF refl])
    fix finalized y assume p: "?p (w0, self, s) = (Ok finalized, y)"
    obtain w1 self1 s1 where y: "y = (w1, self1, s1)" by (cases y)
    have "finalized = (\<not> needs_participant s)" using incoming_slate_result p y by blast
    then show "reply c' from t finalized y = reply c from t finalized y"
      unfolding y using assms(2) p y by (intro reply_cong) auto
  qed
  have d: "display_name c' from t = display_name c from t" for t by (simp add: display_name_def assms(1))
  show ?thesis unfolding on_slate_def d
  proof (intro bind_cong_run refl)
    fix t y t' y' s1 y1 u y2 v y3 acc y4
    assume "io_lift (unwrap (address_stripped from)) (w, self, s) = (Ok t, y)" "io_lift (display_name c from t) y = (Ok t', y')"
      "ctl_slate y' = (Ok s1, y1)" "announce hr t' s1 y1 = (Ok u, y2)"
      "(if address_type_of from = Grinbox then io_lift (obind (unwrap (grinbox_from_str E (address_display from))) (\<lambda>_. Ok ()))
        else io_return ()) y2 = (Ok v, y3)" "ctl_account y3 = (Ok acc, y4)"
    then obtain w0 where "y4 = (w0, self, s)" "acc = active_account self"
      by (auto simp: io_lift_apply io_return_apply ctl_slate_def ctl_account_def dest!: announce_keeps split: if_splits)
    then show "io_match (io_bind (process_incoming_slate E rv (Some (address_display from)) pf config (Some acc)) (reply c' from t'))
        io_return (\<lambda>e. say (''Error: '' @ err_display e)) y4 =
      io_match (io_bind (process_incoming_slate E rv (Some (address_display from)) pf config (Some acc)) (reply c from t'))
        io_return (\<lambda>e. say (''Error: '' @ err_display e)) y4"
      using run by (auto intro: match_cong_run)
  qed
qed

text \<open>
  A slate that announces participants but carries none makes the handler panic, before
  anything else is checked: the first participant is indexed without a check.
\<close>

theorem empty_participants_panic:
  assumes "address_stripped from = Ok stripped" and "display_name c from stripped = Ok t"
    and "sl_participant_data s = []" and "0 < sl_num_participants s"
  shows "fst (on_slate E hr rv c from pf config (w, self, s)) = Panic"
  using assms by (simp add: on_slate_def announce_def needs_participant_def io_bind_def ctl_slate_def Let_def io_lift_apply)

section \<open>Witnesses\<close>

definition demo_recv :: recv where
  "demo_recv = \<lparr>recv_account = Some ''incoming'', recv_pass = Some ''secret''\<rparr>"

definition demo_controller :: "(bytes, unit) controller" where
  "demo_controller = \<lparr>ctl_name = ''bob'', ctl_book = (\<lambda>a. fail (ContactNotFound a)), ctl_post = (\<lambda>_ _. io_return ())\<rparr>"

definition demo_from :: dyn_address where
  "demo_from = AKeybase \<lparr>username = ''bob'', topic = None\<rparr>"

definition demo_failing_wenv :: "(bytes, bytes, bytes, unit) wenv" where
  "demo_failing_wenv = demo_wenv\<lparr>foreign_receive_tx := (\<lambda>_ _ _ _ _ _ _ s. (Err (Foreign ''no''), s))\<rparr>"

lemma demo_finalizes:
  "fst (process_incoming_slate demo_wenv demo_recv addr None None dest (demo_world, demo_wallet, demo_slate)) = Ok True"
  by code_simp

theorem incoming_slate_keeps_account_witness:
  "\<exists>w' self' s'. process_incoming_slate demo_wenv demo_recv None None None None (demo_world, demo_wallet, demo_slate) =
      (Ok True, (w', self', s')) \<and> active_account self' = ''default''"
proof -
  obtain w' self' s' where e: "process_incoming_slate demo_wenv demo_recv None None None None (demo_world, demo_wallet, demo_slate) =
      (Ok True, (w', self', s'))" using demo_finalizes by (metis prod.exhaust prod.sel(1))
  from incoming_slate_keeps_account [OF e] e show ?thesis by (simp add: demo_wallet_def wallet_new_def)
qed

abbreviation demo_received :: "bytes slate" where
  "demo_received \<equiv> demo_slate\<lparr>sl_num_participants := 3\<rparr>"

abbreviation demo_cfg :: "bytes wallet713_config" where
  "demo_cfg \<equiv> config_default Mainnet"

theorem failed_receive_leaves_receiving_account_witness:
  "\<exists>w2 self1 s2. process_incoming_slate demo_failing_wenv demo_recv None None (Some demo_cfg) None
      (demo_world, demo_wallet, demo_received) = (fail GrinWalletReceiveError, (w2, self1, s2)) \<and>
    active_account self1 = ''incoming''"
proof -
  let ?u = "unlock demo_failing_wenv demo_cfg ''incoming'' ''secret'' (demo_world, demo_wallet)"
  let ?p = "process_sender_initiated_slate demo_failing_wenv (snd (snd ?u)) None None None (Some ''incoming'')
    (fst (snd ?u), demo_received)"
  have "fst ?u = Ok ()" by code_simp
  then have u: "unlock demo_failing_wenv demo_cfg ''incoming'' (unwrap_or (recv_pass demo_recv) []) (demo_world, demo_wallet) =
      (Ok (), (fst (snd ?u), snd (snd ?u)))"
    by (simp add: demo_recv_def unwrap_or_def prod_eq_iff)
  have "fst ?p = fail GrinWalletReceiveError" by code_simp
  then have p: "?p = (fail GrinWalletReceiveError, (fst (snd ?p), snd (snd ?p)))" by (simp add: prod_eq_iff)
  have "needs_participant demo_received" "tx_inputs (sl_tx demo_received) \<noteq> []" "recv_account demo_recv = Some ''incoming''"
    by (simp_all add: needs_participant_def demo_slate_def demo_recv_def)
  from failed_receive_leaves_receiving_account [OF this u p] show ?thesis by blast
qed

theorem only_received_slates_answered_witness:
  "on_slate demo_wenv (\<lambda>_. ''5'') demo_recv (demo_controller\<lparr>ctl_post := (\<lambda>_ _. io_lift Panic)\<rparr>) demo_from None None
     (demo_world, demo_wallet, demo_slate) =
   on_slate demo_wenv (\<lambda>_. ''5'') demo_recv demo_controller demo_from None None (demo_world, demo_wallet, demo_slate)"
  by (rule only_received_slates_answered) (simp_all add: needs_participant_def demo_slate_def)

theorem empty_participants_panic_witness:
  "fst (on_slate demo_wenv (\<lambda>_. []) demo_recv demo_controller demo_from None None
     (demo_world, demo_wallet, demo_slate\<lparr>sl_participant_data := []\<rparr>)) = Panic"
  by (rule empty_participants_panic [where stripped = "''bob''" and t = "''bob''"])
    (simp_all add: demo_from_def keybase_stripped_def demo_slate_def display_name_def demo_controller_def)

end
