(* ===== verification/Executor.thy ===== *)
theory Executor
  imports Error_Kind
begin

text \<open>
  \<open>src/src/api/handlers/executor.rs\<close>: a request handler runs in a thread of its own while the
  server polls a future for the answer. The two threads interleave: \<open>exec_step\<close> is one atomic
  step of either. The flag \<open>running\<close> is stored and loaded without ordering, but each side also
  passes through the mutex of \<open>task\<close>, so that the interleavings of atomic steps are the
  behaviours that count.
\<close>

section \<open>The code\<close>

record http_response =
  http_status :: nat
  http_mime :: string
  http_body :: string

definition create_response :: "nat \<Rightarrow> string \<Rightarrow> string \<Rightarrow> http_response" where
  "create_response status mime body = \<lparr>http_status = status, http_mime = mime, http_body = body\<rparr>"

text \<open>The loop over the characters, with the flag \<open>in_esc\<close> and the result so far.\<close>

definition esc_symbol :: char where
  "esc_symbol = CHR 0x1B"

fun filter_loop :: "bool \<Rightarrow> string \<Rightarrow> string \<Rightarrow> string" where
  "filter_loop in_esc res [] = res"
| "filter_loop in_esc res (ch # s) =
     (let in_esc = (if ch = esc_symbol then True else in_esc);
          res = (if \<not> in_esc then res @ [ch] else res);
          in_esc = (if ch = CHR ''m'' then False else in_esc)
      in filter_loop in_esc res s)"

definition filter_escape_symbols :: "string \<Rightarrow> string" where
  "filter_escape_symbols s = filter_loop False [] s"

text \<open>What \<open>poll\<close> makes of the handler's result; \<open>root_cause\<close> is the text of \<open>find_root_cause\<close> of the error crate.\<close>

fun respond :: "(err \<Rightarrow> string) \<Rightarrow> http_response res \<Rightarrow> http_response" where
  "respond root_cause (Ok body) = body"
| "respond root_cause (Err err) = create_response 400 ''application/json''
     ([CHR 0x7B, CHR 0x22] @ ''error'' @ [CHR 0x22] @ '' : '' @ [CHR 0x22] @
      filter_escape_symbols (root_cause err) @ [CHR 0x22] @ '' }'')"
| "respond root_cause _ = create_response 500 [] []"

text \<open>
  The worker: running the handler; the flag cleared; the waiting task notified, the result
  ready to be joined; or dead of a panic, with the flag still set.
\<close>

datatype worker_phase = Worker_Running | Worker_Stored | Worker_Done | Worker_Panicked

datatype poll_phase = Poll_Idle | Poll_Check | Poll_Ready

record run_handler =
  ex_running :: bool
  ex_task :: bool
  ex_task_set :: bool
  ex_worker :: worker_phase
  ex_poll :: poll_phase
  ex_wake :: bool
  ex_answer :: "http_response option"

text \<open>\<open>RunHandlerInThread::new\<close>; the server polls a new future once.\<close>

definition run_handler_new :: run_handler where
  "run_handler_new = \<lparr>ex_running = True, ex_task = False, ex_task_set = False, ex_worker = Worker_Running,
     ex_poll = Poll_Idle, ex_wake = True, ex_answer = None\<rparr>"

text \<open>Steps, for a handler with outcome \<open>h\<close>.\<close>

inductive exec_step :: "(err \<Rightarrow> string) \<Rightarrow> http_response res \<Rightarrow> run_handler \<Rightarrow> run_handler \<Rightarrow> bool" for root_cause h where
  store: "ex_worker x = Worker_Running \<Longrightarrow> h = Ok v \<or> h = Err e \<Longrightarrow>
    exec_step root_cause h x (x\<lparr>ex_running := False, ex_worker := Worker_Stored\<rparr>)"
| panic: "ex_worker x = Worker_Running \<Longrightarrow> h = Panic \<Longrightarrow> exec_step root_cause h x (x\<lparr>ex_worker := Worker_Panicked\<rparr>)"
| notify: "ex_worker x = Worker_Stored \<Longrightarrow>
    exec_step root_cause h x (x\<lparr>ex_wake := ex_wake x \<or> ex_task x, ex_worker := Worker_Done\<rparr>)"
| poll: "ex_poll x = Poll_Idle \<Longrightarrow> ex_wake x \<Longrightarrow>
    exec_step root_cause h x (x\<lparr>ex_wake := False, ex_task := (ex_task x \<or> \<not> ex_task_set x), ex_task_set := True, ex_poll := Poll_Check\<rparr>)"
| not_ready: "ex_poll x = Poll_Check \<Longrightarrow> ex_running x \<Longrightarrow> exec_step root_cause h x (x\<lparr>ex_poll := Poll_Idle\<rparr>)"
| ready: "ex_poll x = Poll_Check \<Longrightarrow> \<not> ex_running x \<Longrightarrow> ex_worker x = Worker_Done \<Longrightarrow>
    exec_step root_cause h x (x\<lparr>ex_poll := Poll_Ready, ex_answer := Some (respond root_cause h)\<rparr>)"

inductive_cases exec_stepE: "exec_step root_cause h x y"

abbreviation exec_reachable :: "(err \<Rightarrow> string) \<Rightarrow> http_response res \<Rightarrow> run_handler \<Rightarrow> bool" where
  "exec_reachable root_cause h x \<equiv> (exec_step root_cause h)\<^sup>*\<^sup>* run_handler_new x"

section \<open>The filter\<close>

text \<open>An escape sequence runs from the escape character through the next \<open>m\<close>.\<close>

lemma filter_loop_acc: "filter_loop b res s = res @ filter_loop b [] s"
proof (induction s arbitrary: b res)
  case (Cons ch s)
  show ?case
    by (simp add: Let_def Cons.IH [of _ "res @ [ch]"] Cons.IH [of _ "[ch]"] Cons.IH [of _ res])
qed simp

lemma filter_loop_no_esc: "esc_symbol \<notin> set (filter_loop b [] s)"
proof (induction s arbitrary: b)
  case (Cons ch s)
  then show ?case by (auto simp: Let_def filter_loop_acc [of _ "[ch]" s])
qed simp

lemma filter_loop_plain: "esc_symbol \<notin> set s \<Longrightarrow> filter_loop False [] s = s"
proof (induction s)
  case (Cons ch s)
  then show ?case using filter_loop_acc [of False "[ch]" s] by (auto simp: Let_def)
qed simp

section \<open>Answers\<close>

text \<open>The shared invariant of the two threads.\<close>

definition exec_inv :: "(err \<Rightarrow> string) \<Rightarrow> http_response res \<Rightarrow> run_handler \<Rightarrow> bool" where
  "exec_inv root_cause h x \<longleftrightarrow>
     ex_running x = (ex_worker x = Worker_Running \<or> ex_worker x = Worker_Panicked) \<and>
     ex_task x = ex_task_set x \<and>
     (ex_poll x \<noteq> Poll_Idle \<longrightarrow> ex_task_set x) \<and> (\<not> ex_task_set x \<longrightarrow> ex_wake x) \<and>
     (ex_worker x = Worker_Done \<and> ex_poll x = Poll_Idle \<longrightarrow> ex_wake x) \<and>
     (ex_answer x \<noteq> None \<longleftrightarrow> ex_poll x = Poll_Ready) \<and>
     (ex_answer x \<noteq> None \<longrightarrow> ex_answer x = Some (respond root_cause h) \<and> ex_worker x = Worker_Done) \<and>
     (ex_worker x \<in> {Worker_Stored, Worker_Done} \<longrightarrow> is_ok h \<or> (\<exists>e. h = Err e)) \<and>
     (ex_worker x = Worker_Panicked \<longrightarrow> h = Panic)"

lemma exec_inv_init: "exec_inv root_cause h run_handler_new"
  by (simp add: exec_inv_def run_handler_new_def)

lemma exec_inv_step: "exec_step root_cause h x y \<Longrightarrow> exec_inv root_cause h x \<Longrightarrow> exec_inv root_cause h y"
  by (erule exec_stepE) (auto simp: exec_inv_def)

lemma exec_inv_reachable: "exec_reachable root_cause h x \<Longrightarrow> exec_inv root_cause h x"
  by (induction rule: rtranclp_induct) (auto intro: exec_inv_init exec_inv_step)

text \<open>Every step spends something: the worker's phases, the polls that are still due.\<close>

fun worker_rank :: "worker_phase \<Rightarrow> nat" where
  "worker_rank Worker_Running = 2"
| "worker_rank Worker_Stored = 1"
| "worker_rank _ = 0"

fun poll_rank :: "poll_phase \<Rightarrow> nat" where
  "poll_rank Poll_Check = 1"
| "poll_rank _ = 0"

definition exec_rank :: "run_handler \<Rightarrow> nat" where
  "exec_rank x = 4 * worker_rank (ex_worker x) + 2 * (if ex_wake x then 1 else 0) + poll_rank (ex_poll x)
     + (if ex_answer x = None then 1 else 0)"

lemma exec_step_rank: "exec_step root_cause h x y \<Longrightarrow> exec_rank y < exec_rank x"
  by (erule exec_stepE) (auto simp: exec_rank_def)

lemma exec_stuck_answered:
  assumes "exec_inv root_cause h x" and "is_ok h \<or> (\<exists>e. h = Err e)" and "\<nexists>y. exec_step root_cause h x y"
  shows "ex_answer x = Some (respond root_cause h)"
proof -
  have h: "(\<exists>v. h = Ok v) \<or> (\<exists>e. h = Err e)" using assms(2) by (simp add: is_ok_iff)
  have "ex_worker x \<noteq> Worker_Running" using assms(3) h exec_step.store by blast
  moreover have "ex_worker x \<noteq> Worker_Stored" using assms(3) exec_step.notify by blast
  moreover have "ex_worker x \<noteq> Worker_Panicked" using assms(1) h by (auto simp: exec_inv_def)
  ultimately have fin: "ex_worker x = Worker_Done" by (cases "ex_worker x") auto
  then have nr: "\<not> ex_running x" using assms(1) by (simp add: exec_inv_def)
  have "ex_poll x \<noteq> Poll_Check" using assms(3) fin nr exec_step.ready by blast
  moreover have "ex_poll x \<noteq> Poll_Idle"
  proof
    assume idle: "ex_poll x = Poll_Idle"
    then have "ex_wake x" using assms(1) fin by (simp add: exec_inv_def)
    then show False using assms(3) idle exec_step.poll by blast
  qed
  ultimately have "ex_poll x = Poll_Ready" by (cases "ex_poll x") auto
  then show ?thesis using assms(1) by (auto simp: exec_inv_def)
qed

lemma exec_step_wf: "wfP (\<lambda>y x. exec_step root_cause h x y)"
  by (rule wfp_if_convertible_to_nat [of _ exec_rank]) (rule exec_step_rank)

lemma exec_reaches_answer:
  assumes "exec_inv root_cause h x" and "is_ok h \<or> (\<exists>e. h = Err e)"
  shows "\<exists>y. (exec_step root_cause h)\<^sup>*\<^sup>* x y \<and> ex_answer y = Some (respond root_cause h)"
  using assms(1)
proof (induction x rule: wfp_induct_rule [OF exec_step_wf [of root_cause h]])
  case (1 x)
  show ?case
  proof (cases "\<exists>y. exec_step root_cause h x y")
    case True
    then obtain y where y: "exec_step root_cause h x y" by blast
    from "1.IH" [OF y exec_inv_step [OF y "1.prems"]] show ?thesis
      using y by (meson converse_rtranclp_into_rtranclp)
  next
    case False
    then show ?thesis using exec_stuck_answered [OF "1.prems" assms(2)] by blast
  qed
qed

text \<open>
  C4: a handler that returns, with a result or an error, is answered: from every state that
  the interleaving of worker and polls can reach, every way to go on ends after finitely many
  steps, and it ends with the handler's response delivered. No wake-up is lost.
\<close>

theorem handler_is_answered:
  assumes "is_ok h \<or> (\<exists>e. h = Err e)" and "exec_reachable root_cause h x"
  shows "wfP (\<lambda>y x. exec_step root_cause h x y) \<and>
    ((\<nexists>y. exec_step root_cause h x y) \<longrightarrow> ex_answer x = Some (respond root_cause h)) \<and>
    (\<exists>y. (exec_step root_cause h)\<^sup>*\<^sup>* x y \<and> ex_answer y = Some (respond root_cause h))"
  using exec_step_wf exec_stuck_answered [OF exec_inv_reachable [OF assms(2)] assms(1)]
    exec_reaches_answer [OF exec_inv_reachable [OF assms(2)] assms(1)] by blast

theorem handler_is_answered_witness:
  "\<exists>y. exec_reachable err_display (Ok \<lparr>http_status = 200, http_mime = [], http_body = ''{}''\<rparr>) y \<and>
     ex_answer y = Some \<lparr>http_status = 200, http_mime = [], http_body = ''{}''\<rparr>"
  using handler_is_answered [of "Ok \<lparr>http_status = 200, http_mime = [], http_body = ''{}''\<rparr>" err_display run_handler_new] by simp

text \<open>
  A handler that panics is never answered: the worker dies with \<open>running\<close> set, so every
  poll finds the request not ready, and no state with an answer is reachable.
\<close>

theorem panicking_handler_never_answered:
  "exec_reachable root_cause Panic x \<Longrightarrow> ex_answer x = None \<and> ex_running x"
  using exec_inv_reachable [of root_cause Panic x] by (cases "ex_worker x") (auto simp: exec_inv_def)

theorem panicking_handler_never_answered_witness:
  "exec_reachable err_display Panic (run_handler_new\<lparr>ex_worker := Worker_Panicked\<rparr>) \<and>
   ex_answer (run_handler_new\<lparr>ex_worker := Worker_Panicked\<rparr>) = None"
proof -
  have "exec_step err_display Panic run_handler_new (run_handler_new\<lparr>ex_worker := Worker_Panicked\<rparr>)"
    by (rule exec_step.panic) (simp_all add: run_handler_new_def)
  then have "exec_reachable err_display Panic (run_handler_new\<lparr>ex_worker := Worker_Panicked\<rparr>)" by (rule r_into_rtranclp)
  then show ?thesis using panicking_handler_never_answered by blast
qed

text \<open>
  Error texts are shown without terminal escapes: no escape character survives the
  filter, a text without one is unchanged, and filtering twice is filtering once.
\<close>

theorem filter_escape_symbols_clean:
  "esc_symbol \<notin> set (filter_escape_symbols s) \<and>
   filter_escape_symbols (filter_escape_symbols s) = filter_escape_symbols s \<and>
   (filter_escape_symbols s = s \<longleftrightarrow> esc_symbol \<notin> set s)"
  using filter_loop_no_esc [of False s] filter_loop_plain [of s] filter_loop_plain [of "filter_loop False [] s"]
  by (auto simp: filter_escape_symbols_def)

end
