(* ===== verification/Api_Handlers.thy ===== *)
theory Api_Handlers
  imports Controller Executor
begin

text \<open>
  The HTTP API: basic authentication (\<open>src/src/api/auth.rs\<close>), the routes
  (\<open>src/src/api/router.rs\<close>), and the handlers of the foreign and the owner API
  (\<open>src/src/api/handlers/foreign.rs\<close>, \<open>owner.rs\<close>). The web framework, JSON text and the
  HTTP client are parameters; JSON values have the shape of \<open>serde_json::Value\<close>. A handler
  works on the world with the wallet that the container's mutex guards.
\<close>

section \<open>The code\<close>

subsection \<open>Basic authentication\<close>

record basic_auth =
  api_basic_auth :: "string option"

definition basic_auth_new :: "(string \<Rightarrow> string) \<Rightarrow> string option \<Rightarrow> basic_auth" where
  "basic_auth_new to_base64 secret =
     \<lparr>api_basic_auth = map_option (\<lambda>x. ''Basic '' @ to_base64 (''mwc:'' @ x)) secret\<rparr>"

text \<open>
  A header value is bytes; \<open>to_str().unwrap()\<close> panics on one that is not visible ASCII. The
  rest of the chain is what runs on the state if the middleware calls it.
\<close>

definition visible_ascii :: "string \<Rightarrow> bool" where
  "visible_ascii s = list_all (\<lambda>c. (32 \<le> (of_char c :: nat) \<and> (of_char c :: nat) < 127) \<or> c = CHR 0x09) s"

definition auth_call ::
  "basic_auth \<Rightarrow> string option \<Rightarrow> ('e, 'w, http_response) io \<Rightarrow> ('e, 'w, http_response) io" where
  "auth_call self authorization rest =
     (case api_basic_auth self of
        None \<Rightarrow> rest
      | Some expected \<Rightarrow>
          (case authorization of
             None \<Rightarrow> io_return (create_response 401 [] [])
           | Some x \<Rightarrow>
               if \<not> visible_ascii x then io_lift Panic
               else if expected = x then rest else io_return (create_response 401 [] [])))"

subsection \<open>Routes\<close>

datatype http_method = GET | POST

datatype handler = H_retrieve_outputs | H_retrieve_txs | H_retrieve_stored_tx | H_node_height
  | H_retrieve_summary_info | H_finalize_tx | H_cancel_tx | H_post_tx | H_issue_send_tx
  | H_v2foreign | H_receive_tx | H_build_coinbase | H_receive_invoice

definition build_foreign_api :: "(http_method \<times> string \<times> handler) list" where
  "build_foreign_api =
     [(POST, ''v2/foreign'', H_v2foreign), (POST, ''/v1/wallet/foreign/receive_tx'', H_receive_tx),
      (POST, ''/v1/wallet/foreign/build_coinbase'', H_build_coinbase),
      (POST, ''/v1/wallet/foreign/receive_invoice'', H_receive_invoice)]"

definition build_owner_api :: "bool option \<Rightarrow> (http_method \<times> string \<times> handler) list" where
  "build_owner_api include_foreign =
     [(GET, ''/v1/wallet/owner/retrieve_outputs'', H_retrieve_outputs),
      (GET, ''/v1/wallet/owner/retrieve_txs'', H_retrieve_txs),
      (GET, ''/v1/wallet/owner/retrieve_stored_tx'', H_retrieve_stored_tx),
      (GET, ''/v1/wallet/owner/node_height'', H_node_height),
      (GET, ''/v1/wallet/owner/retrieve_summary_info'', H_retrieve_summary_info),
      (POST, ''/v1/wallet/owner/finalize_tx'', H_finalize_tx),
      (GET, ''/v1/wallet/owner/cancel_tx'', H_cancel_tx),
      (POST, ''/v1/wallet/owner/post_tx'', H_post_tx),
      (POST, ''/v1/wallet/owner/issue_send_tx'', H_issue_send_tx)] @
     (if include_foreign = Some True then build_foreign_api else [])"

text \<open>The container; the publishers are those of the brokers that are configured.\<close>

type_synonym ('pk, 'st) publisher = "'pk slate \<Rightarrow> dyn_address \<Rightarrow> ('st, unit) wio"

record ('pk, 'sk, 'st) wallet_container =
  wc_wallet :: wallet
  wc_config :: "'sk wallet713_config"
  wc_mwcmqs_publisher :: "('pk, 'st) publisher option"
  wc_grinbox_publisher :: "('pk, 'st) publisher option"
  wc_keybase_publisher :: "('pk, 'st) publisher option"

definition wallet_container_new ::
  "wallet \<Rightarrow> 'sk wallet713_config \<Rightarrow> ('pk, 'st) publisher option \<Rightarrow> ('pk, 'st) publisher option \<Rightarrow>
   ('pk, 'st) publisher option \<Rightarrow> ('pk, 'sk, 'st) wallet_container" where
  "wallet_container_new wallet config mwcmqs grinbox keybase =
     \<lparr>wc_wallet = wallet, wc_config = config, wc_mwcmqs_publisher = mwcmqs, wc_grinbox_publisher = grinbox,
      wc_keybase_publisher = keybase\<rparr>"

definition mwcmqs_publisher :: "('pk, 'sk, 'st) wallet_container \<Rightarrow> ('pk, 'st) publisher res" where
  "mwcmqs_publisher self = of_option (Kind (GenericError ''missing mwcmqs publisher'')) (wc_mwcmqs_publisher self)"

definition grinbox_publisher :: "('pk, 'sk, 'st) wallet_container \<Rightarrow> ('pk, 'st) publisher res" where
  "grinbox_publisher self = of_option (Kind (GenericError ''missing mwcmq publisher'')) (wc_grinbox_publisher self)"

definition keybase_publisher :: "('pk, 'sk, 'st) wallet_container \<Rightarrow> ('pk, 'st) publisher res" where
  "keybase_publisher self = of_option (Kind (GenericError ''missing keybase publisher'')) (wc_keybase_publisher self)"

text \<open>
  A router: the middleware in front, the state the handlers share, the routes. A broker is a
  pair of publisher and subscriber, of which the API keeps the publisher.
\<close>

record ('pk, 'sk, 'st) api_router =
  ar_auth :: basic_auth
  ar_container :: "('pk, 'sk, 'st) wallet_container"
  ar_routes :: "(http_method \<times> string \<times> handler) list"

definition build_owner_api_router ::
  "(string \<Rightarrow> string) \<Rightarrow> wallet \<Rightarrow> (('pk, 'st) publisher \<times> 'sub1) option \<Rightarrow> (('pk, 'st) publisher \<times> 'sub2) option \<Rightarrow>
   (('pk, 'st) publisher \<times> 'sub3) option \<Rightarrow> string option \<Rightarrow> bool option \<Rightarrow> 'sk wallet713_config \<Rightarrow> ('pk, 'sk, 'st) api_router" where
  "build_owner_api_router to_base64 wallet mwcmqs_broker grinbox_broker keybase_broker secret include_foreign config =
     \<lparr>ar_auth = basic_auth_new to_base64 secret,
      ar_container = wallet_container_new wallet config (map_option fst mwcmqs_broker) (map_option fst grinbox_broker)
        (map_option fst keybase_broker),
      ar_routes = build_owner_api include_foreign\<rparr>"

definition build_foreign_api_router ::
  "(string \<Rightarrow> string) \<Rightarrow> wallet \<Rightarrow> (('pk, 'st) publisher \<times> 'sub1) option \<Rightarrow> (('pk, 'st) publisher \<times> 'sub2) option \<Rightarrow>
   (('pk, 'st) publisher \<times> 'sub3) option \<Rightarrow> string option \<Rightarrow> 'sk wallet713_config \<Rightarrow> ('pk, 'sk, 'st) api_router" where
  "build_foreign_api_router to_base64 wallet mwcmqs_broker grinbox_broker keybase_broker secret config =
     \<lparr>ar_auth = basic_auth_new to_base64 secret,
      ar_container = wallet_container_new wallet config (map_option fst mwcmqs_broker) (map_option fst grinbox_broker)
        (map_option fst keybase_broker),
      ar_routes = build_foreign_api\<rparr>"

subsection \<open>JSON\<close>

datatype json = JNull | JBool bool | JNumber string | JString string | JArray "json list" | JObject "(string \<times> json) list"

text \<open>\<open>value[key]\<close> and \<open>value[index]\<close>: \<open>Null\<close> where there is no such element.\<close>

fun json_get :: "json \<Rightarrow> string \<Rightarrow> json" where
  "json_get (JObject fs) k = unwrap_or (map_of fs k) JNull"
| "json_get _ k = JNull"

fun json_index :: "json \<Rightarrow> nat \<Rightarrow> json" where
  "json_index (JArray xs) n = (if n < length xs then xs ! n else JNull)"
| "json_index _ n = JNull"

datatype issue_send_method = Send_None | Send_Grinbox | Send_Keybase | Send_Http | Send_File | Send_MWCMQS

record issue_send_body =
  is_method :: issue_send_method
  is_dest :: "string option"
  is_amount :: u64
  is_minimum_confirmations :: u64
  is_max_outputs :: u32
  is_num_change_outputs :: u32
  is_use_all :: bool
  is_message :: "string option"
  is_version :: "u16 option"

text \<open>\<open>SlateResp\<close>, with its \<open>SlateResult\<close> inside: the only field of the result is \<open>Ok\<close>.\<close>

record 'pk slate_resp =
  sr_id :: u32
  sr_jsonrpc :: string
  sr_result_Ok :: "'pk slate"

record ('pk, 'st) jenv =
  json_from_str :: "string \<Rightarrow> json option"
  json_to_string :: "json \<Rightarrow> string res"
  json_display :: "json \<Rightarrow> string"
  slate_to_json :: "'pk slate \<Rightarrow> json"
  slate_from_slice :: "bytes \<Rightarrow> 'pk slate res"
  slate_v2_json :: "'pk slate \<Rightarrow> json"
  slate_from_versioned :: "string \<Rightarrow> 'pk slate res"
  outputs_to_string :: "bool \<times> wallet_output list \<Rightarrow> string res"
  txs_to_string :: "bool \<times> tx_log_entry list \<Rightarrow> string res"
  stored_to_string :: "bool \<times> transaction \<Rightarrow> string res"
  tx_confirmed :: "tx_log_entry \<Rightarrow> bool"
  info_to_string :: "string \<Rightarrow> string res"
  fees_from_slice :: "bytes \<Rightarrow> string res"
  cb_to_string :: "string \<Rightarrow> string res"
  send_from_slice :: "bytes \<Rightarrow> issue_send_body option"
  uuid_or_default :: "string \<Rightarrow> string"
  err_debug :: "err \<Rightarrow> string"
  http_post :: "string \<Rightarrow> json \<Rightarrow> ('st, 'pk slate_resp) wio"
  amount_hr :: "u64 \<Rightarrow> string"

definition slate_resp_json :: "('pk, 'st) jenv \<Rightarrow> 'pk slate_resp \<Rightarrow> json" where
  "slate_resp_json J r = JObject [(''id'', JNumber (show_nat (unat (sr_id r)))), (''jsonrpc'', JString (sr_jsonrpc r)),
     (''result'', JObject [(''Ok'', slate_to_json J (sr_result_Ok r))])]"

definition error_report :: "('pk, 'st) jenv \<Rightarrow> json \<Rightarrow> string" where
  "error_report J res = ''Posting transaction slate: Error: '' @ json_display J (json_get (json_get res ''error'') ''code'') @
     '', Message: '' @ json_display J (json_get (json_get res ''error'') ''message'')"

definition trace_body :: "bytes \<Rightarrow> unit res" where
  "trace_body body = (case from_utf8 body of None \<Rightarrow> Panic | Some _ \<Rightarrow> Ok ())"

definition body_utf8 :: "bytes \<Rightarrow> string res" where
  "body_utf8 body = of_option (Foreign ''invalid utf-8 sequence'') (from_utf8 body)"

definition json_response :: "string \<Rightarrow> http_response" where
  "json_response body = create_response 200 ''application/json'' body"

definition empty_response :: http_response where
  "empty_response = create_response 200 [] []"

definition json_ok :: "json \<Rightarrow> json" where
  "json_ok v = JObject [(''id'', JNumber ''1''), (''jsonrpc'', JString ''2.0''), (''result'', JObject [(''Ok'', v)])]"

text \<open>A method on a local \<open>let mut slate\<close>: the slate it leaves.\<close>

definition with_slate :: "('pk, 'st, unit) sio \<Rightarrow> 'pk slate \<Rightarrow> ('st, 'pk slate) wio" where
  "with_slate m s = (\<lambda>w. case m (w, s) of (r, (w', s')) \<Rightarrow> (obind r (\<lambda>_. Ok s'), w'))"

subsection \<open>The foreign API\<close>

definition foreign_announce :: "('pk, 'st) jenv \<Rightarrow> 'pk slate \<Rightarrow> ('st, string) wio" where
  "foreign_announce J slate =
     (if needs_participant slate then
        (case sl_participant_data slate of
           [] \<Rightarrow> io_lift Panic
         | pd # _ \<Rightarrow>
             (let head = ''slate ['' @ sl_id slate @ ''] received from [http(s) listener] for ['' @
                           amount_hr J (sl_amount slate) @ ''] MWCs.''
              in case pd_message pd of
                   Some m \<Rightarrow> io_bind (println (head @ '' Message: ['' @ quoted m @ '']'')) (\<lambda>_. io_return m)
                 | None \<Rightarrow> io_bind (println head) (\<lambda>_. io_return [])))
      else io_return [])"

definition handle_v2foreign ::
  "('pk, 'sk, 'sig, 'st) wenv \<Rightarrow> ('pk, 'st) jenv \<Rightarrow> wallet \<Rightarrow> bytes \<Rightarrow> ('st, http_response) wio" where
  "handle_v2foreign E J wallet body =
     io_bind (io_lift (trace_body body)) (\<lambda>_.
     io_bind (io_lift (body_utf8 body)) (\<lambda>text.
     io_bind (io_lift (case json_from_str J text of None \<Rightarrow> Panic | Some v \<Rightarrow> Ok v)) (\<lambda>res.
     io_bind (if json_get res ''error'' \<noteq> JNull then println (error_report J res) else io_return ()) (\<lambda>_.
     if json_get res ''method'' = JString ''check_version'' then
       io_bind (io_lift (json_to_string J (json_ok (JObject [(''foreign_api_version'', JNumber ''2''),
         (''supported_slate_versions'', JArray [JString ''V3'', JString ''V2''])])))) (\<lambda>t.
       io_return (json_response t))
     else
       io_bind (io_lift (unwrap (json_to_string J (json_index (json_get res ''params'') 0)))) (\<lambda>slate_text.
       io_bind (io_lift (of_option (Foreign ''slate'') (deserialize_upgrade E slate_text))) (\<lambda>slate.
       io_bind (foreign_announce J slate) (\<lambda>id.
       io_bind (with_slate (process_sender_initiated_slate E wallet (Some (''https://'' @ id)) None None
                  (Some (active_account wallet))) slate) (\<lambda>slate.
       io_bind (io_lift (json_to_string J (json_ok (slate_to_json J slate)))) (\<lambda>t.
       io_return (json_response t))))))))))"

definition handle_receive_tx ::
  "('pk, 'sk, 'sig, 'st) wenv \<Rightarrow> ('pk, 'st) jenv \<Rightarrow> wallet \<Rightarrow> bytes \<Rightarrow> ('st, http_response) wio" where
  "handle_receive_tx E J wallet body =
     io_bind (io_lift (trace_body body)) (\<lambda>_.
     io_bind (io_lift (body_utf8 body)) (\<lambda>text.
     io_bind (io_lift (of_option (Foreign ''slate'') (deserialize_upgrade E text))) (\<lambda>slate.
     io_bind (with_slate (process_sender_initiated_slate E wallet None None None (Some (active_account wallet))) slate) (\<lambda>slate.
     io_bind (io_lift (json_to_string J (slate_to_json J slate))) (\<lambda>t.
     io_return (json_response t))))))"

definition handle_build_coinbase ::
  "('pk, 'sk, 'sig, 'st) wenv \<Rightarrow> ('pk, 'st) jenv \<Rightarrow> wallet \<Rightarrow> bytes \<Rightarrow> ('st, http_response) wio" where
  "handle_build_coinbase E J wallet body =
     io_bind (io_lift (trace_body body)) (\<lambda>_.
     io_bind (io_lift (fees_from_slice J body)) (\<lambda>block_fees.
     io_bind (wl_build_coinbase E wallet block_fees) (\<lambda>cb_data.
     io_bind (io_lift (cb_to_string J cb_data)) (\<lambda>t.
     io_return (json_response t)))))"

definition handle_receive_invoice ::
  "('pk, 'sk, 'sig, 'st) wenv \<Rightarrow> ('pk, 'st) jenv \<Rightarrow> wallet \<Rightarrow> bytes \<Rightarrow> ('st, http_response) wio" where
  "handle_receive_invoice E J wallet body =
     io_bind (io_lift (trace_body body)) (\<lambda>_.
     io_bind (io_lift (slate_from_slice J body)) (\<lambda>slate.
     io_bind (with_slate (process_receiver_initiated_slate E wallet None) slate) (\<lambda>slate.
     io_bind (io_lift (json_to_string J (slate_to_json J slate))) (\<lambda>t.
     io_return (json_response t)))))"


subsection \<open>The owner API\<close>

definition handle_retrieve_outputs ::
  "('pk, 'sk, 'sig, 'st) wenv \<Rightarrow> ('pk, 'st) jenv \<Rightarrow> wallet \<Rightarrow> bool option \<Rightarrow> bool option \<Rightarrow> u32 option \<Rightarrow>
   ('st, http_response) wio" where
  "handle_retrieve_outputs E J wallet refresh show_spent tx_id =
     io_bind (case tx_id of
         None \<Rightarrow> io_return None
       | Some _ \<Rightarrow> io_bind (wl_retrieve_txs E wallet False tx_id None) (\<lambda>(_, txs).
           io_return (case txs of [] \<Rightarrow> None | t # _ \<Rightarrow> Some t))) (\<lambda>tx.
     io_bind (wl_retrieve_outputs E wallet (unwrap_or show_spent False) (unwrap_or refresh True) tx) (\<lambda>response.
     io_bind (io_lift (outputs_to_string J response)) (\<lambda>t.
     io_return (json_response t))))"

definition handle_retrieve_txs ::
  "('pk, 'sk, 'sig, 'st) wenv \<Rightarrow> ('pk, 'st) jenv \<Rightarrow> wallet \<Rightarrow> bool option \<Rightarrow> u32 option \<Rightarrow> string option \<Rightarrow>
   ('st, http_response) wio" where
  "handle_retrieve_txs E J wallet refresh txid tx_id =
     io_bind (wl_retrieve_txs E wallet (unwrap_or refresh True) txid (map_option (uuid_or_default J) tx_id)) (\<lambda>response.
     io_bind (io_lift (txs_to_string J response)) (\<lambda>t.
     io_return (json_response t)))"

definition handle_retrieve_stored_tx ::
  "('pk, 'sk, 'sig, 'st) wenv \<Rightarrow> ('pk, 'st) jenv \<Rightarrow> wallet \<Rightarrow> u32 \<Rightarrow> ('st, http_response) wio" where
  "handle_retrieve_stored_tx E J wallet txid =
     io_bind (wl_retrieve_txs E wallet True (Some txid) None) (\<lambda>(_, txs).
     if length txs \<noteq> 1 then io_lift (fail ModelNotFound)
     else (case tl_tx_slate_id (txs ! 0) of
         None \<Rightarrow> io_lift (fail ModelNotFound)
       | Some slate_id \<Rightarrow>
           io_bind (wl_get_stored_tx E wallet slate_id) (\<lambda>stored_tx.
           io_bind (io_lift (stored_to_string J (tx_confirmed J (txs ! 0), stored_tx))) (\<lambda>t.
           io_return (json_response t)))))"

definition dq :: string where
  "dq = [CHR 0x22]"

definition json_error :: "string \<Rightarrow> string" where
  "json_error m = ''{'' @ dq @ ''error'' @ dq @ '': '' @ dq @ m @ dq @ ''}''"

definition handle_node_height :: "('pk, 'sk, 'sig, 'st) wenv \<Rightarrow> wallet \<Rightarrow> ('st, http_response) wio" where
  "handle_node_height E wallet =
     io_match (wl_node_height E wallet)
       (\<lambda>(height, success). io_return (create_response 200 ''text/plain''
          (if success then ''{'' @ dq @ ''height'' @ dq @ '': '' @ show_nat (unat height) @ '' }''
           else json_error ''could not connect to node'')))
       (\<lambda>_. io_return (create_response 200 ''text/plain'' (json_error ''could not connect to node'')))"

definition handler_retrieve_summary_info ::
  "('pk, 'sk, 'sig, 'st) wenv \<Rightarrow> ('pk, 'st) jenv \<Rightarrow> wallet \<Rightarrow> ('st, http_response) wio" where
  "handler_retrieve_summary_info E J wallet =
     io_bind (wl_retrieve_summary_info E wallet True 10) (\<lambda>sum_info.
     io_bind (io_lift (info_to_string J sum_info)) (\<lambda>response.
     io_return (json_response response)))"

definition handle_finalize_tx ::
  "('pk, 'sk, 'sig, 'st) wenv \<Rightarrow> wallet \<Rightarrow> bytes \<Rightarrow> ('st, http_response) wio" where
  "handle_finalize_tx E wallet body =
     io_bind (io_lift (trace_body body)) (\<lambda>_.
     io_bind (io_lift (body_utf8 body)) (\<lambda>text.
     io_bind (io_lift (of_option (Foreign ''slate'') (deserialize_upgrade E text))) (\<lambda>slate.
     io_bind (with_slate (finalize_slate E wallet None) slate) (\<lambda>_.
     io_return empty_response))))"

definition cancel_error :: "string \<Rightarrow> string option" where
  "cancel_error full =
     (if str_contains full ''Transaction '' \<and> str_contains full ('' doesn'' @ apos @ ''t exist'')
      then Some (json_error ''TransactionDoesntExist'')
      else if str_contains full ''Transaction '' \<and> str_contains full '' cannot be cancelled''
      then Some (json_error ''TransactionNotCancellable'')
      else None)"

definition handler_cancel_tx ::
  "('pk, 'sk, 'sig, 'st) wenv \<Rightarrow> ('pk, 'st) jenv \<Rightarrow> wallet \<Rightarrow> u32 \<Rightarrow> ('st, http_response) wio" where
  "handler_cancel_tx E J wallet txid =
     io_bind (io_match (wl_cancel E wallet txid)
         (\<lambda>_. io_return (''{'' @ dq @ ''success'' @ dq @ '': true}''))
         (\<lambda>e. case cancel_error (''error = Err('' @ err_debug J e @ '')'') of
            Some t \<Rightarrow> io_return t
          | None \<Rightarrow> io_bind (println (''Unknown error = Err('' @ err_debug J e @ '')'')) (\<lambda>_.
              io_return (json_error ''Unknown'')))) (\<lambda>ret.
     io_return (json_response ret))"

definition handle_post_tx ::
  "('pk, 'sk, 'sig, 'st) wenv \<Rightarrow> wallet \<Rightarrow> bool option \<Rightarrow> bytes \<Rightarrow> ('st, http_response) wio" where
  "handle_post_tx E wallet fluff body =
     io_bind (io_lift (trace_body body)) (\<lambda>_.
     io_bind (io_lift (body_utf8 body)) (\<lambda>text.
     io_bind (io_lift (of_option (Foreign ''slate'') (deserialize_upgrade E text))) (\<lambda>slate.
     io_bind (wl_post_tx E wallet (sl_tx slate) (unwrap_or fluff False)) (\<lambda>_.
     io_return empty_response))))"

subsubsection \<open>Issuing a payment\<close>

definition send_slate ::
  "('pk, 'sk, 'sig, 'st) wenv \<Rightarrow> wallet \<Rightarrow> issue_send_body \<Rightarrow> string \<Rightarrow> ('st, 'pk slate) wio" where
  "send_slate E wallet body address =
     initiate_send_tx E wallet (Some address) (is_amount body) (is_minimum_confirmations body)
       (if is_use_all body then ''all'' else []) (is_num_change_outputs body) (is_max_outputs body)
       (is_message body) None (is_version body) 1"

text \<open>The message-queue and keybase branches: make the slate, post it, lock the outputs.\<close>

definition send_via ::
  "('pk, 'sk, 'sig, 'st) wenv \<Rightarrow> ('pk, 'st) jenv \<Rightarrow> wallet \<Rightarrow> issue_send_body \<Rightarrow> ('pk, 'st) publisher res \<Rightarrow> string \<Rightarrow>
   dyn_address \<Rightarrow> ('st, string) wio" where
  "send_via E J wallet body publisher unavailable address =
     (case publisher of
        Ok publisher \<Rightarrow>
          io_match (send_slate E wallet body (address_display address))
            (\<lambda>slate.
               io_match (publisher slate address)
                 (\<lambda>_.
                    io_bind (wl_tx_lock_outputs E wallet slate (Some (address_display address)) 0) (\<lambda>_.
                    io_lift (json_to_string J (slate_v2_json J slate))))
                 (\<lambda>e. io_bind (println (''Error: Err('' @ err_debug J e @ '')'')) (\<lambda>_.
                    io_return (json_error ''An error occurred while posting slate.''))))
            (\<lambda>e. io_bind (println (''Error: Err('' @ err_debug J e @ '')'')) (\<lambda>_.
               io_return (json_error ''An error occurred while generating slate.'')))
      | _ \<Rightarrow> io_return (json_error unavailable))"

definition send_mwcmqs ::
  "('pk, 'sk, 'sig, 'st) wenv \<Rightarrow> ('pk, 'st) jenv \<Rightarrow> ('pk, 'sk, 'st) wallet_container \<Rightarrow> issue_send_body \<Rightarrow> string \<Rightarrow> ('st, string) wio" where
  "send_mwcmqs E J container body dest =
     io_match (io_lift (mwcmqs_from_str E dest))
       (\<lambda>address. send_via E J (wc_wallet container) body (mwcmqs_publisher container)
          ''An error occurred sending to a mwcmqs address. Note: mwcmqs must be configured on startup to use with the API.''
          (AMWCMQS address))
       (\<lambda>e. io_bind (println (''Error: Err('' @ err_debug J e @ '')'')) (\<lambda>_.
          io_return (json_error ''An error occurred while parsing mwcmqs address.'')))"

definition send_keybase ::
  "('pk, 'sk, 'sig, 'st) wenv \<Rightarrow> ('pk, 'st) jenv \<Rightarrow> ('pk, 'sk, 'st) wallet_container \<Rightarrow> issue_send_body \<Rightarrow> string \<Rightarrow> ('st, string) wio" where
  "send_keybase E J container body dest =
     io_match (io_lift (keybase_from_str dest))
       (\<lambda>address. send_via E J (wc_wallet container) body (keybase_publisher container)
          ''An error occurred sending to a keybase address. Note: keybase must be configured on startup to use with the API.''
          (AKeybase address))
       (\<lambda>e. io_bind (println (''Error: Err('' @ err_debug J e @ '')'')) (\<lambda>_.
          io_return (json_error ''An error occurred while parsing keybase address.'')))"

text \<open>The file is created, empty, before the slate is made.\<close>

definition send_file ::
  "('pk, 'sk, 'sig, 'st) wenv \<Rightarrow> ('pk, 'st) jenv \<Rightarrow> wallet \<Rightarrow> issue_send_body \<Rightarrow> string \<Rightarrow> ('st, string) wio" where
  "send_file E J wallet body destination =
     io_bind (on_fs (write_file destination [])) (\<lambda>_.
     io_match (send_slate E wallet body destination)
       (\<lambda>slate.
          io_bind (io_lift (json_to_string J (slate_v2_json J slate))) (\<lambda>str_slate.
          io_bind (on_fs (write_file destination str_slate)) (\<lambda>_.
          io_bind (wl_tx_lock_outputs E wallet slate (Some destination) 0) (\<lambda>_.
          io_return (''{'' @ dq @ ''success'' @ dq @ '': true}'')))))
       (\<lambda>e. io_bind (println (''error: Err('' @ err_debug J e @ '')'')) (\<lambda>_.
          io_return (json_error ''error generating slate.''))))"

definition cancel_failed :: "('pk, 'sk, 'sig, 'st) wenv \<Rightarrow> wallet \<Rightarrow> string \<Rightarrow> ('st, unit) wio" where
  "cancel_failed E wallet slate_id =
     (let warning = println ''WARNING: Could not cancel failed transaction. You must manually cancel''
      in io_match (get_id E wallet slate_id)
           (\<lambda>txid. io_match (wl_cancel E wallet txid) io_return (\<lambda>_. warning)) (\<lambda>_. warning))"

text \<open>What is done with the answer of the other wallet.\<close>

definition finish_http ::
  "('pk, 'sk, 'sig, 'st) wenv \<Rightarrow> ('pk, 'st) jenv \<Rightarrow> wallet \<Rightarrow> string \<Rightarrow> string \<Rightarrow> 'pk slate_resp \<Rightarrow> ('st, string) wio" where
  "finish_http E J wallet destination url resp =
     io_bind (io_lift (json_to_string J (slate_resp_json J resp))) (\<lambda>text.
     io_bind (io_lift (of_option (Foreign ''json'') (json_from_str J text))) (\<lambda>res.
     if json_get res ''error'' \<noteq> JNull then
        io_bind (println (error_report J res)) (\<lambda>_.
        io_return (json_error ''destination returned error.''))
      else
        io_bind (io_lift (json_to_string J (json_get (json_get res ''result'') ''Ok''))) (\<lambda>slate_text.
        io_bind (io_lift (slate_from_versioned J slate_text)) (\<lambda>slate.
        io_bind (println (''slate ['' @ sl_id slate @ ''] received back from ['' @ url @ ''] for ['' @
          amount_hr J (sl_amount slate) @ ''] MWCs'')) (\<lambda>_.
        io_bind (wl_tx_lock_outputs E wallet slate (Some destination) 0) (\<lambda>_.
        io_match (with_slate (finalize_slate E wallet None) slate)
          (\<lambda>slate. io_bind (println (''slate ['' @ sl_id slate @ ''] finalized successfully'')) (\<lambda>_.
             io_lift (json_to_string J (slate_v2_json J slate))))
          (\<lambda>e. io_bind (println (''Error finalizing slate: Err('' @ err_debug J e @ '')'')) (\<lambda>_.
             io_return (json_error ''An error occured while finalizing slate. See stdout for details..'')))))))))"

definition send_http ::
  "('pk, 'sk, 'sig, 'st) wenv \<Rightarrow> ('pk, 'st) jenv \<Rightarrow> wallet \<Rightarrow> issue_send_body \<Rightarrow> string \<Rightarrow> ('st, string) wio" where
  "send_http E J wallet body destination =
     (let url = destination @ ''/v2/foreign''
      in if \<not> url_parse E url then io_return (json_error ''Destination is invalid.'')
         else io_match (send_slate E wallet body destination)
           (\<lambda>slate.
              let req = JObject [(''jsonrpc'', JString ''2.0''), (''method'', JString ''receive_tx''),
                    (''id'', JNumber ''1''), (''params'', JArray [slate_v2_json J slate, JNull, JNull])]
              in io_match (http_post J url req)
                   (finish_http E J wallet destination url)
                   (\<lambda>e.
                      io_bind (println (''Posting transaction slate (is recipient listening?): '' @ err_display e)) (\<lambda>_.
                      io_bind (cancel_failed E wallet (sl_id slate)) (\<lambda>_.
                      io_bind (println ''Error: Err(HttpRequest)'') (\<lambda>_.
                      io_return (json_error ''An error occured while contacting destination.''))))))
           (\<lambda>e. io_bind (println (''Error: Err('' @ err_debug J e @ '')'')) (\<lambda>_.
              io_return (json_error ''An error occurred while generating slate.''))))"

definition with_dest :: "issue_send_body \<Rightarrow> (string \<Rightarrow> ('st, string) wio) \<Rightarrow> ('st, string) wio" where
  "with_dest body send = (case is_dest body of
     None \<Rightarrow> io_return (json_error ''dest was not specified.'') | Some dest \<Rightarrow> send dest)"

definition process_handle_issue_send_tx ::
  "('pk, 'sk, 'sig, 'st) wenv \<Rightarrow> ('pk, 'st) jenv \<Rightarrow> ('pk, 'sk, 'st) wallet_container \<Rightarrow> bytes \<Rightarrow> ('st, string) wio" where
  "process_handle_issue_send_tx E J container body =
     (case send_from_slice J body of
        None \<Rightarrow> io_return (json_error ''Could not parse send request.'')
      | Some body \<Rightarrow>
          (case is_method body of
             Send_MWCMQS \<Rightarrow> with_dest body (send_mwcmqs E J container body)
           | Send_Keybase \<Rightarrow> with_dest body (send_keybase E J container body)
           | Send_File \<Rightarrow> with_dest body (send_file E J (wc_wallet container) body)
           | Send_Http \<Rightarrow> with_dest body (send_http E J (wc_wallet container) body)
           | _ \<Rightarrow> io_return (json_error ''This method is not currently supported.'')))"

definition handle_issue_send_tx ::
  "('pk, 'sk, 'sig, 'st) wenv \<Rightarrow> ('pk, 'st) jenv \<Rightarrow> ('pk, 'sk, 'st) wallet_container \<Rightarrow> bytes \<Rightarrow> ('st, http_response) wio" where
  "handle_issue_send_tx E J container body =
     io_bind (io_match (process_handle_issue_send_tx E J container body) io_return (\<lambda>e.
         io_bind (println (''Error: Err('' @ err_debug J e @ '')'')) (\<lambda>_.
         io_return (json_error ''Could not process send due to problem. See stdout for details.'')))) (\<lambda>res_string.
     io_return (json_response res_string))"

section \<open>Access\<close>

text \<open>
  An API with a secret goes on only for requests whose \<open>Authorization\<close> header is exactly the basic
  credentials of the secret; every other request is refused with status 401, or panics on a header
  that is no text, and leaves the state as it is, whatever the rest of the chain would do.
\<close>

lemma auth_guards_chain:
  assumes "header \<noteq> Some (''Basic '' @ to_base64 (''mwc:'' @ secret))"
  shows "auth_call (basic_auth_new to_base64 (Some secret)) header rest w \<in> {(Panic, w), (Ok (create_response 401 [] []), w)}"
  using assms by (auto simp: auth_call_def basic_auth_new_def io_return_def io_lift_def split: option.split)

text \<open>
  No route shadows another, and the owner API serves the foreign handlers exactly when it
  is configured to.
\<close>

theorem routes_unambiguous:
  "distinct (map (\<lambda>(m, path, _). (m, path)) (build_owner_api include_foreign)) \<and>
   distinct (map (\<lambda>(m, path, _). (m, path)) build_foreign_api) \<and>
   (set build_foreign_api \<subseteq> set (build_owner_api include_foreign) \<longleftrightarrow> include_foreign = Some True) \<and>
   (include_foreign \<noteq> Some True \<longrightarrow> set build_foreign_api \<inter> set (build_owner_api include_foreign) = {})"
proof -
  let ?P = "\<lambda>f. distinct (map (\<lambda>(m, path, _). (m, path)) (build_owner_api f)) \<and>
   distinct (map (\<lambda>(m, path, _). (m, path)) build_foreign_api) \<and>
   (set build_foreign_api \<subseteq> set (build_owner_api f) \<longleftrightarrow> f = Some True) \<and>
   (f \<noteq> Some True \<longrightarrow> set build_foreign_api \<inter> set (build_owner_api f) = {})"
  have p: "?P None" "?P (Some True)" "?P (Some False)" by code_simp+
  consider "include_foreign = None" | "include_foreign = Some True" | "include_foreign = Some False"
    by (metis (full_types) not_None_eq)
  then show ?thesis by cases (hypsubst, rule p)+
qed

theorem routes_unambiguous_witness:
  "set build_foreign_api \<inter> set (build_owner_api None) = {}"
  using routes_unambiguous [of None] by simp

section \<open>Payments\<close>

lemma initiate_send_trace:
  assumes "initiate_send_tx E self addr amount conf strat change maxo msg outs ver routs w = (r, w')"
  shows "\<exists>cs. w_trace w' = w_trace w @ cs \<and> (\<forall>c \<in> set cs. c = Update_wallet_state \<or> (\<exists>args. c = Init_send_tx args))"
proof (cases "wl_backend self")
  case None
  then show ?thesis using assms by (simp add: initiate_send_tx_def with_inst_locked is_locked_def)
next
  case (Some i)
  obtain u w1 where u: "lib_shared Update_wallet_state (update_wallet_state E i) w = (u, w1)" by fastforce
  then have t: "w_trace w1 = w_trace w @ [Update_wallet_state]" by (simp add: lib_shared_def lib_trace)
  show ?thesis
  proof (cases u)
    case (Ok v)
    from assms u Ok show ?thesis unfolding initiate_send_tx_def initiate_tx_def Let_def with_inst_open [OF Some]
      by (simp add: io_bind_apply_Ok) (erule wallet_lock_cases; use t in \<open>force dest: lib_trace\<close>)
  qed (use assms u t in \<open>auto simp: initiate_send_tx_def initiate_tx_def with_inst_open [OF Some] io_bind_def\<close>)
qed

lemma wl_lock_outputs_trace:
  assumes "wl_tx_lock_outputs E self s addr n w = (r, w')"
  shows "w_trace w' = w_trace w \<or> w_trace w' = w_trace w @ [Tx_lock_outputs (sl_id s) n]"
  using assms
  by (cases "wl_backend self")
    (auto simp: wl_tx_lock_outputs_def with_inst_locked is_locked_def with_inst_open dest: lock_outputs_trace)

lemma println_trace: "println t w = (r, w') \<Longrightarrow> w_trace w' = w_trace w"
  by (auto simp: println_def io_modify_def)

lemma send_via_locks:
  assumes "send_via E J self body (Ok pub) unavailable addr w = (r, w')"
    and "\<And>s a w. w_trace (snd (pub s a w)) = w_trace w"
  shows "\<exists>cs. w_trace w' = w_trace w @ cs \<and>
    (\<forall>sid n. Tx_lock_outputs sid n \<in> set cs \<longrightarrow> n = 0 \<and>
       (\<exists>slate w1 w2. sl_id slate = sid \<and> pub slate addr w1 = (Ok (), w2)))"
proof -
  obtain q w1 where q: "send_slate E self body (address_display addr) w = (q, w1)" by fastforce
  obtain cs where cs: "w_trace w1 = w_trace w @ cs" "\<forall>c \<in> set cs. c = Update_wallet_state \<or> (\<exists>args. c = Init_send_tx args)"
    using initiate_send_trace q unfolding send_slate_def by metis
  have none: "Tx_lock_outputs sid n \<notin> set cs" for sid n using cs(2) by auto
  have same: ?thesis if "w_trace w' = w_trace w1" using cs(1) none that by auto
  show ?thesis
  proof (cases q)
    case (Ok slate)
    obtain p w2 where p: "pub slate addr w1 = (p, w2)" by fastforce
    have t2: "w_trace w2 = w_trace w1" using assms(2) [of slate addr w1] p by simp
    show ?thesis
    proof (cases p)
      case ok: (Ok x)
      obtain l w3 where l: "wl_tx_lock_outputs E self slate (Some (address_display addr)) 0 w2 = (l, w3)" by fastforce
      have "w' = w3" using assms(1) q Ok p ok l
        by (cases l) (auto simp: send_via_def io_match_def io_bind_def io_lift_apply)
      then show ?thesis
        using wl_lock_outputs_trace [OF l] t2 cs(1) none p ok same by auto (use p ok in blast)
    qed (use assms(1) q Ok p t2 same in \<open>auto simp: send_via_def io_match_def io_bind_def io_return_def println_def io_modify_def\<close>)
  qed (use assms(1) q same in \<open>auto simp: send_via_def io_match_def io_bind_def io_return_def println_def io_modify_def\<close>)
qed

text \<open>
  C17: a payment over a message queue or keybase locks outputs only for a slate that the
  publisher accepted, for participant 0: a slate that could not be made or sent leaves the
  wallet's outputs free.
\<close>

theorem outputs_locked_only_after_posting:
  assumes "send_via E J self body (Ok pub) unavailable addr w = (r, w')"
    and "\<And>s a w. w_trace (snd (pub s a w)) = w_trace w"
  shows "\<exists>cs. w_trace w' = w_trace w @ cs \<and>
    (\<forall>sid n. Tx_lock_outputs sid n \<in> set cs \<longrightarrow> n = 0 \<and>
       (\<exists>slate w1 w2. sl_id slate = sid \<and> pub slate addr w1 = (Ok (), w2)))"
  using assms by (rule send_via_locks)

definition demo_jenv :: "(bytes, unit) jenv" where
  "demo_jenv = \<lparr>json_from_str = (\<lambda>s. if s = ''x'' then None else Some JNull), json_to_string = (\<lambda>_. Ok ''{}''), json_display = (\<lambda>_. []),
     slate_to_json = (\<lambda>_. JNull), slate_from_slice = (\<lambda>_. Ok demo_slate), slate_v2_json = (\<lambda>_. JNull),
     slate_from_versioned = (\<lambda>_. Ok demo_slate), outputs_to_string = (\<lambda>_. Ok []), txs_to_string = (\<lambda>_. Ok []),
     stored_to_string = (\<lambda>_. Ok []), tx_confirmed = (\<lambda>_. True), info_to_string = Ok, fees_from_slice = (\<lambda>_. Ok []),
     cb_to_string = Ok, send_from_slice = (\<lambda>_. None), uuid_or_default = (\<lambda>s. s), err_debug = err_display,
     http_post = (\<lambda>_ _. io_lift (fail HttpRequest)), amount_hr = (\<lambda>_. ''5'')\<rparr>"

definition demo_send :: issue_send_body where
  "demo_send = \<lparr>is_method = Send_Keybase, is_dest = Some ''bob'', is_amount = 5, is_minimum_confirmations = 10,
     is_max_outputs = 500, is_num_change_outputs = 1, is_use_all = False, is_message = None, is_version = None\<rparr>"

theorem outputs_locked_only_after_posting_witness:
  "\<exists>r w' cs. send_via demo_wenv demo_jenv demo_wallet demo_send (Ok (\<lambda>_ _. io_return ())) [] demo_from demo_world = (r, w') \<and>
     w_trace w' = w_trace demo_world @ cs"
proof -
  obtain r w' where e: "send_via demo_wenv demo_jenv demo_wallet demo_send (Ok (\<lambda>_ _. io_return ())) [] demo_from demo_world = (r, w')"
    by fastforce
  from outputs_locked_only_after_posting [OF e] e show ?thesis by (auto simp: io_return_def)
qed

text \<open>
  After a failed HTTP payment the wrong transaction is cancelled: the slate was never
  recorded, its lookup gives no entry, and the cancellation is asked for the placeholder id
  1000000000 that \<open>retrieve_tx_id_by_slate_id\<close> starts from.
\<close>

theorem failed_http_cancels_placeholder:
  assumes "api_node_height E i w = (Ok h, w1)" and "wl_backend self = Some i"
    and "retrieve_tx_id_by_slate_id E i sid w1 = (Ok txid, w2)"
    and "\<And>s. fst (updater_retrieve_txs E i None (Some sid) None None None s) = Ok []"
    and "start_console_thread E (w_lib w2) = (Ok (), s3)"
  shows "txid = 1000000000 \<and>
    (\<exists>cs. w_trace (snd (cancel_failed E self sid w)) = w_trace w2 @ [Start_console_thread, Cancel_tx (Some 1000000000) None] @ cs)"
proof -
  have id: "txid = 1000000000"
    using assms(3) unfolding retrieve_tx_id_by_slate_id_def
  proof (cases rule: wallet_lock_cases)
    case (entered s' w3)
    obtain q w4 where q: "lib (Retrieve_txs None (Some sid)) (updater_retrieve_txs E i None (Some sid) None None None)
        (w1\<lparr>w_held := True, w_lib := s'\<rparr>) = (q, w4)" by fastforce
    then have "q = Ok []" using assms(4) [of s'] lib_res [OF q] by simp
    then show ?thesis using entered(3) q by (simp add: io_bind_def io_return_def)
  qed simp
  have get: "get_id E self sid w = (Ok txid, w2)"
    using assms(1-3) by (simp add: get_id_def with_inst_open [OF assms(2)] io_bind_def)
  let ?cancel = "with_console E (lib_shared (Cancel_tx (Some 1000000000) None)
      (\<lambda>held. owner_cancel_tx E i held (Some 1000000000) None))"
  have "\<exists>cs. w_trace (snd (?cancel w2)) = w_trace w2 @ [Start_console_thread, Cancel_tx (Some 1000000000) None] @ cs"
    using assms(5)
    by (auto simp: with_console_def lib_shared_def lib_def io_bind_def io_modify_def io_return_def
        split: prod.splits outcome.splits)
  moreover have "w_trace (snd (cancel_failed E self sid w)) = w_trace (snd (?cancel w2))"
    using get id assms(2)
    by (auto simp: cancel_failed_def io_match_def wl_cancel_def with_inst_open api_cancel_tx_def println_def io_modify_def
        io_return_def split: prod.splits outcome.splits)
  ultimately show ?thesis using id by simp
qed

definition demo_empty_wenv :: "(bytes, bytes, bytes, unit) wenv" where
  "demo_empty_wenv = demo_wenv\<lparr>updater_retrieve_txs := (\<lambda>_ _ _ _ _ _ s. (Ok [], s))\<rparr>"

theorem failed_http_cancels_placeholder_witness:
  "\<exists>(w2 :: unit world) cs. w_trace (snd (cancel_failed demo_empty_wenv demo_wallet ''7'' demo_world)) =
     w_trace w2 @ [Start_console_thread, Cancel_tx (Some 1000000000) None] @ cs"
proof -
  let ?h = "api_node_height demo_empty_wenv demo_inst demo_world"
  let ?t = "retrieve_tx_id_by_slate_id demo_empty_wenv demo_inst ''7'' (snd ?h)"
  have "fst ?h = Ok (20, True)" and "fst ?t = Ok 1000000000" by code_simp+
  then have h: "?h = (Ok (20, True), snd ?h)" and t: "?t = (Ok 1000000000, snd ?t)" by (metis prod.collapse)+
  have b: "wl_backend demo_wallet = Some demo_inst" by (simp add: demo_wallet_def)
  have n: "fst (updater_retrieve_txs demo_empty_wenv demo_inst None (Some ''7'') None None None s) = Ok []" for s
    by (simp add: demo_empty_wenv_def)
  have c: "start_console_thread demo_empty_wenv (w_lib (snd ?t)) = (Ok (), ())"
    by (simp add: demo_empty_wenv_def demo_wenv_defs)
  from failed_http_cancels_placeholder [OF h b t n c] show ?thesis by blast
qed

text \<open>
  A request to the foreign API whose body is not JSON (or not text) panics in the handler
  and is therefore never answered: no interleaving of the worker with the server's polls
  delivers a response.
\<close>

theorem malformed_foreign_request_never_answered:
  assumes "case from_utf8 body of None \<Rightarrow> True | Some text \<Rightarrow> json_from_str J text = None"
    and "exec_reachable root_cause (fst (handle_v2foreign E J self body w)) x"
  shows "fst (handle_v2foreign E J self body w) = Panic \<and> ex_answer x = None"
proof -
  have p: "fst (handle_v2foreign E J self body w) = Panic"
    using assms(1)
    by (cases "from_utf8 body") (simp_all add: handle_v2foreign_def trace_body_def body_utf8_def io_bind_def io_lift_apply)
  moreover have "ex_answer x = None"
    using exec_inv_reachable [of root_cause Panic x] assms(2) p by (cases "ex_worker x") (auto simp: exec_inv_def)
  ultimately show ?thesis by simp
qed

theorem malformed_foreign_request_never_answered_witness:
  "fst (handle_v2foreign demo_wenv demo_jenv demo_wallet (as_bytes ''x'') demo_world) = Panic"
proof -
  have "from_utf8 (as_bytes ''x'') = Some ''x''" by (rule from_utf8_as_bytes) simp
  then have "case from_utf8 (as_bytes ''x'') of None \<Rightarrow> True | Some text \<Rightarrow> json_from_str demo_jenv text = None"
    by (simp add: demo_jenv_def)
  from malformed_foreign_request_never_answered [OF this, of err_display demo_wenv demo_wallet demo_world run_handler_new]
  show ?thesis by simp
qed

end
