(* ===== verification/Broker.thy ===== *)
theory Broker
  imports Api_Handlers
begin

text \<open>
  The traits of \<open>src/src/broker/types.rs\<close>: a publisher posts slates, a subscriber runs a
  listener that calls a handler. The handler is a record of its five callbacks, on the world
  and the wallet; the controller is one. What the senders of payments rely on in a publisher is
  a locale, which the theories of the three brokers interpret on their publishers.
\<close>

section \<open>The code\<close>

record ('pk, 'sk, 'sig, 'st) subscription_handler =
  h_open :: "('st, unit) mio"
  h_slate :: "dyn_address \<Rightarrow> 'pk slate \<Rightarrow> 'sig tx_proof option \<Rightarrow> 'sk wallet713_config option \<Rightarrow> ('st, unit) mio"
  h_close :: "close_reason \<Rightarrow> ('st, unit) mio"
  h_dropped :: "('st, unit) mio"
  h_reestablished :: "('st, unit) mio"

text \<open>A callback with a local slate.\<close>

definition local_slate :: "('pk, 'st, 'a) cio \<Rightarrow> 'pk slate \<Rightarrow> ('st, 'a) mio" where
  "local_slate m s = (\<lambda>(w, self). case m (w, self, s) of (r, (w', self', s')) \<Rightarrow> (r, (w', self')))"

definition empty_slate :: "'pk slate" where
  "empty_slate = \<lparr>sl_id = [], sl_amount = 0, sl_fee = 0, sl_num_participants = 0, sl_participant_data = [],
     sl_tx = \<lparr>tx_inputs = [], tx_outputs = [], tx_offset = []\<rparr>\<rparr>"

text \<open>\<open>impl SubscriptionHandler for Controller\<close>; the callbacks without a slate ignore theirs.\<close>

definition controller_handler ::
  "('pk, 'sk, 'sig, 'st) wenv \<Rightarrow> (u64 \<Rightarrow> string) \<Rightarrow> recv \<Rightarrow> ('pk, 'st) controller \<Rightarrow>
   ('pk, 'sk, 'sig, 'st) subscription_handler" where
  "controller_handler E hr rv c =
     \<lparr>h_open = local_slate (on_open c) empty_slate,
      h_slate = (\<lambda>from slate tx_proof config. local_slate (on_slate E hr rv c from tx_proof config) slate),
      h_close = (\<lambda>reason. local_slate (on_close c reason) empty_slate),
      h_dropped = local_slate (on_dropped c) empty_slate,
      h_reestablished = local_slate (on_reestablished c) empty_slate\<rparr>"

section \<open>Publishers\<close>

text \<open>
  A publisher talks to its peers only: it makes no call of the wallet library, takes no wallet
  lock and writes no file.
\<close>

definition off_wallet :: "'st world \<Rightarrow> 'st world \<Rightarrow> bool" where
  "off_wallet w w' \<longleftrightarrow> w_trace w' = w_trace w \<and> w_held w' = w_held w \<and> w_fs w' = w_fs w \<and> w_consoles w' = w_consoles w"

lemma off_wallet_refl: "off_wallet w w"
  by (simp add: off_wallet_def)

lemma off_wallet_trans: "off_wallet w1 w2 \<Longrightarrow> off_wallet w2 w3 \<Longrightarrow> off_wallet w1 w3"
  by (simp add: off_wallet_def)

locale publisher_contract =
  fixes post_slate :: "'pk slate \<Rightarrow> dyn_address \<Rightarrow> ('st, unit) wio"
  assumes post_off_wallet: "off_wallet w (snd (post_slate s a w))"
begin

lemma post_trace: "w_trace (snd (post_slate s a w)) = w_trace w"
  using post_off_wallet by (simp add: off_wallet_def)

text \<open>A payment through this publisher locks outputs only for a slate it accepted.\<close>

lemma payment_locks_posted:
  assumes "send_via E J self body (Ok post_slate) unavailable addr w = (r, w')"
  shows "\<exists>cs. w_trace w' = w_trace w @ cs \<and>
    (\<forall>sid n. Tx_lock_outputs sid n \<in> set cs \<longrightarrow> n = 0 \<and>
       (\<exists>slate w1 w2. sl_id slate = sid \<and> post_slate slate addr w1 = (Ok (), w2)))"
  by (rule send_via_locks [OF assms post_trace])

end

text \<open>
  Relations between worlds that talking to the network upholds. The rules carry over to every
  publisher, whatever the relation.
\<close>

definition upholds :: "('st world \<Rightarrow> 'st world \<Rightarrow> bool) \<Rightarrow> ('st, 'a) wio \<Rightarrow> bool" where
  "upholds R m \<longleftrightarrow> (\<forall>w. R w (snd (m w)))"

lemma upholdsD: "upholds R m \<Longrightarrow> m w = (r, w') \<Longrightarrow> R w w'"
  by (metis upholds_def snd_conv)

locale net_frame =
  fixes R :: "'st world \<Rightarrow> 'st world \<Rightarrow> bool"
  assumes R_refl: "R w w" and R_trans: "R w1 w2 \<Longrightarrow> R w2 w3 \<Longrightarrow> R w1 w3" and R_lib: "R w (w\<lparr>w_lib := s\<rparr>)"
begin

lemma upholds_return: "upholds R (io_return x)"
  by (simp add: upholds_def io_return_def R_refl)

lemma upholds_lift: "upholds R (io_lift r)"
  by (simp add: upholds_def io_lift_def R_refl)

lemma upholds_lib_quiet: "upholds R (lib_quiet op)"
  by (auto simp: upholds_def lib_quiet_def R_lib split: prod.split)

lemma upholds_match:
  assumes "upholds R m" and "\<And>x. upholds R (k x)" and "\<And>e. upholds R (h e)"
  shows "upholds R (io_match m k h)"
  unfolding upholds_def
proof
  fix w
  obtain r w' where m: "m w = (r, w')" by fastforce
  have w': "R w w'" by (rule upholdsD [OF assms(1) m])
  have "R w' (snd (k x w'))" "R w' (snd (h e w'))" for x e
    using assms(2,3) by (simp_all add: upholds_def)
  then show "R w (snd (io_match m k h w))"
    using m R_trans [OF w'] w' by (cases r) (auto simp: io_match_def)
qed

lemma upholds_bind: "upholds R m \<Longrightarrow> (\<And>x. upholds R (f x)) \<Longrightarrow> upholds R (io_bind m f)"
  unfolding io_bind_match by (intro upholds_match upholds_lift)

lemma upholds_map_err: "upholds R m \<Longrightarrow> upholds R (io_map_err f m)"
  by (auto simp: upholds_def io_map_err_def split: prod.split) (metis snd_conv)

lemma upholds_expect: "upholds R m \<Longrightarrow> upholds R (io_expect m)"
  unfolding io_expect_def by (intro upholds_match upholds_return upholds_lift)

lemma upholds_if: "upholds R m \<Longrightarrow> upholds R m' \<Longrightarrow> upholds R (if c then m else m')"
  by simp

lemma upholds_option: "upholds R m \<Longrightarrow> (\<And>x. upholds R (f x)) \<Longrightarrow> upholds R (case y of None \<Rightarrow> m | Some x \<Rightarrow> f x)"
  by (cases y) auto

lemma upholds_prod: "(\<And>a b. upholds R (f a b)) \<Longrightarrow> upholds R (case p of (a, b) \<Rightarrow> f a b)"
  by (cases p) auto

lemma upholds_Let: "upholds R (f x) \<Longrightarrow> upholds R (Let x f)"
  by simp

lemmas upholds_rules = upholds_bind upholds_match upholds_map_err upholds_expect upholds_if upholds_option upholds_prod upholds_Let
  upholds_return upholds_lift upholds_lib_quiet

end

locale talking_frame = net_frame +
  assumes R_out: "R w (w\<lparr>w_out := out\<rparr>)"
begin

lemma upholds_println: "upholds R (println t)"
  by (simp add: upholds_def println_def io_modify_def R_out)

end

definition same_out :: "'st world \<Rightarrow> 'st world \<Rightarrow> bool" where
  "same_out w w' \<longleftrightarrow> w_out w' = w_out w"

interpretation off: talking_frame off_wallet
  by unfold_locales (simp_all add: off_wallet_def)

interpretation quiet: net_frame same_out
  by unfold_locales (simp_all add: same_out_def)

section \<open>Subscribers\<close>

text \<open>
  What a handler may rely on: it is told that the listener is open before anything else, gets
  slates only while the connection is up, is told once of a lost connection before it is told
  that it is back, and is told of the end last.
\<close>

datatype subscriber_event = Ev_open | Ev_reestablished | Ev_dropped | Ev_slate | Ev_close bool

datatype listener_view = View_New | View_Up | View_Down | View_Closed | View_Broken

fun view_step :: "listener_view \<Rightarrow> subscriber_event \<Rightarrow> listener_view" where
  "view_step View_New Ev_open = View_Up"
| "view_step View_New (Ev_close _) = View_Closed"
| "view_step View_Up Ev_slate = View_Up"
| "view_step View_Up Ev_dropped = View_Down"
| "view_step View_Up (Ev_close _) = View_Closed"
| "view_step View_Down Ev_reestablished = View_Up"
| "view_step View_Down (Ev_close _) = View_Closed"
| "view_step _ _ = View_Broken"

abbreviation view_after :: "listener_view \<Rightarrow> subscriber_event list \<Rightarrow> listener_view" where
  "view_after v es \<equiv> foldl view_step v es"

lemma view_Broken [simp]: "view_after View_Broken es = View_Broken"
  by (induction es) auto

lemma view_Closed: "view_after View_Closed es \<noteq> View_Broken \<Longrightarrow> es = []"
  by (cases es) auto

lemma view_step_close: "view_step v (Ev_close ok) \<in> {View_Closed, View_Broken}"
  by (cases v) auto

lemma view_step_New: "view_step v e \<noteq> View_New"
  by (cases "(v, e)" rule: view_step.cases) auto

lemma view_no_reopen: "v \<noteq> View_New \<Longrightarrow> view_after v es \<noteq> View_Broken \<Longrightarrow> Ev_open \<notin> set es"
proof (induction es arbitrary: v)
  case (Cons e es)
  have e: "e \<noteq> Ev_open" using Cons.prems by (cases v) auto
  then show ?case using Cons.IH [of "view_step v e"] Cons.prems(2) view_step_New by auto
qed simp

locale subscriber_contract =
  fixes reports :: "subscriber_event list \<Rightarrow> bool"
  assumes in_order: "reports es \<Longrightarrow> view_after View_New es \<noteq> View_Broken"
begin

lemma close_is_last: "reports (as @ Ev_close ok # bs) \<Longrightarrow> bs = []"
  using in_order [of "as @ Ev_close ok # bs"] view_step_close [of "view_after View_New as" ok] view_Closed
  by auto

lemma opened_first: "reports (e # es) \<Longrightarrow> e = Ev_open \<or> (\<exists>ok. e = Ev_close ok)"
  using in_order [of "e # es"] by (cases e) auto

lemma opened_once: "reports (e # es) \<Longrightarrow> Ev_open \<notin> set es"
  using in_order [of "e # es"] view_no_reopen [OF view_step_New, of View_New e es] by auto

lemma slate_needs_open: "reports es \<Longrightarrow> Ev_slate \<in> set es \<Longrightarrow> Ev_open \<in> set es"
proof (cases es)
  case (Cons e l)
  assume r: "reports es" and sl: "Ev_slate \<in> set es"
  show ?thesis
  proof (cases e)
    case (Ev_close ok)
    then have "l = []" using close_is_last [of "[]" ok l] r Cons by simp
    then show ?thesis using sl Cons Ev_close by simp
  qed (use opened_first [of e l] r Cons in auto)
qed simp

end

text \<open>A handler that only records, in the console of the world.\<close>

fun event_text :: "subscriber_event \<Rightarrow> string" where
  "event_text Ev_open = ''open''"
| "event_text Ev_reestablished = ''reestablished''"
| "event_text Ev_dropped = ''dropped''"
| "event_text Ev_slate = ''slate''"
| "event_text (Ev_close ok) = (if ok then ''closed'' else ''aborted'')"

definition record_event :: "subscriber_event \<Rightarrow> ('st, unit) mio" where
  "record_event e = on_world (println (event_text e))"

definition recorder :: "('pk, 'sk, 'sig, 'st) subscription_handler" where
  "recorder = \<lparr>h_open = record_event Ev_open, h_slate = (\<lambda>_ _ _ _. record_event Ev_slate),
     h_close = (\<lambda>r. record_event (Ev_close (r = Close_Normal))), h_dropped = record_event Ev_dropped,
     h_reestablished = record_event Ev_reestablished\<rparr>"

lemma record_event_apply: "record_event e (w, self) = (Ok (), (w\<lparr>w_out := w_out w @ [event_text e]\<rparr>, self))"
  by (simp add: record_event_def on_world_def println_def io_modify_def)

end
