(* ===== verification/Keybase.thy ===== *)
theory Keybase
  imports Broker
begin

text \<open>
  The keybase broker, \<open>src/src/broker/keybase.rs\<close>: publisher, subscriber and the calls of the
  keybase program. Running a program, reading the stop signal that another thread may set, and
  JSON text are fields of \<open>kenv\<close>; so is the order in which a hash set is iterated. JSON values
  are those of the API handlers.
\<close>

section \<open>The code\<close>

definition TOPIC_SLATE_NEW :: string where
  "TOPIC_SLATE_NEW = ''grin_slate_new''"

definition TOPIC_WALLET713_SLATES :: string where
  "TOPIC_WALLET713_SLATES = ''wallet713_grin_slate''"

definition TOPIC_SLATE_SIGNED :: string where
  "TOPIC_SLATE_SIGNED = ''grin_slate_signed''"

record ('pk, 'st) kenv =
  target_windows :: bool
  path_exists :: "string \<Rightarrow> ('st, bool) lio"
  command_status :: "string \<Rightarrow> string list \<Rightarrow> ('st, bool) lio"
  command_output :: "string \<Rightarrow> string list \<Rightarrow> ('st, bytes) lio"
  value_to_string :: "json \<Rightarrow> string res"
  value_from_str :: "string \<Rightarrow> json option"
  kb_slate_to_string :: "'pk slate \<Rightarrow> string res"
  hash_set_order :: "(string \<times> string) list \<Rightarrow> (string \<times> string) list"
  read_stop_signal :: "('st, bool) lio"

text \<open>\<open>Value::as_str\<close> and \<open>Value::as_array\<close>.\<close>

fun as_str :: "json \<Rightarrow> string option" where
  "as_str (JString s) = Some s"
| "as_str _ = None"

fun as_array :: "json \<Rightarrow> json list option" where
  "as_array (JArray xs) = Some xs"
| "as_array _ = None"

subsection \<open>Calls of the keybase program\<close>

definition keybase_broker_new :: "('pk, 'st) kenv \<Rightarrow> string option \<Rightarrow> ('st, unit) wio" where
  "keybase_broker_new K binary =
     (if target_windows K \<and> binary \<noteq> None then
        io_bind (lib_quiet (path_exists K (the binary))) (\<lambda>exists.
        if exists then io_return () else io_lift (fail KeybaseNotFound))
      else
        io_bind (lib_quiet (command_status K (if target_windows K then ''where'' else ''which'')
                   [unwrap_or binary ''keybase''])) (\<lambda>success.
        if success then io_return () else io_lift (fail KeybaseNotFound)))"

definition api_send :: "('pk, 'st) kenv \<Rightarrow> string option \<Rightarrow> string \<Rightarrow> ('st, json) wio" where
  "api_send K binary payload =
     io_bind (io_expect (lib_quiet (command_output K (unwrap_or binary ''keybase'')
                [''chat'', ''api'', ''-m'', payload]))) (\<lambda>output.
     io_bind (io_lift (body_utf8 output)) (\<lambda>response.
     io_lift (of_option (Foreign ''json'') (value_from_str K response))))"

definition read_payload :: "string \<Rightarrow> string \<Rightarrow> json" where
  "read_payload channel tpc =
     JObject [(''method'', JString ''read''), (''params'', JObject [(''options'', JObject
       [(''channel'', JObject [(''name'', JString channel), (''topic_type'', JString ''dev''), (''topic_name'', JString tpc)]),
        (''unread_only'', JBool True), (''peek'', JBool False)])])]"

text \<open>One element of \<open>messages\<close>: an unread text with a body and a sender.\<close>

definition unread_message :: "string \<Rightarrow> json \<Rightarrow> (string \<times> string \<times> string) list" where
  "unread_message tpc msg =
     (let content = json_get (json_get msg ''msg'') ''content''
      in if json_get content ''type'' = JString ''text'' \<and> json_get (json_get msg ''msg'') ''unread'' = JBool True then
           let message = unwrap_or (as_str (json_get (json_get content ''text'') ''body'')) [];
               sender = unwrap_or (as_str (json_get (json_get (json_get msg ''msg'') ''sender'') ''username'')) []
           in if message \<noteq> [] \<and> sender \<noteq> [] then [(sender, tpc, message)] else []
         else [])"

definition read_from_channel ::
  "('pk, 'st) kenv \<Rightarrow> string \<Rightarrow> string \<Rightarrow> string option \<Rightarrow> ('st, (string \<times> string \<times> string) list) wio" where
  "read_from_channel K channel tpc binary =
     io_bind (io_lift (value_to_string K (read_payload channel tpc))) (\<lambda>payload.
     io_bind (api_send K binary payload) (\<lambda>response.
     io_return (case as_array (json_get (json_get response ''result'') ''messages'') of
        None \<Rightarrow> [] | Some messages \<Rightarrow> concat (map (unread_message tpc) messages))))"

definition list_payload :: json where
  "list_payload = JObject [(''method'', JString ''list''),
     (''params'', JObject [(''options'', JObject [(''topic_type'', JString ''dev'')])])]"

text \<open>The channels with unread messages on one of the topics; a missing name is unwrapped.\<close>

fun unread_channels :: "string list \<Rightarrow> json list \<Rightarrow> (string \<times> string) list res" where
  "unread_channels topics [] = Ok []"
| "unread_channels topics (msg # msgs) =
     (case as_str (json_get (json_get msg ''channel'') ''topic_name'') of
        None \<Rightarrow> Panic
      | Some tpc \<Rightarrow>
          if json_get msg ''unread'' = JBool True \<and> tpc \<in> set topics then
            (case as_str (json_get (json_get msg ''channel'') ''name'') of
               None \<Rightarrow> Panic
             | Some channel \<Rightarrow> obind (unread_channels topics msgs) (\<lambda>cs. Ok ((channel, tpc) # cs)))
          else unread_channels topics msgs)"

primrec read_channels ::
  "('pk, 'st) kenv \<Rightarrow> string option \<Rightarrow> (string \<times> string) list \<Rightarrow> ('st, (string \<times> string \<times> string) list) wio" where
  "read_channels K binary [] = io_return []"
| "read_channels K binary (c # cs) =
     io_bind (read_from_channel K (fst c) (snd c) binary) (\<lambda>messages.
     io_bind (read_channels K binary cs) (\<lambda>unread. io_return (messages @ unread)))"

definition get_unread ::
  "('pk, 'st) kenv \<Rightarrow> string option \<Rightarrow> string list \<Rightarrow> ('st, (string \<times> string \<times> string) list) wio" where
  "get_unread K binary topics =
     io_bind (io_lift (value_to_string K list_payload)) (\<lambda>payload.
     io_bind (api_send K binary payload) (\<lambda>response.
     io_bind (case as_array (json_get (json_get response ''result'') ''conversations'') of
         None \<Rightarrow> io_return [] | Some messages \<Rightarrow> io_lift (unread_channels topics messages)) (\<lambda>channels.
     read_channels K binary (hash_set_order K (remdups channels)))))"

definition send_payload :: "string \<Rightarrow> string \<Rightarrow> string \<Rightarrow> string option \<Rightarrow> json" where
  "send_payload channel tpc body ttl =
     JObject [(''method'', JString ''send''), (''params'', JObject [(''options'', JObject
       ([(''channel'', JObject [(''name'', JString channel), (''topic_name'', JString tpc), (''topic_type'', JString ''dev'')]),
         (''message'', JObject [(''body'', JString body)])] @
        (case ttl of None \<Rightarrow> [] | Some t \<Rightarrow> [(''exploding_lifetime'', JString t)])))])]"

definition keybase_send ::
  "('pk, 'st) kenv \<Rightarrow> 'pk slate \<Rightarrow> string \<Rightarrow> string \<Rightarrow> string option \<Rightarrow> string option \<Rightarrow> ('st, unit) wio" where
  "keybase_send K message channel tpc ttl binary =
     io_bind (io_lift (kb_slate_to_string K message)) (\<lambda>body.
     io_bind (io_lift (value_to_string K (send_payload channel tpc body ttl))) (\<lambda>payload.
     io_bind (api_send K binary payload) (\<lambda>response.
     if as_str (json_get (json_get response ''result'') ''message'') = Some ''message sent'' then io_return ()
     else io_lift (fail KeybaseMessageSendError))))"

subsection \<open>The publisher\<close>

record keybase_publisher_state =
  kp_ttl :: "string option"
  kp_keybase_binary :: "string option"

definition keybase_publisher_new ::
  "('pk, 'st) kenv \<Rightarrow> string option \<Rightarrow> string option \<Rightarrow> ('st, keybase_publisher_state) wio" where
  "keybase_publisher_new K ttl binary =
     io_bind (keybase_broker_new K binary) (\<lambda>_. io_return \<lparr>kp_ttl = ttl, kp_keybase_binary = binary\<rparr>)"

definition keybase_post_slate :: "('pk, 'st) kenv \<Rightarrow> keybase_publisher_state \<Rightarrow> ('pk, 'st) publisher" where
  "keybase_post_slate K self slate to =
     io_bind (io_lift (keybase_from_str (address_display to))) (\<lambda>keybase_address.
     let ttl = (if username keybase_address = ''wallet713'' then None else kp_ttl self);
         tpc = (case topic keybase_address of Some t \<Rightarrow> t | None \<Rightarrow> TOPIC_WALLET713_SLATES)
     in io_bind (io_lift (address_stripped to)) (\<lambda>stripped.
        keybase_send K slate stripped tpc ttl (kp_keybase_binary self)))"

subsection \<open>The subscriber\<close>

record keybase_subscriber =
  ks_stop_signal :: bool
  ks_keybase_binary :: "string option"

definition keybase_subscriber_new :: "string option \<Rightarrow> keybase_subscriber res" where
  "keybase_subscriber_new binary = Ok \<lparr>ks_stop_signal = True, ks_keybase_binary = binary\<rparr>"

definition keybase_stop :: "keybase_subscriber \<Rightarrow> bool \<times> keybase_subscriber" where
  "keybase_stop self = (True, self\<lparr>ks_stop_signal := True\<rparr>)"

definition keybase_is_running :: "keybase_subscriber \<Rightarrow> bool" where
  "keybase_is_running self \<longleftrightarrow> \<not> ks_stop_signal self"

definition reply_topic :: "string \<Rightarrow> string" where
  "reply_topic tpc = (if tpc = TOPIC_SLATE_NEW then TOPIC_SLATE_SIGNED else TOPIC_WALLET713_SLATES)"

text \<open>One unread message; a text that is no slate leaves \<open>start\<close> by \<open>?\<close>.\<close>

definition take_message ::
  "('pk, 'sk, 'sig, 'st) wenv \<Rightarrow> ('pk, 'sk, 'sig, 'st) subscription_handler \<Rightarrow> string \<times> string \<times> string \<Rightarrow> ('st, unit) mio" where
  "take_message E H m = (case m of (sender, tpc, msg) \<Rightarrow>
     io_bind (io_lift (of_option (Foreign ''slate'') (deserialize_upgrade E msg))) (\<lambda>slate.
     h_slate H (AKeybase \<lparr>username = sender, topic = Some (reply_topic tpc)\<rparr>) slate None None))"

definition listen_topics :: "string list" where
  "listen_topics = [TOPIC_WALLET713_SLATES, TOPIC_SLATE_NEW, TOPIC_SLATE_SIGNED]"

text \<open>
  The loop, with its locals \<open>subscribed\<close> and \<open>dropped\<close>; the result is that of \<open>break\<close>, or an
  early return. The fuel is the number of rounds that are looked at.
\<close>

primrec keybase_loop ::
  "('pk, 'sk, 'sig, 'st) wenv \<Rightarrow> ('pk, 'st) kenv \<Rightarrow> ('pk, 'sk, 'sig, 'st) subscription_handler \<Rightarrow> string option \<Rightarrow>
   nat \<Rightarrow> bool \<Rightarrow> bool \<Rightarrow> ('st, unit res) mio" where
  "keybase_loop E K H binary 0 subscribed dropped = io_lift Hang"
| "keybase_loop E K H binary (Suc fuel) subscribed dropped =
     io_bind (on_world (lib_quiet (read_stop_signal K))) (\<lambda>stopped.
     if stopped then io_return (Ok ())
     else
       io_match (on_world (get_unread K binary listen_topics))
         (\<lambda>unread.
            io_bind (if \<not> subscribed then h_open H else io_return ()) (\<lambda>_.
            io_bind (if dropped then h_reestablished H else io_return ()) (\<lambda>_.
            io_bind (io_for (take_message E H) unread) (\<lambda>_.
            keybase_loop E K H binary fuel True False))))
         (\<lambda>_.
            if \<not> dropped then
              if subscribed then
                io_bind (h_dropped H) (\<lambda>_. keybase_loop E K H binary fuel subscribed True)
              else io_return (fail KeybaseNotFound)
            else keybase_loop E K H binary fuel subscribed dropped))"

definition keybase_start ::
  "('pk, 'sk, 'sig, 'st) wenv \<Rightarrow> ('pk, 'st) kenv \<Rightarrow> ('pk, 'sk, 'sig, 'st) subscription_handler \<Rightarrow> nat \<Rightarrow>
   string option \<Rightarrow> ('st, unit) mio" where
  "keybase_start E K H fuel binary =
     io_bind (keybase_loop E K H binary fuel False False) (\<lambda>result.
     case result of
       Err e \<Rightarrow> h_close H (Close_Abnormal e)
     | _ \<Rightarrow> h_close H Close_Normal)"

text \<open>\<open>start\<close> clears the stop signal first.\<close>

definition keybase_started :: "keybase_subscriber \<Rightarrow> keybase_subscriber" where
  "keybase_started self = self\<lparr>ks_stop_signal := False\<rparr>"

section \<open>The publisher\<close>

lemma api_send_keeps: "net_frame R \<Longrightarrow> upholds R (api_send K b p)"
  unfolding api_send_def
  by (intro net_frame.upholds_bind net_frame.upholds_expect net_frame.upholds_lib_quiet net_frame.upholds_lift)

interpretation kbp: publisher_contract "keybase_post_slate K pub" for K pub
proof
  have "upholds off_wallet (keybase_post_slate K pub s a)" for s a
    unfolding keybase_post_slate_def keybase_send_def
    by (intro off.upholds_rules api_send_keeps) (rule off.net_frame_axioms)
  then show "off_wallet w (snd (keybase_post_slate K pub s a w))" for w s a by (simp add: upholds_def)
qed

lemma keybase_post_to:
  assumes "keybase_valid a"
  shows "keybase_post_slate K pub s (AKeybase a) =
    keybase_send K s (username a) (unwrap_or (topic a) TOPIC_WALLET713_SLATES)
      (if username a = ''wallet713'' then None else kp_ttl pub) (kp_keybase_binary pub)"
  using kb.from_str_display [OF assms]
  by (intro ext) (simp add: keybase_post_slate_def keybase_stripped_def Let_def unwrap_or_def split: option.split)

section \<open>Reading\<close>

lemma get_unread_quiet: "upholds same_out (get_unread K b t)"
proof -
  have r: "upholds same_out (read_from_channel K c tpc b)" for c tpc
    unfolding read_from_channel_def by (intro quiet.upholds_rules api_send_keeps) (rule quiet.net_frame_axioms)
  have "upholds same_out (read_channels K b cs)" for cs
    by (induction cs) (auto intro!: quiet.upholds_rules r)
  then show ?thesis
    unfolding get_unread_def by (intro quiet.upholds_rules api_send_keeps) (auto intro: quiet.net_frame_axioms)
qed

text \<open>What is reported as unread was unread, has a body and a sender, and is on the topic asked for.\<close>

lemma unread_message_iff:
  "(sender, t, body) \<in> set (unread_message tpc msg) \<longleftrightarrow>
     t = tpc \<and> sender \<noteq> [] \<and> body \<noteq> [] \<and>
     json_get (json_get (json_get msg ''msg'') ''content'') ''type'' = JString ''text'' \<and>
     json_get (json_get msg ''msg'') ''unread'' = JBool True \<and>
     json_get (json_get (json_get (json_get msg ''msg'') ''content'') ''text'') ''body'' = JString body \<and>
     json_get (json_get (json_get msg ''msg'') ''sender'') ''username'' = JString sender"
proof -
  have s: "as_str v = Some x \<longleftrightarrow> v = JString x" for v x by (cases v) auto
  show ?thesis by (auto simp: unread_message_def Let_def unwrap_or_def s split: option.splits)
qed

section \<open>The listener\<close>

lemma io_for_record:
  "io_for (\<lambda>m. io_bind (io_lift (of_option e (f m))) (\<lambda>_. record_event Ev_slate)) ms (w, self) = (r, (w', self')) \<Longrightarrow>
   \<exists>n. w_out w' = w_out w @ replicate n (event_text Ev_slate) \<and> (r = Ok () \<or> r = Err e)"
proof (induction ms arbitrary: w)
  case Nil
  then show ?case by (auto simp: io_return_def intro: exI [of _ 0])
next
  case (Cons m ms)
  show ?case
  proof (cases "f m")
    case None
    then show ?thesis using Cons.prems by (auto simp: io_bind_def io_lift_apply intro: exI [of _ 0])
  next
    case (Some s)
    then have "io_for (\<lambda>m. io_bind (io_lift (of_option e (f m))) (\<lambda>_. record_event Ev_slate)) ms
       (w\<lparr>w_out := w_out w @ [event_text Ev_slate]\<rparr>, self) = (r, (w', self'))"
      using Cons.prems by (simp add: io_bind_def io_lift_apply record_event_apply)
    from Cons.IH [OF this] obtain n where "w_out w' = (w_out w @ [event_text Ev_slate]) @ replicate n (event_text Ev_slate)"
      "r = Ok () \<or> r = Err e" by auto
    then show ?thesis by (intro exI [of _ "Suc n"]) simp
  qed
qed

definition start_view :: "bool \<Rightarrow> bool \<Rightarrow> listener_view" where
  "start_view subscribed dropped = (if \<not> subscribed then View_New else if dropped then View_Down else View_Up)"

lemma view_slates [simp]: "view_after View_Up (replicate n Ev_slate) = View_Up"
  by (induction n) simp_all

lemma take_message_recorder:
  "take_message E recorder = (\<lambda>m. io_bind (io_lift (of_option (Foreign ''slate'') (deserialize_upgrade E (snd (snd m)))))
     (\<lambda>_. record_event Ev_slate))"
  by (rule ext) (auto simp: take_message_def recorder_def split: prod.split)

text \<open>A round that got the unread messages: the reports before the first slate, and the slates.\<close>

definition round_pre :: "bool \<Rightarrow> bool \<Rightarrow> subscriber_event list" where
  "round_pre subscribed dropped =
     (if \<not> subscribed then [Ev_open] else []) @ (if dropped then [Ev_reestablished] else [])"

lemma round_reports:
  assumes "dn \<longrightarrow> sub"
    and "io_bind (if \<not> sub then h_open recorder else io_return ()) (\<lambda>_.
       io_bind (if dn then h_reestablished recorder else io_return ()) (\<lambda>_.
       io_bind (io_for (take_message E recorder) unread) (\<lambda>_. k))) (w, self) = (r, (w', self'))"
  obtains n wi where "w_out wi = w_out w @ map event_text (round_pre sub dn @ replicate n Ev_slate)"
    and "view_after (start_view sub dn) (round_pre sub dn @ replicate n Ev_slate) = View_Up"
    and "k (wi, self) = (r, (w', self')) \<or> (w' = wi \<and> \<not> is_ok r)"
proof -
  let ?w = "w\<lparr>w_out := w_out w @ map event_text (round_pre sub dn)\<rparr>"
  have run: "io_bind (io_for (take_message E recorder) unread) (\<lambda>_. k) (?w, self) = (r, (w', self'))"
    using assms
    by (cases sub; cases dn)
      (simp_all add: round_pre_def recorder_def io_bind_apply_Ok [where m = "record_event _", OF record_event_apply])
  obtain q wi s1 where q: "io_for (take_message E recorder) unread (?w, self) = (q, (wi, s1))" by (metis prod.exhaust)
  from io_for_record [OF q [unfolded take_message_recorder]] obtain n where
    n: "w_out wi = w_out w @ map event_text (round_pre sub dn) @ replicate n (event_text Ev_slate)" "q = Ok () \<or> q = Err (Foreign ''slate'')" by auto
  have s1: "s1 = self"
  proof -
    have "snd (snd (io_for (take_message E recorder) unread (v, self))) = self" for v
    proof (induction unread arbitrary: v)
      case (Cons m ms)
      then show ?case
        by (cases "deserialize_upgrade E (snd (snd m))")
          (simp_all add: take_message_recorder io_bind_def io_lift_apply record_event_apply)
    qed (simp add: io_return_def)
    then show ?thesis using q by (metis snd_conv)
  qed
  show ?thesis
  proof (rule that [of wi n])
    show "w_out wi = w_out w @ map event_text (round_pre sub dn @ replicate n Ev_slate)" using n(1) by simp
    show "view_after (start_view sub dn) (round_pre sub dn @ replicate n Ev_slate) = View_Up"
      using assms(1) by (auto simp: round_pre_def start_view_def)
    show "k (wi, self) = (r, (w', self')) \<or> (w' = wi \<and> \<not> is_ok r)"
      using run q n(2) s1 by (auto simp: io_bind_def)
  qed
qed

text \<open>One round of the loop, by what the stop signal and the unread messages turn out to be.\<close>

lemma loop_stopped:
  assumes "lib_quiet (read_stop_signal K) w = (st, w1)" and "st \<noteq> Ok False"
  shows "snd (keybase_loop E K H b (Suc fuel) sub dn (w, self)) = (w1, self) \<and>
    (st = Ok True \<longrightarrow> fst (keybase_loop E K H b (Suc fuel) sub dn (w, self)) = Ok (Ok ()))"
  using assms by (cases st) (auto simp: io_bind_def on_world_def io_return_def)

lemma loop_polled:
  assumes "lib_quiet (read_stop_signal K) w = (Ok False, w1)"
  shows "keybase_loop E K H b (Suc fuel) sub dn (w, self) =
    io_match (on_world (get_unread K b listen_topics))
         (\<lambda>unread.
            io_bind (if \<not> sub then h_open H else io_return ()) (\<lambda>_.
            io_bind (if dn then h_reestablished H else io_return ()) (\<lambda>_.
            io_bind (io_for (take_message E H) unread) (\<lambda>_.
            keybase_loop E K H b fuel True False))))
         (\<lambda>_.
            if \<not> dn then
              if sub then io_bind (h_dropped H) (\<lambda>_. keybase_loop E K H b fuel sub True)
              else io_return (fail KeybaseNotFound)
            else keybase_loop E K H b fuel sub dn) (w1, self)"
proof -
  have "on_world (lib_quiet (read_stop_signal K)) (w, self) = (Ok False, (w1, self))" using assms by (simp add: on_world_def)
  then show ?thesis unfolding keybase_loop.simps by (subst io_bind_apply_Ok, assumption) simp
qed

lemma loop_unread:
  assumes "lib_quiet (read_stop_signal K) w = (Ok False, w1)" and "get_unread K b listen_topics w1 = (Ok unread, w2)"
  shows "keybase_loop E K H b (Suc fuel) sub dn (w, self) =
    io_bind (if \<not> sub then h_open H else io_return ()) (\<lambda>_.
    io_bind (if dn then h_reestablished H else io_return ()) (\<lambda>_.
    io_bind (io_for (take_message E H) unread) (\<lambda>_. keybase_loop E K H b fuel True False))) (w2, self)"
  unfolding loop_polled [OF assms(1)] io_match_def using assms(2) by (simp add: on_world_def)

lemma loop_failed:
  assumes "lib_quiet (read_stop_signal K) w = (Ok False, w1)" and "get_unread K b listen_topics w1 = (Err e, w2)"
  shows "keybase_loop E K H b (Suc fuel) sub dn (w, self) =
    (if \<not> dn then
       if sub then io_bind (h_dropped H) (\<lambda>_. keybase_loop E K H b fuel sub True)
       else io_return (fail KeybaseNotFound)
     else keybase_loop E K H b fuel sub dn) (w2, self)"
  unfolding loop_polled [OF assms(1)] io_match_def using assms(2) by (simp add: on_world_def)

text \<open>From one world to another, reports that a listener in view \<open>v\<close> may make without closing.\<close>

definition reported :: "listener_view \<Rightarrow> 'st world \<Rightarrow> 'st world \<Rightarrow> bool" where
  "reported v w w' \<longleftrightarrow> (\<exists>es. w_out w' = w_out w @ map event_text es \<and> view_after v es \<notin> {View_Broken, View_Closed})"

lemma reported_refl: "reported (start_view sub dn) w w"
  by (auto simp: reported_def start_view_def intro: exI [of _ "[]"])

lemma reported_append:
  assumes "w_out w1 = w_out w @ map event_text es" and "reported (view_after v es) w1 w2"
  shows "reported v w w2"
proof -
  obtain es' where "w_out w2 = w_out w1 @ map event_text es'" "view_after (view_after v es) es' \<notin> {View_Broken, View_Closed}"
    using assms(2) by (auto simp: reported_def)
  then show ?thesis using assms(1) by (auto simp: reported_def intro!: exI [of _ "es @ es'"])
qed

lemma reported_out: "w_out w1 = w_out w \<Longrightarrow> reported v w1 w2 \<longleftrightarrow> reported v w w2"
  by (simp add: reported_def)

lemma failed_round_reported:
  assumes "\<And>sub dn v. keybase_loop E K recorder b fuel sub dn (v, self) = (r, (w', self')) \<Longrightarrow> dn \<longrightarrow> sub \<Longrightarrow>
      reported (start_view sub dn) v w'"
    and "(if \<not> dn then
       if sub then io_bind (h_dropped recorder) (\<lambda>_. keybase_loop E K recorder b fuel sub True)
       else io_return (fail KeybaseNotFound)
     else keybase_loop E K recorder b fuel sub dn) (w, self) = (r, (w', self'))" and "dn \<longrightarrow> sub"
  shows "reported (start_view sub dn) w w'"
proof (cases "sub \<and> \<not> dn")
  case True
  let ?w = "w\<lparr>w_out := w_out w @ [event_text Ev_dropped]\<rparr>"
  have "keybase_loop E K recorder b fuel True True (?w, self) = (r, (w', self'))"
    using assms(2) True by (simp add: io_bind_def recorder_def record_event_apply)
  from assms(1) [OF this] show ?thesis
    using reported_append [of ?w w "[Ev_dropped]" "start_view sub dn" w'] True by (simp add: start_view_def)
next
  case False
  then show ?thesis using assms by (cases dn) (auto simp: io_return_def reported_refl)
qed

lemma loop_reported:
  assumes "keybase_loop E K recorder b fuel sub dn (w, self) = (r, (w', self'))" and "dn \<longrightarrow> sub"
  shows "reported (start_view sub dn) w w'"
  using assms
proof (induction fuel arbitrary: sub dn w)
  case 0
  then show ?case by (simp add: io_lift_apply reported_refl)
next
  case (Suc fuel)
  obtain st w1 where st: "lib_quiet (read_stop_signal K) w = (st, w1)" by fastforce
  have o1: "w_out w1 = w_out w" using upholdsD [OF quiet.upholds_lib_quiet st] by (simp add: same_out_def)
  obtain g w2 where g: "get_unread K b listen_topics w1 = (g, w2)" by fastforce
  have o2: "w_out w2 = w_out w" using upholdsD [OF get_unread_quiet g] o1 by (simp add: same_out_def)
  show ?case
  proof (cases "st = Ok False")
    case False
    then show ?thesis
      using loop_stopped [OF st False, of E recorder b fuel sub dn self] Suc.prems(1)
        reported_out [OF o1, of "start_view sub dn" w1] reported_refl [of sub dn w1] by simp
  next
    case True
    note st = st [unfolded True]
    show ?thesis
    proof (cases g)
      case (Ok unread)
      from round_reports [OF Suc.prems(2) Suc.prems(1) [unfolded loop_unread [OF st g [unfolded Ok]]]]
      obtain n wi where wi: "w_out wi = w_out w2 @ map event_text (round_pre sub dn @ replicate n Ev_slate)"
        "view_after (start_view sub dn) (round_pre sub dn @ replicate n Ev_slate) = View_Up"
        "keybase_loop E K recorder b fuel True False (wi, self) = (r, (w', self')) \<or> (w' = wi \<and> \<not> is_ok r)" by metis
      then have "reported View_Up wi w'"
        using Suc.IH [of True False wi] reported_refl [of True False wi] by (auto simp: start_view_def)
      then show ?thesis using reported_append [OF wi(1)] wi(2) reported_out [OF o2] by simp
    next
      case (Err e)
      show ?thesis
        using failed_round_reported [OF Suc.IH Suc.prems(1) [unfolded loop_failed [OF st g [unfolded Err]]] Suc.prems(2)]
          reported_out [OF o2] by simp
    qed (use Suc.prems(1) [unfolded loop_polled [OF st]] g reported_out [OF o2, of "start_view sub dn" w2] reported_refl [of sub dn w2] in \<open>auto simp: io_match_def on_world_def\<close>)
  qed
qed

lemma inj_event_text: "inj event_text"
proof
  show "event_text a = event_text b \<Longrightarrow> a = b" for a b by (cases a; cases b) (auto split: if_splits)
qed

text \<open>What the listener reports, whatever it meets in however many rounds.\<close>

definition keybase_reports ::
  "('pk, 'sk, 'sig, 'st) wenv \<Rightarrow> ('pk, 'st) kenv \<Rightarrow> string option \<Rightarrow> subscriber_event list \<Rightarrow> bool" where
  "keybase_reports E K b es \<longleftrightarrow> (\<exists>fuel w self r w' self'.
     keybase_start E K recorder fuel b (w, self) = (r, (w', self')) \<and> w_out w' = w_out w @ map event_text es)"

lemma start_reported:
  assumes "keybase_start E K recorder fuel b (w, self) = (r, (w', self'))"
  shows "\<exists>es. w_out w' = w_out w @ map event_text es \<and> view_after View_New es \<noteq> View_Broken \<and>
    (r = Ok () \<longleftrightarrow> view_after View_New es = View_Closed)"
proof -
  obtain q w1 self1 where q: "keybase_loop E K recorder b fuel False False (w, self) = (q, (w1, self1))" by (metis prod.exhaust)
  obtain es where es: "w_out w1 = w_out w @ map event_text es" "view_after View_New es \<notin> {View_Broken, View_Closed}"
    using loop_reported [OF q] by (auto simp: reported_def start_view_def)
  show ?thesis
  proof (cases q)
    case (Ok res)
    have "\<exists>ok. w_out w' = w_out w1 @ [event_text (Ev_close ok)] \<and> r = Ok ()"
      using assms q Ok by (cases res) (auto simp: keybase_start_def io_bind_def recorder_def record_event_apply
          simp del: event_text.simps)
    then obtain ok where "w_out w' = w_out w1 @ [event_text (Ev_close ok)]" "r = Ok ()" by blast
    moreover have "view_step (view_after View_New es) (Ev_close ok) = View_Closed"
      using es(2) by (cases "view_after View_New es") auto
    ultimately show ?thesis using es(1) by (intro exI [of _ "es @ [Ev_close ok]"]) simp
  qed (use assms q es in \<open>auto simp: keybase_start_def io_bind_def\<close>)
qed

interpretation kbs: subscriber_contract "keybase_reports E K b" for E K b
proof
  fix es assume "keybase_reports E K b es"
  then obtain fuel w self r w' self' where run: "keybase_start E K recorder fuel b (w, self) = (r, (w', self'))"
    and out: "w_out w' = w_out w @ map event_text es" by (auto simp: keybase_reports_def)
  from start_reported [OF run] out show "view_after View_New es \<noteq> View_Broken"
    using inj_map_eq_map [OF inj_event_text] by auto
qed

section \<open>Properties\<close>

text \<open>
  C40: the keybase listener reports in order, whatever the keybase program answers in however
  many rounds: open before anything else, slates only while the program answers, a loss once
  and before the recovery, the end last. The end is reported exactly when \<open>start\<close> returns
  without an error.
\<close>

theorem keybase_reports_in_order:
  assumes "keybase_start E K recorder fuel b (w, self) = (r, (w', self'))"
  shows "\<exists>es. w_out w' = w_out w @ map event_text es \<and> view_after View_New es \<noteq> View_Broken \<and>
    (r = Ok () \<longleftrightarrow> view_after View_New es = View_Closed)"
  using assms by (rule start_reported)

text \<open>
  The answer to a slate goes back where it is awaited: the address handed to the handler
  with a received slate makes the publisher send to the channel of the sender, on a topic every
  listener reads, and without a lifetime for the one user that does not take it.
\<close>

theorem keybase_reply_returns:
  assumes "keybase_valid \<lparr>username = sender, topic = Some (reply_topic tpc)\<rparr>" and "deserialize_upgrade E msg = Some slate"
  shows "\<exists>a. take_message E H (sender, tpc, msg) = h_slate H (AKeybase a) slate None None \<and>
    keybase_post_slate K pub s (AKeybase a) =
      keybase_send K s sender (reply_topic tpc) (if sender = ''wallet713'' then None else kp_ttl pub) (kp_keybase_binary pub) \<and>
    reply_topic tpc \<in> set listen_topics"
proof -
  let ?a = "\<lparr>username = sender, topic = Some (reply_topic tpc)\<rparr>"
  have "take_message E H (sender, tpc, msg) = h_slate H (AKeybase ?a) slate None None"
    using assms(2) by (simp add: take_message_def)
  moreover have "reply_topic tpc \<in> set listen_topics" by (simp add: reply_topic_def listen_topics_def)
  ultimately show ?thesis using keybase_post_to [OF assms(1), of K pub s] by (auto simp: unwrap_or_def)
qed

text \<open>
  A message that is no slate ends the listener: \<open>start\<close> returns the error at once, the
  remaining messages are lost, no close is reported, and the subscriber still says it is
  running, since the stop signal is not set.
\<close>

theorem keybase_bad_message_stops:
  assumes "lib_quiet (read_stop_signal K) w = (Ok False, w1)"
    and "get_unread K b listen_topics w1 = (Ok ((sender, tpc, msg) # rest), w2)"
    and "deserialize_upgrade E msg = None" and "h_open H (w2, self) = (Ok (), (w3, self3))"
  shows "keybase_start E K H (Suc fuel) b (w, self) = (Err (Foreign ''slate''), (w3, self3)) \<and>
    keybase_is_running (keybase_started sub)"
proof -
  have "take_message E H (sender, tpc, msg) v = (Err (Foreign ''slate''), v)" for v
    using assms(3) by (simp add: take_message_def io_bind_def io_lift_apply)
  then have "keybase_loop E K H b (Suc fuel) False False (w, self) = (Err (Foreign ''slate''), (w3, self3))"
    unfolding loop_unread [OF assms(1,2)] using assms(4) by (simp add: io_bind_def io_return_def)
  then show ?thesis by (simp add: keybase_start_def io_bind_def keybase_is_running_def keybase_started_def
        del: keybase_loop.simps)
qed

text \<open>A conversation without a topic name, which is unwrapped before the unread flag is looked at, panics.\<close>

lemma keybase_missing_topic_panics:
  "as_str (json_get (json_get msg ''channel'') ''topic_name'') = None \<Longrightarrow> unread_channels topics (msg # msgs) = Panic"
  by simp

section \<open>Witnesses\<close>

definition demo_chat :: json where
  "demo_chat = JObject [(''result'', JObject
     [(''conversations'', JArray [JObject [(''channel'', JObject [(''name'', JString ''bob''), (''topic_name'', JString ''grin_slate_new'')]),
        (''unread'', JBool True)]]),
      (''messages'', JArray [JObject [(''msg'', JObject
        [(''content'', JObject [(''type'', JString ''text''), (''text'', JObject [(''body'', JString ''hi'')])]),
         (''unread'', JBool True), (''sender'', JObject [(''username'', JString ''bob'')])])]])])]"

definition demo_kenv :: "(bytes, unit) kenv" where
  "demo_kenv = \<lparr>target_windows = False, path_exists = (\<lambda>_ s. (Ok True, s)), command_status = (\<lambda>_ _ s. (Ok True, s)),
     command_output = (\<lambda>_ _ s. (Ok [], s)), value_to_string = (\<lambda>_. Ok []), value_from_str = (\<lambda>_. Some demo_chat),
     kb_slate_to_string = (\<lambda>_. Ok []), hash_set_order = (\<lambda>cs. cs), read_stop_signal = (\<lambda>s. (Ok False, s))\<rparr>"

lemma demo_unread: "get_unread demo_kenv None listen_topics demo_world = (Ok [(''bob'', ''grin_slate_new'', ''hi'')], demo_world)"
  by (simp add: get_unread_def read_from_channel_def api_send_def demo_kenv_def demo_chat_def io_expect_def io_match_def
      io_bind_def io_lift_apply io_return_def lib_quiet_def body_utf8_def from_utf8_def unread_message_def
      listen_topics_def TOPIC_SLATE_NEW_def TOPIC_WALLET713_SLATES_def TOPIC_SLATE_SIGNED_def unwrap_or_def Let_def demo_world_def)

lemma demo_polled: "lib_quiet (read_stop_signal demo_kenv) demo_world = (Ok False, demo_world)"
  by (simp add: lib_quiet_def demo_kenv_def demo_world_def)

definition demo_no_slate_wenv :: "(bytes, bytes, bytes, unit) wenv" where
  "demo_no_slate_wenv = demo_wenv\<lparr>deserialize_upgrade := (\<lambda>_. None)\<rparr>"

theorem keybase_bad_message_stops_witness:
  "\<exists>w self. keybase_start demo_no_slate_wenv demo_kenv recorder 1 None (demo_world, demo_wallet) = (Err (Foreign ''slate''), (w, self))"
proof -
  have "deserialize_upgrade demo_no_slate_wenv ''hi'' = None" by (simp add: demo_no_slate_wenv_def)
  moreover obtain w3 self3 where
    "h_open (recorder :: (bytes, bytes, bytes, unit) subscription_handler) (demo_world, demo_wallet) = (Ok (), (w3, self3))"
    by (simp add: recorder_def record_event_apply)
  ultimately have "keybase_start demo_no_slate_wenv demo_kenv recorder (Suc 0) None (demo_world, demo_wallet) =
      (Err (Foreign ''slate''), (w3, self3))"
    using keybase_bad_message_stops [OF demo_polled demo_unread] by blast
  then show ?thesis by auto
qed

theorem keybase_reports_in_order_witness:
  "\<exists>r w' self' es. keybase_start demo_wenv demo_kenv recorder 3 None (demo_world, demo_wallet) = (r, (w', self')) \<and>
     w_out w' = map event_text es \<and> view_after View_New es \<noteq> View_Broken"
proof -
  obtain r w' self' where e: "keybase_start demo_wenv demo_kenv recorder 3 None (demo_world, demo_wallet) = (r, (w', self'))"
    by (metis prod.exhaust)
  from keybase_reports_in_order [OF e] show ?thesis unfolding e by (simp add: demo_world_def) blast
qed

theorem keybase_reply_returns_witness:
  "\<exists>a. keybase_post_slate demo_kenv \<lparr>kp_ttl = Some ''24h'', kp_keybase_binary = None\<rparr> demo_slate (AKeybase a) =
     keybase_send demo_kenv demo_slate ''bob'' ''grin_slate_signed'' (Some ''24h'') None"
proof -
  have v: "keybase_valid \<lparr>username = ''bob'', topic = Some (reply_topic ''grin_slate_new'')\<rparr>" by code_simp
  have d: "deserialize_upgrade (demo_wenv\<lparr>deserialize_upgrade := \<lambda>_. Some demo_slate\<rparr>) ''hi'' = Some demo_slate" by simp
  have t: "reply_topic ''grin_slate_new'' = ''grin_slate_signed''" by code_simp
  from keybase_reply_returns [OF v d, of recorder demo_kenv "\<lparr>kp_ttl = Some ''24h'', kp_keybase_binary = None\<rparr>" demo_slate]
  show ?thesis by (auto simp: t)
qed

end
