(* ===== verification/Grinbox.thy ===== *)
theory Grinbox
  imports Broker
begin

text \<open>
  The web-socket broker: \<open>src/src/broker/protocol.rs\<close> and \<open>src/src/broker/grinbox.rs\<close>. Posting
  and the callbacks of a connection are functions on the world; the web-socket crate, JSON and
  the random numbers are fields of \<open>genv\<close>, and a \<open>Sender\<close> is a connection number. The loop of
  \<open>subscribe\<close>, with the connections that come and go and the user's \<open>stop\<close> at any moment, is a
  step relation. Messages are modelled without their colours.
\<close>

section \<open>The code\<close>

subsection \<open>The protocol\<close>

datatype protocol_error = UnknownError | InvalidRequest | InvalidSignature | InvalidChallenge | TooManySubscriptions

fun protocol_error_display :: "protocol_error \<Rightarrow> string" where
  "protocol_error_display UnknownError = ''unknown error!''"
| "protocol_error_display InvalidRequest = ''invalid request!''"
| "protocol_error_display InvalidSignature = ''invalid signature!''"
| "protocol_error_display InvalidChallenge = ''invalid challenge!''"
| "protocol_error_display TooManySubscriptions = ''too many subscriptions!''"

datatype protocol_request =
    Req_Challenge
  | Req_Subscribe (rq_address: string) (rq_signature: string)
  | Req_PostSlate (rq_from: string) (rq_to: string) (rq_str: string) (rq_post_signature: string)
  | Req_Unsubscribe (rq_unsubscribed: string)

fun protocol_request_display :: "protocol_request \<Rightarrow> string" where
  "protocol_request_display Req_Challenge = ''Challenge''"
| "protocol_request_display (Req_Subscribe address _) = ''Subscribe to '' @ address"
| "protocol_request_display (Req_Unsubscribe address) = ''Unsubscribe from '' @ address"
| "protocol_request_display (Req_PostSlate from to _ _) = ''PostSlate from '' @ from @ '' to '' @ to"

datatype protocol_response =
    Resp_Ok
  | Resp_Error protocol_error string
  | Resp_Challenge string
  | Resp_Slate string string string string

fun protocol_response_display :: "protocol_response \<Rightarrow> string" where
  "protocol_response_display Resp_Ok = ''Ok''"
| "protocol_response_display (Resp_Error kind _) = ''error: '' @ protocol_error_display kind"
| "protocol_response_display (Resp_Challenge str) = ''Challenge '' @ str"
| "protocol_response_display (Resp_Slate from _ _ _) = ''Slate from '' @ from"

text \<open>The web-socket crate, JSON and randomness. Timers and pings go to a connection.\<close>

record ('pk, 'st) genv =
  request_to_json :: "protocol_request \<Rightarrow> string res"
  response_from_json :: "string \<Rightarrow> protocol_response option"
  slate_to_string :: "'pk slate \<Rightarrow> string res"
  message_to_json :: "encrypted_message \<Rightarrow> string res"
  rng :: "('st, bytes \<times> bytes) lio"
  ws_send :: "nat \<Rightarrow> string \<Rightarrow> ('st, unit) lio"
  ws_timeout :: "nat \<Rightarrow> nat \<Rightarrow> nat \<Rightarrow> ('st, unit) lio"
  ws_ping :: "nat \<Rightarrow> ('st, unit) lio"

subsection \<open>Publisher and subscriber\<close>

record grinbox_broker =
  br_inner :: "nat option"
  br_protocol_unsecure :: bool

definition grinbox_broker_new :: "bool \<Rightarrow> grinbox_broker res" where
  "grinbox_broker_new protocol_unsecure = Ok \<lparr>br_inner = None, br_protocol_unsecure = protocol_unsecure\<rparr>"

definition broker_is_running :: "grinbox_broker \<Rightarrow> bool" where
  "broker_is_running self \<longleftrightarrow> br_inner self \<noteq> None"

text \<open>\<open>stop\<close> also sends a close frame, whose result is ignored.\<close>

definition broker_stop :: "grinbox_broker \<Rightarrow> grinbox_broker" where
  "broker_stop self = self\<lparr>br_inner := None\<rparr>"

record 'sk grinbox_publisher_state =
  gp_address :: grinbox_address
  gp_broker :: grinbox_broker
  gp_secret_key :: 'sk
  gp_config :: "'sk wallet713_config"

definition grinbox_publisher_new ::
  "grinbox_address \<Rightarrow> 'sk \<Rightarrow> bool \<Rightarrow> 'sk wallet713_config \<Rightarrow> 'sk grinbox_publisher_state res" where
  "grinbox_publisher_new address secret_key protocol_unsecure config =
     obind (grinbox_broker_new protocol_unsecure) (\<lambda>broker.
     Ok \<lparr>gp_address = address, gp_broker = broker, gp_secret_key = secret_key, gp_config = config\<rparr>)"

record 'sk grinbox_subscriber =
  gs_address :: grinbox_address
  gs_broker :: grinbox_broker
  gs_secret_key :: 'sk
  gs_config :: "'sk wallet713_config"

definition grinbox_subscriber_new :: "'sk grinbox_publisher_state \<Rightarrow> 'sk grinbox_subscriber res" where
  "grinbox_subscriber_new publisher =
     Ok \<lparr>gs_address = gp_address publisher, gs_broker = gp_broker publisher,
         gs_secret_key = gp_secret_key publisher, gs_config = gp_config publisher\<rparr>"

definition subscriber_stop :: "'sk grinbox_subscriber \<Rightarrow> bool \<times> 'sk grinbox_subscriber" where
  "subscriber_stop self = (True, self\<lparr>gs_broker := broker_stop (gs_broker self)\<rparr>)"

definition subscriber_is_running :: "'sk grinbox_subscriber \<Rightarrow> bool" where
  "subscriber_is_running self = broker_is_running (gs_broker self)"

definition generate_signature :: "('pk, 'sk, 'sig, 'st) wenv \<Rightarrow> string \<Rightarrow> 'sk \<Rightarrow> string res" where
  "generate_signature E challenge secret_key =
     obind (unwrap (sign_challenge (sha256 E) E challenge secret_key)) (\<lambda>signature.
     Ok (signature_to_hex E signature))"

text \<open>\<open>GrinboxBroker::post_slate\<close>. The connection is read twice, first to ask whether the broker runs.\<close>

definition broker_post_slate ::
  "('pk, 'sk, 'sig, 'st) wenv \<Rightarrow> ('pk, 'st) genv \<Rightarrow> bool \<Rightarrow> nat option \<Rightarrow> 'pk slate \<Rightarrow> grinbox_address \<Rightarrow>
   grinbox_address \<Rightarrow> 'sk \<Rightarrow> ('st, unit) wio" where
  "broker_post_slate E G running inner slate to from secret_key =
     (if \<not> running then io_lift (fail (ClosedListener ''mwcmq''))
      else
        io_bind (io_lift (grinbox_public_key E to)) (\<lambda>pkey.
        io_bind (io_lift (slate_to_string G slate)) (\<lambda>text.
        io_bind (lib_quiet (rng G)) (\<lambda>(salt, nonce).
        io_bind (io_lift (omap_err (\<lambda>_. Foreign ''could not encrypt slate!'')
                   (encrypted_message_new E salt nonce text to pkey secret_key))) (\<lambda>message.
        io_bind (io_lift (message_to_json G message)) (\<lambda>message_ser.
        io_bind (io_lift (generate_signature E message_ser secret_key)) (\<lambda>signature.
        io_bind (io_lift (grinbox_stripped from)) (\<lambda>from_stripped.
        io_bind (io_lift (grinbox_stripped to)) (\<lambda>to_stripped.
        let request = Req_PostSlate from_stripped to_stripped message_ser signature
        in case inner of
             Some sender \<Rightarrow>
               io_bind (io_lift (unwrap (request_to_json G request))) (\<lambda>t.
               io_map_err (\<lambda>_. Kind (GenericError ''failed posting slate!'')) (lib_quiet (ws_send G sender t)))
           | None \<Rightarrow> io_lift (fail (GenericError ''failed posting slate!'')))))))))))"

definition grinbox_post_slate ::
  "('pk, 'sk, 'sig, 'st) wenv \<Rightarrow> ('pk, 'st) genv \<Rightarrow> 'sk grinbox_publisher_state \<Rightarrow> ('pk, 'st) publisher" where
  "grinbox_post_slate E G self slate to =
     io_bind (io_lift (grinbox_from_str E (address_display to))) (\<lambda>to.
     broker_post_slate E G (broker_is_running (gp_broker self)) (br_inner (gp_broker self)) slate to
       (gp_address self) (gp_secret_key self))"

subsection \<open>A connection\<close>

definition KEEPALIVE_TOKEN :: nat where
  "KEEPALIVE_TOKEN = 1"

definition KEEPALIVE_INTERVAL_MS :: nat where
  "KEEPALIVE_INTERVAL_MS = 30000"

record connection_metadata =
  cm_retries :: u32
  cm_connected_at_least_once :: bool

definition connection_metadata_new :: connection_metadata where
  "connection_metadata_new = \<lparr>cm_retries = 0, cm_connected_at_least_once = False\<rparr>"

record 'sk grinbox_client =
  gc_sender :: nat
  gc_challenge :: "string option"
  gc_address :: grinbox_address
  gc_secret_key :: 'sk
  gc_config :: "'sk wallet713_config"

text \<open>A callback of a connection: on the world, the wallet, the client and the shared metadata.\<close>

type_synonym ('sk, 'st, 'a) gio = "(err, 'st world \<times> wallet \<times> 'sk grinbox_client \<times> connection_metadata, 'a) io"

definition on_handler :: "('st, 'a) mio \<Rightarrow> (err, 'st world \<times> wallet \<times> 'x, 'a) io" where
  "on_handler m = (\<lambda>(w, self, x). case m (w, self) of (r, (w', self')) \<Rightarrow> (r, (w', self', x)))"

definition get_client :: "('sk, 'st, 'sk grinbox_client) gio" where
  "get_client = (\<lambda>(w, self, c, m). (Ok c, (w, self, c, m)))"

definition set_client :: "('sk grinbox_client \<Rightarrow> 'sk grinbox_client) \<Rightarrow> ('sk, 'st, unit) gio" where
  "set_client f = (\<lambda>(w, self, c, m). (Ok (), (w, self, f c, m)))"

definition get_meta :: "('sk, 'st, connection_metadata) gio" where
  "get_meta = (\<lambda>(w, self, c, m). (Ok m, (w, self, c, m)))"

definition set_meta :: "(connection_metadata \<Rightarrow> connection_metadata) \<Rightarrow> ('sk, 'st, unit) gio" where
  "set_meta f = (\<lambda>(w, self, c, m). (Ok (), (w, self, c, f m)))"

definition client_send ::
  "('pk, 'st) genv \<Rightarrow> 'sk grinbox_client \<Rightarrow> protocol_request \<Rightarrow> ('st, unit) wio" where
  "client_send G self request =
     io_bind (io_lift (unwrap (request_to_json G request))) (\<lambda>t. lib_quiet (ws_send G (gc_sender self) t))"

definition client_subscribe ::
  "('pk, 'sk, 'sig, 'st) wenv \<Rightarrow> ('pk, 'st) genv \<Rightarrow> 'sk grinbox_client \<Rightarrow> string \<Rightarrow> ('st, unit) wio" where
  "client_subscribe E G self challenge =
     io_bind (io_lift (generate_signature E challenge (gc_secret_key self))) (\<lambda>signature.
     io_expect (client_send G self (Req_Subscribe (gb_public_key (gc_address self)) signature)))"

definition client_on_open ::
  "('pk, 'st) genv \<Rightarrow> ('pk, 'sk, 'sig, 'st) subscription_handler \<Rightarrow> ('sk, 'st, unit) gio" where
  "client_on_open G H =
     io_bind get_meta (\<lambda>guard.
     io_bind (if cm_connected_at_least_once guard then on_handler (h_reestablished H)
              else io_bind (on_handler (h_open H)) (\<lambda>_. set_meta (\<lambda>m. m\<lparr>cm_connected_at_least_once := True\<rparr>))) (\<lambda>_.
     io_bind (set_meta (\<lambda>m. m\<lparr>cm_retries := 0\<rparr>)) (\<lambda>_.
     io_bind get_client (\<lambda>self.
     on_world (lib_quiet (ws_timeout G (gc_sender self) KEEPALIVE_INTERVAL_MS KEEPALIVE_TOKEN))))))"

definition client_on_timeout :: "('pk, 'st) genv \<Rightarrow> nat \<Rightarrow> ('sk, 'st, unit) gio" where
  "client_on_timeout G event =
     (if event = KEEPALIVE_TOKEN then
        io_bind get_client (\<lambda>self.
        io_bind (on_world (lib_quiet (ws_ping G (gc_sender self)))) (\<lambda>_.
        on_world (lib_quiet (ws_timeout G (gc_sender self) KEEPALIVE_INTERVAL_MS KEEPALIVE_TOKEN))))
      else io_lift (Err (Foreign ''Invalid timeout token encountered!'')))"

definition client_on_message ::
  "('pk, 'sk, 'sig, 'st) wenv \<Rightarrow> ('pk, 'st) genv \<Rightarrow> ('pk, 'sk, 'sig, 'st) subscription_handler \<Rightarrow> string \<Rightarrow>
   ('sk, 'st, unit) gio" where
  "client_on_message E G H msg =
     (case response_from_json G msg of
        None \<Rightarrow> on_world (println ''Error: could not parse response'')
      | Some response \<Rightarrow>
          (case response of
             Resp_Challenge str \<Rightarrow>
               io_bind (set_client (\<lambda>c. c\<lparr>gc_challenge := Some str\<rparr>)) (\<lambda>_.
               io_bind get_client (\<lambda>self.
               io_map_err (\<lambda>_. Foreign ''error attempting to subscribe!'') (on_world (client_subscribe E G self str))))
           | Resp_Slate from str signature challenge \<Rightarrow>
               io_bind get_client (\<lambda>self.
               io_match (io_lift (from_response E from str challenge signature (gc_secret_key self) (Some (gc_address self))))
                 (\<lambda>(slate, tx_proof). on_handler
                    (h_slate H (AGrinbox (tp_address tx_proof)) slate (Some tx_proof) (Some (gc_config self))))
                 (\<lambda>err. on_world (println (''Error: '' @ err_display err))))
           | Resp_Error _ _ \<Rightarrow> on_world (println (''Error: '' @ protocol_response_display response))
           | Resp_Ok \<Rightarrow> io_return ()))"

subsection \<open>The subscriber's loop\<close>

definition subscribe_url :: "bool \<Rightarrow> grinbox_address \<Rightarrow> string" where
  "subscribe_url protocol_unsecure address =
     (if protocol_unsecure then ''ws://'' else ''wss://'') @ gb_domain address @ '':'' @
     show_nat (unat (unwrap_or (gb_port address) DEFAULT_GRINBOX_PORT))"

text \<open>
  \<open>min(32, 2u64.pow(retries))\<close>: the power overflows from 64 retries on, which panics in a build
  with overflow checks and wraps to 0 in one without.
\<close>

definition backoff_secs :: "bool \<Rightarrow> u32 \<Rightarrow> u64 res" where
  "backoff_secs overflow_checks retries =
     (if 64 \<le> unat retries \<and> overflow_checks then Panic else Ok (min 32 (2 ^ unat retries)))"

text \<open>
  Where the listener thread is: in \<open>connect\<close>, before the client was made, before the handshake,
  or open; back from \<open>connect\<close> with a result; asleep before the next attempt; at the end of the
  loop, or dead of an overflow.
\<close>

datatype subscriber_phase =
    Connecting | Made | Opened | Returned bool | Sleeping | Finished | Dead

record subscribe_state =
  ss_inner :: "nat option"
  ss_meta :: connection_metadata
  ss_phase :: subscriber_phase
  ss_senders :: nat
  ss_events :: "subscriber_event list"

definition subscribe_init :: subscribe_state where
  "subscribe_init = \<lparr>ss_inner = None, ss_meta = connection_metadata_new, ss_phase = Connecting,
     ss_senders = 0, ss_events = []\<rparr>"

definition emit :: "subscriber_event \<Rightarrow> subscribe_state \<Rightarrow> subscribe_state" where
  "emit e s = s\<lparr>ss_events := ss_events s @ [e]\<rparr>"

definition meta_opened :: "connection_metadata \<Rightarrow> connection_metadata" where
  "meta_opened m = m\<lparr>cm_connected_at_least_once := True, cm_retries := 0\<rparr>"

text \<open>After \<open>connect\<close>: closed if the broker was stopped, otherwise a new attempt is due.\<close>

definition after_connect :: "bool \<Rightarrow> bool \<Rightarrow> subscribe_state \<Rightarrow> subscribe_state" where
  "after_connect overflow_checks result_ok s =
     (case ss_inner s of
        None \<Rightarrow> (emit (Ev_close result_ok) s)\<lparr>ss_phase := Finished\<rparr>
      | Some _ \<Rightarrow>
          let m = ss_meta s;
              s = (if cm_retries m = 0 \<and> cm_connected_at_least_once m then emit Ev_dropped s else s)
          in case backoff_secs overflow_checks (cm_retries m) of
               Ok _ \<Rightarrow> s\<lparr>ss_phase := Sleeping\<rparr>
             | _ \<Rightarrow> s\<lparr>ss_phase := Dead\<rparr>)"

inductive subscribe_step :: "bool \<Rightarrow> subscribe_state \<Rightarrow> subscribe_state \<Rightarrow> bool" for overflow_checks where
  made: "ss_phase s = Connecting \<Longrightarrow>
    subscribe_step overflow_checks s (s\<lparr>ss_inner := Some (ss_senders s), ss_senders := Suc (ss_senders s), ss_phase := Made\<rparr>)"
| opened: "ss_phase s = Made \<Longrightarrow>
    subscribe_step overflow_checks s
      ((emit (if cm_connected_at_least_once (ss_meta s) then Ev_reestablished else Ev_open) s)
         \<lparr>ss_meta := meta_opened (ss_meta s), ss_phase := Opened\<rparr>)"
| slate: "ss_phase s = Opened \<Longrightarrow> subscribe_step overflow_checks s (emit Ev_slate s)"
| returned: "ss_phase s \<in> {Connecting, Made, Opened} \<Longrightarrow>
    subscribe_step overflow_checks s (s\<lparr>ss_phase := Returned result_ok\<rparr>)"
| checked: "ss_phase s = Returned result_ok \<Longrightarrow>
    subscribe_step overflow_checks s (after_connect overflow_checks result_ok s)"
| woken: "ss_phase s = Sleeping \<Longrightarrow>
    subscribe_step overflow_checks s
      (s\<lparr>ss_meta := (ss_meta s)\<lparr>cm_retries := cm_retries (ss_meta s) + 1\<rparr>, ss_phase := Connecting\<rparr>)"
| stop: "ss_inner s \<noteq> None \<Longrightarrow> subscribe_step overflow_checks s (s\<lparr>ss_inner := None\<rparr>)"

inductive_cases subscribe_stepE: "subscribe_step overflow_checks s t"

section \<open>The subscriber\<close>

abbreviation view_of :: "subscribe_state \<Rightarrow> listener_view" where
  "view_of s \<equiv> foldl view_step View_New (ss_events s)"

definition subscribe_inv :: "nat \<Rightarrow> subscribe_state \<Rightarrow> bool" where
  "subscribe_inv n s \<longleftrightarrow>
     unat (cm_retries (ss_meta s)) \<le> n \<and>
     (view_of s = View_Closed \<longleftrightarrow> ss_phase s = Finished) \<and>
     (ss_phase s = Finished \<longrightarrow> ss_inner s = None) \<and>
     (ss_phase s \<noteq> Finished \<longrightarrow>
        (case ss_phase s of
           Opened \<Rightarrow> view_of s = View_Up \<and> cm_connected_at_least_once (ss_meta s) \<and> cm_retries (ss_meta s) = 0
         | Sleeping \<Rightarrow> view_of s = (if cm_connected_at_least_once (ss_meta s) then View_Down else View_New)
         | Dead \<Rightarrow> view_of s = (if cm_connected_at_least_once (ss_meta s) then View_Down else View_New)
         | Returned _ \<Rightarrow> view_of s = (if \<not> cm_connected_at_least_once (ss_meta s) then View_New
             else if cm_retries (ss_meta s) = 0 then View_Up else View_Down)
         | _ \<Rightarrow> view_of s = (if cm_connected_at_least_once (ss_meta s) then View_Down else View_New) \<and>
             (cm_connected_at_least_once (ss_meta s) \<longrightarrow> cm_retries (ss_meta s) \<noteq> 0)))"

lemma emit_simps [simp]:
  "view_of (emit e s) = view_step (view_of s) e" "ss_inner (emit e s) = ss_inner s" "ss_meta (emit e s) = ss_meta s"
  "ss_phase (emit e s) = ss_phase s" "ss_senders (emit e s) = ss_senders s"
  by (simp_all add: emit_def)

lemma retries_suc:
  assumes "unat (r :: u32) \<le> n" and "n < 2 ^ 32 - 1"
  shows "unat (r + 1) = Suc (unat r)" and "r + 1 \<noteq> 0"
proof -
  have "unat r + 1 < 2 ^ LENGTH(32)" using assms by simp
  then show "unat (r + 1) = Suc (unat r)" by (simp add: unat_add_lem [THEN iffD1])
  then show "r + 1 \<noteq> 0" by (metis unat_0 nat.distinct(1))
qed

lemma subscribe_inv_init: "subscribe_inv 0 subscribe_init"
  by (simp add: subscribe_inv_def subscribe_init_def connection_metadata_new_def)

lemma subscribe_inv_checked:
  assumes "subscribe_inv n s" and "ss_phase s = Returned ok"
  shows "subscribe_inv n (after_connect ovf ok s)"
  using assms unfolding subscribe_inv_def after_connect_def
  by (auto simp: Let_def backoff_secs_def split: option.split if_splits)

lemma subscribe_inv_step:
  assumes "subscribe_step ovf s t" and "subscribe_inv n s" and "n < 2 ^ 32 - 1"
  shows "subscribe_inv (Suc n) t"
  using assms(1)
proof (cases rule: subscribe_step.cases)
  case (checked ok)
  then have "subscribe_inv n t" using subscribe_inv_checked assms(2) by simp
  then show ?thesis by (auto simp: subscribe_inv_def)
next
  case woken
  have "unat (cm_retries (ss_meta s)) \<le> n" using assms(2) by (simp add: subscribe_inv_def)
  note r = retries_suc [OF this assms(3)]
  from woken assms(2) r show ?thesis by (auto simp: subscribe_inv_def)
next
  case opened
  with assms(2) show ?thesis by (auto simp: subscribe_inv_def meta_opened_def)
next
  case slate
  with assms(2) show ?thesis by (auto simp: subscribe_inv_def)
next
  case (returned ok)
  with assms(2) show ?thesis by (auto simp: subscribe_inv_def)
next
  case made
  with assms(2) show ?thesis by (auto simp: subscribe_inv_def)
next
  case stop
  with assms(2) show ?thesis by (cases "ss_phase s") (auto simp: subscribe_inv_def)
qed

lemma subscribe_inv_run:
  "(subscribe_step ovf ^^ n) subscribe_init s \<Longrightarrow> n < 2 ^ 32 \<Longrightarrow> subscribe_inv n s"
proof (induction n arbitrary: s)
  case 0
  then show ?case using subscribe_inv_init by simp
next
  case (Suc n)
  then obtain r where r: "(subscribe_step ovf ^^ n) subscribe_init r" "subscribe_step ovf r s" by auto
  have "n < 2 ^ 32 - 1" and "n < 2 ^ 32" using Suc.prems(2) by simp_all
  then show ?case using subscribe_inv_step [OF r(2) Suc.IH [OF r(1)]] by simp
qed

lemma subscribe_inv_view: "subscribe_inv n s \<Longrightarrow> view_of s \<noteq> View_Broken"
  by (cases "ss_phase s") (auto simp: subscribe_inv_def split: if_splits)

text \<open>
  C13: a listener reports to its handler in order, however connections come and go and whenever
  it is stopped: it is opened once and first, slates arrive only while it is up, a lost
  connection is reported once and before it is reported as restored, and the end of the loop is
  reported exactly once and last. (A run of \<open>2 ^ 32\<close> steps could wrap the count of retries.)
\<close>

theorem listener_reports_in_order:
  assumes "(subscribe_step ovf ^^ n) subscribe_init s" and "n < 2 ^ 32"
  shows "view_of s \<noteq> View_Broken \<and> (view_of s = View_Closed \<longleftrightarrow> ss_phase s = Finished) \<and>
    (ss_phase s = Opened \<longrightarrow> view_of s = View_Up)"
  using subscribe_inv_run [OF assms] subscribe_inv_view [OF subscribe_inv_run [OF assms]]
  by (auto simp: subscribe_inv_def)

lemma connected_stop_step:
  assumes "subscribe_step ovf s t" and "ss_inner s = None" and "ss_phase s \<in> {Made, Opened, Finished} \<union> range Returned"
    and "ss_phase s = Finished \<longrightarrow> (\<exists>es ok. ss_events s = es @ [Ev_close ok])"
  shows "ss_inner t = None \<and> ss_phase t \<in> {Made, Opened, Finished} \<union> range Returned \<and>
    (ss_phase t = Finished \<longrightarrow> (\<exists>es ok. ss_events t = es @ [Ev_close ok]))"
  using assms by (cases rule: subscribe_step.cases) (auto simp: after_connect_def emit_def)

text \<open>
  Stopping a listener while a connection exists is final: from then on it makes no new
  connection, and when it leaves the loop its last report is the close.
\<close>

theorem stop_while_connected:
  assumes "ss_phase s \<in> {Made, Opened} \<union> range Returned" and "(subscribe_step ovf)\<^sup>*\<^sup>* (s\<lparr>ss_inner := None\<rparr>) t"
  shows "ss_inner t = None \<and> ss_phase t \<in> {Made, Opened, Finished} \<union> range Returned \<and>
    (ss_phase t = Finished \<longrightarrow> (\<exists>es ok. ss_events t = es @ [Ev_close ok]))"
  using assms(2)
proof (induction rule: rtranclp_induct)
  case base
  then show ?case using assms(1) by auto
next
  case (step t u)
  then show ?case using connected_stop_step [OF step.hyps(2)] by blast
qed

text \<open>
  C29: stopping a listener while it waits between two attempts is lost: nothing looks at the
  flag before the next connection, which sets it again, so the listener is up and running and
  no close was reported.
\<close>

theorem stop_during_backoff_lost:
  assumes "ss_phase s = Sleeping"
  shows "\<exists>t. (subscribe_step ovf)\<^sup>*\<^sup>* (s\<lparr>ss_inner := None\<rparr>) t \<and> ss_phase t = Opened \<and> ss_inner t \<noteq> None \<and>
    (\<exists>e. ss_events t = ss_events s @ [e] \<and> e \<in> {Ev_open, Ev_reestablished})"
proof -
  let ?s0 = "s\<lparr>ss_inner := None\<rparr>"
  let ?s1 = "?s0\<lparr>ss_meta := (ss_meta s)\<lparr>cm_retries := cm_retries (ss_meta s) + 1\<rparr>, ss_phase := Connecting\<rparr>"
  let ?s2 = "?s1\<lparr>ss_inner := Some (ss_senders s), ss_senders := Suc (ss_senders s), ss_phase := Made\<rparr>"
  let ?e = "if cm_connected_at_least_once (ss_meta s) then Ev_reestablished else Ev_open"
  let ?s3 = "(emit ?e ?s2)\<lparr>ss_meta := meta_opened (ss_meta ?s2), ss_phase := Opened\<rparr>"
  have "subscribe_step ovf ?s0 ?s1" using subscribe_step.woken [of ?s0 ovf] assms by simp
  moreover have "subscribe_step ovf ?s1 ?s2" using subscribe_step.made [of ?s1 ovf] by simp
  moreover have "subscribe_step ovf ?s2 ?s3" using subscribe_step.opened [of ?s2 ovf] by (simp cong: if_cong)
  ultimately have "(subscribe_step ovf)\<^sup>*\<^sup>* ?s0 ?s3" by (meson converse_rtranclp_into_rtranclp rtranclp.rtrancl_refl)
  then show ?thesis by (rule_tac exI [of _ ?s3]) (simp add: emit_def)
qed

section \<open>Waiting between attempts\<close>

lemma word_power_nat: "(2 :: u64) ^ n = word_of_nat (2 ^ n)"
  by simp

lemma word_power_small: "n < 64 \<Longrightarrow> unat ((2 :: u64) ^ n) = 2 ^ n"
  using power_strict_increasing [of n 64 "2 :: nat"] unfolding word_power_nat by (subst unat_of_nat) simp

lemma word_power_large: "64 \<le> n \<Longrightarrow> (2 :: u64) ^ n = 0"
  using le_imp_power_dvd [of 64 n "2 :: nat"] unfolding word_power_nat word_of_nat_eq_0_iff by simp

lemma backoff_small: "unat r < 64 \<Longrightarrow> \<exists>secs. backoff_secs ovf r = Ok secs \<and> 1 \<le> secs \<and> secs \<le> 32"
proof -
  assume r: "unat r < 64"
  have "0 < unat ((2 :: u64) ^ unat r)" using word_power_small [OF r] by simp
  then have "(1 :: u64) \<le> 2 ^ unat r" by (simp add: word_le_nat_alt)
  then show ?thesis using r by (auto simp: backoff_secs_def min_def)
qed

lemma reach_retries:
  "k \<le> 64 \<Longrightarrow> \<exists>s. (subscribe_step ovf)\<^sup>*\<^sup>* subscribe_init s \<and> ss_phase s = Connecting \<and>
     cm_retries (ss_meta s) = word_of_nat k \<and> \<not> cm_connected_at_least_once (ss_meta s) \<and> ss_events s = []"
proof (induction k)
  case 0
  show ?case by (rule exI [of _ subscribe_init]) (simp add: subscribe_init_def connection_metadata_new_def)
next
  case (Suc k)
  then obtain s where s: "(subscribe_step ovf)\<^sup>*\<^sup>* subscribe_init s" "ss_phase s = Connecting"
    "cm_retries (ss_meta s) = word_of_nat k" "\<not> cm_connected_at_least_once (ss_meta s)" "ss_events s = []" by auto
  let ?s1 = "s\<lparr>ss_inner := Some (ss_senders s), ss_senders := Suc (ss_senders s), ss_phase := Made\<rparr>"
  let ?s2 = "?s1\<lparr>ss_phase := Returned False\<rparr>"
  let ?s3 = "?s2\<lparr>ss_phase := Sleeping\<rparr>"
  let ?s4 = "?s3\<lparr>ss_meta := (ss_meta s)\<lparr>cm_retries := cm_retries (ss_meta s) + 1\<rparr>, ss_phase := Connecting\<rparr>"
  have k: "unat (word_of_nat k :: u32) = k" using Suc.prems by (subst unat_of_nat) simp
  have "subscribe_step ovf s ?s1" using subscribe_step.made s(2) by blast
  moreover have "subscribe_step ovf ?s1 ?s2" using subscribe_step.returned [of ?s1 ovf False] by simp
  moreover have "after_connect ovf False ?s2 = ?s3"
    using s(3,4) k Suc.prems by (simp add: after_connect_def backoff_secs_def)
  then have "subscribe_step ovf ?s2 ?s3" using subscribe_step.checked [of ?s2 False ovf] by simp
  moreover have "subscribe_step ovf ?s3 ?s4" using subscribe_step.woken [of ?s3 ovf] by simp
  ultimately have "(subscribe_step ovf)\<^sup>*\<^sup>* subscribe_init ?s4"
    using s(1) by (meson rtranclp.rtrancl_into_rtrancl)
  then show ?case using s(3-5) by (intro exI [of _ ?s4]) simp
qed

text \<open>
  The wait between attempts is from 1 to 32 seconds for the first 64 attempts; then the power
  of two overflows. Built with overflow checks the listener thread dies there, with no report to
  its handler and the broker still counted as running; built without, it retries without any
  pause from then on.
\<close>

theorem backoff_overflows:
  "(unat r < 64 \<longrightarrow> (\<exists>secs. backoff_secs ovf r = Ok secs \<and> 1 \<le> secs \<and> secs \<le> 32)) \<and>
   (64 \<le> unat r \<longrightarrow> backoff_secs ovf r = (if ovf then Panic else Ok 0)) \<and>
   (\<exists>s. (subscribe_step True)\<^sup>*\<^sup>* subscribe_init s \<and> ss_phase s = Dead \<and> ss_events s = [] \<and> ss_inner s \<noteq> None)"
proof (intro conjI impI)
  assume "unat r < 64"
  then show "\<exists>secs. backoff_secs ovf r = Ok secs \<and> 1 \<le> secs \<and> secs \<le> 32" by (rule backoff_small)
next
  assume "64 \<le> unat r"
  then show "backoff_secs ovf r = (if ovf then Panic else Ok 0)" by (simp add: backoff_secs_def word_power_large)
next
  obtain s where s: "(subscribe_step True)\<^sup>*\<^sup>* subscribe_init s" "ss_phase s = Connecting"
    "cm_retries (ss_meta s) = word_of_nat 64" "\<not> cm_connected_at_least_once (ss_meta s)" "ss_events s = []"
    using reach_retries [of 64 True] by blast
  let ?s1 = "s\<lparr>ss_inner := Some (ss_senders s), ss_senders := Suc (ss_senders s), ss_phase := Made\<rparr>"
  let ?s2 = "?s1\<lparr>ss_phase := Returned False\<rparr>"
  let ?s3 = "?s2\<lparr>ss_phase := Dead\<rparr>"
  have "subscribe_step True s ?s1" using subscribe_step.made s(2) by blast
  moreover have "subscribe_step True ?s1 ?s2" using subscribe_step.returned [of ?s1 True False] by simp
  moreover have "after_connect True False ?s2 = ?s3" using s(3,4) by (simp add: after_connect_def backoff_secs_def)
  then have "subscribe_step True ?s2 ?s3" using subscribe_step.checked [of ?s2 False True] by simp
  ultimately have "(subscribe_step True)\<^sup>*\<^sup>* subscribe_init ?s3"
    using s(1) by (meson rtranclp.rtrancl_into_rtrancl)
  then show "\<exists>s. (subscribe_step True)\<^sup>*\<^sup>* subscribe_init s \<and> ss_phase s = Dead \<and> ss_events s = [] \<and> ss_inner s \<noteq> None"
    using s(5) by (intro exI [of _ ?s3]) simp
qed

section \<open>Delivery\<close>

text \<open>What a response carries that was made by the other side's \<open>post_slate\<close>.\<close>

lemma from_response_of_post:
  assumes "grinbox_from_str E fa = Ok a" and "grinbox_public_key E a = Ok ka"
    and "signature_from_hex E sg = Ok g" and "verify_signature (sha256 E) E (t @ ch) g ka = Ok ()"
    and "message_from_json E t = Some m" and "\<not> destination_differs (em_destination m) expected"
    and "obind (encrypted_message_key E m ka sb) (decrypt_with_key E m) = Ok text"
    and "deserialize_upgrade E text = Some s"
  shows "\<exists>pf. from_response E fa t ch sg sb expected = Ok (s, pf) \<and> tp_address pf = a \<and> tp_message pf = t \<and> tp_signature pf = g"
proof -
  obtain key where "encrypted_message_key E m ka sb = Ok key" "decrypt_with_key E m key = Ok text"
    using assms(7) by (auto simp: obind_Ok_iff)
  then show ?thesis using assms(1-6,8) by (simp add: from_response_def verify_extract_def Let_def)
qed

definition signs_for :: "('pk, 'sk, 'sig, 'st) wenv \<Rightarrow> 'sk \<Rightarrow> 'pk \<Rightarrow> bool" where
  "signs_for E sk pk \<longleftrightarrow> (\<forall>t. \<exists>m g. message_from_slice E (sha256 E (as_bytes t)) = Ok m \<and> secp_sign E m sk = Some g \<and>
     secp_verify E m g pk \<and> sig_serialize_der E g \<noteq> [] \<and> sig_from_der E (sig_serialize_der E g) = Some g)"

lemma signs_forD:
  assumes "signs_for E sk pk"
  shows "\<exists>sg g. generate_signature E t sk = Ok sg \<and> signature_from_hex E sg = Ok g \<and>
    verify_signature (sha256 E) E t g pk = Ok ()"
proof -
  obtain m g where "message_from_slice E (sha256 E (as_bytes t)) = Ok m" "secp_sign E m sk = Some g"
    "secp_verify E m g pk" "sig_serialize_der E g \<noteq> []" "sig_from_der E (sig_serialize_der E g) = Some g"
    using assms unfolding signs_for_def by metis
  then show ?thesis
    by (intro exI [of _ "signature_to_hex E g"] exI [of _ g])
      (simp add: generate_signature_def sign_challenge_def verify_signature_def signature_hex_roundtrip)
qed

lemma delivery:
  assumes "grinbox_valid E a" and "grinbox_valid E b"
    and "grinbox_public_key E a = Ok ka" and "grinbox_public_key E b = Ok kb"
    and "pk_mul_assign E kb sa = Some P" and "pk_mul_assign E ka sb = Some P" and "length (pk_serialize_vec E P) = 33"
    and "rng G (w_lib w) = (Ok (salt, nonce), l)" and "salt \<noteq> []" and "nonce \<noteq> []"
    and "slate_to_string G s = Ok text" and "deserialize_upgrade E text = Some s" and "utf8_valid (map of_char text)"
    and "aead_ok E (pbkdf2 E salt (drop 1 (pk_serialize_vec E P))) nonce (as_bytes text)"
    and "\<And>m. encrypted_message_new E salt nonce text b kb sa = Ok m \<Longrightarrow>
      \<exists>t. message_to_json G m = Ok t \<and> message_from_json E t = Some m"
    and "signs_for E sa ka" and "\<And>q. \<exists>j. request_to_json G q = Ok j"
    and "gp_address pub = a" and "gp_secret_key pub = sa" and "br_inner (gp_broker pub) = Some c"
    and "gc_address cl = b" and "gc_secret_key cl = sb"
  shows "\<exists>fa tb t sg j pf. request_to_json G (Req_PostSlate fa tb t sg) = Ok j \<and>
    grinbox_post_slate E G pub s (AGrinbox b) w =
      io_map_err (\<lambda>_. Kind (GenericError ''failed posting slate!'')) (lib_quiet (ws_send G c j)) (w\<lparr>w_lib := l\<rparr>) \<and>
    tp_address pf = a \<and>
    (\<forall>msg w' self meta. response_from_json G msg = Some (Resp_Slate fa t sg []) \<longrightarrow>
       client_on_message E G H msg (w', self, cl, meta) =
         on_handler (h_slate H (AGrinbox a) s (Some pf) (Some (gc_config cl))) (w', self, cl, meta))"
proof -
  obtain m where m: "encrypted_message_new E salt nonce text b kb sa = Ok m" "em_destination m = Some b"
    "obind (encrypted_message_key E m ka sb) (decrypt_with_key E m) = Ok text"
    using message_decrypts [OF assms(5-7,9,10,13,14)] by metis
  obtain t where t: "message_to_json G m = Ok t" "message_from_json E t = Some m" using assms(15) [OF m(1)] by blast
  obtain sg g where sg: "generate_signature E t sa = Ok sg" "signature_from_hex E sg = Ok g"
    "verify_signature (sha256 E) E t g ka = Ok ()" using signs_forD [OF assms(16)] by metis
  obtain fa where fa: "grinbox_stripped a = Ok fa" "grinbox_from_str E fa = Ok a"
    using grinbox_stripped_reads [OF assms(1)] by blast
  obtain tb where tb: "grinbox_stripped b = Ok tb" using grinbox_stripped_reads [OF assms(2)] by blast
  obtain j where j: "request_to_json G (Req_PostSlate fa tb t sg) = Ok j" using assms(17) by blast
  have b: "grinbox_from_str E (grinbox_display b) = Ok b" by (rule gbx.from_str_display [OF assms(2)])
  have "\<not> destination_differs (em_destination m) (Some b)" using m(2) by (simp add: destination_differs_def)
  then obtain pf where pf: "from_response E fa t [] sg sb (Some b) = Ok (s, pf)" "tp_address pf = a"
    using from_response_of_post [OF fa(2) assms(3) sg(2) _ t(2) _ m(3) assms(12), of "[]" "Some b"] sg(3) by auto
  have "grinbox_post_slate E G pub s (AGrinbox b) w =
      io_map_err (\<lambda>_. Kind (GenericError ''failed posting slate!'')) (lib_quiet (ws_send G c j)) (w\<lparr>w_lib := l\<rparr>)"
    using assms(8,18-20) b
    by (simp add: grinbox_post_slate_def broker_post_slate_def broker_is_running_def assms(4,11) m(1) t(1) sg(1) fa(1) tb j
        io_bind_apply_Ok lib_quiet_def)
  moreover have "client_on_message E G H msg (w', self, cl, meta) =
      on_handler (h_slate H (AGrinbox a) s (Some pf) (Some (gc_config cl))) (w', self, cl, meta)"
    if "response_from_json G msg = Some (Resp_Slate fa t sg [])" for msg w' self meta
    using that assms(21,22) pf
    by (simp add: client_on_message_def io_bind_def get_client_def io_match_def io_lift_apply)
  ultimately show ?thesis using j pf(2) by blast
qed

text \<open>The publisher keeps off the wallet.\<close>

interpretation gbp: publisher_contract "grinbox_post_slate E G pub" for E G pub
proof
  have "upholds off_wallet (grinbox_post_slate E G pub s a)" for s a
    unfolding grinbox_post_slate_def broker_post_slate_def by (intro off.upholds_rules)
  then show "off_wallet w (snd (grinbox_post_slate E G pub s a w))" for w s a by (simp add: upholds_def)
qed

text \<open>What the listener reports in fewer than \<open>2 ^ 32\<close> steps meets the contract of a subscriber.\<close>

definition grinbox_reports :: "subscriber_event list \<Rightarrow> bool" where
  "grinbox_reports es \<longleftrightarrow> (\<exists>ovf n s. n < 2 ^ 32 \<and> (subscribe_step ovf ^^ n) subscribe_init s \<and> ss_events s = es)"

interpretation gbs: subscriber_contract grinbox_reports
  by unfold_locales (auto simp: grinbox_reports_def dest: subscribe_inv_run [THEN subscribe_inv_view])

text \<open>
  C14: a slate that one wallet posts reaches the handler of the other: the publisher sends one
  request, and when the server relays its text and signature in a slate message, the client on the
  other side checks the signature, opens the message and hands its listener the same slate, from the
  sender's address and with a proof made out for it. (The cipher opens what it sealed, the
  Diffie-Hellman products agree, signatures verify and JSON is read back as it was written.)
\<close>

theorem grinbox_delivery:
  assumes "grinbox_valid E a" and "grinbox_valid E b"
    and "grinbox_public_key E a = Ok ka" and "grinbox_public_key E b = Ok kb"
    and "pk_mul_assign E kb sa = Some P" and "pk_mul_assign E ka sb = Some P" and "length (pk_serialize_vec E P) = 33"
    and "rng G (w_lib w) = (Ok (salt, nonce), l)" and "salt \<noteq> []" and "nonce \<noteq> []"
    and "slate_to_string G s = Ok text" and "deserialize_upgrade E text = Some s" and "utf8_valid (map of_char text)"
    and "aead_ok E (pbkdf2 E salt (drop 1 (pk_serialize_vec E P))) nonce (as_bytes text)"
    and "\<And>m. encrypted_message_new E salt nonce text b kb sa = Ok m \<Longrightarrow>
      \<exists>t. message_to_json G m = Ok t \<and> message_from_json E t = Some m"
    and "signs_for E sa ka" and "\<And>q. \<exists>j. request_to_json G q = Ok j"
    and "gp_address pub = a" and "gp_secret_key pub = sa" and "br_inner (gp_broker pub) = Some c"
    and "gc_address cl = b" and "gc_secret_key cl = sb"
  shows "\<exists>fa tb t sg j pf. request_to_json G (Req_PostSlate fa tb t sg) = Ok j \<and>
    grinbox_post_slate E G pub s (AGrinbox b) w =
      io_map_err (\<lambda>_. Kind (GenericError ''failed posting slate!'')) (lib_quiet (ws_send G c j)) (w\<lparr>w_lib := l\<rparr>) \<and>
    tp_address pf = a \<and>
    (\<forall>msg w' self meta. response_from_json G msg = Some (Resp_Slate fa t sg []) \<longrightarrow>
       client_on_message E G H msg (w', self, cl, meta) =
         on_handler (h_slate H (AGrinbox a) s (Some pf) (Some (gc_config cl))) (w', self, cl, meta))"
  using assms by (rule delivery)

section \<open>Witnesses\<close>

theorem listener_reports_in_order_witness:
  "\<exists>s. (subscribe_step True ^^ 1) subscribe_init s \<and> view_of s \<noteq> View_Broken \<and> ss_phase s = Made"
proof -
  let ?s = "subscribe_init\<lparr>ss_inner := Some 0, ss_senders := 1, ss_phase := Made\<rparr>"
  have "subscribe_step True subscribe_init ?s"
    using subscribe_step.made [of subscribe_init True] by (simp add: subscribe_init_def)
  then have r: "(subscribe_step True ^^ 1) subscribe_init ?s" by (simp add: relcompp_apply)
  have "view_of ?s \<noteq> View_Broken" using listener_reports_in_order [OF r] by simp
  then show ?thesis using r by (intro exI [of _ ?s]) simp
qed

theorem stop_while_connected_witness:
  "\<exists>t. (subscribe_step True)\<^sup>*\<^sup>* ((subscribe_init\<lparr>ss_phase := Opened\<rparr>)\<lparr>ss_inner := None\<rparr>) t \<and>
     ss_phase t = Finished \<and> (\<exists>es ok. ss_events t = es @ [Ev_close ok])"
proof -
  let ?s = "(subscribe_init\<lparr>ss_phase := Opened\<rparr>)\<lparr>ss_inner := None\<rparr>"
  let ?r = "?s\<lparr>ss_phase := Returned True\<rparr>"
  let ?t = "after_connect True True ?r"
  have "subscribe_step True ?s ?r" using subscribe_step.returned [of ?s True True] by simp
  moreover have "subscribe_step True ?r ?t" using subscribe_step.checked [of ?r True True] by simp
  ultimately have run: "(subscribe_step True)\<^sup>*\<^sup>* ?s ?t" by (meson converse_rtranclp_into_rtranclp rtranclp.rtrancl_refl)
  have "ss_phase ?t = Finished" by (simp add: after_connect_def)
  then show ?thesis using stop_while_connected [OF _ run] run by auto
qed

theorem stop_during_backoff_lost_witness:
  "\<exists>t. (subscribe_step False)\<^sup>*\<^sup>* ((subscribe_init\<lparr>ss_phase := Sleeping\<rparr>)\<lparr>ss_inner := None\<rparr>) t \<and> ss_inner t \<noteq> None"
  using stop_during_backoff_lost [of "subscribe_init\<lparr>ss_phase := Sleeping\<rparr>" False] by auto

theorem backoff_overflows_witness: "backoff_secs True 64 = Panic \<and> backoff_secs False 64 = Ok 0"
  using backoff_overflows [of 64 True] backoff_overflows [of 64 False] by simp

definition demo_sealed :: encrypted_message where
  "demo_sealed = \<lparr>em_destination = Some demo_sender, em_encrypted_message = to_hex (as_bytes ''slate'' @ [1, 1]),
     em_salt = to_hex [9, 9], em_nonce = to_hex [5]\<rparr>"

definition demo_genv :: "(bytes, unit) genv" where
  "demo_genv = \<lparr>request_to_json = (\<lambda>r. Ok (protocol_request_display r)), response_from_json = (\<lambda>_. Some Resp_Ok),
     slate_to_string = (\<lambda>_. Ok ''slate''), message_to_json = (\<lambda>_. Ok ''m''), rng = (\<lambda>s. (Ok ([9, 9], [5]), s)),
     ws_send = (\<lambda>_ _ s. (Ok (), s)), ws_timeout = (\<lambda>_ _ _ s. (Ok (), s)), ws_ping = (\<lambda>_ s. (Ok (), s))\<rparr>"

definition demo_mail_wenv :: "(bytes, bytes, bytes, unit) wenv" where
  "demo_mail_wenv = demo_wenv\<lparr>message_from_json := (\<lambda>_. Some demo_sealed), deserialize_upgrade := (\<lambda>_. Some demo_slate)\<rparr>"

lemma demo_mail_key: "mq_key demo_mail_wenv demo_key demo_pk"
  using demo_mq_key
  by (simp add: mq_key_def pk_ok_def public_key_to_base58_check_def serialize_public_key_def version_bytes_def
      demo_mail_wenv_def demo_wenv_defs)

definition demo_publisher :: "bytes grinbox_publisher_state" where
  "demo_publisher = \<lparr>gp_address = demo_sender, gp_broker = \<lparr>br_inner = Some 0, br_protocol_unsecure = False\<rparr>,
     gp_secret_key = demo_key, gp_config = demo_cfg\<rparr>"

definition demo_client :: "bytes grinbox_client" where
  "demo_client = \<lparr>gc_sender = 1, gc_challenge = None, gc_address = demo_sender, gc_secret_key = demo_key, gc_config = demo_cfg\<rparr>"

lemma demo_signs: "signs_for demo_mail_wenv demo_key demo_key"
  by (simp add: signs_for_def demo_mail_wenv_def demo_wenv_defs demo_key_def)

lemma demo_sealing:
  "encrypted_message_new demo_mail_wenv [9, 9] [5] ''slate'' demo_sender demo_key demo_key = Ok m \<Longrightarrow> m = demo_sealed"
  by (simp add: encrypted_message_new_def demo_mail_wenv_def demo_wenv_defs secret_slice_def demo_key_def demo_sealed_def
      Let_def numeral_eq_Suc split: if_splits)

theorem grinbox_delivery_witness:
  "\<exists>j. grinbox_post_slate demo_mail_wenv demo_genv demo_publisher demo_slate (AGrinbox demo_sender) demo_world =
     io_map_err (\<lambda>_. Kind (GenericError ''failed posting slate!'')) (lib_quiet (ws_send demo_genv 0 j)) demo_world"
proof -
  let ?E = demo_mail_wenv
  have "mq_domain_ok DEFAULT_GRINBOX_DOMAIN None" by code_simp
  then have v: "grinbox_valid ?E demo_sender" using demo_mail_key by (auto simp: grinbox_valid_def)
  have k: "grinbox_public_key ?E demo_sender = Ok demo_key"
    using mq_key_parses [OF demo_mail_key] by (simp add: grinbox_public_key_def)
  have p: "pk_mul_assign ?E demo_key demo_key = Some (4 # replicate 32 14)"
    by (simp add: demo_mail_wenv_def demo_wenv_defs demo_key_def numeral_eq_Suc)
  have l: "length (pk_serialize_vec ?E (4 # replicate 32 14)) = 33" by (simp add: demo_mail_wenv_def demo_wenv_defs)
  have r: "rng demo_genv (w_lib demo_world) = (Ok ([9, 9], [5]), ())" by (simp add: demo_genv_def)
  have d: "deserialize_upgrade ?E ''slate'' = Some demo_slate" and t: "slate_to_string demo_genv demo_slate = Ok ''slate''"
    by (simp_all add: demo_mail_wenv_def demo_genv_def)
  have u: "utf8_valid (map of_char ''slate'')" by code_simp
  have a: "aead_ok ?E (pbkdf2 ?E [9, 9] (drop 1 (pk_serialize_vec ?E (4 # replicate 32 14)))) [5] (as_bytes ''slate'')"
    by (simp add: aead_ok_def demo_mail_wenv_def demo_wenv_defs)
  have j: "\<exists>t. message_to_json demo_genv m = Ok t \<and> message_from_json ?E t = Some m"
    if "encrypted_message_new ?E [9, 9] [5] ''slate'' demo_sender demo_key demo_key = Ok m" for m
    using demo_sealing [OF that] by (simp add: demo_genv_def demo_mail_wenv_def)
  have q: "\<exists>j. request_to_json demo_genv q = Ok j" for q by (simp add: demo_genv_def)
  from grinbox_delivery [OF v v k k p p l r _ _ t d u a j demo_signs q, of demo_publisher 0 demo_client]
  show ?thesis by (simp add: demo_publisher_def demo_client_def demo_world_def) blast
qed

end
