(* ===== verification/Mwcmqs.thy ===== *)
theory Mwcmqs
  imports Grinbox
begin

text \<open>
  The long-polling broker, \<open>src/src/broker/mwcmq.rs\<close>: posting a slate over HTTPS, the texts the
  server answers with, and the loop of the listener. The HTTP client, the flag \<open>inner\<close> that
  another thread may clear at any time, random numbers and JSON are fields of \<open>qenv\<close>. Lines that
  are printed are modelled without colours and leading line breaks; sleeping is left out.
\<close>

section \<open>The code\<close>

text \<open>
  The answer to a GET: no answer, with the text of the error; an answer whose body cannot be
  read; a body.
\<close>

datatype get_result = Get_error string | Get_unreadable string | Get_body string

record ('pk, 'sig, 'st) qenv =
  q_slate_to_string :: "'pk slate \<Rightarrow> string res"
  q_message_to_json :: "encrypted_message \<Rightarrow> string res"
  q_rng :: "('st, bytes \<times> bytes) lio"
  q_client_build :: "nat \<Rightarrow> ('st, unit) lio"
  q_post_form :: "string \<Rightarrow> (string \<times> string) list \<Rightarrow> ('st, string option) lio"
  q_get :: "string \<Rightarrow> ('st, get_result) lio"
  q_read_inner :: "('st, bool) lio"
  q_set_inner :: "bool \<Rightarrow> ('st, unit) lio"
  q_nanoid :: "('st, string) lio"
  q_sig_debug :: "'sig \<Rightarrow> string"
  q_debug_strings :: "string list \<Rightarrow> string"

definition TIMEOUT_ERROR_REGEX :: string where
  "TIMEOUT_ERROR_REGEX = ''timed out''"

definition server_url :: "'sk wallet713_config \<Rightarrow> string" where
  "server_url config = ''https://'' @ cfg_mwcmqs_domain config @ '':'' @ show_nat (unat (cfg_mwcmqs_port config))"

definition at_escaped :: "string \<Rightarrow> string" where
  "at_escaped s = str_replace ''@'' ''%40'' s"

subsection \<open>Publisher\<close>

record 'sk mwcmq_publisher =
  mp_address :: mwcmqs_address
  mp_secret_key :: 'sk
  mp_config :: "'sk wallet713_config"

definition mwcmq_publisher_new :: "mwcmqs_address \<Rightarrow> 'sk \<Rightarrow> 'sk wallet713_config \<Rightarrow> 'sk mwcmq_publisher res" where
  "mwcmq_publisher_new address secret_key config =
     Ok \<lparr>mp_address = address, mp_secret_key = secret_key, mp_config = config\<rparr>"

text \<open>The warning about a receiver that has not been seen for long, by the milliseconds the server reports.\<close>

definition last_seen_warning :: "int \<Rightarrow> string \<Rightarrow> string option" where
  "last_seen_warning last_seen to_stripped =
     (if last_seen > 10000000000 then
        Some (''WARNING: ['' @ to_stripped @ ''] has not been connected to mwcmqs recently. This user might not receive the slate.'')
      else if last_seen > 150000 then
        Some (''WARNING: ['' @ to_stripped @ ''] has not been connected to mwcmqs for '' @ show_nat (nat (last_seen div 1000)) @
          '' seconds. This user might not receive the slate.'')
      else None)"

definition check_sent :: "string \<Rightarrow> string \<Rightarrow> ('st, unit) wio" where
  "check_sent to_stripped resp_str =
     (let data = str_split CHR '' '' resp_str
      in if length data \<le> 1 then io_lift (fail (InvalidRespose ''mwcmqs''))
         else (case parse_i64 (data ! 1) of
             None \<Rightarrow> io_lift (fail (InvalidRespose ''mwcmqs''))
           | Some last_seen \<Rightarrow> (case last_seen_warning last_seen to_stripped of
               None \<Rightarrow> io_return () | Some t \<Rightarrow> println t)))"

definition sender_url :: "'sk wallet713_config \<Rightarrow> string \<Rightarrow> string" where
  "sender_url config stripped = server_url config @ ''/sender?address='' @ at_escaped stripped"

text \<open>The destination as the text that \<open>GrinboxAddress::from_str\<close> is given.\<close>

definition mwcmqs_to_str :: "mwcmqs_address \<Rightarrow> string" where
  "mwcmqs_to_str to = str_replace [CHR 0x22] [] (quoted (mq_public_key to) @ ''@'' @ mq_domain to @ '':'' @
     show_nat (unat (unwrap_or (mq_port to) DEFAULT_MWCMQS_PORT)))"

definition mwcmqs_broker_post ::
  "('pk, 'sk, 'sig, 'st) wenv \<Rightarrow> ('pk, 'sig, 'st) qenv \<Rightarrow> 'sk wallet713_config \<Rightarrow> 'pk slate \<Rightarrow> mwcmqs_address \<Rightarrow>
   mwcmqs_address \<Rightarrow> 'sk \<Rightarrow> ('st, unit) wio" where
  "mwcmqs_broker_post E Q config slate to from secret_key =
     io_bind (lib_quiet (q_read_inner Q)) (\<lambda>running.
     if \<not> running then io_lift (fail (ClosedListener ''mwcmqs''))
     else
       io_bind (io_lift (mwcmqs_public_key E to)) (\<lambda>pkey.
       io_bind (io_lift (q_slate_to_string Q slate)) (\<lambda>text.
       io_bind (io_lift (grinbox_from_str E (mwcmqs_to_str to))) (\<lambda>destination.
       io_bind (lib_quiet (q_rng Q)) (\<lambda>(salt, nonce).
       io_bind (io_lift (omap_err (\<lambda>_. Foreign ''could not encrypt slate!'')
                  (encrypted_message_new E salt nonce text destination pkey secret_key))) (\<lambda>message.
       io_bind (io_lift (q_message_to_json Q message)) (\<lambda>message_ser.
       io_bind (io_lift (generate_signature E message_ser secret_key)) (\<lambda>signature.
       io_bind (lib_quiet (q_client_build Q 60)) (\<lambda>_.
       io_bind (io_lift (mwcmqs_stripped from)) (\<lambda>fromstripped.
       io_bind (io_lift (mwcmqs_stripped to)) (\<lambda>to_stripped.
       io_match (lib_quiet (q_post_form Q (sender_url config to_stripped)
           [(''mapmessage'', message_ser), (''from'', fromstripped), (''signature'', signature)]))
         (\<lambda>body. case body of
            None \<Rightarrow> io_lift (fail (InvalidRespose ''mwcmqs i/o error''))
          | Some resp_str \<Rightarrow> check_sent to_stripped resp_str)
         (\<lambda>_. io_lift (fail (InvalidRespose ''mwcmqs connection error''))))))))))))))"

definition mwcmqs_post_slate ::
  "('pk, 'sk, 'sig, 'st) wenv \<Rightarrow> ('pk, 'sig, 'st) qenv \<Rightarrow> 'sk mwcmq_publisher \<Rightarrow> ('pk, 'st) publisher" where
  "mwcmqs_post_slate E Q self slate to =
     io_bind (io_lift (mwcmqs_from_str E (address_display to))) (\<lambda>to.
     mwcmqs_broker_post E Q (mp_config self) slate to (mp_address self) (mp_secret_key self))"

subsection \<open>Subscriber\<close>

record 'sk mwcmq_subscriber =
  ms_address :: mwcmqs_address
  ms_broker_config :: "'sk wallet713_config"
  ms_secret_key :: 'sk
  ms_config :: "'sk wallet713_config"

definition mwcmq_subscriber_new :: "'sk mwcmq_publisher \<Rightarrow> 'sk mwcmq_subscriber res" where
  "mwcmq_subscriber_new publisher =
     Ok \<lparr>ms_address = mp_address publisher, ms_broker_config = mp_config publisher,
         ms_secret_key = mp_secret_key publisher, ms_config = mp_config publisher\<rparr>"

text \<open>\<open>stop\<close>: wakes the poll with an empty message to itself, then clears the flag.\<close>

definition mwcmq_subscriber_stop ::
  "('pk, 'sig, 'st) qenv \<Rightarrow> 'sk mwcmq_subscriber \<Rightarrow> ('st, bool) wio" where
  "mwcmq_subscriber_stop Q self =
     io_bind (io_expect (lib_quiet (q_client_build Q 60))) (\<lambda>_.
     io_bind (io_lift (mwcmqs_stripped (ms_address self))) (\<lambda>stripped.
     io_bind (io_match (lib_quiet (q_post_form Q (sender_url (ms_config self) stripped) [(''mapmessage'', ''nil'')]))
         (\<lambda>_. io_return True) (\<lambda>_. io_return False)) (\<lambda>response_status.
     io_bind (lib_quiet (q_set_inner Q False)) (\<lambda>_.
     io_return response_status))))"

definition mwcmq_subscriber_is_running :: "('pk, 'sig, 'st) qenv \<Rightarrow> ('st, bool) wio" where
  "mwcmq_subscriber_is_running Q = lib_quiet (q_read_inner Q)"

type_synonym i32 = "32 word"

record listen_state =
  ls_count :: i32
  ls_loop_count :: i32
  ls_connected :: bool
  ls_isnginxerror :: bool
  ls_delcount :: i32
  ls_is_in_warning :: bool
  ls_is_error :: bool
  ls_url :: string

text \<open>What stays fixed while the listener runs.\<close>

record ('sk) listen_env =
  le_config :: "'sk wallet713_config"
  le_broker_config :: "'sk wallet713_config"
  le_secret_key :: 'sk
  le_stripped :: string
  le_time_now :: string
  le_signature :: string
  le_nanoid :: string

definition listener_url :: "'sk listen_env \<Rightarrow> string \<Rightarrow> string" where
  "listener_url L del_to = server_url (le_config L) @ ''/listener?address='' @ at_escaped (le_stripped L) @
     ''&delTo='' @ del_to @ ''&time_now='' @ le_time_now L @ ''&signature='' @ le_signature L"

definition print_error :: "('pk, 'sig, 'st) qenv \<Rightarrow> string list \<Rightarrow> string \<Rightarrow> int \<Rightarrow> ('st, unit) wio" where
  "print_error Q messages error code = println (''ERROR: messages=['' @ q_debug_strings Q messages @ ''] produced error: '' @
     error @ '' (code='' @ (if code < 0 then ''-'' @ show_nat (nat (- code)) else show_nat (nat code)) @ '')'')"

definition lost_connection :: "'sk listen_env \<Rightarrow> ('st, unit) wio" where
  "lost_connection L = println (''WARNING: mwcmqs listener ['' @ le_stripped L @
     ''] lost connection. Will try to restore in the background. tid=['' @ le_nanoid L @ '']'')"

definition listener_started :: "'sk listen_env \<Rightarrow> ('st, unit) wio" where
  "listener_started L = println (''mwcmqs listener started for ['' @ le_stripped L @ ''] tid=['' @ le_nanoid L @ '']'')"

definition new_login :: "('pk, 'sig, 'st) qenv \<Rightarrow> ('st, unit) wio" where
  "new_login Q = io_bind (lib_quiet (q_read_inner Q)) (\<lambda>running.
     if running then println ''ERROR: new login detected. mwcmqs listener will stop!'' else io_return ())"

definition after_space :: "string \<Rightarrow> string" where
  "after_space s = (case str_find CHR '' '' s of None \<Rightarrow> s | Some k \<Rightarrow> drop (1 + k) s)"

text \<open>
  The lines of a \<open>messagelist\<close> after the first: identifier, semicolon, message. A new login
  leaves the loop over the lines.
\<close>

fun list_messages ::
  "('pk, 'sig, 'st) qenv \<Rightarrow> 'sk listen_env \<Rightarrow> string list \<Rightarrow> string list \<Rightarrow> listen_state \<Rightarrow>
   ('st, string list \<times> listen_state) wio" where
  "list_messages Q L [] ret s = io_return (ret, s)"
| "list_messages Q L (line # rest) ret s =
     (let params = str_split CHR '' '' line
      in if length params \<ge> 2 then
           (case str_find CHR '';'' (params ! 1) of
              Some index \<Rightarrow>
                list_messages Q L rest (ret @ [drop (index + 1) (params ! 1)])
                  (s\<lparr>ls_url := listener_url L (after_space (take index (params ! 1)))\<rparr>)
            | None \<Rightarrow>
                if params ! 1 = ''closenewlogin'' then io_bind (new_login Q) (\<lambda>_. io_return (ret, s))
                else io_bind (print_error Q [] ''message id expected'' (- 103)) (\<lambda>_.
                     list_messages Q L rest ret (s\<lparr>ls_is_error := True\<rparr>)))
         else list_messages Q L rest ret s)"

text \<open>What a body makes the loop do: process messages, start over, or leave.\<close>

datatype reading = Read_messages "string list" | Read_again | Read_quit

definition nginx_error :: "'sk listen_env \<Rightarrow> listen_state \<Rightarrow> ('st, listen_state) wio" where
  "nginx_error L s =
     (let s = s\<lparr>ls_connected := False\<rparr>
      in io_bind (if \<not> ls_isnginxerror s then lost_connection L else io_return ()) (\<lambda>_.
         io_return (s\<lparr>ls_is_in_warning := (if \<not> ls_isnginxerror s then True else ls_is_in_warning s), ls_isnginxerror := True\<rparr>)))"

definition read_body ::
  "('pk, 'sig, 'st) qenv \<Rightarrow> 'sk listen_env \<Rightarrow> string \<Rightarrow> listen_state \<Rightarrow> ('st, reading \<times> listen_state) wio" where
  "read_body Q L resp_str s =
     (if starts_with resp_str ''messagelist: '' then
        io_bind (list_messages Q L (tl (str_split CHR 0x0A resp_str)) [] s) (\<lambda>(ret, s). io_return (Read_messages ret, s))
      else
        (case str_find CHR '';'' resp_str of
           Some index \<Rightarrow>
             io_return (Read_messages [drop (index + 1) resp_str],
               s\<lparr>ls_url := listener_url L (after_space (take index resp_str))\<rparr>)
         | None \<Rightarrow>
             if str_contains resp_str ''nginx'' then
               io_bind (nginx_error L s) (\<lambda>s. io_return (Read_again, s))
             else if resp_str = ''message: closenewlogin'' @ [CHR 0x0A] then
               io_bind (new_login Q) (\<lambda>_. io_return (Read_quit, s))
             else if resp_str = ''message: mapmessage=nil'' then io_return (Read_again, s)
             else io_bind (print_error Q [] ''message id expected'' (- 102)) (\<lambda>_.
               io_return (Read_again, s\<lparr>ls_is_error := True\<rparr>))))"

text \<open>The value of a field: between the first and the second equals sign, the last field of that name.\<close>

definition field_value :: "string \<Rightarrow> string \<Rightarrow> string list \<Rightarrow> string" where
  "field_value name dflt fds =
     foldl (\<lambda>v f. if starts_with f (name @ ''='') then str_trim (str_split CHR ''='' f ! 1) else v) dflt fds"

definition decode_message :: "string \<Rightarrow> string" where
  "decode_message s =
     str_trim (str_replace ''%2C'' '','' (str_replace ''%3A'' '':'' (str_replace ''%7D'' ''}''
       (str_replace ''%7B'' ''{'' (str_replace ''%22'' [CHR 0x22] s)))))"

text \<open>The fields of a message, in their order, as far as the first that is handed over.\<close>

fun deliver ::
  "('pk, 'sk, 'sig, 'st) wenv \<Rightarrow> ('pk, 'sig, 'st) qenv \<Rightarrow> ('pk, 'sk, 'sig, 'st) subscription_handler \<Rightarrow> 'sk listen_env \<Rightarrow>
   string list \<Rightarrow> string \<Rightarrow> string \<Rightarrow> string list \<Rightarrow> bool \<times> listen_state \<Rightarrow> ('st, bool \<times> listen_state) mio" where
  "deliver E Q H L msgvec from signature [] (first_response, s) = io_return (first_response, s)"
| "deliver E Q H L msgvec from signature (f # fs) (first_response, s) =
     (if starts_with f ''mapmessage='' then
        let r5 = decode_message (str_split CHR ''='' f ! 1);
            s = s\<lparr>ls_delcount := (if first_response then 1 else ls_delcount s + 1)\<rparr>
        in io_bind (io_lift (unwrap (get_grinbox_address E (le_config L)))) (\<lambda>expected.
           io_match (io_lift (from_response E from r5 [] signature (le_secret_key L) (Some expected)))
             (\<lambda>(slate, tx_proof).
                io_match (io_lift (mwcmqs_from_str E from))
                  (\<lambda>from. io_bind (h_slate H (AMWCMQS from) slate (Some tx_proof) (Some (le_broker_config L))) (\<lambda>_.
                     io_return (False, s)))
                  (\<lambda>_. io_bind (on_world (print_error Q msgvec ''error parsing from'' (- 12))) (\<lambda>_.
                     deliver E Q H L msgvec from signature fs (False, s\<lparr>ls_is_error := True\<rparr>))))
             (\<lambda>err. io_bind (on_world (println (''Error: '' @ err_display err))) (\<lambda>_.
                deliver E Q H L msgvec from signature fs (False, s))))
      else deliver E Q H L msgvec from signature fs (first_response, s))"

definition is_new_login :: "string \<Rightarrow> bool" where
  "is_new_login m \<longleftrightarrow> m = ''message: closenewlogin'' @ [CHR 0x0A] \<or> m = ''closenewlogin''"

definition is_exit_message :: "string \<Rightarrow> bool" where
  "is_exit_message m \<longleftrightarrow> m = ''message: mapmessage=nil'' @ [CHR 0x0A] \<or> m = ''mapmessage=nil'' \<or> m = ''mapmessage=nil'' @ [CHR 0x0A]"

definition message_fields :: "string \<Rightarrow> string list" where
  "message_fields m =
     (let vec = str_split CHR '' '' m
      in str_split CHR ''&'' (if length vec = 1 then vec ! 0 else vec ! 1))"

text \<open>The messages of one body; the first component of the result says to leave the loop.\<close>

fun take_messages ::
  "('pk, 'sk, 'sig, 'st) wenv \<Rightarrow> ('pk, 'sig, 'st) qenv \<Rightarrow> ('pk, 'sk, 'sig, 'st) subscription_handler \<Rightarrow> 'sk listen_env \<Rightarrow>
   string list \<Rightarrow> string list \<Rightarrow> bool \<times> listen_state \<Rightarrow> ('st, bool \<times> listen_state) mio" where
  "take_messages E Q H L msgvec [] (first_response, s) = io_return (False, s)"
| "take_messages E Q H L msgvec (m # ms) (first_response, s) =
     (if is_new_login m then io_bind (on_world (new_login Q)) (\<lambda>_. io_return (True, s))
      else if is_exit_message m then
        take_messages E Q H L msgvec ms (False, s\<lparr>ls_delcount := (if first_response then 1 else ls_delcount s + 1)\<rparr>)
      else
        let fds = message_fields m
        in if length fds \<noteq> 3 then
             if str_contains m ''nginx'' then
               io_bind (on_world (nginx_error L s)) (\<lambda>s. take_messages E Q H L msgvec ms (first_response, s))
             else
               io_bind (on_world (print_error Q msgvec ''splitxveclen != 3'' (- 2))) (\<lambda>_.
               take_messages E Q H L msgvec ms (first_response, s\<lparr>ls_is_error := True\<rparr>))
           else
             let s = (if ls_isnginxerror s then s\<lparr>ls_isnginxerror := False, ls_connected := True\<rparr> else s);
                 from = str_replace ''%40'' ''@'' (field_value ''from'' [] fds);
                 signature = field_value ''signature'' [] fds
             in io_bind (deliver E Q H L msgvec from signature fds (first_response, s)) (\<lambda>fs.
                take_messages E Q H L msgvec ms fs))"

text \<open>No answer: a timeout is how an idle poll ends.\<close>

definition no_answer :: "'sk listen_env \<Rightarrow> string \<Rightarrow> listen_state \<Rightarrow> ('st, listen_state) wio" where
  "no_answer L err_message s =
     (if \<not> str_contains err_message TIMEOUT_ERROR_REGEX then
        io_bind (if ls_connected s then lost_connection L else io_return ()) (\<lambda>_.
        io_return (s\<lparr>ls_is_in_warning := ls_connected s \<or> ls_is_in_warning s, ls_connected := False\<rparr>))
      else if ls_count s = 1 then
        io_bind (listener_started L) (\<lambda>_. io_return (s\<lparr>ls_delcount := 0, ls_connected := True\<rparr>))
      else if \<not> ls_connected s \<and> ls_is_in_warning s then
        io_bind (println (''INFO: mwcmqs listener ['' @ le_stripped L @ ''] reestablished connection. tid=['' @ le_nanoid L @ '']'')) (\<lambda>_.
        io_return (s\<lparr>ls_delcount := 0, ls_is_in_warning := False, ls_isnginxerror := False, ls_connected := True\<rparr>))
      else io_return (s\<lparr>ls_delcount := 0, ls_connected := True\<rparr>))"

text \<open>An answer, before its body is read.\<close>

definition answered :: "'sk listen_env \<Rightarrow> listen_state \<Rightarrow> ('st, listen_state) wio" where
  "answered L s =
     (if ls_count s = 1 then io_bind (listener_started L) (\<lambda>_. io_return s)
      else if \<not> ls_connected s \<and> \<not> ls_isnginxerror s then
        io_bind (if ls_is_in_warning s then println (''INFO: listener ['' @ le_stripped L @ ''] reestablished connection.'')
                 else io_return ()) (\<lambda>_.
        io_return (s\<lparr>ls_is_in_warning := False, ls_isnginxerror := False, ls_connected := True\<rparr>))
      else if \<not> ls_isnginxerror s then io_return (s\<lparr>ls_connected := True\<rparr>)
      else io_return s)"

text \<open>One round of the loop, from the top; \<open>None\<close> leaves it.\<close>

definition listen_round ::
  "('pk, 'sk, 'sig, 'st) wenv \<Rightarrow> ('pk, 'sig, 'st) qenv \<Rightarrow> ('pk, 'sk, 'sig, 'st) subscription_handler \<Rightarrow> 'sk listen_env \<Rightarrow>
   listen_state \<Rightarrow> ('st, listen_state option) mio" where
  "listen_round E Q H L s =
     (let s = s\<lparr>ls_loop_count := ls_loop_count s + 1\<rparr>
      in if ls_is_error s then io_return None
         else
           let s = s\<lparr>ls_count := ls_count s + 1\<rparr>
           in io_bind (on_world (lib_quiet (q_read_inner Q))) (\<lambda>running.
              if \<not> running then io_return None
              else
                io_bind (on_world (lib_quiet (q_read_inner Q))) (\<lambda>running.
                if \<not> running then io_return None
                else
                  io_match (on_world (lib_quiet (q_client_build Q (if \<not> ls_connected s then 2 else 120))))
                    (\<lambda>_.
                       let get_url = (if ls_loop_count s = 1 then listener_url L ''nil'' @ ''&first=true'' else ls_url s)
                       in io_bind (on_world (lib_quiet (q_get Q get_url))) (\<lambda>result.
                          case result of
                            Get_error err_message \<Rightarrow> io_bind (on_world (no_answer L err_message s)) (\<lambda>s. io_return (Some s))
                          | Get_unreadable err \<Rightarrow>
                              io_bind (on_world (answered L s)) (\<lambda>s.
                              io_bind (on_world (println (''io error occured while trying to connect to '' @ server_url (le_config L) @
                                ''. Will sleep for 5 second and will reconnect.''))) (\<lambda>_.
                              io_bind (on_world (println (''Error: '' @ err))) (\<lambda>_.
                              io_return (Some s))))
                          | Get_body resp_str \<Rightarrow>
                              io_bind (on_world (answered L s)) (\<lambda>s.
                              io_bind (on_world (read_body Q L resp_str s)) (\<lambda>(reading, s).
                              case reading of
                                Read_again \<Rightarrow> io_return (Some s)
                              | Read_quit \<Rightarrow> io_return None
                              | Read_messages msgvec \<Rightarrow>
                                  io_bind (take_messages E Q H L msgvec msgvec (True, s)) (\<lambda>(break_out, s).
                                  io_return (if break_out then None else Some s))))))
                    (\<lambda>_. io_bind (on_world (print_error Q [] (''couldn'' @ apos @ ''t instantiate client'') (- 101))) (\<lambda>_.
                       io_return (Some (s\<lparr>ls_is_error := True\<rparr>)))))))"

primrec listen_loop ::
  "('pk, 'sk, 'sig, 'st) wenv \<Rightarrow> ('pk, 'sig, 'st) qenv \<Rightarrow> ('pk, 'sk, 'sig, 'st) subscription_handler \<Rightarrow> 'sk listen_env \<Rightarrow>
   nat \<Rightarrow> listen_state \<Rightarrow> ('st, unit) mio" where
  "listen_loop E Q H L 0 s = io_lift Hang"
| "listen_loop E Q H L (Suc fuel) s =
     io_bind (listen_round E Q H L s) (\<lambda>next.
     case next of None \<Rightarrow> io_return () | Some s \<Rightarrow> listen_loop E Q H L fuel s)"

text \<open>The server's time, or \<open>None\<close>.\<close>

definition get_time_now ::
  "('pk, 'sig, 'st) qenv \<Rightarrow> 'sk wallet713_config \<Rightarrow> string \<Rightarrow> ('st, string option) wio" where
  "get_time_now Q config stripped =
     io_match (lib_quiet (q_client_build Q 10))
       (\<lambda>_. io_bind (lib_quiet (q_get Q (server_url config @ ''/timenow?address='' @ at_escaped stripped))) (\<lambda>result.
          io_return (case result of Get_body t \<Rightarrow> Some t | _ \<Rightarrow> None)))
       (\<lambda>_. io_return None)"

definition mwcmqs_subscribe ::
  "('pk, 'sk, 'sig, 'st) wenv \<Rightarrow> ('pk, 'sig, 'st) qenv \<Rightarrow> ('pk, 'sk, 'sig, 'st) subscription_handler \<Rightarrow> nat \<Rightarrow>
   'sk wallet713_config \<Rightarrow> mwcmqs_address \<Rightarrow> 'sk \<Rightarrow> 'sk wallet713_config \<Rightarrow> ('st, unit) mio" where
  "mwcmqs_subscribe E Q H fuel broker_config address secret_key config =
     io_bind (on_world (lib_quiet (q_nanoid Q))) (\<lambda>nanoid.
     io_bind (on_world (lib_quiet (q_set_inner Q True))) (\<lambda>_.
     io_bind (io_lift (mwcmqs_stripped address)) (\<lambda>stripped.
     io_bind (on_world (get_time_now Q config stripped)) (\<lambda>time.
     let time_now = unwrap_or time []
     in io_bind (io_lift (unwrap (sign_challenge (sha256 E) E time_now secret_key))) (\<lambda>signature.
        let time_now_signature = str_replace '')'' [] (str_replace ''Signature('' [] (q_sig_debug Q signature));
            L = \<lparr>le_config = config, le_broker_config = broker_config, le_secret_key = secret_key, le_stripped = stripped,
                 le_time_now = time_now, le_signature = time_now_signature, le_nanoid = nanoid\<rparr>;
            s = \<lparr>ls_count = 0, ls_loop_count = 0, ls_connected = False, ls_isnginxerror = False, ls_delcount = 0,
                 ls_is_in_warning = False, ls_is_error = False, ls_url = listener_url L ''nil''\<rparr>
        in io_bind (case time of
               None \<Rightarrow> on_world (println (''ERROR: Failed to start mwcmqs subscriber. Error connecting to '' @
                 cfg_mwcmqs_domain config @ '':'' @ show_nat (unat (cfg_mwcmqs_port config))))
             | Some _ \<Rightarrow>
                 io_bind (listen_loop E Q H L fuel s) (\<lambda>_.
                 on_world (println (''mwcmqs listener ['' @ stripped @ ''] stopped. tid=['' @ nanoid @ '']'')))) (\<lambda>_.
           on_world (lib_quiet (q_set_inner Q False))))))))"

definition mwcmq_subscriber_start ::
  "('pk, 'sk, 'sig, 'st) wenv \<Rightarrow> ('pk, 'sig, 'st) qenv \<Rightarrow> ('pk, 'sk, 'sig, 'st) subscription_handler \<Rightarrow> nat \<Rightarrow>
   'sk mwcmq_subscriber \<Rightarrow> ('st, unit) mio" where
  "mwcmq_subscriber_start E Q H fuel self =
     mwcmqs_subscribe E Q H fuel (ms_broker_config self) (ms_address self) (ms_secret_key self) (ms_config self)"

section \<open>Publishing\<close>

interpretation mqp: publisher_contract "mwcmqs_post_slate E Q pub" for E Q pub
proof
  have "upholds off_wallet (mwcmqs_post_slate E Q pub s a)" for s a
    unfolding mwcmqs_post_slate_def mwcmqs_broker_post_def check_sent_def
    by (intro off.upholds_rules off.upholds_println)
  then show "off_wallet w (snd (mwcmqs_post_slate E Q pub s a w))" for w s a by (simp add: upholds_def)
qed

section \<open>Form encoding\<close>

text \<open>The characters the listener decodes, as a form writes them.\<close>

definition form_escape :: "char \<Rightarrow> string" where
  "form_escape c =
     (if c = CHR 0x22 then ''%22'' else if c = CHR ''{'' then ''%7B'' else if c = CHR ''}'' then ''%7D''
      else if c = CHR '':'' then ''%3A'' else if c = CHR '','' then ''%2C'' else [c])"

definition plain_text :: "string \<Rightarrow> bool" where
  "plain_text s \<longleftrightarrow> (\<forall>c \<in> set s. graphic c \<and> c \<notin> set ''%&='')"

lemma str_replace_skip: "\<not> starts_with (x # s) p \<Longrightarrow> str_replace p r (x # s) = x # str_replace p r s"
  by (subst str_replace.simps) auto

definition coded :: "string \<Rightarrow> char \<Rightarrow> char \<Rightarrow> string \<Rightarrow> bool" where
  "coded q c x g \<longleftrightarrow>
     (if x = c then g = CHR ''%'' # q
      else g = [x] \<and> x \<noteq> CHR ''%'' \<or> (\<exists>a b. g = [CHR ''%'', a, b] \<and> [a, b] \<noteq> q \<and> a \<noteq> CHR ''%'' \<and> b \<noteq> CHR ''%''))"

lemma str_replace_coded:
  assumes "length q = 2" and "\<forall>x \<in> set s. coded q c x (g x)"
  shows "str_replace (CHR ''%'' # q) [c] (concat (map g s)) = concat (map (g(c := [c])) s)"
proof -
  define h where "h = g(c := [c])"
  have h: "h c = [c]" "\<And>x. x \<noteq> c \<Longrightarrow> h x = g x" by (simp_all add: h_def)
  let ?p = "CHR ''%'' # q"
  have "str_replace ?p [c] (concat (map g s)) = concat (map h s)" using assms(2)
  proof (induction s)
    case (Cons x s)
    let ?r = "concat (map g s)"
    have IH: "str_replace ?p [c] ?r = concat (map h s)" using Cons by simp
    from Cons.prems have "coded q c x (g x)" by simp
    then consider "x = c" "g x = ?p" | "x \<noteq> c" "g x = [x]" "x \<noteq> CHR ''%''"
      | a b where "x \<noteq> c" "g x = [CHR ''%'', a, b]" "[a, b] \<noteq> q" "a \<noteq> CHR ''%''" "b \<noteq> CHR ''%''"
      unfolding coded_def by (auto split: if_splits)
    then show ?case
    proof cases
      case 1
      then show ?thesis using IH str_replace_hit [of ?p "[c]" ?r] h by simp
    next
      case 2
      then show ?thesis using IH h by (simp add: str_replace_miss [of ?p "CHR ''%''" q])
    next
      case (3 a b)
      have "\<not> starts_with (CHR ''%'' # a # b # ?r) ?p"
        using 3(3) assms(1) by (auto simp: starts_with_def numeral_2_eq_2)
      then show ?thesis using 3 IH h by (simp add: str_replace_skip str_replace_miss [of ?p "CHR ''%''" q])
    qed
  qed simp
  then show ?thesis by (simp add: h_def)
qed

lemma decode_form:
  assumes "plain_text s"
  shows "decode_message (concat (map form_escape s)) = s"
proof -
  let ?g1 = "form_escape(CHR 0x22 := [CHR 0x22])"
  let ?g2 = "?g1(CHR ''{'' := ''{'')"
  let ?g3 = "?g2(CHR ''}'' := ''}'')"
  let ?g4 = "?g3(CHR '':'' := '':'')"
  let ?g5 = "?g4(CHR '','' := '','')"
  have p: "x \<noteq> CHR ''%''" if "x \<in> set s" for x using assms that by (auto simp: plain_text_def)
  have "str_replace ''%22'' [CHR 0x22] (concat (map form_escape s)) = concat (map ?g1 s)"
    by (rule str_replace_coded) (use p in \<open>auto simp: coded_def form_escape_def\<close>)
  moreover have "str_replace ''%7B'' ''{'' (concat (map ?g1 s)) = concat (map ?g2 s)"
    by (rule str_replace_coded) (use p in \<open>auto simp: coded_def form_escape_def\<close>)
  moreover have "str_replace ''%7D'' ''}'' (concat (map ?g2 s)) = concat (map ?g3 s)"
    by (rule str_replace_coded) (use p in \<open>auto simp: coded_def form_escape_def\<close>)
  moreover have "str_replace ''%3A'' '':'' (concat (map ?g3 s)) = concat (map ?g4 s)"
    by (rule str_replace_coded) (use p in \<open>auto simp: coded_def form_escape_def\<close>)
  moreover have "str_replace ''%2C'' '','' (concat (map ?g4 s)) = concat (map ?g5 s)"
    by (rule str_replace_coded) (use p in \<open>auto simp: coded_def form_escape_def\<close>)
  moreover have "?g5 = (\<lambda>c. [c])" by (auto simp: form_escape_def)
  ultimately have "decode_message (concat (map form_escape s)) = str_trim (concat (map (\<lambda>c. [c]) s))"
    by (simp add: decode_message_def)
  also have "\<dots> = s" using assms by (simp add: plain_text_def trim_graphic)
  finally show ?thesis .
qed

lemma form_escape_char: "d \<in> set (form_escape c) \<Longrightarrow> d = c \<or> d \<in> set ''%237BDAC''"
  by (auto simp: form_escape_def split: if_splits)

lemma form_escape_graphic: "d \<in> set ''%237BDAC'' \<Longrightarrow> graphic d \<and> d \<notin> set ''&= ''"
  by (auto simp: graphic_def)

lemma graphic_not_blank: "graphic c \<Longrightarrow> c \<noteq> CHR '' ''"
  by (auto simp: graphic_def)

lemma form_text:
  assumes "plain_text s"
  shows "\<forall>d \<in> set (concat (map form_escape s)). graphic d \<and> d \<notin> set ''&= ''"
proof
  fix d assume "d \<in> set (concat (map form_escape s))"
  then obtain c where c: "c \<in> set s" "d \<in> set (form_escape c)" by auto
  then have "graphic c \<and> c \<notin> set ''&= ''" using assms graphic_not_blank [of c] by (auto simp: plain_text_def)
  then show "graphic d \<and> d \<notin> set ''&= ''" using form_escape_char [OF c(2)] form_escape_graphic [of d] by blast
qed

section \<open>What reaches the handler\<close>

text \<open>A text that reads as an address of both kinds names one key.\<close>

lemma same_sender:
  assumes "grinbox_from_str E s = Ok g" and "mwcmqs_from_str E s = Ok a"
  shows "grinbox_public_key E g = mwcmqs_public_key E a"
proof -
  obtain pk d p k where g: "mq_captures ''mwcmq://'' s = Some (pk, d, p)"
    "public_key_from_base58_check (sha256 E) E pk (version_bytes E) = Ok k"
    "public_key_to_base58_check (sha256 E) E k (version_bytes E) = Ok (gb_public_key g)"
    using assms(1) by (auto simp: grinbox_from_str_def grinbox_new_def obind_Ok_iff split: option.splits prod.splits)
  obtain pk' d' p' k' where a: "mq_captures ''mwcmqs://'' s = Some (pk', d', p')"
    "public_key_from_base58_check (sha256 E) E pk' (version_bytes E) = Ok k'"
    "public_key_to_base58_check (sha256 E) E k' (version_bytes E) = Ok (mq_public_key a)"
    using assms(2) by (auto simp: mwcmqs_from_str_def mwcmqs_new_def obind_Ok_iff split: option.splits prod.splits)
  have gt: "mq_groups pk d p" "s = mq_text pk d p \<or> s = ''mwcmq://'' @ mq_text pk d p" using g(1) grinbox_captures by auto
  have at: "mq_groups pk' d' p'" "s = mq_text pk' d' p' \<or> s = ''mwcmqs://'' @ mq_text pk' d' p'" using a(1) mwcmqs_captures by auto
  have n: "\<not> starts_with (mq_text x y z) ''mwcmq://''" "\<not> starts_with (mq_text x y z) ''mwcmqs://''"
    if "mq_groups x y z" for x y z
    using mq_no_scheme [OF that, of 5 "''mwcmq://''"] mq_no_scheme [OF that, of 6 "''mwcmqs://''"] by simp_all
  have "\<not> starts_with s ''mwcmq://''" "\<not> starts_with s ''mwcmqs://''"
    using at(2) n [OF at(1)] gt(2) n [OF gt(1)] by (auto simp: starts_with_def)
  then have "s = mq_text pk d p" and "s = mq_text pk' d' p'" using gt(2) at(2) by (auto simp: starts_with_iff)
  then have "mq_body s = Some (pk, d, p)" "mq_body s = Some (pk', d', p')" using gt(1) at(1) mq_body_iff by auto
  then have "pk' = pk" by simp
  then show ?thesis using g a by (simp add: grinbox_public_key_def mwcmqs_public_key_def)
qed

text \<open>
  A slate with its proof is authentic when the proof's signature over the message is by the key
  of the address it is handed over with, and the message is meant for this wallet and opens
  with its key to that slate.
\<close>

definition authentic ::
  "('pk, 'sk, 'sig, 'st) wenv \<Rightarrow> 'sk listen_env \<Rightarrow> mwcmqs_address \<Rightarrow> 'pk slate \<Rightarrow> 'sig tx_proof \<Rightarrow> bool" where
  "authentic E L a slate pf \<longleftrightarrow>
     (\<exists>pk m own text. mwcmqs_public_key E a = Ok pk \<and>
        verify_signature (sha256 E) E (tp_message pf) (tp_signature pf) pk = Ok () \<and>
        message_from_json E (tp_message pf) = Some m \<and>
        get_grinbox_address E (le_config L) = Ok own \<and>
        (\<forall>d. em_destination m = Some d \<longrightarrow> gb_public_key d = gb_public_key own) \<and>
        obind (encrypted_message_key E m pk (le_secret_key L)) (decrypt_with_key E m) = Ok text \<and>
        deserialize_upgrade E text = Some slate)"

lemma response_authentic:
  assumes "get_grinbox_address E (le_config L) = Ok own"
    and "from_response E from text [] sig (le_secret_key L) (Some own) = Ok (slate, pf)"
    and "mwcmqs_from_str E from = Ok a"
  shows "authentic E L a slate pf"
proof -
  obtain dest pk m t where v: "grinbox_public_key E (tp_address pf) = Ok pk"
    "verify_signature (sha256 E) E (tp_message pf @ tp_challenge pf) (tp_signature pf) pk = Ok ()"
    "message_from_json E (tp_message pf) = Some m" "dest = em_destination m" "\<not> destination_differs dest (Some own)"
    "decrypt_with_key E m (tp_key pf) = Ok t" "deserialize_upgrade E t = Some slate"
    using from_response_Ok(1) [OF assms(2)] unfolding verify_extract_Ok by blast
  have k: "encrypted_message_key E m pk (le_secret_key L) = Ok (tp_key pf)"
    using from_response_Ok(4,5) [OF assms(2)] v(1,3) by auto
  have "mwcmqs_public_key E a = Ok pk"
    using same_sender [OF from_response_Ok(2) [OF assms(2)] assms(3)] v(1) by simp
  then show ?thesis using v k assms(1) from_response_Ok(4) [OF assms(2)]
    by (auto simp: authentic_def destination_differs_def split: option.splits)
qed

text \<open>Two handlers that treat authentic slates alike.\<close>

definition agree_on_authentic ::
  "('pk, 'sk, 'sig, 'st) wenv \<Rightarrow> 'sk listen_env \<Rightarrow> ('pk, 'sk, 'sig, 'st) subscription_handler \<Rightarrow>
   ('pk, 'sk, 'sig, 'st) subscription_handler \<Rightarrow> bool" where
  "agree_on_authentic E L H H' \<longleftrightarrow>
     (\<forall>a slate pf c. authentic E L a slate pf \<longrightarrow> h_slate H (AMWCMQS a) slate (Some pf) c = h_slate H' (AMWCMQS a) slate (Some pf) c)"

lemma io_match_cong:
  assumes "\<And>x w w'. m w = (Ok x, w') \<Longrightarrow> k x w' = k' x w'" and "\<And>e w w'. m w = (Err e, w') \<Longrightarrow> h e w' = h' e w'"
  shows "io_match m k h = io_match m k' h'"
  using assms by (intro ext) (auto simp: io_match_def split: prod.split outcome.split)

lemma io_bind_cong: "(\<And>x w w'. m w = (Ok x, w') \<Longrightarrow> f x w' = f' x w') \<Longrightarrow> io_bind m f = io_bind m f'"
  unfolding io_bind_match by (intro io_match_cong) auto

lemma deliver_authentic:
  assumes "agree_on_authentic E L H H'"
  shows "deliver E Q H L mv from sig fds st = deliver E Q H' L mv from sig fds st"
proof (induction fds arbitrary: st)
  case Nil
  then show ?case by (cases st) simp
next
  case (Cons f fs)
  obtain fr s where st: "st = (fr, s)" by (cases st)
  have h: "h_slate H (AMWCMQS a) slate (Some pf) c = h_slate H' (AMWCMQS a) slate (Some pf) c"
    if "get_grinbox_address E (le_config L) = Ok own"
      "from_response E from t [] sig (le_secret_key L) (Some own) = Ok (slate, pf)" "mwcmqs_from_str E from = Ok a"
    for own t slate pf a c
    using assms response_authentic [OF that] by (simp add: agree_on_authentic_def)
  have m: "io_match (io_lift (mwcmqs_from_str E from))
      (\<lambda>a. io_bind (h_slate H (AMWCMQS a) slate (Some pf) c) k) g =
    io_match (io_lift (mwcmqs_from_str E from))
      (\<lambda>a. io_bind (h_slate H' (AMWCMQS a) slate (Some pf) c) k) g"
    if "unwrap (get_grinbox_address E (le_config L)) = Ok own"
      "from_response E from t [] sig (le_secret_key L) (Some own) = Ok (slate, pf)"
    for own t slate pf c k g
  proof -
    have "get_grinbox_address E (le_config L) = Ok own" using that(1) by (cases "get_grinbox_address E (le_config L)") auto
    then show ?thesis using h [OF _ that(2)] by (intro io_match_cong) (auto simp: io_lift_apply)
  qed
  show ?case
    unfolding st deliver.simps Let_def Cons.IH
    by (intro if_cong refl io_bind_cong io_match_cong [THEN fun_cong])
      (auto simp: io_lift_apply intro!: fun_cong [OF m])
qed

lemma take_messages_authentic:
  assumes "agree_on_authentic E L H H'"
  shows "take_messages E Q H L mv ms st = take_messages E Q H' L mv ms st"
proof (induction ms arbitrary: st)
  case Nil
  then show ?case by (cases st) simp
next
  case (Cons m ms)
  obtain fr s where st: "st = (fr, s)" by (cases st)
  show ?case unfolding st take_messages.simps Let_def Cons.IH deliver_authentic [OF assms] ..
qed

lemma listen_round_authentic:
  assumes "agree_on_authentic E L H H'"
  shows "listen_round E Q H L s = listen_round E Q H' L s"
  unfolding listen_round_def take_messages_authentic [OF assms] ..

text \<open>
  C11: the listener hands over authentic slates only: its run is the same for any two handlers that
  treat authentic slates alike, whatever the server sends and whatever they would do with others.
  A slate is authentic when the proof it comes with is signed by the key of the address it is handed
  over with, and its message is meant for this wallet and opens with its key to this slate.
\<close>

theorem mwcmqs_only_authentic:
  assumes "agree_on_authentic E L H H'"
  shows "listen_loop E Q H L fuel s = listen_loop E Q H' L fuel s"
proof (induction fuel arbitrary: s)
  case (Suc fuel)
  then show ?case
    unfolding listen_loop.simps listen_round_authentic [OF assms]
    by (intro io_bind_cong) (auto split: option.split)
qed simp

section \<open>Rounds of the listener\<close>

text \<open>The listener is not told to stop, builds its client and gets this answer.\<close>

definition polled ::
  "('pk, 'sig, 'st) qenv \<Rightarrow> 'sk listen_env \<Rightarrow> listen_state \<Rightarrow> 'st \<Rightarrow> get_result \<Rightarrow> 'st \<Rightarrow> bool" where
  "polled Q L s l r l' \<longleftrightarrow> (\<exists>l1 l2 l3. q_read_inner Q l = (Ok True, l1) \<and> q_read_inner Q l1 = (Ok True, l2) \<and>
     q_client_build Q (if ls_connected s then 120 else 2) l2 = (Ok (), l3) \<and>
     q_get Q (if ls_loop_count s = 0 then listener_url L ''nil'' @ ''&first=true'' else ls_url s) l3 = (Ok r, l'))"

lemma quiet_apply: "op (w_lib w) = (r, l) \<Longrightarrow> on_world (lib_quiet op) (w, self) = (r, (w\<lparr>w_lib := l\<rparr>, self))"
  by (simp add: on_world_def lib_quiet_def)

lemma answered_apply:
  "\<exists>out. on_world (answered L s) (w, self) =
     (Ok (if ls_count s = 1 \<or> ls_isnginxerror s then s
          else if ls_connected s then s else s\<lparr>ls_is_in_warning := False, ls_isnginxerror := False, ls_connected := True\<rparr>),
      (w\<lparr>w_out := w_out w @ out\<rparr>, self))"
proof (cases "ls_count s = 1 \<or> ls_isnginxerror s \<or> ls_connected s \<or> \<not> ls_is_in_warning s")
  case True
  then show ?thesis
    by (auto simp: answered_def on_world_def io_bind_def io_return_def listener_started_def println_def io_modify_def
        intro: exI [of _ "[]"])
next
  case False
  then show ?thesis
    by (auto simp: answered_def on_world_def io_bind_def io_return_def println_def io_modify_def)
qed

text \<open>The end of a round, once the body is read.\<close>

definition after_body ::
  "('pk, 'sk, 'sig, 'st) wenv \<Rightarrow> ('pk, 'sig, 'st) qenv \<Rightarrow> ('pk, 'sk, 'sig, 'st) subscription_handler \<Rightarrow> 'sk listen_env \<Rightarrow>
   reading \<times> listen_state \<Rightarrow> ('st, listen_state option) mio" where
  "after_body E Q H L = (\<lambda>(reading, s).
         case reading of
           Read_again \<Rightarrow> io_return (Some s)
         | Read_quit \<Rightarrow> io_return None
         | Read_messages msgvec \<Rightarrow>
             io_bind (take_messages E Q H L msgvec msgvec (True, s)) (\<lambda>(break_out, s).
             io_return (if break_out then None else Some s)))"

lemma round_body:
  assumes "\<not> ls_is_error s" and "polled Q L s (w_lib w) (Get_body body) l"
  obtains s' out where
    "listen_round E Q H L s (w, self) =
       io_bind (on_world (read_body Q L body s')) (after_body E Q H L) (w\<lparr>w_lib := l, w_out := w_out w @ out\<rparr>, self)"
    and "\<not> ls_is_error s'"
proof -
  obtain l1 l2 l3 where l: "q_read_inner Q (w_lib w) = (Ok True, l1)" "q_read_inner Q l1 = (Ok True, l2)"
    "q_client_build Q (if ls_connected s then 120 else 2) l2 = (Ok (), l3)"
    "q_get Q (if ls_loop_count s = 0 then listener_url L ''nil'' @ ''&first=true'' else ls_url s) l3 = (Ok (Get_body body), l)"
    using assms(2) by (auto simp: polled_def)
  let ?s = "s\<lparr>ls_loop_count := ls_loop_count s + 1, ls_count := ls_count s + 1\<rparr>"
  obtain out s' where a: "on_world (answered L ?s) (w\<lparr>w_lib := l\<rparr>, self) = (Ok s', (w\<lparr>w_lib := l, w_out := w_out w @ out\<rparr>, self))"
    "\<not> ls_is_error s'"
    using answered_apply [of L ?s "w\<lparr>w_lib := l\<rparr>" self] assms(1) by (auto split: if_splits)
  have 1: "on_world (lib_quiet (q_read_inner Q)) (w, self) = (Ok True, (w\<lparr>w_lib := l1\<rparr>, self))"
    "on_world (lib_quiet (q_read_inner Q)) (w\<lparr>w_lib := l1\<rparr>, self) = (Ok True, (w\<lparr>w_lib := l2\<rparr>, self))"
    "on_world (lib_quiet (q_client_build Q (if \<not> ls_connected s then 2 else 120))) (w\<lparr>w_lib := l2\<rparr>, self) = (Ok (), (w\<lparr>w_lib := l3\<rparr>, self))"
    "on_world (lib_quiet (q_get Q (if ls_loop_count s + 1 = 1 then listener_url L ''nil'' @ ''&first=true'' else ls_url s)))
       (w\<lparr>w_lib := l3\<rparr>, self) = (Ok (Get_body body), (w\<lparr>w_lib := l\<rparr>, self))"
    using l by (auto simp: on_world_def lib_quiet_def)
  show ?thesis
  proof (rule that [OF _ a(2)])
    show "listen_round E Q H L s (w, self) =
       io_bind (on_world (read_body Q L body s')) (after_body E Q H L) (w\<lparr>w_lib := l, w_out := w_out w @ out\<rparr>, self)"
      using assms(1) 1 a(1)
      by (cases "ls_connected s"; cases "ls_loop_count s = 0")
        (simp_all add: listen_round_def after_body_def Let_def io_bind_apply_Ok [where m = "on_world m" for m] io_match_def)
  qed
qed

text \<open>A new login inside a list of messages: it is announced, and the listener goes on.\<close>

lemma list_new_login:
  assumes "CHR '' '' \<notin> set x"
  shows "list_messages Q L ((x @ '' closenewlogin'') # rest) ret s = io_bind (new_login Q) (\<lambda>_. io_return (ret, s))"
proof -
  have "str_split CHR '' '' (x @ '' closenewlogin'') = [x, ''closenewlogin'']"
    using str_split_append [OF assms, of "''closenewlogin''"] by (simp add: str_split_no_sep)
  then show ?thesis by simp
qed

lemma new_login_apply:
  "q_read_inner Q (w_lib w) = (Ok True, l) \<Longrightarrow>
   new_login Q w = (Ok (), w\<lparr>w_lib := l, w_out := w_out w @ [''ERROR: new login detected. mwcmqs listener will stop!'']\<rparr>)"
  by (simp add: new_login_def io_bind_def lib_quiet_def println_def io_modify_def)

text \<open>
  A new login that the server reports inside a message list does not stop the listener,
  although it says so: the line only ends the reading of the list, and the loop polls again, with no
  error noted. (Reported in a message of its own, it does stop it.)
\<close>

theorem new_login_in_list_ignored:
  assumes "\<not> ls_is_error s" and "polled Q L s (w_lib w) (Get_body body) l" and "q_read_inner Q l = (Ok True, l')"
    and "starts_with body ''messagelist: ''" and "str_split CHR 0x0A body = h # (x @ '' closenewlogin'') # rest"
    and "CHR '' '' \<notin> set x"
  shows "\<exists>s' out. listen_round E Q H L s (w, self) =
      (Ok (Some s'), (w\<lparr>w_lib := l', w_out := w_out w @ out @ [''ERROR: new login detected. mwcmqs listener will stop!'']\<rparr>, self)) \<and>
    \<not> ls_is_error s'"
proof -
  obtain s' out where r: "listen_round E Q H L s (w, self) =
       io_bind (on_world (read_body Q L body s')) (after_body E Q H L) (w\<lparr>w_lib := l, w_out := w_out w @ out\<rparr>, self)" "\<not> ls_is_error s'"
    by (rule round_body [OF assms(1,2)])
  let ?w = "w\<lparr>w_lib := l, w_out := w_out w @ out\<rparr>"
  let ?v = "w\<lparr>w_lib := l', w_out := w_out w @ out @ [''ERROR: new login detected. mwcmqs listener will stop!'']\<rparr>"
  have n: "new_login Q ?w = (Ok (), ?v)" using new_login_apply [of Q ?w] assms(3) by simp
  have "tl (str_split CHR 0x0A body) = (x @ '' closenewlogin'') # rest" using assms(5) by simp
  then have "list_messages Q L (tl (str_split CHR 0x0A body)) [] s' = io_bind (new_login Q) (\<lambda>_. io_return ([], s'))"
    by (simp only: list_new_login [OF assms(6)])
  then have "list_messages Q L (tl (str_split CHR 0x0A body)) [] s' ?w = (Ok ([], s'), ?v)"
    by (simp add: io_bind_apply_Ok [where m = "new_login Q", OF n] io_return_def)
  then have "on_world (read_body Q L body s') (?w, self) = (Ok (Read_messages [], s'), (?v, self))"
    using assms(4) by (simp add: read_body_def on_world_def io_bind_apply_Ok io_return_def)
  then show ?thesis using r(2) unfolding r(1)
    by (intro exI [of _ s'] exI [of _ out]) (simp add: io_bind_apply_Ok io_return_def after_body_def)
qed

section \<open>Delivery\<close>

subsection \<open>Texts\<close>

lemma plain_append [simp]: "plain_text (s @ t) \<longleftrightarrow> plain_text s \<and> plain_text t"
  by (auto simp: plain_text_def)

lemma plain_char: "ascii_alnum c \<or> c \<in> set ''@.:/'' \<Longrightarrow> graphic c \<and> c \<notin> set ''%&=''"
  by (auto simp: ascii_alnum_def ascii_digit_def graphic_def)

lemma plain_list_all: "list_all P s \<Longrightarrow> (\<And>c. P c \<Longrightarrow> ascii_alnum c \<or> c \<in> set ''@.:/'') \<Longrightarrow> plain_text s"
  using plain_char by (fastforce simp: plain_text_def list_all_iff)

lemma b58_alnum: "b58_char c \<Longrightarrow> ascii_alnum c"
proof -
  have "list_all ascii_alnum ALPHABET" by code_simp
  then show "b58_char c \<Longrightarrow> ascii_alnum c" by (auto simp: b58_char_def list_all_iff)
qed

lemma mq_text_chars:
  assumes "mq_groups pk d p" and "c \<in> set (mq_text pk d p)"
  shows "ascii_alnum c \<or> c \<in> set ''@.:/''"
proof -
  from assms(2) consider "c \<in> set pk" | x where "d = Some x" "c \<in> set x" | x where "p = Some x" "c \<in> set x" | "c \<in> set ''@:''"
    by (auto simp: mq_text_def split: option.splits)
  then show ?thesis
  proof cases
    case 1
    then show ?thesis using assms(1) b58_alnum by (simp add: mq_groups_def list_all_iff)
  next
    case 2
    then have "domain_char c" using assms(1) by (simp add: mq_groups_def list_all_iff)
    then show ?thesis by (auto simp: domain_char_def)
  next
    case 3
    then have "ascii_digit c" using assms(1) by (simp add: mq_groups_def list_all_iff)
    then show ?thesis by (simp add: ascii_alnum_def)
  qed auto
qed

lemma plain_mq_text: "mq_groups pk d p \<Longrightarrow> plain_text (mq_text pk d p)"
  unfolding plain_text_def using mq_text_chars plain_char by blast

lemma digit_char_alnum: "d < 16 \<Longrightarrow> ascii_alnum (digit_char d)"
  by (auto simp: ascii_alnum_def ascii_digit_def digit_char_def)

lemma plain_to_hex: "plain_text (to_hex bs)"
proof (rule plain_list_all [of ascii_alnum])
  have "unat b div 16 < 16" for b :: u8 using unat_u8_less [of b] by (simp add: less_mult_imp_div_less)
  then show "list_all ascii_alnum (to_hex bs)"
    by (induction bs) (auto simp: to_hex_Cons hex_byte_def digit_char_alnum)
qed simp

lemma plain_signature: "generate_signature E t sk = Ok sg \<Longrightarrow> plain_text sg"
  by (auto simp: generate_signature_def obind_Ok_iff signature_to_hex_def plain_to_hex)

lemma str_replace_chars: "c \<in> set (str_replace p r s) \<Longrightarrow> c \<in> set r \<or> c \<in> set s"
proof (induction p r s rule: str_replace.induct)
  case (1 p r s)
  show ?case
  proof (cases s)
    case (Cons x xs)
    show ?thesis
    proof (cases "p \<noteq> [] \<and> starts_with s p")
      case True
      then have "c \<in> set (r @ str_replace p r (drop (length p) s))" using 1(3) Cons by (subst (asm) str_replace.simps) simp
      then show ?thesis using 1(1) [OF Cons True] by (auto dest: in_set_dropD)
    next
      case False
      then have "c \<in> set (x # str_replace p r xs)" using 1(3) Cons by (subst (asm) str_replace.simps) auto
      then show ?thesis using 1(2) [OF Cons False] Cons by auto
    qed
  qed (use 1(3) in simp)
qed

text \<open>An address in a form: written with its at sign escaped, read back by the listener.\<close>

lemma at_escaped_text:
  assumes "plain_text s"
  shows "\<forall>c \<in> set (at_escaped s). graphic c \<and> c \<notin> set ''&= ''"
  using str_replace_chars [of _ "''@''" "''%40''" s] assms graphic_not_blank
  by (fastforce simp: at_escaped_def plain_text_def graphic_def)

lemma at_escaped_read:
  assumes "plain_text s"
  shows "str_replace ''%40'' ''@'' (str_trim (at_escaped s)) = s"
proof -
  have "str_trim (at_escaped s) = at_escaped s" using at_escaped_text [OF assms] by (intro trim_graphic) blast
  then show ?thesis using str_replace_escape [of "CHR ''%''" s "CHR ''@''" "''40''"] assms
    by (auto simp: at_escaped_def plain_text_def)
qed

subsection \<open>A relayed message\<close>

definition form_fields :: "string \<Rightarrow> string \<Rightarrow> string \<Rightarrow> string list" where
  "form_fields from t sg = [''from='' @ at_escaped from, ''mapmessage='' @ concat (map form_escape t), ''signature='' @ sg]"

definition field_text :: "string \<Rightarrow> bool" where
  "field_text v \<longleftrightarrow> (\<forall>c \<in> set v. graphic c \<and> c \<notin> set ''&= '')"

lemma field_read:
  assumes "field_text v" and "CHR ''='' \<notin> set name"
  shows "str_split CHR ''='' (name @ ''='' @ v) = [name, v]"
proof -
  have "CHR ''='' \<notin> set v" using assms(1) by (auto simp: field_text_def)
  then show ?thesis using str_split_append [OF assms(2), of v] by (simp add: str_split_no_sep)
qed

lemma field_value_unique:
  assumes "\<forall>g \<in> set fds. starts_with g (name @ ''='') \<longrightarrow> g = f" and "f \<in> set fds" and "starts_with f (name @ ''='')"
  shows "field_value name d fds = str_trim (str_split CHR ''='' f ! 1)"
proof -
  have "foldl (\<lambda>v g. if starts_with g (name @ ''='') then str_trim (str_split CHR ''='' g ! 1) else v) d xs =
      (if f \<in> set xs then str_trim (str_split CHR ''='' f ! 1) else d)" if "set xs \<subseteq> set fds" for xs
    using that assms(1,3) by (induction xs rule: rev_induct) auto
  then show ?thesis using assms(2) by (simp add: field_value_def)
qed

lemma deliver_skips:
  "\<forall>g \<in> set pre. \<not> starts_with g ''mapmessage='' \<Longrightarrow>
   deliver E Q H L mv from sg (pre @ fds) (fr, s) = deliver E Q H L mv from sg fds (fr, s)"
  by (induction pre) simp_all

lemma form_fields_text:
  assumes "plain_text from" and "plain_text t" and "plain_text sg" and "f \<in> set (form_fields from t sg)"
  shows "CHR ''&'' \<notin> set f \<and> CHR '' '' \<notin> set f"
  using assms(4) at_escaped_text [OF assms(1)] form_text [OF assms(2)] assms(3) graphic_not_blank
  by (fastforce simp: form_fields_def plain_text_def)

lemma form_fields_values:
  assumes "plain_text from" and "plain_text t" and "plain_text sg" and "mset fds = mset (form_fields from t sg)"
  shows "str_replace ''%40'' ''@'' (field_value ''from'' [] fds) = from" and "field_value ''signature'' [] fds = sg"
proof -
  have s: "set fds = set (form_fields from t sg)" using assms(4) by (metis set_mset_mset)
  have v: "field_text (at_escaped from)" "field_text sg"
    using at_escaped_text [OF assms(1)] assms(3) graphic_not_blank by (auto simp: field_text_def plain_text_def)
  have "field_value ''from'' [] fds = str_trim (at_escaped from)"
    using field_value_unique [of fds "''from''" "''from='' @ at_escaped from" "[]"] field_read [OF v(1), of "''from''"]
    by (auto simp: s form_fields_def starts_with_def)
  then show "str_replace ''%40'' ''@'' (field_value ''from'' [] fds) = from" using at_escaped_read [OF assms(1)] by simp
  have "str_trim sg = sg" using v(2) by (intro trim_graphic) (auto simp: field_text_def)
  then show "field_value ''signature'' [] fds = sg"
    using field_value_unique [of fds "''signature''" "''signature='' @ sg" "[]"] field_read [OF v(2), of "''signature''"]
    by (auto simp: s form_fields_def starts_with_def)
qed


lemma str_join_chars: "c \<in> set (str_join sep ps) \<Longrightarrow> c \<in> set sep \<or> (\<exists>p \<in> set ps. c \<in> set p)"
  by (induction sep ps rule: str_join.induct) auto

text \<open>The fields of a form in any order, joined, make a message the listener takes apart again.\<close>

lemma relayed_fields:
  assumes "plain_text from" and "plain_text t" and "plain_text sg" and "mset fds = mset (form_fields from t sg)"
  defines "m \<equiv> str_join ''&'' fds"
  shows "message_fields m = fds" and "\<not> is_new_login m" and "\<not> is_exit_message m" and "length fds = 3"
proof -
  have s: "set fds = set (form_fields from t sg)" using assms(4) by (metis set_mset_mset)
  show l: "length fds = 3" using arg_cong [OF assms(4), of size] by (simp add: form_fields_def)
  have no: "CHR ''&'' \<notin> set f \<and> CHR '' '' \<notin> set f" if "f \<in> set fds" for f
    using form_fields_text [OF assms(1-3)] that s by blast
  have sp: "str_split CHR ''&'' m = fds"
    unfolding m_def using no l by (intro str_split_join) auto
  have "CHR '' '' \<notin> set m" unfolding m_def using str_join_chars [of "CHR '' ''" "''&''" fds] no by auto
  then show "message_fields m = fds" by (simp add: message_fields_def str_split_no_sep sp)
  have "length (str_split CHR ''&'' x) = 1" if "is_new_login x \<or> is_exit_message x" for x
    using that by (auto simp: is_new_login_def is_exit_message_def)
  then show "\<not> is_new_login m" "\<not> is_exit_message m" using sp l by fastforce+
qed

lemma deliver_form:
  assumes "plain_text from" and "plain_text t" and "plain_text sg" and "mset fds = mset (form_fields from t sg)"
    and "get_grinbox_address E (le_config L) = Ok own"
    and "from_response E from t [] sg (le_secret_key L) (Some own) = Ok (slate, pf)" and "mwcmqs_from_str E from = Ok a"
  shows "deliver E Q H L mv from sg fds (fr, s) =
    io_bind (h_slate H (AMWCMQS a) slate (Some pf) (Some (le_broker_config L))) (\<lambda>_.
      io_return (False, s\<lparr>ls_delcount := (if fr then 1 else ls_delcount s + 1)\<rparr>))"
proof -
  let ?f = "''mapmessage='' @ concat (map form_escape t)"
  have s: "set fds = set (form_fields from t sg)" using assms(4) by (metis set_mset_mset)
  then have "?f \<in> set fds" by (simp add: form_fields_def)
  then obtain pre post where f: "fds = pre @ ?f # post" "?f \<notin> set pre" by (metis split_list_first)
  have "set pre \<subseteq> set (form_fields from t sg)" using s f(1) by auto
  then have "\<forall>g \<in> set pre. \<not> starts_with g ''mapmessage=''"
    using f(2) by (auto simp: form_fields_def starts_with_def)
  then have "deliver E Q H L mv from sg fds (fr, s) = deliver E Q H L mv from sg (?f # post) (fr, s)"
    unfolding f(1) by (rule deliver_skips)
  moreover have "decode_message (str_split CHR ''='' ?f ! 1) = t"
    using field_read [of "concat (map form_escape t)" "''mapmessage''"] form_text [OF assms(2)] decode_form [OF assms(2)]
    by (simp add: field_text_def)
  moreover have "starts_with ?f ''mapmessage=''" by (simp add: starts_with_def)
  ultimately show ?thesis
    using assms(5-7) by (simp add: Let_def io_match_def io_bind_def io_lift_apply fun_eq_iff)
qed

lemma take_relayed:
  assumes "plain_text from" and "plain_text t" and "plain_text sg" and "mset fds = mset (form_fields from t sg)"
    and "get_grinbox_address E (le_config L) = Ok own"
    and "from_response E from t [] sg (le_secret_key L) (Some own) = Ok (slate, pf)" and "mwcmqs_from_str E from = Ok a"
  obtains s' where "take_messages E Q H L mv [str_join ''&'' fds] (fr, s) =
      io_bind (h_slate H (AMWCMQS a) slate (Some pf) (Some (le_broker_config L))) (\<lambda>_. io_return (False, s'))"
    and "ls_url s' = ls_url s"
proof -
  let ?s = "if ls_isnginxerror s then s\<lparr>ls_isnginxerror := False, ls_connected := True\<rparr> else s"
  let ?s' = "?s\<lparr>ls_delcount := (if fr then 1 else ls_delcount ?s + 1)\<rparr>"
  have "take_messages E Q H L mv [str_join ''&'' fds] (fr, s) =
      io_bind (deliver E Q H L mv from sg fds (fr, ?s)) (\<lambda>fs. take_messages E Q H L mv [] fs)"
    using relayed_fields [OF assms(1-4)] form_fields_values [OF assms(1-4)] by (simp add: Let_def)
  also have "\<dots> = io_bind (h_slate H (AMWCMQS a) slate (Some pf) (Some (le_broker_config L))) (\<lambda>_. io_return (False, ?s'))"
    unfolding deliver_form [OF assms] by (auto simp: io_bind_def io_return_def fun_eq_iff split: prod.split outcome.split)
  finally show ?thesis by (rule that) simp
qed

text \<open>The two texts that are read back: the sender's address, and the destination in the message.\<close>

lemma sender_reads:
  assumes "mwcmqs_valid E a" and "mwcmqs_public_key E a = Ok ka"
  obtains fa g where "mwcmqs_stripped a = Ok fa" and "plain_text fa" and "mwcmqs_from_str E fa = Ok a"
    and "grinbox_from_str E fa = Ok g" and "grinbox_public_key E g = Ok ka"
proof -
  obtain k where k: "mq_key E k (mq_public_key a)" and d: "mq_domain_ok (mq_domain a) (mq_port a)"
    using assms(1) by (auto simp: mwcmqs_valid_def)
  let ?d = "shown_domain DEFAULT_MWCMQS_DOMAIN (mq_domain a) (mq_port a)" and ?p = "shown_port (mq_port a)"
  let ?t = "mq_text (mq_public_key a) ?d ?p"
  have g: "mq_groups (mq_public_key a) ?d ?p" by (rule shown_groups [OF k d])
  obtain fa where fa: "mwcmqs_stripped a = Ok fa" "mwcmqs_display a = ''mwcmqs://'' @ fa" "mwcmqs_from_str E fa = Ok a"
    using mwcmqs_stripped_reads [OF assms(1)] by blast
  have t: "fa = ?t" using fa(2) mwcmqs_display_text [of a] d by (simp add: mq_domain_ok_def)
  have "mq_captures ''mwcmq://'' fa = Some (mq_public_key a, ?d, ?p)" using g t grinbox_captures by simp
  moreover have "ka = k" using assms(2) mq_key_parses [OF k] by (simp add: mwcmqs_public_key_def)
  ultimately obtain g' where "grinbox_from_str E fa = Ok g'" "gb_public_key g' = mq_public_key a"
    using k mq_key_parses [OF k] by (simp add: grinbox_from_str_def parse_shown_port grinbox_new_def mq_key_def)
  then show ?thesis
    using that [OF fa(1) _ fa(3)] plain_mq_text [OF g] t assms(2)
    by (simp add: grinbox_public_key_def mwcmqs_public_key_def)
qed

lemma destination_reads:
  assumes "mwcmqs_valid E b"
  shows "grinbox_from_str E (mwcmqs_to_str b) = Ok \<lparr>gb_public_key = mq_public_key b, gb_domain = mq_domain b,
    gb_port = Some (unwrap_or (mq_port b) DEFAULT_MWCMQS_PORT)\<rparr>"
proof -
  obtain k where k: "mq_key E k (mq_public_key b)" and d: "mq_domain_ok (mq_domain b) (mq_port b)"
    using assms by (auto simp: mwcmqs_valid_def)
  let ?n = "show_nat (unat (unwrap_or (mq_port b) DEFAULT_MWCMQS_PORT))"
  let ?t = "mq_text (mq_public_key b) (Some (mq_domain b)) (Some ?n)"
  have g: "mq_groups (mq_public_key b) (Some (mq_domain b)) (Some ?n)"
    using mq_key_text [OF k] d show_nat_digit by (simp add: mq_groups_def mq_domain_ok_def)
  have q: "str_replace [CHR 0x22] [] s = s" if "CHR 0x22 \<notin> set s" for s
    using that by (induction s) (auto simp: str_replace_miss [of "[CHR 0x22]" "CHR 0x22" "[]"])
  have p: "CHR 0x22 \<notin> set ?t"
    using mq_text_chars [OF g, of "CHR 0x22"] by (auto simp: ascii_alnum_def ascii_digit_def)
  have q1: "str_replace [CHR 0x22] [] (x @ y) = str_replace [CHR 0x22] [] y" if "x = [CHR 0x22]" for x y
    using that str_replace_hit [of "[CHR 0x22]" "[]" y] by simp
  have q2: "str_replace [CHR 0x22] [] (x @ CHR 0x22 # y) = x @ str_replace [CHR 0x22] [] y" if "CHR 0x22 \<notin> set x" for x y
    using that str_replace_hit [of "[CHR 0x22]" "[]" y]
    by (induction x) (auto simp: str_replace_miss [of "[CHR 0x22]" "CHR 0x22" "[]"])
  have "mwcmqs_to_str b = ?t"
    using q1 [of "[CHR 0x22]"] q2 [of "mq_public_key b"] q [of "''@'' @ mq_domain b @ '':'' @ ?n"] p
    by (simp add: mwcmqs_to_str_def quoted_def mq_text_def)
  moreover have "mq_captures ''mwcmq://'' ?t = Some (mq_public_key b, Some (mq_domain b), Some ?n)"
    using g grinbox_captures by simp
  ultimately show ?thesis
    using k mq_key_parses [OF k] by (simp add: grinbox_from_str_def parse_port_show grinbox_new_def mq_key_def)
qed

text \<open>A poll that brings one message with its identifier.\<close>

lemma io_bind_return_const: "io_bind (io_bind m (\<lambda>_. io_return x)) f = io_bind m (\<lambda>_. f x)"
  by (rule ext) (auto simp: io_bind_def io_return_def split: prod.split outcome.split)

lemma round_relayed:
  assumes "plain_text from" and "plain_text t" and "plain_text sg" and "mset fds = mset (form_fields from t sg)"
    and "get_grinbox_address E (le_config L) = Ok own"
    and "from_response E from t [] sg (le_secret_key L) (Some own) = Ok (slate, pf)" and "mwcmqs_from_str E from = Ok a"
    and "\<not> ls_is_error s" and "polled Q L s (w_lib w) (Get_body (mid @ '';'' @ str_join ''&'' fds)) l"
    and "CHR '';'' \<notin> set mid" and "\<not> starts_with (mid @ '';'' @ str_join ''&'' fds) ''messagelist: ''"
  shows "\<exists>out s'. listen_round E Q H L s (w, self) =
      io_bind (h_slate H (AMWCMQS a) slate (Some pf) (Some (le_broker_config L))) (\<lambda>_. io_return (Some s'))
        (w\<lparr>w_lib := l, w_out := w_out w @ out\<rparr>, self) \<and> ls_url s' = listener_url L (after_space mid)"
proof -
  let ?body = "mid @ '';'' @ str_join ''&'' fds"
  obtain s1 out where r: "listen_round E Q H L s (w, self) =
      io_bind (on_world (read_body Q L ?body s1)) (after_body E Q H L) (w\<lparr>w_lib := l, w_out := w_out w @ out\<rparr>, self)"
    by (rule round_body [OF assms(8,9)])
  let ?s = "s1\<lparr>ls_url := listener_url L (after_space mid)\<rparr>"
  have "str_find CHR '';'' ?body = Some (length mid)" using str_find_append [OF assms(10)] by simp
  then have b: "on_world (read_body Q L ?body s1) v = (Ok (Read_messages [str_join ''&'' fds], ?s), v)" for v
    using assms(11) by (cases v) (simp add: read_body_def on_world_def io_return_def)
  obtain s' where t: "take_messages E Q H L [str_join ''&'' fds] [str_join ''&'' fds] (True, ?s) =
      io_bind (h_slate H (AMWCMQS a) slate (Some pf) (Some (le_broker_config L))) (\<lambda>_. io_return (False, s'))"
    "ls_url s' = ls_url ?s"
    by (rule take_relayed [OF assms(1-7)])
  have "listen_round E Q H L s (w, self) =
      io_bind (h_slate H (AMWCMQS a) slate (Some pf) (Some (le_broker_config L))) (\<lambda>_. io_return (Some s'))
        (w\<lparr>w_lib := l, w_out := w_out w @ out\<rparr>, self)"
    unfolding r io_bind_apply_Ok [where m = "on_world (read_body Q L ?body s1)", OF b]
    unfolding after_body_def prod.case reading.case t(1) io_bind_return_const by simp
  then show ?thesis using t(2) by auto
qed

lemma mwcmqs_posts:
  assumes "mwcmqs_valid E b" and "mwcmqs_public_key E b = Ok kb" and "mwcmqs_stripped b = Ok tb"
    and "q_read_inner Q (w_lib w) = (Ok True, l0)" and "q_rng Q l0 = (Ok (salt, nonce), l1)"
    and "q_client_build Q 60 l1 = (Ok (), l2)" and "q_slate_to_string Q s = Ok text"
    and "grinbox_from_str E (mwcmqs_to_str b) = Ok d"
    and "encrypted_message_new E salt nonce text d kb (mp_secret_key pub) = Ok m" and "q_message_to_json Q m = Ok t"
    and "generate_signature E t (mp_secret_key pub) = Ok sg" and "mwcmqs_stripped (mp_address pub) = Ok fa"
  shows "mwcmqs_post_slate E Q pub s (AMWCMQS b) w =
    io_match (lib_quiet (q_post_form Q (sender_url (mp_config pub) tb)
        [(''mapmessage'', t), (''from'', fa), (''signature'', sg)]))
      (\<lambda>body. case body of None \<Rightarrow> io_lift (fail (InvalidRespose ''mwcmqs i/o error'')) | Some r \<Rightarrow> check_sent tb r)
      (\<lambda>_. io_lift (fail (InvalidRespose ''mwcmqs connection error''))) (w\<lparr>w_lib := l2\<rparr>)"
proof -
  have r: "lib_quiet (q_read_inner Q) w = (Ok True, w\<lparr>w_lib := l0\<rparr>)"
    "lib_quiet (q_rng Q) (w\<lparr>w_lib := l0\<rparr>) = (Ok (salt, nonce), w\<lparr>w_lib := l1\<rparr>)"
    "lib_quiet (q_client_build Q 60) (w\<lparr>w_lib := l1\<rparr>) = (Ok (), w\<lparr>w_lib := l2\<rparr>)"
    using assms(4-6) by (simp_all add: lib_quiet_def)
  show ?thesis
    using assms(2,3,7-12)
    by (simp add: mwcmqs_post_slate_def mwcmqs_broker_post_def mqs.from_str_display [OF assms(1)]
        io_bind_apply_Ok [where m = "lib_quiet m" for m] r)
qed

lemma mail_delivery:
  assumes "mwcmqs_valid E a" and "mwcmqs_valid E b"
    and "mwcmqs_public_key E a = Ok ka" and "mwcmqs_public_key E b = Ok kb"
    and "pk_mul_assign E kb sa = Some P" and "pk_mul_assign E ka sb = Some P" and "length (pk_serialize_vec E P) = 33"
    and "q_read_inner Q (w_lib w) = (Ok True, l0)" and "q_rng Q l0 = (Ok (salt, nonce), l1)"
    and "q_client_build Q 60 l1 = (Ok (), l2)" and "salt \<noteq> []" and "nonce \<noteq> []"
    and "q_slate_to_string Q s = Ok text" and "deserialize_upgrade E text = Some s" and "utf8_valid (map of_char text)"
    and "aead_ok E (pbkdf2 E salt (drop 1 (pk_serialize_vec E P))) nonce (as_bytes text)"
    and "\<forall>m d. encrypted_message_new E salt nonce text d kb sa = Ok m \<and> grinbox_from_str E (mwcmqs_to_str b) = Ok d \<longrightarrow>
      (\<exists>t. q_message_to_json Q m = Ok t \<and> message_from_json E t = Some m \<and> plain_text t)"
    and "signs_for E sa ka" and "mp_address pub = a" and "mp_secret_key pub = sa"
    and "le_secret_key L = sb" and "get_grinbox_address E (le_config L) = Ok own" and "gb_public_key own = mq_public_key b"
  shows "\<exists>fa tb t sg pf.
    mwcmqs_post_slate E Q pub s (AMWCMQS b) w =
      io_match (lib_quiet (q_post_form Q (sender_url (mp_config pub) tb)
          [(''mapmessage'', t), (''from'', fa), (''signature'', sg)]))
        (\<lambda>body. case body of None \<Rightarrow> io_lift (fail (InvalidRespose ''mwcmqs i/o error'')) | Some r \<Rightarrow> check_sent tb r)
        (\<lambda>_. io_lift (fail (InvalidRespose ''mwcmqs connection error''))) (w\<lparr>w_lib := l2\<rparr>) \<and>
    mwcmqs_stripped b = Ok tb \<and>
    (\<forall>fds mid st w' l self. mset fds = mset (form_fields fa t sg) \<and> CHR '';'' \<notin> set mid \<and>
       \<not> starts_with (mid @ '';'' @ str_join ''&'' fds) ''messagelist: '' \<and> \<not> ls_is_error st \<and>
       polled Q L st (w_lib w') (Get_body (mid @ '';'' @ str_join ''&'' fds)) l \<longrightarrow>
       (\<exists>out st'. listen_round E Q H L st (w', self) =
          io_bind (h_slate H (AMWCMQS a) s (Some pf) (Some (le_broker_config L))) (\<lambda>_. io_return (Some st'))
            (w'\<lparr>w_lib := l, w_out := w_out w' @ out\<rparr>, self) \<and> ls_url st' = listener_url L (after_space mid)))"
proof -
  obtain fa g where fa: "mwcmqs_stripped a = Ok fa" "plain_text fa" "mwcmqs_from_str E fa = Ok a"
    "grinbox_from_str E fa = Ok g" "grinbox_public_key E g = Ok ka"
    by (rule sender_reads [OF assms(1,3)])
  obtain tb where tb: "mwcmqs_stripped b = Ok tb" using mwcmqs_stripped_reads [OF assms(2)] by blast
  obtain d where d: "grinbox_from_str E (mwcmqs_to_str b) = Ok d" "gb_public_key d = mq_public_key b"
    using destination_reads [OF assms(2)] by simp
  obtain m where m: "encrypted_message_new E salt nonce text d kb sa = Ok m" "em_destination m = Some d"
    "obind (encrypted_message_key E m ka sb) (decrypt_with_key E m) = Ok text"
    using message_decrypts [OF assms(5-7,11,12,15,16)] by metis
  obtain t where t: "q_message_to_json Q m = Ok t" "message_from_json E t = Some m" "plain_text t"
    using assms(17) m(1) d(1) by blast
  obtain sg gs where sg: "generate_signature E t sa = Ok sg" "signature_from_hex E sg = Ok gs"
    "verify_signature (sha256 E) E t gs ka = Ok ()" using signs_forD [OF assms(18)] by metis
  have "\<not> destination_differs (em_destination m) (Some own)" using m(2) d(2) assms(23) by (simp add: destination_differs_def)
  then obtain pf where pf: "from_response E fa t [] sg (le_secret_key L) (Some own) = Ok (s, pf)"
    using from_response_of_post [OF fa(4,5) sg(2) _ t(2) _ m(3) assms(14), of "[]" "Some own"] sg(3) assms(21) by auto
  note post = mwcmqs_posts [OF assms(2,4) tb assms(8,9,10,13) d(1), of pub m t sg fa, unfolded assms(19,20), OF m(1) t(1) sg(1) fa(1)]
  show ?thesis
    by (intro exI [of _ fa] exI [of _ tb] exI [of _ t] exI [of _ sg] exI [of _ pf] conjI post tb allI impI)
      (elim conjE, rule round_relayed [OF fa(2) t(3) plain_signature [OF sg(1)] _ assms(22) pf fa(3)])
qed

text \<open>
  C12: a slate that one wallet posts reaches the handler of the other. The publisher sends one
  form to the receiver's queue, with the sealed message, the sender's address and the signature;
  when a poll of the receiver brings these three fields back, in any order and with the characters of
  the message escaped, the listener hands over the same slate, from the sender's address, and asks
  for the next message by confirming the identifier of this one. (The cipher opens what it sealed, the
  Diffie-Hellman products agree, signatures verify, and JSON is read back as it was written.)
\<close>

theorem mwcmqs_delivery:
  assumes "mwcmqs_valid E a" and "mwcmqs_valid E b"
    and "mwcmqs_public_key E a = Ok ka" and "mwcmqs_public_key E b = Ok kb"
    and "pk_mul_assign E kb sa = Some P" and "pk_mul_assign E ka sb = Some P" and "length (pk_serialize_vec E P) = 33"
    and "q_read_inner Q (w_lib w) = (Ok True, l0)" and "q_rng Q l0 = (Ok (salt, nonce), l1)"
    and "q_client_build Q 60 l1 = (Ok (), l2)" and "salt \<noteq> []" and "nonce \<noteq> []"
    and "q_slate_to_string Q s = Ok text" and "deserialize_upgrade E text = Some s" and "utf8_valid (map of_char text)"
    and "aead_ok E (pbkdf2 E salt (drop 1 (pk_serialize_vec E P))) nonce (as_bytes text)"
    and "\<forall>m d. encrypted_message_new E salt nonce text d kb sa = Ok m \<and> grinbox_from_str E (mwcmqs_to_str b) = Ok d \<longrightarrow>
      (\<exists>t. q_message_to_json Q m = Ok t \<and> message_from_json E t = Some m \<and> plain_text t)"
    and "signs_for E sa ka" and "mp_address pub = a" and "mp_secret_key pub = sa"
    and "le_secret_key L = sb" and "get_grinbox_address E (le_config L) = Ok own" and "gb_public_key own = mq_public_key b"
  shows "\<exists>fa tb t sg pf.
    mwcmqs_post_slate E Q pub s (AMWCMQS b) w =
      io_match (lib_quiet (q_post_form Q (sender_url (mp_config pub) tb)
          [(''mapmessage'', t), (''from'', fa), (''signature'', sg)]))
        (\<lambda>body. case body of None \<Rightarrow> io_lift (fail (InvalidRespose ''mwcmqs i/o error'')) | Some r \<Rightarrow> check_sent tb r)
        (\<lambda>_. io_lift (fail (InvalidRespose ''mwcmqs connection error''))) (w\<lparr>w_lib := l2\<rparr>) \<and>
    mwcmqs_stripped b = Ok tb \<and>
    (\<forall>fds mid st w' l self. mset fds = mset (form_fields fa t sg) \<and> CHR '';'' \<notin> set mid \<and>
       \<not> starts_with (mid @ '';'' @ str_join ''&'' fds) ''messagelist: '' \<and> \<not> ls_is_error st \<and>
       polled Q L st (w_lib w') (Get_body (mid @ '';'' @ str_join ''&'' fds)) l \<longrightarrow>
       (\<exists>out st'. listen_round E Q H L st (w', self) =
          io_bind (h_slate H (AMWCMQS a) s (Some pf) (Some (le_broker_config L))) (\<lambda>_. io_return (Some st'))
            (w'\<lparr>w_lib := l, w_out := w_out w' @ out\<rparr>, self) \<and> ls_url st' = listener_url L (after_space mid)))"
  using assms by (rule mail_delivery)

section \<open>Witnesses\<close>

definition demo_qenv :: "(bytes, bytes, unit) qenv" where
  "demo_qenv = \<lparr>q_slate_to_string = (\<lambda>_. Ok ''slate''), q_message_to_json = (\<lambda>_. Ok ''m''), q_rng = (\<lambda>s. (Ok ([9, 9], [5]), s)),
     q_client_build = (\<lambda>_ s. (Ok (), s)), q_post_form = (\<lambda>_ _ s. (Ok (Some ''ok 0''), s)),
     q_get = (\<lambda>_ s. (Ok (Get_body (''messagelist: 1'' @ [CHR 0x0A] @ ''message: closenewlogin'')), s)),
     q_read_inner = (\<lambda>s. (Ok True, s)), q_set_inner = (\<lambda>_ s. (Ok (), s)), q_nanoid = (\<lambda>s. (Ok ''id'', s)),
     q_sig_debug = to_hex, q_debug_strings = concat\<rparr>"

definition demo_mwcmqs :: mwcmqs_address where
  "demo_mwcmqs = \<lparr>mq_public_key = demo_pk, mq_domain = DEFAULT_MWCMQS_DOMAIN, mq_port = None\<rparr>"

definition demo_posted :: encrypted_message where
  "demo_posted = demo_sealed\<lparr>em_destination :=
     Some \<lparr>gb_public_key = demo_pk, gb_domain = DEFAULT_MWCMQS_DOMAIN, gb_port = Some DEFAULT_MWCMQS_PORT\<rparr>\<rparr>"

definition demo_post_wenv :: "(bytes, bytes, bytes, unit) wenv" where
  "demo_post_wenv = demo_mail_wenv\<lparr>message_from_json := (\<lambda>_. Some demo_posted)\<rparr>"

lemma demo_post_key: "mq_key demo_post_wenv demo_key demo_pk"
  using demo_mail_key
  by (simp add: mq_key_def pk_ok_def public_key_to_base58_check_def serialize_public_key_def version_bytes_def demo_post_wenv_def)

definition demo_listen_env :: "bytes listen_env" where
  "demo_listen_env = \<lparr>le_config = demo_cfg\<lparr>grinbox_address_key := Some demo_key\<rparr>, le_broker_config = demo_cfg,
     le_secret_key = demo_key, le_stripped = demo_pk, le_time_now = ''0'', le_signature = ''0'', le_nanoid = ''id''\<rparr>"

definition demo_listen_state :: listen_state where
  "demo_listen_state = \<lparr>ls_count = 0, ls_loop_count = 0, ls_connected = False, ls_isnginxerror = False, ls_delcount = 0,
     ls_is_in_warning = False, ls_is_error = False, ls_url = ''u''\<rparr>"

definition demo_mq_publisher :: "bytes mwcmq_publisher" where
  "demo_mq_publisher = \<lparr>mp_address = demo_mwcmqs, mp_secret_key = demo_key, mp_config = demo_cfg\<rparr>"

theorem mwcmqs_only_authentic_witness:
  "listen_loop demo_post_wenv demo_qenv (recorder\<lparr>h_open := io_lift Panic\<rparr>) demo_listen_env 3 demo_listen_state =
   listen_loop demo_post_wenv demo_qenv recorder demo_listen_env 3 demo_listen_state"
  by (rule mwcmqs_only_authentic) (simp add: agree_on_authentic_def)

lemma demo_mq_polled:
  "polled demo_qenv demo_listen_env demo_listen_state ()
     (Get_body (''messagelist: 1'' @ [CHR 0x0A] @ ''message: closenewlogin'')) ()"
  by (simp add: polled_def demo_qenv_def demo_listen_state_def)

theorem new_login_in_list_ignored_witness:
  "\<exists>s' w'. listen_round demo_post_wenv demo_qenv recorder demo_listen_env demo_listen_state (demo_world, demo_wallet) =
     (Ok (Some s'), (w', demo_wallet)) \<and> \<not> ls_is_error s'"
proof -
  let ?b = "''messagelist: 1'' @ [CHR 0x0A] @ ''message: closenewlogin''"
  have "starts_with ?b ''messagelist: ''" "str_split CHR 0x0A ?b = ''messagelist: 1'' # (''message:'' @ '' closenewlogin'') # []"
    by code_simp+
  with new_login_in_list_ignored [OF _ _ _ this, of demo_listen_state demo_qenv demo_listen_env demo_world "()" "()"] demo_mq_polled
  show ?thesis by (simp add: demo_listen_state_def demo_qenv_def) blast
qed

theorem mwcmqs_delivery_witness:
  "\<exists>fa t sg. mwcmqs_post_slate demo_post_wenv demo_qenv demo_mq_publisher demo_slate (AMWCMQS demo_mwcmqs) demo_world =
     io_match (lib_quiet (q_post_form demo_qenv (sender_url demo_cfg demo_pk)
         [(''mapmessage'', t), (''from'', fa), (''signature'', sg)]))
       (\<lambda>body. case body of None \<Rightarrow> io_lift (fail (InvalidRespose ''mwcmqs i/o error'')) | Some r \<Rightarrow> check_sent demo_pk r)
       (\<lambda>_. io_lift (fail (InvalidRespose ''mwcmqs connection error''))) demo_world"
proof -
  let ?E = demo_post_wenv and ?a = demo_mwcmqs and ?P = "4 # replicate 32 (14 :: u8)"
  have "mq_domain_ok DEFAULT_MWCMQS_DOMAIN None" by code_simp
  then have v: "mwcmqs_valid ?E ?a" using demo_post_key by (auto simp: mwcmqs_valid_def demo_mwcmqs_def)
  have k: "mwcmqs_public_key ?E ?a = Ok demo_key"
    using mq_key_parses [OF demo_post_key] by (simp add: mwcmqs_public_key_def demo_mwcmqs_def)
  have p: "pk_mul_assign ?E demo_key demo_key = Some ?P"
    by (simp add: demo_post_wenv_def demo_mail_wenv_def demo_wenv_defs demo_key_def numeral_eq_Suc)
  have l: "length (pk_serialize_vec ?E ?P) = 33" by (simp add: demo_post_wenv_def demo_mail_wenv_def demo_wenv_defs)
  have q: "q_read_inner demo_qenv (w_lib demo_world) = (Ok True, ())" "q_rng demo_qenv () = (Ok ([9, 9], [5]), ())"
    "q_client_build demo_qenv 60 () = (Ok (), ())" "q_slate_to_string demo_qenv demo_slate = Ok ''slate''"
    by (simp_all add: demo_qenv_def)
  have d: "deserialize_upgrade ?E ''slate'' = Some demo_slate" by (simp add: demo_post_wenv_def demo_mail_wenv_def)
  have u: "utf8_valid (map of_char ''slate'')" by code_simp
  have a: "aead_ok ?E (pbkdf2 ?E [9, 9] (drop 1 (pk_serialize_vec ?E ?P))) [5] (as_bytes ''slate'')"
    by (simp add: aead_ok_def demo_post_wenv_def demo_mail_wenv_def demo_wenv_defs)
  have "\<exists>t. q_message_to_json demo_qenv m = Ok t \<and> message_from_json ?E t = Some m \<and> plain_text t"
    if "encrypted_message_new ?E [9, 9] [5] ''slate'' g demo_key demo_key = Ok m"
      "grinbox_from_str ?E (mwcmqs_to_str ?a) = Ok g" for m g
  proof -
    have "g = \<lparr>gb_public_key = demo_pk, gb_domain = DEFAULT_MWCMQS_DOMAIN, gb_port = Some DEFAULT_MWCMQS_PORT\<rparr>"
      using that(2) destination_reads [OF v] by (simp add: demo_mwcmqs_def unwrap_or_def)
    then have "m = demo_posted"
      using that(1) by (simp add: encrypted_message_new_def demo_post_wenv_def demo_mail_wenv_def demo_wenv_defs secret_slice_def
          demo_key_def demo_posted_def demo_sealed_def Let_def numeral_eq_Suc split: if_splits)
    then show ?thesis by (simp add: demo_qenv_def demo_post_wenv_def plain_text_def graphic_def)
  qed
  then have j: "\<forall>m g. encrypted_message_new ?E [9, 9] [5] ''slate'' g demo_key demo_key = Ok m \<and>
      grinbox_from_str ?E (mwcmqs_to_str ?a) = Ok g \<longrightarrow>
      (\<exists>t. q_message_to_json demo_qenv m = Ok t \<and> message_from_json ?E t = Some m \<and> plain_text t)" by blast
  have s: "signs_for ?E demo_key demo_key" using demo_signs by (simp add: signs_for_def demo_post_wenv_def)
  obtain own where own: "get_grinbox_address ?E (le_config demo_listen_env) = Ok own" "gb_public_key own = mq_public_key ?a"
    using demo_post_key
    by (simp add: get_grinbox_address_def get_grinbox_public_key_def get_grinbox_secret_key_def demo_listen_env_def grinbox_new_def
        mq_key_def demo_mwcmqs_def public_key_from_secret_key_def)
      (simp add: demo_post_wenv_def demo_mail_wenv_def demo_wenv_defs)
  have tb: "mwcmqs_stripped ?a = Ok demo_pk"
    using mwcmqs_stripped_reads [OF v] by (auto simp: mwcmqs_display_def demo_mwcmqs_def Let_def)
  have f: "mp_address demo_mq_publisher = ?a" "mp_secret_key demo_mq_publisher = demo_key"
    "mp_config demo_mq_publisher = demo_cfg" "le_secret_key demo_listen_env = demo_key" "demo_world\<lparr>w_lib := ()\<rparr> = demo_world"
    by (simp_all add: demo_mq_publisher_def demo_listen_env_def demo_world_def)
  have n: "[9, 9] \<noteq> []" "[5] \<noteq> []" by simp_all
  show ?thesis
    using mwcmqs_delivery [where H = recorder and w = demo_world and s = demo_slate,
        OF v v k k p p l q(1-3) n q(4) d u a j s f(1,2,4) own]
    unfolding f(3,5) tb outcome.inject by (elim exE conjE) blast
qed

end
