(* ===== verification/Cli_Parser.thy ===== *)
theory Cli_Parser
  imports Config
begin

text \<open>
  The argument grammar of the command line, \<open>src/src/cli/parser.rs\<close>. The grammar is data: for
  every command its arguments, by name, with whether they are required and what values they take,
  its required groups and its subcommands. The usage texts are read by their documented rules: a
  leading \<open>[name]\<close> is optional, a leading \<open><name>\<close> is required, and an option without a leading
  name is called by its long form and is required when its value is in angle brackets.
  Tokenizing, unquoting and matching are done by crates; that matching respects the grammar is
  the predicate \<open>conforms\<close>, a hypothesis of the properties that rely on it.
\<close>

section \<open>The code\<close>

subsection \<open>Matches\<close>

text \<open>What matching returns: the arguments that are present with their values, and a subcommand.\<close>

datatype matches = Matches (m_args: "(string \<times> string list) list") (m_sub: "(string \<times> matches) option")

definition values_of :: "matches \<Rightarrow> string \<Rightarrow> string list option" where
  "values_of m name = map_of (m_args m) name"

definition value_of :: "matches \<Rightarrow> string \<Rightarrow> string option" where
  "value_of m name = (case map_of (m_args m) name of Some (v # _) \<Rightarrow> Some v | _ \<Rightarrow> None)"

definition subcommand_name :: "matches \<Rightarrow> string option" where
  "subcommand_name m = map_option fst (m_sub m)"

definition subcommand_matches :: "matches \<Rightarrow> string \<Rightarrow> matches option" where
  "subcommand_matches m name = (case m_sub m of Some (n, s) \<Rightarrow> if n = name then Some s else None | None \<Rightarrow> None)"

text \<open>Present is an argument, or the subcommand of that name.\<close>

definition is_present :: "matches \<Rightarrow> string \<Rightarrow> bool" where
  "is_present m name \<longleftrightarrow> subcommand_name m = Some name \<or> map_of (m_args m) name \<noteq> None"

subsection \<open>The grammar\<close>

datatype takes = Takes_none | Takes_one | Takes_any | Takes_some

record arg =
  a_name :: string
  a_required :: bool
  a_takes :: takes

datatype app = App (app_name: string) (app_args: "arg list") (app_groups: "string list list") (app_subs: "app list")

definition option_arg :: "string \<Rightarrow> arg" where
  "option_arg name = \<lparr>a_name = name, a_required = False, a_takes = Takes_one\<rparr>"

definition required_arg :: "string \<Rightarrow> arg" where
  "required_arg name = \<lparr>a_name = name, a_required = True, a_takes = Takes_one\<rparr>"

definition flag_arg :: "string \<Rightarrow> arg" where
  "flag_arg name = \<lparr>a_name = name, a_required = False, a_takes = Takes_none\<rparr>"

text \<open>\<open>min_values(0)\<close>: the option may stand without a value.\<close>

definition passphrase_arg :: arg where
  "passphrase_arg = \<lparr>a_name = ''passphrase'', a_required = False, a_takes = Takes_any\<rparr>"

definition words_arg :: arg where
  "words_arg = \<lparr>a_name = ''words'', a_required = False, a_takes = Takes_some\<rparr>"

definition config_command :: app where
  "config_command = App ''config''
     [flag_arg ''generate-address'', option_arg ''generate-address-index'', option_arg ''data-path'', flag_arg ''disable-history'',
      option_arg ''domain'', option_arg ''port'', option_arg ''node-uri'', option_arg ''node-secret''] [] []"

definition account_command :: app where
  "account_command = App ''account'' [] []
     [App ''create'' [required_arg ''name''] [] [],
      App ''rename'' [required_arg ''old_account'', required_arg ''new_account''] [] [],
      App ''switch'' [required_arg ''name'', option_arg ''account'', passphrase_arg] [] []]"

definition contacts_command :: app where
  "contacts_command = App ''contacts'' [] []
     [App ''add'' [required_arg ''name'', required_arg ''address''] [] [],
      App ''remove'' [required_arg ''name''] [] []]"

definition txs_command :: app where
  "txs_command = App ''txs''
     [option_arg ''id'', option_arg ''txid'', flag_arg ''no-refresh'', option_arg ''offset'', option_arg ''length'', flag_arg ''full''] [] []"

definition outputs_command :: app where
  "outputs_command = App ''outputs'' [flag_arg ''no-refresh'', flag_arg ''show-spent'', option_arg ''offset'', option_arg ''length''] [] []"

definition listener_flags :: "arg list" where
  "listener_flags = [flag_arg ''grinbox'', flag_arg ''keybase'', flag_arg ''mwcmqs'']"

definition send_command :: app where
  "send_command = App ''send''
     [option_arg ''to'', option_arg ''file'', required_arg ''amount'', option_arg ''apisecret'', option_arg ''strategy'',
      option_arg ''confirmations'', option_arg ''change-outputs'', option_arg ''message'', option_arg ''outputs'',
      option_arg ''version'', option_arg ''routputs''] [[''to'', ''file'']] []"

definition recover_command :: app where
  "recover_command = App ''recover'' [passphrase_arg, words_arg, flag_arg ''display''] [[''words'', ''display'']] []"

definition check_command :: app where
  "check_command = App ''check'' [flag_arg ''no-delete_unconfirmed'', option_arg ''start_height''] [] []"

definition wallet_commands :: "app list" where
  "wallet_commands =
     [App ''exit'' [] [] [], config_command, App ''address'' [] [] [], App ''init'' [passphrase_arg] [] [], App ''lock'' [] [] [],
      App ''unlock'' [option_arg ''account'', passphrase_arg] [] [], account_command, App ''accounts'' [] [] [],
      App ''info'' [option_arg ''confirmations''] [] [App ''--no-refresh'' [] [] []], contacts_command, App ''txs_count'' [] [] [],
      txs_command]"

definition payment_commands :: "app list" where
  "payment_commands =
     [App ''output_count'' [flag_arg ''show-spent''] [] [], outputs_command,
      App ''listen'' listener_flags [] [], App ''stop'' listener_flags [] [], send_command,
      App ''invoice'' [required_arg ''to'', required_arg ''amount'', option_arg ''outputs''] [] [],
      App ''repost'' [required_arg ''id''] [] [], App ''cancel'' [required_arg ''id''] [] [],
      App ''restore'' [passphrase_arg] [] []]"

definition tool_commands :: "app list" where
  "tool_commands =
     [recover_command, App ''getnextkey'' [required_arg ''amount''] [] [],
      App ''getrootpublickey'' [option_arg ''message''] [] [],
      App ''verifysignature'' [required_arg ''message'', required_arg ''signature'', required_arg ''pubkey''] [] [],
      App ''scan_outputs'' [required_arg ''pubkey_file''] [] [],
      App ''receive'' [required_arg ''file'', option_arg ''key_id'', option_arg ''recv_file''] [] [],
      App ''showpubkeys'' [required_arg ''file''] [] [], App ''finalize'' [required_arg ''file''] [] [],
      App ''submit'' [required_arg ''file''] [] [], check_command,
      App ''export-proof'' [required_arg ''id'', required_arg ''file''] [] [], App ''verify-proof'' [required_arg ''file''] [] [],
      App ''nodeinfo'' [] [] [], App ''set-recv'' [required_arg ''account'', option_arg ''password''] [] [],
      App ''sync'' [] [] [], App ''dump-wallet-data'' [option_arg ''file''] [] [],
      App ''txs-bulk-validate'' [required_arg ''kernels'', required_arg ''outputs'', required_arg ''result''] [] []]"

definition parser :: app where
  "parser = App [] [] [] (wallet_commands @ payment_commands @ tool_commands)"

subsection \<open>Parsing a line\<close>

text \<open>The tokenizer, \<open>unquote\<close> and the matcher; a token is its text and whether it is white space.\<close>

record cli_env =
  tokenize :: "string \<Rightarrow> (string \<times> bool) list res"
  unquote :: "string \<Rightarrow> string option"
  get_matches_from_safe :: "app \<Rightarrow> string list \<Rightarrow> matches res"

definition parser_parse :: "cli_env \<Rightarrow> string \<Rightarrow> matches res" where
  "parser_parse P command =
     obind (tokenize P (str_trim command)) (\<lambda>tokens.
     get_matches_from_safe P parser
       (map (\<lambda>(text, _). unwrap_or (unquote P text) text) (filter (\<lambda>(_, white). \<not> white) tokens)))"

section \<open>Conforming matches\<close>

fun takes_ok :: "takes \<Rightarrow> nat \<Rightarrow> bool" where
  "takes_ok Takes_none n = (n = 0)"
| "takes_ok Takes_one n = (n = 1)"
| "takes_ok Takes_any n = True"
| "takes_ok Takes_some n = (n \<ge> 1)"

fun conforms :: "app \<Rightarrow> matches \<Rightarrow> bool" where
  "conforms (App name args groups subs) (Matches vs sub) =
     (list_all (\<lambda>(n, xs). list_ex (\<lambda>a. a_name a = n \<and> takes_ok (a_takes a) (length xs)) args) vs \<and>
      list_all (\<lambda>a. a_required a \<longrightarrow> map_of vs (a_name a) \<noteq> None) args \<and>
      list_all (list_ex (\<lambda>n. map_of vs n \<noteq> None)) groups \<and>
      (case sub of None \<Rightarrow> True | Some (n, m) \<Rightarrow> list_ex (\<lambda>g. app_name g = n \<and> conforms g m) subs))"

definition cli_ok :: "cli_env \<Rightarrow> bool" where
  "cli_ok P \<longleftrightarrow> (\<forall>ws m. get_matches_from_safe P parser ws = Ok m \<longrightarrow> conforms parser m)"

text \<open>What a command may read: a required argument has a value, an undeclared one is absent.\<close>

lemma conforms_declared:
  assumes "conforms g m" and "map_of (m_args m) n = Some xs"
  shows "\<exists>a \<in> set (app_args g). a_name a = n \<and> takes_ok (a_takes a) (length xs)"
  using assms map_of_SomeD [OF assms(2)]
  by (cases g; cases m) (fastforce simp: list_all_iff list_ex_iff)

lemma conforms_required:
  assumes "conforms g m" and "required_arg n \<in> set (app_args g)" and "distinct (map a_name (app_args g))"
  shows "\<exists>v. value_of m n = Some v"
proof -
  have "map_of (m_args m) n \<noteq> None"
    using assms(1,2) by (cases g; cases m) (fastforce simp: list_all_iff required_arg_def)
  then obtain xs where xs: "map_of (m_args m) n = Some xs" by blast
  obtain a where a: "a \<in> set (app_args g)" "a_name a = n" "takes_ok (a_takes a) (length xs)"
    using conforms_declared [OF assms(1) xs] by blast
  have "a = required_arg n"
    using assms(2,3) a(1,2) by (auto simp: distinct_map inj_on_def required_arg_def)
  then show ?thesis using a(3) xs by (cases xs) (auto simp: required_arg_def value_of_def)
qed

lemma conforms_absent:
  assumes "conforms g m" and "n \<notin> a_name ` set (app_args g)"
  shows "map_of (m_args m) n = None"
  using conforms_declared [OF assms(1), of n] assms(2) by (cases "map_of (m_args m) n") auto

lemma conforms_subcommand:
  assumes "conforms g m" and "subcommand_matches m n = Some s"
  shows "\<exists>h \<in> set (app_subs g). app_name h = n \<and> conforms h s"
  using assms by (cases g; cases m) (auto simp: subcommand_matches_def list_ex_iff split: option.splits if_splits)

lemma parser_names: "distinct (map app_name (app_subs parser))"
  by code_simp

text \<open>The grammar of a command is the one entry of the parser with its name.\<close>

lemma conforms_command:
  assumes "conforms parser m" and "subcommand_matches m (app_name g) = Some s" and "g \<in> set (app_subs parser)"
  shows "conforms g s"
proof -
  obtain h where h: "h \<in> set (app_subs parser)" "app_name h = app_name g" "conforms h s"
    using conforms_subcommand [OF assms(1,2)] by blast
  then have "h = g" using parser_names assms(3) by (auto simp: distinct_map inj_on_def)
  then show ?thesis using h(3) by simp
qed

end
