(* ===== verification/Commands.thy ===== *)
theory Commands
  imports Keybase Mwcmqs Cli_Parser
begin

text \<open>
  The command loop of \<open>src/src/main.rs\<close>: \<open>do_command\<close> with an operation per command, the
  listeners it starts and stops, and the loop that reads lines and keeps a history. The state is
  the world and a session: the configuration, the wallet, the address book, the three brokers, the
  statics of the receiving account and the flag \<open>out_is_safe\<close>. Threads are spawned as calls of the
  environment, and what a listener thread runs is a definition of its own. Messages are modelled
  without colours.
\<close>

section \<open>The session\<close>

record ('sk, 's) session =
  se_config :: "'sk wallet713_config"
  se_wallet :: wallet
  se_book :: 's
  se_keybase :: "(keybase_publisher_state \<times> keybase_subscriber) option"
  se_grinbox :: "('sk grinbox_publisher_state \<times> 'sk grinbox_subscriber) option"
  se_mwcmqs :: "('sk mwcmq_publisher \<times> 'sk mwcmq_subscriber) option"
  se_recv :: recv
  se_safe :: bool

text \<open>
  The terminal, the environment, threads, and what the commands call of the crates. The cells that
  a subscriber shares with the thread of its listener are read and written through the environment:
  the connection of Grinbox and the stop signal of Keybase (those of MWCMQS are in \<open>cm_qenv\<close>).
  \<open>cm_add_history_entry\<close> is the line editor's: it may drop or evict lines as it is configured.
\<close>

record ('pk, 'sk, 'sig, 'st, 's, 'b) cmdenv =
  cm_cli :: cli_env
  cm_cfg :: "'sk cfg_env"
  cm_genv :: "('pk, 'st) genv"
  cm_qenv :: "('pk, 'sig, 'st) qenv"
  cm_kenv :: "('pk, 'st) kenv"
  cm_jenv :: "('pk, 'st) jenv"
  cm_book :: "('s, 'b) backend_ops"
  cm_overflow_checks :: bool
  cm_env_var :: "string \<Rightarrow> ('st, string option) lio"
  cm_prompt_password :: "('st, string option) lio"
  cm_read_line :: "('st, unit) lio"
  cm_spawn :: "string \<Rightarrow> ('st, unit) lio"
  cm_grinbox_inner :: "('st, nat option) lio"
  cm_keybase_stop_signal :: "('st, bool) lio"
  cm_add_history_entry :: "string list \<Rightarrow> string \<Rightarrow> string list"
  cm_stop_grinbox :: "('st, unit) lio"
  cm_stop_keybase :: "('st, unit) lio"
  cm_post :: "string \<Rightarrow> string option \<Rightarrow> json \<Rightarrow> ('st, string) lio"
  cm_amount_from_hr :: "string \<Rightarrow> u64 option"
  cm_tx_fee :: "nat \<Rightarrow> u64"
  cm_tx_deserialize :: "bytes \<Rightarrow> transaction res"
  cm_uuid_parse :: "string \<Rightarrow> string option"
  cm_participant_id :: "'pk participant_data \<Rightarrow> nat"
  cm_root_id :: string
  cm_scan_fuel :: nat

type_synonym ('sk, 's, 'st, 'a) dio = "(err, 'st world \<times> ('sk, 's) session, 'a) io"

definition get_session :: "('sk, 's, 'st, ('sk, 's) session) dio" where
  "get_session = (\<lambda>(w, s). (Ok s, (w, s)))"

definition set_session :: "(('sk, 's) session \<Rightarrow> ('sk, 's) session) \<Rightarrow> ('sk, 's, 'st, unit) dio" where
  "set_session f = (\<lambda>(w, s). (Ok (), (w, f s)))"

text \<open>Calls on the locked wallet: methods with \<open>&mut self\<close>, and the others.\<close>

definition wallet_mut :: "('st, 'a) mio \<Rightarrow> ('sk, 's, 'st, 'a) dio" where
  "wallet_mut m = (\<lambda>(w, s). case m (w, se_wallet s) of (r, (w', self)) \<Rightarrow> (r, (w', s\<lparr>se_wallet := self\<rparr>)))"

definition wallet_ref :: "(wallet \<Rightarrow> ('st, 'a) wio) \<Rightarrow> ('sk, 's, 'st, 'a) dio" where
  "wallet_ref f = (\<lambda>(w, s). case f (se_wallet s) w of (r, w') \<Rightarrow> (r, (w', s)))"

definition set_safe :: "bool \<Rightarrow> ('sk, 's, 'st, unit) dio" where
  "set_safe b = set_session (\<lambda>s. s\<lparr>se_safe := b\<rparr>)"

definition tell :: "string \<Rightarrow> ('sk, 's, 'st, unit) dio" where
  "tell t = on_world (println t)"

text \<open>\<open>args.value_of(name).unwrap()\<close>, and numbers.\<close>

definition need :: "matches \<Rightarrow> string \<Rightarrow> ('sk, 's, 'st, string) dio" where
  "need args name = io_lift (case value_of args name of None \<Rightarrow> Panic | Some v \<Rightarrow> Ok v)"

definition number :: "nat \<Rightarrow> err \<Rightarrow> string \<Rightarrow> ('sk, 's, 'st, nat) dio" where
  "number bound e t = io_lift (of_option e (from_str_radix 10 bound t))"

definition home_path :: "('pk, 'sk, 'sig, 'st, 's, 'b) cmdenv \<Rightarrow> string \<Rightarrow> string" where
  "home_path C input = str_replace ''~'' (unwrap_or (home_dir (cm_cfg C)) ''~'') input"

section \<open>Passwords and addresses\<close>

definition getenv :: "('pk, 'sk, 'sig, 'st, 's, 'b) cmdenv \<Rightarrow> string \<Rightarrow> ('sk, 's, 'st, string option) dio" where
  "getenv C key = on_world (lib_quiet (cm_env_var C key))"

definition getpassword :: "('pk, 'sk, 'sig, 'st, 's, 'b) cmdenv \<Rightarrow> ('sk, 's, 'st, string) dio" where
  "getpassword C =
     io_bind (getenv C ''MWC_PASSWORD'') (\<lambda>mwc_password.
     case mwc_password of
       Some p \<Rightarrow> io_return p
     | None \<Rightarrow> io_bind (on_world (lib_quiet (cm_prompt_password C))) (\<lambda>p. io_return (unwrap_or p [])))"

definition password_prompt :: "('pk, 'sk, 'sig, 'st, 's, 'b) cmdenv \<Rightarrow> string option \<Rightarrow> ('sk, 's, 'st, string) dio" where
  "password_prompt C opt = (case opt of Some p \<Rightarrow> io_return p | None \<Rightarrow> io_expect (getpassword C))"

definition passphrase_of :: "('pk, 'sk, 'sig, 'st, 's, 'b) cmdenv \<Rightarrow> matches \<Rightarrow> ('sk, 's, 'st, string) dio" where
  "passphrase_of C args =
     (if is_present args ''passphrase'' then password_prompt C (value_of args ''passphrase'') else io_return [])"

definition show_address :: "('pk, 'sk, 'sig, 'st) wenv \<Rightarrow> bool \<Rightarrow> ('sk, 's, 'st, unit) dio" where
  "show_address E include_index =
     io_bind get_session (\<lambda>s.
     io_bind (io_lift (get_grinbox_address E (se_config s))) (\<lambda>a.
     io_bind (io_lift (grinbox_stripped a)) (\<lambda>stripped.
     io_bind (tell (''Your mwcmq address: '' @ stripped)) (\<lambda>_.
     if include_index
     then tell (''Derived with index ['' @ show_nat (unat (cfg_grinbox_address_index (se_config s))) @ '']'')
     else io_return ()))))"

definition session_address_key :: "('pk, 'sk, 'sig, 'st) wenv \<Rightarrow> ('sk, 's, 'st, unit) dio" where
  "session_address_key E =
     io_bind get_session (\<lambda>s.
     if se_grinbox s \<noteq> None then io_lift (fail HasListener)
     else
       io_bind (wallet_ref (\<lambda>w. wl_derive_address_key E w (cfg_grinbox_address_index (se_config s)))) (\<lambda>key.
       io_bind (set_session (\<lambda>s. s\<lparr>se_config := (se_config s)\<lparr>grinbox_address_key := Some key\<rparr>\<rparr>)) (\<lambda>_.
       show_address E False)))"

definition proof_ok ::
  "('pk, 'sk, 'sig, 'st) wenv \<Rightarrow> ('pk, 'sk, 'sig, 'st, 's, 'b) cmdenv \<Rightarrow>
   string option \<times> string \<times> u64 \<times> string list \<times> string \<Rightarrow> ('sk, 's, 'st, unit) dio" where
  "proof_ok E C = (\<lambda>(sender, receiver, amount, outs, kernel).
     let sender_message = (case sender of Some s \<Rightarrow> '' from ['' @ s @ '']'' | None \<Rightarrow> []);
         explorer = (if is_mainnet E then ''https://explorer.mwc.mw/#'' else ''https://explorer.floonet.mwc.mw/#'')
     in io_bind (tell (''this file proves that ['' @ amount_hr (cm_jenv C) amount @ ''] MWCs was sent to ['' @ receiver @ '']'' @
          sender_message)) (\<lambda>_.
        io_bind (if sender = None
                 then tell ''WARNING: this proof does not prove which address sent the funds, only which received it''
                 else io_return ()) (\<lambda>_.
        io_bind (tell ''outputs:'') (\<lambda>_.
        io_bind (io_for (\<lambda>output. tell (''   '' @ output @ '': '' @ explorer @ ''o'' @ output)) outs) (\<lambda>_.
        io_bind (tell ''kernel:'') (\<lambda>_.
        io_bind (tell (''   '' @ kernel @ '': '' @ explorer @ ''k'' @ kernel)) (\<lambda>_.
        io_bind (tell ''WARNING: this proof should only be considered valid if the kernel is actually on-chain with sufficient confirmations'') (\<lambda>_.
        tell ''please use a mwc block explorer to verify this is the case.''))))))))"

section \<open>Listeners\<close>

text \<open>A listener needs an open wallet; a locked one is tried without a passphrase.\<close>

definition unlock_for_listener :: "('pk, 'sk, 'sig, 'st) wenv \<Rightarrow> ('sk, 's, 'st, unit) dio" where
  "unlock_for_listener E =
     io_bind get_session (\<lambda>s.
     if is_locked (se_wallet s) then wallet_mut (unlock E (se_config s) ''default'' []) else io_return ())"

definition start_mwcmqs_listener ::
  "('pk, 'sk, 'sig, 'st) wenv \<Rightarrow> ('pk, 'sk, 'sig, 'st, 's, 'b) cmdenv \<Rightarrow>
   ('sk, 's, 'st, 'sk mwcmq_publisher \<times> 'sk mwcmq_subscriber) dio" where
  "start_mwcmqs_listener E C =
     io_bind (unlock_for_listener E) (\<lambda>_.
     io_bind (tell ''starting mwcmqs listener...'') (\<lambda>_.
     io_bind get_session (\<lambda>s.
     io_bind (io_lift (get_mwcmqs_address E (se_config s))) (\<lambda>address.
     io_bind (io_lift (get_mwcmqs_secret_key (se_config s))) (\<lambda>secret_key.
     io_bind (io_lift (mwcmq_publisher_new address secret_key (se_config s))) (\<lambda>publisher.
     io_bind (io_lift (mwcmq_subscriber_new publisher)) (\<lambda>subscriber.
     io_bind (on_world (lib_quiet (cm_spawn C ''mwcmqs-brocker''))) (\<lambda>_.
     io_return (publisher, subscriber)))))))))"

definition start_grinbox_listener ::
  "('pk, 'sk, 'sig, 'st) wenv \<Rightarrow> ('pk, 'sk, 'sig, 'st, 's, 'b) cmdenv \<Rightarrow>
   ('sk, 's, 'st, 'sk grinbox_publisher_state \<times> 'sk grinbox_subscriber) dio" where
  "start_grinbox_listener E C =
     io_bind (unlock_for_listener E) (\<lambda>_.
     io_bind (tell ''starting mwcmq listener...'') (\<lambda>_.
     io_bind get_session (\<lambda>s.
     io_bind (io_lift (get_grinbox_address E (se_config s))) (\<lambda>address.
     io_bind (io_lift (get_grinbox_secret_key (se_config s))) (\<lambda>secret_key.
     io_bind (io_lift (grinbox_publisher_new address secret_key (cfg_grinbox_protocol_unsecure (se_config s)) (se_config s))) (\<lambda>publisher.
     io_bind (io_lift (grinbox_subscriber_new publisher)) (\<lambda>subscriber.
     io_bind (on_world (lib_quiet (cm_spawn C ''mq-grinbox-brocker''))) (\<lambda>_.
     io_return (publisher, subscriber)))))))))"

definition start_keybase_listener ::
  "('pk, 'sk, 'sig, 'st) wenv \<Rightarrow> ('pk, 'sk, 'sig, 'st, 's, 'b) cmdenv \<Rightarrow>
   ('sk, 's, 'st, keybase_publisher_state \<times> keybase_subscriber) dio" where
  "start_keybase_listener E C =
     io_bind (unlock_for_listener E) (\<lambda>_.
     io_bind (tell ''starting keybase listener...'') (\<lambda>_.
     io_bind get_session (\<lambda>s.
     io_bind (io_lift (keybase_subscriber_new (keybase_binary (se_config s)))) (\<lambda>subscriber.
     io_bind (on_world (keybase_publisher_new (cm_kenv C) (default_keybase_ttl (se_config s)) (keybase_binary (se_config s)))) (\<lambda>publisher.
     io_bind (on_world (lib_quiet (cm_spawn C ''keybase-brocker''))) (\<lambda>_.
     io_return (publisher, subscriber)))))))"

text \<open>What the threads run: a controller over the wallet, and the subscriber with it as its handler.\<close>

definition listener_handler ::
  "('pk, 'sk, 'sig, 'st) wenv \<Rightarrow> ('pk, 'sk, 'sig, 'st, 's, 'b) cmdenv \<Rightarrow> recv \<Rightarrow> string \<Rightarrow> 's \<Rightarrow> ('pk, 'st) publisher \<Rightarrow>
   ('pk, 'sk, 'sig, 'st) subscription_handler res" where
  "listener_handler E C rv name book post =
     obind (unwrap (controller_new name (cm_book C) book post)) (\<lambda>c.
     Ok (controller_handler E (amount_hr (cm_jenv C)) rv c))"

definition mwcmqs_thread ::
  "('pk, 'sk, 'sig, 'st) wenv \<Rightarrow> ('pk, 'sk, 'sig, 'st, 's, 'b) cmdenv \<Rightarrow> recv \<Rightarrow> 's \<Rightarrow> nat \<Rightarrow>
   'sk mwcmq_publisher \<times> 'sk mwcmq_subscriber \<Rightarrow> ('st, unit) mio" where
  "mwcmqs_thread E C rv book fuel = (\<lambda>(publisher, subscriber).
     io_bind (io_lift (mwcmqs_stripped (mp_address publisher))) (\<lambda>name.
     io_bind (io_lift (listener_handler E C rv name book (mwcmqs_post_slate E (cm_qenv C) publisher))) (\<lambda>H.
     io_expect (mwcmq_subscriber_start E (cm_qenv C) H fuel subscriber))))"

definition keybase_thread ::
  "('pk, 'sk, 'sig, 'st) wenv \<Rightarrow> ('pk, 'sk, 'sig, 'st, 's, 'b) cmdenv \<Rightarrow> recv \<Rightarrow> 's \<Rightarrow> nat \<Rightarrow>
   keybase_publisher_state \<times> keybase_subscriber \<Rightarrow> ('st, unit) mio" where
  "keybase_thread E C rv book fuel = (\<lambda>(publisher, subscriber).
     io_bind (io_lift (listener_handler E C rv ''keybase'' book (keybase_post_slate (cm_kenv C) publisher))) (\<lambda>H.
     io_expect (keybase_start E (cm_kenv C) H fuel (ks_keybase_binary subscriber))))"

text \<open>The running flags, in the cells that the threads share with the session.\<close>

definition grinbox_running :: "('pk, 'sk, 'sig, 'st, 's, 'b) cmdenv \<Rightarrow> ('sk, 's, 'st, bool) dio" where
  "grinbox_running C =
     io_bind get_session (\<lambda>s. case se_grinbox s of
       Some (_, sub) \<Rightarrow>
         io_bind (on_world (lib_quiet (cm_grinbox_inner C))) (\<lambda>inner.
         io_return (subscriber_is_running (sub\<lparr>gs_broker := (gs_broker sub)\<lparr>br_inner := inner\<rparr>\<rparr>)))
     | None \<Rightarrow> io_return False)"

definition keybase_running :: "('pk, 'sk, 'sig, 'st, 's, 'b) cmdenv \<Rightarrow> ('sk, 's, 'st, bool) dio" where
  "keybase_running C =
     io_bind get_session (\<lambda>s. case se_keybase s of
       Some (_, sub) \<Rightarrow>
         io_bind (on_world (lib_quiet (cm_keybase_stop_signal C))) (\<lambda>stopped.
         io_return (keybase_is_running (sub\<lparr>ks_stop_signal := stopped\<rparr>)))
     | None \<Rightarrow> io_return False)"

text \<open>The publisher of Grinbox, which sends over the connection that is in the shared cell.\<close>

definition grinbox_publish ::
  "('pk, 'sk, 'sig, 'st) wenv \<Rightarrow> ('pk, 'sk, 'sig, 'st, 's, 'b) cmdenv \<Rightarrow> 'sk grinbox_publisher_state \<Rightarrow> ('pk, 'st) publisher" where
  "grinbox_publish E C publisher slate to =
     io_bind (lib_quiet (cm_grinbox_inner C)) (\<lambda>inner.
     grinbox_post_slate E (cm_genv C) (publisher\<lparr>gp_broker := (gp_broker publisher)\<lparr>br_inner := inner\<rparr>\<rparr>) slate to)"

definition mwcmqs_running :: "('pk, 'sk, 'sig, 'st, 's, 'b) cmdenv \<Rightarrow> ('sk, 's, 'st, bool) dio" where
  "mwcmqs_running C =
     io_bind get_session (\<lambda>s. case se_mwcmqs s of
       Some _ \<Rightarrow> on_world (mwcmq_subscriber_is_running (cm_qenv C)) | None \<Rightarrow> io_return False)"

definition listen_grinbox ::
  "('pk, 'sk, 'sig, 'st) wenv \<Rightarrow> ('pk, 'sk, 'sig, 'st, 's, 'b) cmdenv \<Rightarrow> ('sk, 's, 'st, unit) dio" where
  "listen_grinbox E C =
     io_bind (grinbox_running C) (\<lambda>is_running.
     if is_running then io_lift (fail (AlreadyListening ''mwcmq''))
     else io_bind (start_grinbox_listener E C) (\<lambda>b. set_session (\<lambda>s. s\<lparr>se_grinbox := Some b\<rparr>)))"

definition listen_mwcmqs ::
  "('pk, 'sk, 'sig, 'st) wenv \<Rightarrow> ('pk, 'sk, 'sig, 'st, 's, 'b) cmdenv \<Rightarrow> ('sk, 's, 'st, unit) dio" where
  "listen_mwcmqs E C =
     io_bind (mwcmqs_running C) (\<lambda>is_running.
     if is_running then io_lift (fail (AlreadyListening ''mwcmqs''))
     else io_bind (start_mwcmqs_listener E C) (\<lambda>b. set_session (\<lambda>s. s\<lparr>se_mwcmqs := Some b\<rparr>)))"

definition listen_keybase ::
  "('pk, 'sk, 'sig, 'st) wenv \<Rightarrow> ('pk, 'sk, 'sig, 'st, 's, 'b) cmdenv \<Rightarrow> ('sk, 's, 'st, unit) dio" where
  "listen_keybase E C =
     io_bind (keybase_running C) (\<lambda>is_running.
     if is_running then io_lift (fail (AlreadyListening ''keybase''))
     else io_bind (start_keybase_listener E C) (\<lambda>b. set_session (\<lambda>s. s\<lparr>se_keybase := Some b\<rparr>)))"

text \<open>Which listeners a command is for: MWCMQS when it is named, or when none of the others is.\<close>

definition for_listeners ::
  "matches \<Rightarrow> ('sk, 's, 'st, unit) dio \<Rightarrow> ('sk, 's, 'st, unit) dio \<Rightarrow> ('sk, 's, 'st, unit) dio \<Rightarrow> ('sk, 's, 'st, unit) dio" where
  "for_listeners args on_grinbox on_mwcmqs on_keybase =
     (let mwcmqs = is_present args ''mwcmqs''; grinbox = is_present args ''grinbox''; keybase = is_present args ''keybase''
      in io_bind (if grinbox then on_grinbox else io_return ()) (\<lambda>_.
         io_bind (if mwcmqs \<or> (\<not> keybase \<and> \<not> grinbox) then on_mwcmqs else io_return ()) (\<lambda>_.
         if keybase then on_keybase else io_return ())))"

definition cmd_listen ::
  "('pk, 'sk, 'sig, 'st) wenv \<Rightarrow> ('pk, 'sk, 'sig, 'st, 's, 'b) cmdenv \<Rightarrow> matches \<Rightarrow> ('sk, 's, 'st, unit) dio" where
  "cmd_listen E C args = for_listeners args (listen_grinbox E C) (listen_mwcmqs E C) (listen_keybase E C)"

text \<open>
  Stopping writes the cell that the subscriber shares with its thread; what the thread does then
  is modelled with the listeners. The session forgets the broker, MWCMQS only when it was reached.
\<close>

definition stop_grinbox :: "('pk, 'sk, 'sig, 'st, 's, 'b) cmdenv \<Rightarrow> ('sk, 's, 'st, unit) dio" where
  "stop_grinbox C =
     io_bind (grinbox_running C) (\<lambda>is_running.
     if is_running then
       io_bind (tell ''stopping mwcmq listener...'') (\<lambda>_.
       io_bind (on_world (lib_quiet (cm_stop_grinbox C))) (\<lambda>_.
       set_session (\<lambda>s. s\<lparr>se_grinbox := None\<rparr>)))
     else io_lift (fail (ClosedListener ''mwcmq'')))"

definition stop_mwcmqs :: "('pk, 'sk, 'sig, 'st, 's, 'b) cmdenv \<Rightarrow> ('sk, 's, 'st, unit) dio" where
  "stop_mwcmqs C =
     io_bind (mwcmqs_running C) (\<lambda>is_running.
     if is_running then
       io_bind (tell ''stopping mwcmqs listener...'') (\<lambda>_.
       io_bind get_session (\<lambda>s.
       io_bind (case se_mwcmqs s of
           Some (_, sub) \<Rightarrow> on_world (mwcmq_subscriber_stop (cm_qenv C) sub) | None \<Rightarrow> io_return False) (\<lambda>success.
       if success then set_session (\<lambda>s. s\<lparr>se_mwcmqs := None\<rparr>)
       else tell ''WARNING: Could not contact mwcmqs. Network down?'')))
     else io_lift (fail (ClosedListener ''mwcmqs'')))"

definition stop_keybase :: "('pk, 'sk, 'sig, 'st, 's, 'b) cmdenv \<Rightarrow> ('sk, 's, 'st, unit) dio" where
  "stop_keybase C =
     io_bind (keybase_running C) (\<lambda>is_running.
     if is_running then
       io_bind (tell ''stopping keybase listener...'') (\<lambda>_.
       io_bind (on_world (lib_quiet (cm_stop_keybase C))) (\<lambda>_.
       set_session (\<lambda>s. s\<lparr>se_keybase := None\<rparr>)))
     else io_lift (fail (ClosedListener ''keybase'')))"

definition cmd_stop ::
  "('pk, 'sk, 'sig, 'st, 's, 'b) cmdenv \<Rightarrow> matches \<Rightarrow> ('sk, 's, 'st, unit) dio" where
  "cmd_stop C args = for_listeners args (stop_grinbox C) (stop_mwcmqs C) (stop_keybase C)"

section \<open>Configuration and keys\<close>

definition config_args_of :: "matches \<Rightarrow> config_args" where
  "config_args_of args =
     \<lparr>ca_data_path = value_of args ''data-path'', ca_domain = value_of args ''domain'', ca_port = value_of args ''port'',
      ca_node_uri = value_of args ''node-uri'', ca_node_secret = value_of args ''node-secret''\<rparr>"

text \<open>\<open>!any_matches && !silent\<close>: a command that changes nothing prints the configuration.\<close>

definition config_shown :: "config_args \<Rightarrow> u32 option \<Rightarrow> bool \<Rightarrow> bool" where
  "config_shown a new_address_index exists \<longleftrightarrow>
     exists \<and> new_address_index = None \<and> ca_data_path a = None \<and> ca_domain a = None \<and> ca_port a = None \<and>
     ca_node_uri a = None \<and> ca_node_secret a = None"

definition next_index :: "('pk, 'sk, 'sig, 'st, 's, 'b) cmdenv \<Rightarrow> u32 \<Rightarrow> u32 res" where
  "next_index C i = (if cm_overflow_checks C \<and> unat i + 1 \<ge> 2 ^ 32 then Panic else Ok (i + 1))"

definition new_index ::
  "('pk, 'sk, 'sig, 'st, 's, 'b) cmdenv \<Rightarrow> matches \<Rightarrow> ('sk, 's, 'st, u32 option) dio" where
  "new_index C args =
     (if is_present args ''generate-address'' then
        io_bind get_session (\<lambda>s.
        io_bind (case value_of args ''generate-address-index'' of
            Some index \<Rightarrow> io_bind (number (2 ^ 32) (Kind NumberParsingError) index) (\<lambda>n. io_return (of_nat n))
          | None \<Rightarrow> io_lift (next_index C (cfg_grinbox_address_index (se_config s)))) (\<lambda>index.
        io_bind (set_session (\<lambda>s. s\<lparr>se_config := (se_config s)\<lparr>grinbox_address_index := Some index\<rparr>\<rparr>)) (\<lambda>_.
        io_return (Some index))))
      else io_return None)"

definition cmd_config ::
  "('pk, 'sk, 'sig, 'st) wenv \<Rightarrow> ('pk, 'sk, 'sig, 'st, 's, 'b) cmdenv \<Rightarrow> matches \<Rightarrow> ('sk, 's, 'st, unit) dio" where
  "cmd_config E C args =
     io_bind (new_index C args) (\<lambda>new_address_index.
     io_bind get_session (\<lambda>s.
     let a = config_args_of args; c = chain (se_config s); path = config_home (se_config s)
     in io_bind (on_world (on_fs (config_exists (cm_cfg C) path c))) (\<lambda>exists.
        io_bind (on_world (on_fs (do_config (cm_cfg C) a c new_address_index path))) (\<lambda>config.
        io_bind (if config_shown a new_address_index exists then tell (config_display config) else io_return ()) (\<lambda>_.
        io_bind (set_session (\<lambda>s. s\<lparr>se_config := config\<rparr>)) (\<lambda>_.
        if new_address_index \<noteq> None then
          io_bind (session_address_key E) (\<lambda>_.
          io_bind get_session (\<lambda>s.
          tell (''Derived with index ['' @ show_nat (unat (cfg_grinbox_address_index (se_config s))) @ '']'')))
        else io_return ()))))))"

text \<open>A wallet is not replaced under a running listener; MWCMQS is not asked about.\<close>

definition refuse_listeners :: "('sk, 's, 'st, unit) dio" where
  "refuse_listeners =
     io_bind get_session (\<lambda>s.
     if se_keybase s \<noteq> None \<or> se_grinbox s \<noteq> None then io_lift (fail HasListener) else io_return ())"

definition warn_no_passphrase :: "string \<Rightarrow> ('sk, 's, 'st, unit) dio" where
  "warn_no_passphrase passphrase =
     (if passphrase = [] then tell ''WARNING: wallet with no passphrase.'' else io_return ())"

definition cmd_init ::
  "('pk, 'sk, 'sig, 'st) wenv \<Rightarrow> ('pk, 'sk, 'sig, 'st, 's, 'b) cmdenv \<Rightarrow> matches \<Rightarrow> ('sk, 's, 'st, unit) dio" where
  "cmd_init E C args =
     io_bind (set_safe False) (\<lambda>_.
     io_bind refuse_listeners (\<lambda>_.
     io_bind (passphrase_of C args) (\<lambda>passphrase.
     io_bind (set_safe (value_of args ''passphrase'' = None)) (\<lambda>_.
     io_bind (warn_no_passphrase passphrase) (\<lambda>_.
     io_bind get_session (\<lambda>s.
     io_bind (on_world (wl_init E (se_config s) passphrase True)) (\<lambda>seed.
     io_bind (tell ''Press ENTER when you have done so'') (\<lambda>_.
     io_bind (io_expect (on_world (lib_quiet (cm_read_line C)))) (\<lambda>_.
     io_bind (wallet_mut (wl_complete E seed (se_config s) ''default'' passphrase True)) (\<lambda>_.
     io_bind (wallet_ref (update_tip_as_last_scanned E)) (\<lambda>_.
     session_address_key E)))))))))))"

definition cmd_lock :: "('pk, 'sk, 'sig, 'st) wenv \<Rightarrow> ('sk, 's, 'st, unit) dio" where
  "cmd_lock E = io_bind refuse_listeners (\<lambda>_. wallet_mut (wl_lock E))"

definition cmd_unlock ::
  "('pk, 'sk, 'sig, 'st) wenv \<Rightarrow> ('pk, 'sk, 'sig, 'st, 's, 'b) cmdenv \<Rightarrow> matches \<Rightarrow> ('sk, 's, 'st, unit) dio" where
  "cmd_unlock E C args =
     (let account = unwrap_or (value_of args ''account'') ''default''
      in io_bind (passphrase_of C args) (\<lambda>passphrase.
         io_bind (set_safe (value_of args ''passphrase'' = None)) (\<lambda>_.
         io_bind get_session (\<lambda>s.
         if \<not> is_locked (se_wallet s) then io_lift (fail WalletAlreadyUnlocked)
         else
           io_bind (wallet_mut (unlock E (se_config s) account passphrase)) (\<lambda>_.
           session_address_key E)))))"

definition account_action ::
  "('pk, 'sk, 'sig, 'st) wenv \<Rightarrow> ('pk, 'sk, 'sig, 'st, 's, 'b) cmdenv \<Rightarrow> matches \<Rightarrow> ('sk, 's, 'st, unit) dio" where
  "account_action E C args =
     (case subcommand_matches args ''create'' of
        Some args \<Rightarrow> io_bind (need args ''name'') (\<lambda>name. wallet_ref (\<lambda>w. create_account E w name))
      | None \<Rightarrow>
        (case subcommand_matches args ''switch'' of
           Some args \<Rightarrow>
             io_bind (need args ''name'') (\<lambda>account.
             io_bind (passphrase_of C args) (\<lambda>passphrase.
             io_bind get_session (\<lambda>s.
             wallet_mut (unlock E (se_config s) account passphrase))))
         | None \<Rightarrow>
           (case subcommand_matches args ''rename'' of
              Some args \<Rightarrow>
                io_bind (need args ''old_account'') (\<lambda>old_account.
                io_bind (need args ''new_account'') (\<lambda>new_account.
                wallet_ref (\<lambda>w. rename_account E w old_account new_account)))
            | None \<Rightarrow> io_return ())))"

text \<open>The passphrase is looked for beside \<open>switch\<close>, not below it.\<close>

definition cmd_account ::
  "('pk, 'sk, 'sig, 'st) wenv \<Rightarrow> ('pk, 'sk, 'sig, 'st, 's, 'b) cmdenv \<Rightarrow> matches \<Rightarrow> ('sk, 's, 'st, unit) dio" where
  "cmd_account E C args =
     io_bind (set_safe (value_of args ''passphrase'' = None)) (\<lambda>_.
     account_action E C args)"

text \<open>Restoring the wallet from its seed, and from a mnemonic.\<close>

definition restore_wallet ::
  "('pk, 'sk, 'sig, 'st) wenv \<Rightarrow> string \<Rightarrow> ('sk, 's, 'st, unit) dio" where
  "restore_wallet E passphrase =
     io_bind get_session (\<lambda>s.
     io_bind (on_world (wl_init E (se_config s) passphrase False)) (\<lambda>seed.
     io_bind (wallet_mut (wl_complete E seed (se_config s) ''default'' passphrase True)) (\<lambda>_.
     wallet_ref (restore_state E))))"

definition restored :: "('pk, 'sk, 'sig, 'st) wenv \<Rightarrow> string \<Rightarrow> ('sk, 's, 'st, unit) dio" where
  "restored E passphrase =
     io_bind (session_address_key E) (\<lambda>_.
     io_bind (warn_no_passphrase passphrase) (\<lambda>_.
     tell ''wallet restoration done!''))"

definition cmd_restore ::
  "('pk, 'sk, 'sig, 'st) wenv \<Rightarrow> ('pk, 'sk, 'sig, 'st, 's, 'b) cmdenv \<Rightarrow> matches \<Rightarrow> ('sk, 's, 'st, unit) dio" where
  "cmd_restore E C args =
     io_bind (set_safe False) (\<lambda>_.
     io_bind refuse_listeners (\<lambda>_.
     io_bind (passphrase_of C args) (\<lambda>passphrase.
     io_bind (set_safe (value_of args ''passphrase'' = None)) (\<lambda>_.
     io_bind (tell ''restoring... please wait as this could take a few minutes to complete.'') (\<lambda>_.
     io_bind (restore_wallet E passphrase) (\<lambda>_.
     io_bind (wallet_ref (update_tip_as_last_scanned E)) (\<lambda>_.
     restored E passphrase)))))))"

definition recover_action ::
  "('pk, 'sk, 'sig, 'st) wenv \<Rightarrow> ('pk, 'sk, 'sig, 'st, 's, 'b) cmdenv \<Rightarrow> matches \<Rightarrow> string \<Rightarrow> ('sk, 's, 'st, unit) dio" where
  "recover_action E C args passphrase =
     (case values_of args ''words'' of
        Some words \<Rightarrow>
          io_bind (tell ''recovering... please wait as this could take a few minutes to complete.'') (\<lambda>_.
          io_bind (getenv C ''MWC_MNEMONIC'') (\<lambda>envvar.
          let source = (if envvar \<noteq> None then ''environment variable'' else ''commandline specified'');
              words = (case envvar of Some t \<Rightarrow> str_split CHR '' '' t | None \<Rightarrow> words)
          in io_bind (tell (''Recovering with '' @ source @ '' words: '' @ q_debug_strings (cm_qenv C) words)) (\<lambda>_.
             io_bind get_session (\<lambda>s.
             io_bind (on_world (restore_seed E (se_config s) words passphrase)) (\<lambda>_.
             io_bind (restore_wallet E passphrase) (\<lambda>_.
             io_bind (restored E passphrase) (\<lambda>_.
             set_safe False)))))))
      | None \<Rightarrow>
          if is_present args ''display'' then
            io_bind get_session (\<lambda>s. on_world (show_mnemonic E (se_config s) passphrase))
          else io_return ())"

definition cmd_recover ::
  "('pk, 'sk, 'sig, 'st) wenv \<Rightarrow> ('pk, 'sk, 'sig, 'st, 's, 'b) cmdenv \<Rightarrow> matches \<Rightarrow> ('sk, 's, 'st, unit) dio" where
  "cmd_recover E C args =
     io_bind (set_safe False) (\<lambda>_.
     io_bind refuse_listeners (\<lambda>_.
     io_bind (passphrase_of C args) (\<lambda>passphrase.
     io_bind (set_safe (value_of args ''passphrase'' = None)) (\<lambda>_.
     recover_action E C args passphrase))))"

definition cmd_set_recv ::
  "('pk, 'sk, 'sig, 'st) wenv \<Rightarrow> matches \<Rightarrow> ('sk, 's, 'st, unit) dio" where
  "cmd_set_recv E args =
     io_bind (need args ''account'') (\<lambda>account.
     io_bind (io_expect (wallet_ref (\<lambda>w. account_exists E w account))) (\<lambda>exists.
     if exists then
       io_bind (set_session (\<lambda>s. s\<lparr>se_recv := \<lparr>recv_account = Some account, recv_pass = value_of args ''password''\<rparr>\<rparr>)) (\<lambda>_.
       tell (''Incoming funds will be received in account: '' @ quoted account))
     else tell (''Account '' @ quoted account @ '' does not exist!'')))"

section \<open>Queries and maintenance\<close>

definition cmd_info ::
  "('pk, 'sk, 'sig, 'st) wenv \<Rightarrow> matches \<Rightarrow> ('sk, 's, 'st, unit) dio" where
  "cmd_info E args =
     (let confirmations = unwrap_or (value_of args ''confirmations'') ''10''
      in io_bind (number (2 ^ 64) (Kind (InvalidMinConfirmations confirmations)) confirmations) (\<lambda>n.
         wallet_ref (\<lambda>w. wl_info E w (\<not> is_present args ''--no-refresh'') (of_nat n))))"

text \<open>Pagination: zero stands for none; the error of the start shows the length.\<close>

definition pagination :: "matches \<Rightarrow> ('sk, 's, 'st, u32 option \<times> u32 option) dio" where
  "pagination args =
     (let len = unwrap_or (value_of args ''length'') ''0''; start = unwrap_or (value_of args ''offset'') ''0''
      in io_bind (number (2 ^ 32) (Kind (InvalidPaginationLength len)) len) (\<lambda>l.
         io_bind (number (2 ^ 32) (Kind (InvalidPaginationStart (show_nat l))) start) (\<lambda>st.
         io_return (if st > 0 then Some (of_nat st) else None, if l > 0 then Some (of_nat l) else None))))"

definition cmd_txs ::
  "('pk, 'sk, 'sig, 'st) wenv \<Rightarrow> ('pk, 'sk, 'sig, 'st, 's, 'b) cmdenv \<Rightarrow> matches \<Rightarrow> ('sk, 's, 'st, unit) dio" where
  "cmd_txs E C args =
     io_bind (case value_of args ''id'' of
         Some s \<Rightarrow> io_bind (number (2 ^ 32) (Kind (InvalidTxIdNumber s)) s) (\<lambda>n. io_return (Some (of_nat n)))
       | None \<Rightarrow> io_return None) (\<lambda>tx_id.
     io_bind (case value_of args ''txid'' of
         Some s \<Rightarrow> io_bind (io_lift (of_option (Kind (InvalidTxUuid s)) (cm_uuid_parse C s))) (\<lambda>u. io_return (Some u))
       | None \<Rightarrow> io_return None) (\<lambda>tx_slate_id.
     io_bind (pagination args) (\<lambda>(start, len).
     wallet_ref (\<lambda>w. wl_txs E w (\<not> is_present args ''no-refresh'') start len tx_id tx_slate_id))))"

definition cmd_outputs ::
  "('pk, 'sk, 'sig, 'st) wenv \<Rightarrow> matches \<Rightarrow> ('sk, 's, 'st, unit) dio" where
  "cmd_outputs E args =
     io_bind (pagination args) (\<lambda>(start, len).
     wallet_ref (\<lambda>w. wl_outputs E w (\<not> is_present args ''no-refresh'') (is_present args ''show-spent'') start len))"

definition cmd_txs_bulk_validate ::
  "('pk, 'sk, 'sig, 'st) wenv \<Rightarrow> matches \<Rightarrow> ('sk, 's, 'st, unit) dio" where
  "cmd_txs_bulk_validate E args =
     io_bind (need args ''kernels'') (\<lambda>kernels_fn.
     io_bind (need args ''outputs'') (\<lambda>outputs_fn.
     io_bind (need args ''result'') (\<lambda>result_fn.
     io_bind (wallet_ref (\<lambda>w. wl_txs_bulk_validate E w kernels_fn outputs_fn result_fn)) (\<lambda>_.
     tell (''Please check results in CSV format at '' @ result_fn)))))"

definition contacts_args_of :: "matches \<Rightarrow> contacts_args res" where
  "contacts_args_of args =
     (case subcommand_matches args ''add'' of
        Some a \<Rightarrow> (case (value_of a ''name'', value_of a ''address'') of (Some n, Some ad) \<Rightarrow> Ok (ContactsAdd n ad) | _ \<Rightarrow> Panic)
      | None \<Rightarrow> (case subcommand_matches args ''remove'' of
          Some a \<Rightarrow> (case value_of a ''name'' of Some n \<Rightarrow> Ok (ContactsRemove n) | None \<Rightarrow> Panic)
        | None \<Rightarrow> Ok ContactsList))"

definition cmd_contacts ::
  "('pk, 'sk, 'sig, 'st) wenv \<Rightarrow> ('pk, 'sk, 'sig, 'st, 's, 'b) cmdenv \<Rightarrow> matches \<Rightarrow> ('sk, 's, 'st, unit) dio" where
  "cmd_contacts E C args =
     io_bind (io_lift (contacts_args_of args)) (\<lambda>a.
     io_bind (\<lambda>(w, s). case do_contacts E (cm_book C) a (se_book s) of (r, book) \<Rightarrow> (r, (w, s\<lparr>se_book := book\<rparr>))) (\<lambda>texts.
     io_for tell texts))"

definition tx_id_of :: "matches \<Rightarrow> ('sk, 's, 'st, u32) dio" where
  "tx_id_of args =
     io_bind (need args ''id'') (\<lambda>t.
     io_bind (number (2 ^ 32) (Kind (InvalidTxId t)) t) (\<lambda>n. io_return (of_nat n)))"

definition cmd_repost :: "('pk, 'sk, 'sig, 'st) wenv \<Rightarrow> matches \<Rightarrow> ('sk, 's, 'st, unit) dio" where
  "cmd_repost E args = io_bind (tx_id_of args) (\<lambda>i. wallet_ref (\<lambda>w. repost E w i False))"

definition cmd_cancel :: "('pk, 'sk, 'sig, 'st) wenv \<Rightarrow> matches \<Rightarrow> ('sk, 's, 'st, unit) dio" where
  "cmd_cancel E args = io_bind (tx_id_of args) (\<lambda>i. wallet_ref (\<lambda>w. wl_cancel E w i))"

definition cmd_getnextkey :: "('pk, 'sk, 'sig, 'st) wenv \<Rightarrow> matches \<Rightarrow> ('sk, 's, 'st, unit) dio" where
  "cmd_getnextkey E args =
     (let t = unwrap_or (value_of args ''amount'') ''0''
      in io_bind (io_expect (number (2 ^ 64) (Foreign ''invalid digit found in string'') t)) (\<lambda>n.
         if n = 0 then tell ''Error: amount greater than 0 must be specified''
         else wallet_ref (\<lambda>w. getnextkey E w (of_nat n))))"

definition cmd_check :: "('pk, 'sk, 'sig, 'st) wenv \<Rightarrow> matches \<Rightarrow> ('sk, 's, 'st, unit) dio" where
  "cmd_check E args =
     (let start_height = unwrap_or (value_of args ''start_height'') ''1''
      in io_bind (number (2 ^ 64) (Kind (InvalidNumOutputs start_height)) start_height) (\<lambda>n.
         io_bind get_session (\<lambda>s.
         if se_keybase s \<noteq> None \<or> se_grinbox s \<noteq> None \<or> se_mwcmqs s \<noteq> None then io_lift (fail HasListener)
         else
           io_bind (tell ''checking and repairing... please wait as this could take a few minutes to complete.'') (\<lambda>_.
           io_bind (wallet_ref (\<lambda>w. wl_check_repair E w (of_nat n) (\<not> is_present args ''--no-delete_unconfirmed''))) (\<lambda>_.
           tell ''check and repair done!'')))))"

definition cmd_sync :: "('pk, 'sk, 'sig, 'st) wenv \<Rightarrow> ('sk, 's, 'st, unit) dio" where
  "cmd_sync E =
     io_bind (wallet_ref (wl_sync E)) (\<lambda>synced.
     tell (if synced then ''Your wallet data successfully synchronized with a node''
           else ''Warning: Unable to sync wallet with a node''))"

text \<open>The keys of a file, one per line; a line that is none is skipped with a warning.\<close>

primrec read_pub_keys ::
  "('pk, 'sk, 'sig, 'st) wenv \<Rightarrow> string list \<Rightarrow> 'pk list \<Rightarrow> ('sk, 's, 'st, 'pk list) dio" where
  "read_pub_keys E [] pub_keys = io_return pub_keys"
| "read_pub_keys E (line # rest) pub_keys =
     (if line = [] then read_pub_keys E rest pub_keys
      else io_match (io_lift (public_key_from_hex E line))
        (\<lambda>pk. read_pub_keys E rest (pub_keys @ [pk]))
        (\<lambda>_. io_bind (tell (''WARNING: unable to read a public key `'' @ line @ ''`. Will be skipped.'')) (\<lambda>_.
           read_pub_keys E rest pub_keys)))"

definition remove_file :: "string \<Rightarrow> unit fio" where
  "remove_file p = (\<lambda>w. if denied w p then (fail (FileUnableToDelete p), w) else (Ok (), w\<lparr>files := (files w)(p := None)\<rparr>))"

definition cmd_scan_outputs ::
  "('pk, 'sk, 'sig, 'st) wenv \<Rightarrow> ('pk, 'sk, 'sig, 'st, 's, 'b) cmdenv \<Rightarrow> matches \<Rightarrow> ('sk, 's, 'st, unit) dio" where
  "cmd_scan_outputs E C args =
     io_bind (need args ''pubkey_file'') (\<lambda>pub_key_file.
     io_bind (on_world (on_fs (open_lines pub_key_file))) (\<lambda>texts.
     let output_fn = pub_key_file @ ''.commits''
     in io_bind (on_world (on_fs (\<lambda>w. if files w output_fn \<noteq> None then remove_file output_fn w else (Ok (), w)))) (\<lambda>_.
        io_bind (read_pub_keys E texts []) (\<lambda>pub_keys.
        io_bind (tell (''Scaning outputs for '' @ show_nat (length pub_keys) @
          '' public keys. Please wait as this could take a few minutes to complete.'')) (\<lambda>_.
        io_bind (wallet_ref (\<lambda>w. wl_scan_outputs (cm_scan_fuel C) E w pub_keys output_fn)) (\<lambda>_.
        tell (''scanning of the outputs is completed! result file location: '' @ output_fn)))))))"

section \<open>Slates in files\<close>

definition read_slate ::
  "('pk, 'sk, 'sig, 'st) wenv \<Rightarrow> ('pk, 'sk, 'sig, 'st, 's, 'b) cmdenv \<Rightarrow> string \<Rightarrow> ('sk, 's, 'st, 'pk slate) dio" where
  "read_slate E C input =
     io_bind (on_world (on_fs (read_file (home_path C input)))) (\<lambda>t.
     io_lift (of_option (Foreign ''slate'') (deserialize_upgrade E t)))"

text \<open>\<open>read_line\<close> until the end of the file, a number per line.\<close>

definition line_texts :: "string \<Rightarrow> string list" where
  "line_texts s = (let ls = str_split CHR 0x0A s in butlast ls @ (if last ls = [] then [] else [last ls]))"

definition parse_amounts :: "string \<Rightarrow> u64 list res" where
  "parse_amounts t =
     collect (\<lambda>l. of_option (Foreign ''invalid digit found in string'') (map_option of_nat (from_str_radix 10 (2 ^ 64) (str_trim l))))
       (line_texts t)"

text \<open>The slate is received on the account of \<open>set-recv\<close>, and the wallet switched back.\<close>

definition receive_on_account ::
  "('pk, 'sk, 'sig, 'st) wenv \<Rightarrow> string option \<Rightarrow> u64 list option \<Rightarrow> 'pk slate \<Rightarrow> ('sk, 's, 'st, 'pk slate) dio" where
  "receive_on_account E key_id output_amounts slate =
     io_bind get_session (\<lambda>s.
     let old_account = active_account (se_wallet s); config = se_config s; pass = unwrap_or (recv_pass (se_recv s)) []
     in case recv_account (se_recv s) of
          Some dst_account \<Rightarrow>
            io_bind (wallet_mut (unlock E config dst_account pass)) (\<lambda>_.
            io_bind (wallet_ref (\<lambda>w. with_slate (process_sender_initiated_slate E w (Some ''file'') key_id output_amounts
                (Some dst_account)) slate)) (\<lambda>slate.
            io_bind (wallet_mut (unlock E config old_account pass)) (\<lambda>_.
            io_return slate)))
        | None \<Rightarrow>
            wallet_ref (\<lambda>w. with_slate (process_sender_initiated_slate E w (Some ''file'') key_id output_amounts
              (Some old_account)) slate))"

definition cmd_receive ::
  "('pk, 'sk, 'sig, 'st) wenv \<Rightarrow> ('pk, 'sk, 'sig, 'st, 's, 'b) cmdenv \<Rightarrow> matches \<Rightarrow> ('sk, 's, 'st, unit) dio" where
  "cmd_receive E C args =
     io_bind (need args ''file'') (\<lambda>input.
     io_bind (read_slate E C input) (\<lambda>slate.
     let response = home_path C input @ ''.response''
     in io_bind (on_world (on_fs (write_file response []))) (\<lambda>_.
        io_bind (case value_of args ''recv_file'' of
            Some rfile \<Rightarrow>
              io_bind (on_world (on_fs (read_file (home_path C rfile)))) (\<lambda>t.
              io_bind (io_lift (parse_amounts t)) (\<lambda>nvec. io_return (Some nvec)))
          | None \<Rightarrow> io_return None) (\<lambda>output_amounts.
        io_bind (receive_on_account E (value_of args ''key_id'') output_amounts slate) (\<lambda>slate.
        let shown = input @ '' received. amount = ['' @ amount_hr (cm_jenv C) (sl_amount slate)
        in io_bind (case sl_participant_data slate of
              [] \<Rightarrow> io_lift Panic
            | pd # _ \<Rightarrow> (case pd_message pd of
                Some message \<Rightarrow> tell (shown @ ''], message = ['' @ quoted message @ '']'')
              | None \<Rightarrow> tell (shown @ '']''))) (\<lambda>_.
           io_bind (io_lift (q_slate_to_string (cm_qenv C) slate)) (\<lambda>t.
           io_bind (on_world (on_fs (write_file response t))) (\<lambda>_.
           tell (input @ ''.response created successfully.'')))))))))"

definition cmd_showpubkeys ::
  "('pk, 'sk, 'sig, 'st) wenv \<Rightarrow> ('pk, 'sk, 'sig, 'st, 's, 'b) cmdenv \<Rightarrow> matches \<Rightarrow> ('sk, 's, 'st, unit) dio" where
  "cmd_showpubkeys E C args =
     io_bind (need args ''file'') (\<lambda>input.
     io_bind (read_slate E C input) (\<lambda>slate.
     io_for (\<lambda>p. tell (''pubkey['' @ show_nat (cm_participant_id C p) @ '']='' @ show_pk E (pd_public_blind_excess p)))
       (sl_participant_data slate)))"

definition cmd_finalize ::
  "('pk, 'sk, 'sig, 'st) wenv \<Rightarrow> ('pk, 'sk, 'sig, 'st, 's, 'b) cmdenv \<Rightarrow> matches \<Rightarrow> ('sk, 's, 'st, unit) dio" where
  "cmd_finalize E C args =
     io_bind (need args ''file'') (\<lambda>input.
     io_bind (read_slate E C input) (\<lambda>slate.
     io_bind (wallet_ref (\<lambda>w. with_slate (finalize_slate E w None) slate)) (\<lambda>_.
     tell (input @ '' finalized.''))))"

definition cmd_submit ::
  "('pk, 'sk, 'sig, 'st) wenv \<Rightarrow> ('pk, 'sk, 'sig, 'st, 's, 'b) cmdenv \<Rightarrow> matches \<Rightarrow> ('sk, 's, 'st, unit) dio" where
  "cmd_submit E C args =
     io_bind (need args ''file'') (\<lambda>input.
     io_bind (on_world (on_fs (read_file (home_path C input)))) (\<lambda>txn_file.
     io_bind (io_lift (grin_from_hex E txn_file)) (\<lambda>tx_bin.
     io_bind (io_lift (cm_tx_deserialize C tx_bin)) (\<lambda>txn.
     wallet_ref (\<lambda>w. submit E w txn)))))"

definition cmd_export_proof ::
  "('pk, 'sk, 'sig, 'st) wenv \<Rightarrow> ('pk, 'sk, 'sig, 'st, 's, 'b) cmdenv \<Rightarrow> matches \<Rightarrow> ('sk, 's, 'st, unit) dio" where
  "cmd_export_proof E C args =
     io_bind (need args ''file'') (\<lambda>input.
     io_bind (tx_id_of args) (\<lambda>i.
     io_bind (wallet_ref (\<lambda>w. get_tx_proof E w i)) (\<lambda>tx_proof.
     io_match (io_lift (wl_verify_tx_proof E tx_proof))
       (\<lambda>p.
          io_bind (on_world (on_fs (write_file (home_path C input) []))) (\<lambda>_.
          io_bind (io_lift (proof_to_json E tx_proof)) (\<lambda>t.
          io_bind (on_world (on_fs (write_file (home_path C input) t))) (\<lambda>_.
          io_bind (tell (''proof written to '' @ input)) (\<lambda>_.
          proof_ok E C p)))))
       (\<lambda>_. tell ''unable to verify proof''))))"

definition cmd_verify_proof ::
  "('pk, 'sk, 'sig, 'st) wenv \<Rightarrow> ('pk, 'sk, 'sig, 'st, 's, 'b) cmdenv \<Rightarrow> matches \<Rightarrow> ('sk, 's, 'st, unit) dio" where
  "cmd_verify_proof E C args =
     io_bind (need args ''file'') (\<lambda>input.
     let path = home_path C input
     in io_bind (on_world (on_fs (\<lambda>w. if files w path = None then (fail (FileNotFound input), w) else (Ok (), w)))) (\<lambda>_.
        io_bind (on_world (on_fs (read_file path))) (\<lambda>t.
        io_bind (io_lift (proof_from_json E t)) (\<lambda>tx_proof.
        io_match (io_lift (wl_verify_tx_proof E tx_proof)) (proof_ok E C) (\<lambda>_. tell ''unable to verify proof'')))))"

section \<open>Payments\<close>

text \<open>A name from the address book, or a text of any address type; what is shown to the user comes with it.\<close>

definition parse_recipient :: "('pk, 'sk, 'sig, 'st) wenv \<Rightarrow> string \<Rightarrow> dyn_address res" where
  "parse_recipient E to =
     (case address_parse E to of
        Err e \<Rightarrow> obind (omap_err (\<lambda>_. e) (grinbox_from_str E to)) (\<lambda>a. Ok (AGrinbox a))
      | r \<Rightarrow> r)"

definition resolve_recipient ::
  "('pk, 'sk, 'sig, 'st) wenv \<Rightarrow> ('pk, 'sk, 'sig, 'st, 's, 'b) cmdenv \<Rightarrow> string \<Rightarrow> ('sk, 's, 'st, dyn_address \<times> string) dio" where
  "resolve_recipient E C to =
     io_bind get_session (\<lambda>s.
     io_bind (if starts_with to ''@'' then
                io_bind (io_lift (get_contact (cm_book C) (se_book s) (drop 1 to))) (\<lambda>contact.
                io_return (get_address contact, Some (get_name contact)))
              else io_return (to, None)) (\<lambda>(to, display_to).
     io_bind (io_lift (parse_recipient E to)) (\<lambda>address.
     io_bind (case display_to of Some n \<Rightarrow> io_return n | None \<Rightarrow> io_lift (address_stripped address)) (\<lambda>display_to.
     io_return (address, display_to)))))"

record send_args =
  sa_strategy :: string
  sa_routputs :: nat
  sa_output_list :: "string list option"
  sa_confirmations :: u64
  sa_change_outputs :: u32
  sa_version :: "u16 option"

definition send_args_of :: "matches \<Rightarrow> ('sk, 's, 'st, send_args) dio" where
  "send_args_of args =
     (let strategy = unwrap_or (value_of args ''strategy'') ''smallest'';
          routputs_arg = unwrap_or (value_of args ''routputs'') ''1'';
          confirmations = unwrap_or (value_of args ''confirmations'') ''10'';
          change_outputs = unwrap_or (value_of args ''change-outputs'') ''1''
      in if strategy \<noteq> ''smallest'' \<and> strategy \<noteq> ''all'' \<and> strategy \<noteq> ''custom'' then io_lift (fail InvalidStrategy)
         else
           io_bind (number (2 ^ 64) (Foreign ''invalid digit found in string'') routputs_arg) (\<lambda>routputs.
           io_bind (case value_of args ''outputs'' of
               None \<Rightarrow> if strategy = ''custom'' then io_lift (fail CustomWithNoOutputs) else io_return None
             | Some outs \<Rightarrow> if strategy \<noteq> ''custom'' then io_lift (fail NonCustomWithOutputs)
                 else io_return (Some (str_split CHR '','' outs))) (\<lambda>output_list.
           io_bind (number (2 ^ 64) (Kind (InvalidMinConfirmations confirmations)) confirmations) (\<lambda>n.
           if n < 1 then io_lift (fail ZeroConfNotAllowed)
           else
             io_bind (number (2 ^ 32) (Kind (InvalidNumOutputs change_outputs)) change_outputs) (\<lambda>co.
             io_bind (case value_of args ''version'' of
                 Some v \<Rightarrow> io_bind (number (2 ^ 16) (Kind (InvalidSlateVersion v)) v) (\<lambda>n. io_return (Some (of_nat n)))
               | None \<Rightarrow> io_return None) (\<lambda>version.
             io_return \<lparr>sa_strategy = strategy, sa_routputs = routputs, sa_output_list = output_list, sa_confirmations = of_nat n,
               sa_change_outputs = of_nat co, sa_version = version\<rparr>))))))"

text \<open>\<open>ALL\<close>: everything that can be spent, less the fee.\<close>

definition send_amount ::
  "('pk, 'sk, 'sig, 'st) wenv \<Rightarrow> ('pk, 'sk, 'sig, 'st, 's, 'b) cmdenv \<Rightarrow> send_args \<Rightarrow> string \<Rightarrow> ('sk, 's, 'st, u64) dio" where
  "send_amount E C sa amount =
     (if amount = ''ALL'' then
        io_bind (wallet_ref (\<lambda>w. output_count E w True (sa_confirmations sa) (sa_output_list sa))) (\<lambda>max_available.
        io_bind (wallet_ref (\<lambda>w. total_value E w False (sa_confirmations sa) (sa_output_list sa))) (\<lambda>total.
        let fee = cm_tx_fee C max_available
        in io_return (if total \<ge> fee then total - fee else 0)))
      else io_lift (of_option (Kind (InvalidAmount amount)) (cm_amount_from_hr C amount)))"

definition console_started :: "('pk, 'sk, 'sig, 'st) wenv \<Rightarrow> ('st, unit) wio" where
  "console_started E =
     io_bind (lib Start_console_thread (start_console_thread E)) (\<lambda>_.
     io_modify (\<lambda>w. w\<lparr>w_consoles := Suc (w_consoles w)\<rparr>))"

definition console_stopped :: "('st, unit) wio" where
  "console_stopped = io_modify (\<lambda>w. w\<lparr>w_consoles := w_consoles w - 1\<rparr>)"

definition initiate ::
  "('pk, 'sk, 'sig, 'st) wenv \<Rightarrow> send_args \<Rightarrow> string option \<Rightarrow> nat \<Rightarrow> u64 \<Rightarrow> string \<Rightarrow> ('sk, 's, 'st, 'pk slate) dio" where
  "initiate E sa message routputs amount address =
     wallet_ref (\<lambda>w. initiate_send_tx E w (Some address) amount (sa_confirmations sa) (sa_strategy sa) (sa_change_outputs sa) 500
       message (sa_output_list sa) (sa_version sa) routputs)"

definition send_to_file ::
  "('pk, 'sk, 'sig, 'st) wenv \<Rightarrow> ('pk, 'sk, 'sig, 'st, 's, 'b) cmdenv \<Rightarrow> send_args \<Rightarrow> string option \<Rightarrow> u64 \<Rightarrow> string \<Rightarrow>
   ('sk, 's, 'st, unit) dio" where
  "send_to_file E C sa message amount input =
     io_bind (on_world (on_fs (write_file (home_path C input) []))) (\<lambda>_.
     io_bind (initiate E sa message (sa_routputs sa) amount ''file'') (\<lambda>slate.
     io_bind (io_lift (q_slate_to_string (cm_qenv C) slate)) (\<lambda>t.
     io_bind (on_world (on_fs (write_file (home_path C input) t))) (\<lambda>_.
     io_bind (wallet_ref (\<lambda>w. wl_tx_lock_outputs E w slate (Some ''file'') 0)) (\<lambda>_.
     tell (input @ '' created successfully.''))))))"

text \<open>The other wallet answers over HTTP with the slate it has signed.\<close>

definition post_https ::
  "('pk, 'sk, 'sig, 'st) wenv \<Rightarrow> ('pk, 'sk, 'sig, 'st, 's, 'b) cmdenv \<Rightarrow> string option \<Rightarrow> dyn_address \<Rightarrow> 'pk slate \<Rightarrow>
   ('st, 'pk slate) wio" where
  "post_https E C apisecret to slate =
     (let url = address_display to @ ''/v2/foreign''
      in if \<not> url_parse E url then io_lift (Err (Foreign ''url''))
         else
           let req = JObject [(''jsonrpc'', JString ''2.0''), (''method'', JString ''receive_tx''), (''id'', JNumber ''1''),
                 (''params'', JArray [slate_to_json (cm_jenv C) slate, JNull, JNull])]
           in io_bind (lib_quiet (cm_post C url apisecret req)) (\<lambda>res.
              io_bind (io_lift (case json_from_str (cm_jenv C) res of None \<Rightarrow> Panic | Some v \<Rightarrow> Ok v)) (\<lambda>res.
              if json_get res ''error'' \<noteq> JNull then io_lift (fail HttpRequest)
              else
                io_bind (io_lift (unwrap (json_to_string (cm_jenv C) (json_get (json_get res ''result'') ''Ok'')))) (\<lambda>t.
                io_lift (of_option (Foreign ''slate'') (deserialize_upgrade E t))))))"

definition broker_of :: "string \<Rightarrow> 'b option \<Rightarrow> 'b res" where
  "broker_of name b = of_option (Kind (ClosedListener name)) b"

text \<open>Handing the slate over; the value is the slate to go on with.\<close>

definition hand_over ::
  "('pk, 'sk, 'sig, 'st) wenv \<Rightarrow> ('pk, 'sk, 'sig, 'st, 's, 'b) cmdenv \<Rightarrow> string option \<Rightarrow> dyn_address \<Rightarrow> 'pk slate \<Rightarrow>
   ('sk, 's, 'st, 'pk slate) dio" where
  "hand_over E C apisecret to slate =
     io_bind get_session (\<lambda>s.
     case to of
       AMWCMQS _ \<Rightarrow>
         io_bind (io_lift (broker_of ''mwcmqs'' (se_mwcmqs s))) (\<lambda>(publisher, _).
         io_bind (io_lift (mwcmqs_from_str E (address_display to))) (\<lambda>a.
         io_bind (on_world (mwcmqs_post_slate E (cm_qenv C) publisher slate (AMWCMQS a))) (\<lambda>_. io_return slate)))
     | AKeybase _ \<Rightarrow>
         io_bind (io_lift (broker_of ''keybase'' (se_keybase s))) (\<lambda>(publisher, _).
         io_bind (io_lift (keybase_from_str (address_display to))) (\<lambda>a.
         io_bind (on_world (keybase_post_slate (cm_kenv C) publisher slate (AKeybase (a\<lparr>topic := Some TOPIC_SLATE_NEW\<rparr>)))) (\<lambda>_.
         io_return slate)))
     | AGrinbox _ \<Rightarrow>
         io_bind (io_lift (broker_of ''mwcmq'' (se_grinbox s))) (\<lambda>(publisher, _).
         io_bind (on_world (grinbox_publish E C publisher slate to)) (\<lambda>_. io_return slate))
     | AHttps _ \<Rightarrow> on_world (post_https E C apisecret to slate))"

definition send_to_address ::
  "('pk, 'sk, 'sig, 'st) wenv \<Rightarrow> ('pk, 'sk, 'sig, 'st, 's, 'b) cmdenv \<Rightarrow> send_args \<Rightarrow> string option \<Rightarrow> string option \<Rightarrow> u64 \<Rightarrow>
   string \<Rightarrow> ('sk, 's, 'st, unit) dio" where
  "send_to_address E C sa message apisecret amount to =
     io_bind (resolve_recipient E C to) (\<lambda>(to, display_to).
     io_bind (initiate E sa message 1 amount (address_display to)) (\<lambda>slate.
     io_bind (on_world console_stopped) (\<lambda>_.
     io_bind (hand_over E C apisecret to slate) (\<lambda>slate.
     io_bind (wallet_ref (\<lambda>w. wl_tx_lock_outputs E w slate (Some (address_display to)) 0)) (\<lambda>_.
     io_bind (wallet_ref (\<lambda>w. get_id E w (sl_id slate))) (\<lambda>ret_id.
     io_bind (tell (''txid='' @ show_nat (unat ret_id))) (\<lambda>_.
     io_bind (tell (''slate ['' @ sl_id slate @ ''] for ['' @ amount_hr (cm_jenv C) (sl_amount slate) @
       ''] MWCs sent successfully to ['' @ display_to @ '']'')) (\<lambda>_.
     case to of
       AHttps _ \<Rightarrow>
         io_bind (wallet_ref (\<lambda>w. with_slate (finalize_slate E w None) slate)) (\<lambda>slate.
         tell (''slate ['' @ sl_id slate @ ''] finalized successfully''))
     | _ \<Rightarrow> io_return ()))))))))"

definition cmd_send ::
  "('pk, 'sk, 'sig, 'st) wenv \<Rightarrow> ('pk, 'sk, 'sig, 'st, 's, 'b) cmdenv \<Rightarrow> matches \<Rightarrow> ('sk, 's, 'st, unit) dio" where
  "cmd_send E C args =
     io_bind (send_args_of args) (\<lambda>sa.
     io_bind (need args ''amount'') (\<lambda>t.
     io_bind (send_amount E C sa t) (\<lambda>amount.
     io_bind (on_world (console_started E)) (\<lambda>_.
     case value_of args ''file'' of
       Some input \<Rightarrow> send_to_file E C sa (value_of args ''message'') amount input
     | None \<Rightarrow>
         io_bind (need args ''to'') (\<lambda>to.
         send_to_address E C sa (value_of args ''message'') (value_of args ''apisecret'') amount to)))))"

text \<open>An invoice is posted to a listener's network only, and locks nothing.\<close>

definition post_invoice ::
  "('pk, 'sk, 'sig, 'st) wenv \<Rightarrow> ('pk, 'sk, 'sig, 'st, 's, 'b) cmdenv \<Rightarrow> dyn_address \<Rightarrow> 'pk slate \<Rightarrow> ('sk, 's, 'st, unit) dio" where
  "post_invoice E C to slate =
     io_bind get_session (\<lambda>s.
     case to of
       AKeybase _ \<Rightarrow>
         io_bind (io_lift (broker_of ''keybase'' (se_keybase s))) (\<lambda>(publisher, _).
         on_world (keybase_post_slate (cm_kenv C) publisher slate to))
     | AMWCMQS _ \<Rightarrow>
         io_bind (io_lift (broker_of ''mwcmqs'' (se_mwcmqs s))) (\<lambda>(publisher, _).
         on_world (mwcmqs_post_slate E (cm_qenv C) publisher slate to))
     | AGrinbox _ \<Rightarrow>
         io_bind (io_lift (broker_of ''mwcmq'' (se_grinbox s))) (\<lambda>(publisher, _).
         on_world (grinbox_publish E C publisher slate to))
     | AHttps _ \<Rightarrow> io_lift (fail HttpRequest))"

definition cmd_invoice ::
  "('pk, 'sk, 'sig, 'st) wenv \<Rightarrow> ('pk, 'sk, 'sig, 'st, 's, 'b) cmdenv \<Rightarrow> matches \<Rightarrow> ('sk, 's, 'st, unit) dio" where
  "cmd_invoice E C args =
     (let outs = unwrap_or (value_of args ''outputs'') ''1''
      in io_bind (need args ''to'') (\<lambda>to.
         io_bind (number (2 ^ 64) (Kind (InvalidNumOutputs outs)) outs) (\<lambda>n.
         io_bind (need args ''amount'') (\<lambda>t.
         io_bind (io_lift (of_option (Kind (InvalidAmount t)) (cm_amount_from_hr C t))) (\<lambda>amount.
         io_bind (resolve_recipient E C to) (\<lambda>(to, display_to).
         io_bind (wallet_ref (\<lambda>w. wl_initiate_receive_tx E w (Some (address_display to)) amount n)) (\<lambda>slate.
         io_bind (post_invoice E C to slate) (\<lambda>_.
         tell (''invoice slate ['' @ sl_id slate @ ''] for ['' @ amount_hr (cm_jenv C) (sl_amount slate) @
           ''] MWCs sent successfully to ['' @ display_to @ '']'')))))))))"

section \<open>The command loop\<close>

text \<open>The commands that are one call.\<close>

definition cmd_address :: "('pk, 'sk, 'sig, 'st) wenv \<Rightarrow> matches \<Rightarrow> ('sk, 's, 'st, unit) dio" where
  "cmd_address E args = show_address E True"

definition cmd_accounts :: "('pk, 'sk, 'sig, 'st) wenv \<Rightarrow> matches \<Rightarrow> ('sk, 's, 'st, unit) dio" where
  "cmd_accounts E args = wallet_ref (list_accounts E)"

definition cmd_txs_count :: "('pk, 'sk, 'sig, 'st) wenv \<Rightarrow> matches \<Rightarrow> ('sk, 's, 'st, unit) dio" where
  "cmd_txs_count E args = io_bind (wallet_ref (txs_count E)) (\<lambda>n. tell (show_nat n))"

definition cmd_output_count :: "('pk, 'sk, 'sig, 'st) wenv \<Rightarrow> matches \<Rightarrow> ('sk, 's, 'st, unit) dio" where
  "cmd_output_count E args =
     io_bind (wallet_ref (\<lambda>w. all_output_count E w (is_present args ''show-spent''))) (\<lambda>n. tell (show_nat n))"

definition cmd_nodeinfo :: "('pk, 'sk, 'sig, 'st) wenv \<Rightarrow> matches \<Rightarrow> ('sk, 's, 'st, unit) dio" where
  "cmd_nodeinfo E args = wallet_ref (wl_node_info E)"

definition cmd_dump_wallet_data :: "('pk, 'sk, 'sig, 'st) wenv \<Rightarrow> ('pk, 'sk, 'sig, 'st, 's, 'b) cmdenv \<Rightarrow> matches \<Rightarrow> ('sk, 's, 'st, unit) dio" where
  "cmd_dump_wallet_data E C args =
     wallet_ref (\<lambda>w. wl_dump_wallet_data E w (map_option (home_path C) (value_of args ''file'')))"

definition cmd_getrootpublickey :: "('pk, 'sk, 'sig, 'st) wenv \<Rightarrow> ('pk, 'sk, 'sig, 'st, 's, 'b) cmdenv \<Rightarrow> matches \<Rightarrow> ('sk, 's, 'st, unit) dio" where
  "cmd_getrootpublickey E C args =
     wallet_ref (\<lambda>w. getrootpublickey E (cm_root_id C) w (value_of args ''message''))"

definition cmd_verifysignature :: "('pk, 'sk, 'sig, 'st) wenv \<Rightarrow> matches \<Rightarrow> ('sk, 's, 'st, unit) dio" where
  "cmd_verifysignature E args =
     io_bind (need args ''message'') (\<lambda>message.
     io_bind (need args ''signature'') (\<lambda>signature.
     io_bind (need args ''pubkey'') (\<lambda>pubkey.
     wallet_ref (\<lambda>_. wl_verifysignature E message signature pubkey))))"

definition command_table ::
  "('pk, 'sk, 'sig, 'st) wenv \<Rightarrow> ('pk, 'sk, 'sig, 'st, 's, 'b) cmdenv \<Rightarrow> (string \<times> (matches \<Rightarrow> ('sk, 's, 'st, unit) dio)) list" where
  "command_table E C =
     [(''config'', cmd_config E C), (''address'', cmd_address E), (''init'', cmd_init E C), (''lock'', \<lambda>_. cmd_lock E),
      (''unlock'', cmd_unlock E C), (''accounts'', cmd_accounts E), (''account'', cmd_account E C), (''listen'', cmd_listen E C),
      (''stop'', cmd_stop C), (''info'', cmd_info E), (''txs_count'', cmd_txs_count E), (''txs'', cmd_txs E C),
      (''txs-bulk-validate'', cmd_txs_bulk_validate E), (''contacts'', cmd_contacts E C), (''output_count'', cmd_output_count E),
      (''outputs'', cmd_outputs E), (''repost'', cmd_repost E), (''cancel'', cmd_cancel E), (''getnextkey'', cmd_getnextkey E),
      (''receive'', cmd_receive E C), (''showpubkeys'', cmd_showpubkeys E C), (''finalize'', cmd_finalize E C),
      (''submit'', cmd_submit E C), (''nodeinfo'', cmd_nodeinfo E), (''send'', cmd_send E C), (''invoice'', cmd_invoice E C),
      (''restore'', cmd_restore E C), (''recover'', cmd_recover E C), (''check'', cmd_check E), (''sync'', \<lambda>_. cmd_sync E),
      (''dump-wallet-data'', cmd_dump_wallet_data E C), (''set-recv'', cmd_set_recv E),
      (''getrootpublickey'', cmd_getrootpublickey E C), (''verifysignature'', cmd_verifysignature E),
      (''scan_outputs'', cmd_scan_outputs E C), (''export-proof'', cmd_export_proof E C), (''verify-proof'', cmd_verify_proof E C)]"

definition run_command ::
  "('pk, 'sk, 'sig, 'st) wenv \<Rightarrow> ('pk, 'sk, 'sig, 'st, 's, 'b) cmdenv \<Rightarrow> matches \<Rightarrow> ('sk, 's, 'st, unit) dio" where
  "run_command E C m =
     (case m_sub m of
        None \<Rightarrow> io_return ()
      | Some (name, args) \<Rightarrow> (case map_of (command_table E C) name of
          Some f \<Rightarrow> f args
        | None \<Rightarrow> tell (''ERROR: subcommand `'' @ name @ ''` not implemented!'')))"

definition do_command ::
  "('pk, 'sk, 'sig, 'st) wenv \<Rightarrow> ('pk, 'sk, 'sig, 'st, 's, 'b) cmdenv \<Rightarrow> string \<Rightarrow> ('sk, 's, 'st, unit) dio" where
  "do_command E C command =
     io_bind (set_safe True) (\<lambda>_.
     io_bind (io_lift (parser_parse (cm_cli C) command)) (\<lambda>m.
     run_command E C m))"

text \<open>
  The loop of \<open>main\<close> over the lines that are typed, up to \<open>exit\<close> or the end of the input. The result is
  the history.
\<close>

definition on_exit :: "('pk, 'sk, 'sig, 'st, 's, 'b) cmdenv \<Rightarrow> ('sk, 's, 'st, unit) dio" where
  "on_exit C =
     io_bind get_session (\<lambda>s.
     case se_mwcmqs s of
       Some (_, sub) \<Rightarrow>
         io_bind (on_world (mwcmq_subscriber_is_running (cm_qenv C))) (\<lambda>running.
         if running then io_bind (on_world (mwcmq_subscriber_stop (cm_qenv C) sub)) (\<lambda>_. io_return ()) else io_return ())
     | None \<Rightarrow> io_return ())"

primrec command_loop ::
  "('pk, 'sk, 'sig, 'st) wenv \<Rightarrow> ('pk, 'sk, 'sig, 'st, 's, 'b) cmdenv \<Rightarrow> string list \<Rightarrow> string list \<Rightarrow>
   ('sk, 's, 'st, string list) dio" where
  "command_loop E C [] history = io_return history"
| "command_loop E C (line # rest) history =
     (let command = str_trim line
      in if command = ''exit'' then io_bind (on_exit C) (\<lambda>_. io_return history)
         else
           io_bind (io_match (do_command E C command) io_return (\<lambda>e. tell (''Error: '' @ err_display e))) (\<lambda>_.
           io_bind get_session (\<lambda>s.
           command_loop E C rest
             (if se_safe s \<and> \<not> cfg_disable_history (se_config s) then cm_add_history_entry C history command else history))))"

end
