(* ===== verification/Commands_Correct.thy ===== *)
theory Commands_Correct
  imports Commands
begin

text \<open>
  What the command loop keeps to: which commands enter the history, which change the listeners,
  when a payment locks outputs, and how the commands fail. The commands are walked through once,
  for any relation between sessions that single updates respect; the history and the listeners are
  two such relations.
\<close>

section \<open>Frames of the session\<close>

definition session_keeps :: "(('sk, 's) session \<Rightarrow> ('sk, 's) session \<Rightarrow> bool) \<Rightarrow> ('sk, 's, 'st, 'a) dio \<Rightarrow> bool" where
  "session_keeps R m \<longleftrightarrow> (\<forall>w s. R s (snd (snd (m (w, s)))))"

lemma session_keepsD: "session_keeps R m \<Longrightarrow> m (w, s) = (r, (w', s')) \<Longrightarrow> R s s'"
  unfolding session_keeps_def by (metis snd_conv)

locale session_frame =
  fixes R :: "('sk, 's) session \<Rightarrow> ('sk, 's) session \<Rightarrow> bool"
  assumes R_refl: "R s s" and R_trans: "R s1 s2 \<Longrightarrow> R s2 s3 \<Longrightarrow> R s1 s3"
    and R_wallet: "R s (s\<lparr>se_wallet := x\<rparr>)" and R_config: "R s (s\<lparr>se_config := c\<rparr>)"
    and R_book: "R s (s\<lparr>se_book := b\<rparr>)" and R_recv: "R s (s\<lparr>se_recv := v\<rparr>)"
begin

lemma sk_return: "session_keeps R (io_return x)"
  by (simp add: session_keeps_def io_return_def R_refl)

lemma sk_lift: "session_keeps R (io_lift r)"
  by (simp add: session_keeps_def io_lift_def R_refl)

lemma sk_match:
  assumes "session_keeps R m" and "\<And>x. session_keeps R (k x)" and "\<And>e. session_keeps R (h e)"
  shows "session_keeps R (io_match m k h)"
  unfolding session_keeps_def
proof (intro allI)
  fix w s
  obtain r w1 s1 where m: "m (w, s) = (r, (w1, s1))" by (metis surj_pair)
  have s1: "R s s1" by (rule session_keepsD [OF assms(1) m])
  have "R s1 (snd (snd (k x (w1, s1))))" "R s1 (snd (snd (h e (w1, s1))))" for x e
    using assms(2,3) by (simp_all add: session_keeps_def)
  then show "R s (snd (snd (io_match m k h (w, s))))"
    using m R_trans [OF s1] s1 by (cases r) (auto simp: io_match_def)
qed

lemma sk_bind: "session_keeps R m \<Longrightarrow> (\<And>x. session_keeps R (f x)) \<Longrightarrow> session_keeps R (io_bind m f)"
  unfolding io_bind_match by (intro sk_match sk_lift)

lemma sk_expect: "session_keeps R m \<Longrightarrow> session_keeps R (io_expect m)"
  unfolding io_expect_def by (intro sk_match sk_return sk_lift)

lemma sk_for: "(\<And>x. session_keeps R (f x)) \<Longrightarrow> session_keeps R (io_for f xs)"
  by (induction xs) (auto intro: sk_return sk_bind)

lemma sk_if: "session_keeps R m \<Longrightarrow> session_keeps R m' \<Longrightarrow> session_keeps R (if c then m else m')"
  by simp

lemma sk_option: "session_keeps R m \<Longrightarrow> (\<And>x. session_keeps R (f x)) \<Longrightarrow> session_keeps R (case y of None \<Rightarrow> m | Some x \<Rightarrow> f x)"
  by (cases y) auto

lemma sk_list: "session_keeps R m \<Longrightarrow> (\<And>x xs. session_keeps R (f x xs)) \<Longrightarrow> session_keeps R (case y of [] \<Rightarrow> m | x # xs \<Rightarrow> f x xs)"
  by (cases y) auto

lemma sk_prod: "(\<And>a b. session_keeps R (f a b)) \<Longrightarrow> session_keeps R (case p of (a, b) \<Rightarrow> f a b)"
  by (cases p) auto

lemma sk_address:
  "(\<And>a. session_keeps R (f a)) \<Longrightarrow> (\<And>a. session_keeps R (g a)) \<Longrightarrow> (\<And>a. session_keeps R (h a)) \<Longrightarrow> (\<And>a. session_keeps R (k a)) \<Longrightarrow>
   session_keeps R (case y of AGrinbox a \<Rightarrow> f a | AKeybase a \<Rightarrow> g a | AMWCMQS a \<Rightarrow> h a | AHttps a \<Rightarrow> k a)"
  by (cases y) auto

lemma sk_Let: "session_keeps R (f x) \<Longrightarrow> session_keeps R (Let x f)"
  by simp

lemma sk_world: "session_keeps R (on_world m)"
  by (auto simp: session_keeps_def on_world_def R_refl split: prod.split)

lemma sk_get: "session_keeps R get_session"
  by (simp add: session_keeps_def get_session_def R_refl)

lemma sk_set: "(\<And>s. R s (f s)) \<Longrightarrow> session_keeps R (set_session f)"
  by (simp add: session_keeps_def set_session_def)

lemma sk_wallet_mut: "session_keeps R (wallet_mut m)"
  by (auto simp: session_keeps_def wallet_mut_def R_wallet split: prod.split)

lemma sk_wallet_ref: "session_keeps R (wallet_ref f)"
  by (auto simp: session_keeps_def wallet_ref_def R_refl split: prod.split)

lemma sk_small:
  "session_keeps R (tell t)" "session_keeps R (need args n)" "session_keeps R (number b e t)" "session_keeps R (getenv C key)"
  by (simp_all add: tell_def need_def number_def getenv_def sk_world sk_lift)

lemmas sk_rules = sk_bind sk_match sk_expect sk_for sk_if sk_option sk_list sk_prod sk_address sk_Let sk_world sk_get sk_wallet_mut
  sk_wallet_ref sk_small sk_return sk_lift

lemma sk_passphrase: "session_keeps R (passphrase_of C args)"
  unfolding passphrase_of_def password_prompt_def getpassword_def by (intro sk_rules)

lemma sk_show_address: "session_keeps R (show_address E b)"
  unfolding show_address_def by (intro sk_rules)

lemma sk_derive: "session_keeps R (session_address_key E)"
  unfolding session_address_key_def by (intro sk_rules sk_show_address sk_set R_config)

lemma sk_proof_ok: "session_keeps R (proof_ok E C p)"
  unfolding proof_ok_def by (intro sk_rules)

lemma sk_unlock_for_listener: "session_keeps R (unlock_for_listener E)"
  unfolding unlock_for_listener_def by (intro sk_rules)

lemma sk_refuse: "session_keeps R refuse_listeners"
  unfolding refuse_listeners_def by (intro sk_rules)

lemma sk_warn: "session_keeps R (warn_no_passphrase p)"
  unfolding warn_no_passphrase_def by (intro sk_rules)

lemma sk_new_index: "session_keeps R (new_index C args)"
  unfolding new_index_def by (intro sk_rules sk_set R_config)

lemma sk_config: "session_keeps R (cmd_config E C args)"
  unfolding cmd_config_def by (intro sk_rules sk_new_index sk_set sk_derive R_config)

lemma sk_lock: "session_keeps R (cmd_lock E)"
  unfolding cmd_lock_def by (intro sk_rules sk_refuse)

lemma sk_restore_wallet: "session_keeps R (restore_wallet E p)" "session_keeps R (restored E p)"
  unfolding restore_wallet_def restored_def by (intro sk_rules sk_derive sk_warn)+

lemma sk_set_recv: "session_keeps R (cmd_set_recv E args)"
  unfolding cmd_set_recv_def by (intro sk_rules sk_set R_recv)

lemma sk_contacts: "session_keeps R (cmd_contacts E C args)"
proof -
  have "session_keeps R (\<lambda>(w, s). case do_contacts E (cm_book C) a (se_book s) of (r, book) \<Rightarrow> (r, (w, s\<lparr>se_book := book\<rparr>)))" for a
    by (auto simp: session_keeps_def R_book split: prod.split)
  then show ?thesis unfolding cmd_contacts_def by (intro sk_rules)
qed

lemma sk_pagination: "session_keeps R (pagination args)"
  unfolding pagination_def by (intro sk_rules)

lemma sk_tx_id: "session_keeps R (tx_id_of args)"
  unfolding tx_id_of_def by (intro sk_rules)

lemma sk_read_pub_keys: "session_keeps R (read_pub_keys E xs ys)"
  by (induction xs arbitrary: ys) (auto intro!: sk_rules)

lemma sk_queries:
  "session_keeps R (cmd_info E args)" "session_keeps R (cmd_txs E C args)" "session_keeps R (cmd_outputs E args)"
  "session_keeps R (cmd_txs_bulk_validate E args)" "session_keeps R (cmd_repost E args)" "session_keeps R (cmd_cancel E args)"
  "session_keeps R (cmd_getnextkey E args)" "session_keeps R (cmd_check E args)" "session_keeps R (cmd_sync E)"
  "session_keeps R (cmd_scan_outputs E C args)"
  unfolding cmd_info_def cmd_txs_def cmd_outputs_def cmd_txs_bulk_validate_def cmd_repost_def cmd_cancel_def cmd_getnextkey_def
    cmd_check_def cmd_sync_def cmd_scan_outputs_def
  by (intro sk_rules sk_pagination sk_tx_id sk_read_pub_keys)+

lemma sk_read_slate: "session_keeps R (read_slate E C input)"
  unfolding read_slate_def by (intro sk_rules)

lemma sk_files:
  "session_keeps R (cmd_receive E C args)" "session_keeps R (cmd_showpubkeys E C args)" "session_keeps R (cmd_finalize E C args)"
  "session_keeps R (cmd_submit E C args)" "session_keeps R (cmd_export_proof E C args)" "session_keeps R (cmd_verify_proof E C args)"
  unfolding cmd_receive_def receive_on_account_def cmd_showpubkeys_def cmd_finalize_def cmd_submit_def cmd_export_proof_def
    cmd_verify_proof_def
  by (intro sk_rules sk_read_slate sk_tx_id sk_proof_ok)+

lemma sk_resolve: "session_keeps R (resolve_recipient E C to)"
  unfolding resolve_recipient_def by (intro sk_rules)

lemma sk_send: "session_keeps R (cmd_send E C args)"
  unfolding cmd_send_def send_args_of_def send_amount_def send_to_file_def send_to_address_def initiate_def hand_over_def
  by (intro sk_rules sk_resolve)

lemma sk_invoice: "session_keeps R (cmd_invoice E C args)"
  unfolding cmd_invoice_def post_invoice_def by (intro sk_rules sk_resolve)

lemma sk_calls:
  "session_keeps R (cmd_address E args)" "session_keeps R (cmd_accounts E args)" "session_keeps R (cmd_txs_count E args)"
  "session_keeps R (cmd_output_count E args)" "session_keeps R (cmd_nodeinfo E args)" "session_keeps R (cmd_dump_wallet_data E C args)"
  "session_keeps R (cmd_getrootpublickey E C args)" "session_keeps R (cmd_verifysignature E args)"
  unfolding cmd_address_def cmd_accounts_def cmd_txs_count_def cmd_output_count_def cmd_nodeinfo_def cmd_dump_wallet_data_def
    cmd_getrootpublickey_def cmd_verifysignature_def
  by (intro sk_rules sk_show_address)+

lemmas sk_commands = sk_calls sk_config sk_lock sk_set_recv sk_contacts sk_queries sk_files sk_send sk_invoice

text \<open>Every command but those that listen or take a passphrase.\<close>

lemma sk_run_command:
  assumes "m_sub m = Some (name, args)"
    and "\<And>f. map_of (command_table E C) name = Some f \<Longrightarrow> name \<in> set [''init'', ''unlock'', ''account'', ''listen'', ''stop'', ''restore'', ''recover''] \<Longrightarrow>
      session_keeps R (f args)"
  shows "session_keeps R (run_command E C m)"
proof -
  have "session_keeps R (f args)" if "map_of (command_table E C) name = Some f" for f
  proof (cases "name \<in> set [''init'', ''unlock'', ''account'', ''listen'', ''stop'', ''restore'', ''recover'']")
    case True
    then show ?thesis using assms(2) that by blast
  next
    case False
    then have "(name, f) \<in> set (command_table E C)" using that map_of_SomeD by fast
    then show ?thesis using False unfolding command_table_def
      by (auto intro!: sk_commands sk_rules)
  qed
  then show ?thesis using assms(1) sk_small(1) unfolding run_command_def by (auto split: option.split)
qed

end

section \<open>The history\<close>

definition same_safe :: "('sk, 's) session \<Rightarrow> ('sk, 's) session \<Rightarrow> bool" where
  "same_safe s s' \<longleftrightarrow> se_safe s' = se_safe s"

definition same_listeners :: "('sk, 's) session \<Rightarrow> ('sk, 's) session \<Rightarrow> bool" where
  "same_listeners s s' \<longleftrightarrow> se_keybase s' = se_keybase s \<and> se_grinbox s' = se_grinbox s \<and> se_mwcmqs s' = se_mwcmqs s"

interpretation safe: session_frame same_safe
  by unfold_locales (simp_all add: same_safe_def)

interpretation listeners: session_frame same_listeners
  by unfold_locales (simp_all add: same_listeners_def)

lemma set_safe_apply: "set_safe b (w, s) = (Ok (), (w, s\<lparr>se_safe := b\<rparr>))"
  by (simp add: set_safe_def set_session_def)

lemma bind_set_safe: "io_bind (set_safe b) f (w, s) = f () (w, s\<lparr>se_safe := b\<rparr>)"
  by (rule io_bind_apply_Ok) (rule set_safe_apply)

lemma sk_set_safe_listeners: "session_keeps same_listeners (set_safe b)"
  unfolding set_safe_def by (rule listeners.sk_set) (simp add: same_listeners_def)

lemma listen_safe: "session_keeps same_safe (cmd_listen E C args)"
  unfolding cmd_listen_def for_listeners_def listen_grinbox_def listen_mwcmqs_def listen_keybase_def start_grinbox_listener_def
    start_mwcmqs_listener_def start_keybase_listener_def grinbox_running_def mwcmqs_running_def keybase_running_def
  by (intro safe.sk_rules safe.sk_unlock_for_listener safe.sk_set) (simp_all add: same_safe_def)

lemma stop_safe: "session_keeps same_safe (cmd_stop C args)"
  unfolding cmd_stop_def for_listeners_def stop_grinbox_def stop_mwcmqs_def stop_keybase_def grinbox_running_def mwcmqs_running_def
    keybase_running_def
  by (intro safe.sk_rules safe.sk_set) (simp_all add: same_safe_def)

text \<open>The commands that take a passphrase keep the listeners.\<close>

lemma passphrase_commands_listeners:
  "session_keeps same_listeners (cmd_init E C args)" "session_keeps same_listeners (cmd_unlock E C args)"
  "session_keeps same_listeners (cmd_account E C args)" "session_keeps same_listeners (cmd_restore E C args)"
  "session_keeps same_listeners (cmd_recover E C args)"
  unfolding cmd_init_def cmd_unlock_def cmd_account_def account_action_def cmd_restore_def
    cmd_recover_def recover_action_def
  by (intro listeners.sk_rules sk_set_safe_listeners listeners.sk_refuse listeners.sk_passphrase listeners.sk_warn listeners.sk_derive
      listeners.sk_restore_wallet)+

text \<open>With the passphrase on the line, none of the four commands leaves the flag set.\<close>

definition stays_hidden :: "('sk, 's) session \<Rightarrow> ('sk, 's) session \<Rightarrow> bool" where
  "stays_hidden s s' \<longleftrightarrow> (se_safe s' \<longrightarrow> se_safe s)"

interpretation hidden: session_frame stays_hidden
  by unfold_locales (simp_all add: stays_hidden_def)

lemma sk_set_safe_hidden: "session_keeps stays_hidden (set_safe False)"
  unfolding set_safe_def by (rule hidden.sk_set) (simp add: stays_hidden_def)

lemma hides:
  assumes "\<And>x. session_keeps stays_hidden (f x)"
  shows "\<not> se_safe (snd (snd (io_bind (set_safe False) f (w, s))))"
  using assms [of "()"] unfolding bind_set_safe session_keeps_def stays_hidden_def by force

lemma passphrase_given: "value_of args ''passphrase'' = Some p \<Longrightarrow> passphrase_of C args = io_return p"
  by (auto simp: passphrase_of_def password_prompt_def is_present_def value_of_def split: option.splits list.splits)

lemma Some_is_None: "(Some x = None) = False"
  by simp

lemma given_hides:
  assumes "value_of args ''passphrase'' = Some p"
  shows "\<not> se_safe (snd (snd (cmd_init E C args (w, s))))" "\<not> se_safe (snd (snd (cmd_unlock E C args (w, s))))"
    "\<not> se_safe (snd (snd (cmd_restore E C args (w, s))))" "\<not> se_safe (snd (snd (cmd_recover E C args (w, s))))"
  unfolding cmd_init_def cmd_unlock_def cmd_restore_def cmd_recover_def recover_action_def passphrase_given [OF assms] assms Let_def
    Some_is_None io_bind_simps
  by (intro hides hidden.sk_rules sk_set_safe_hidden hidden.sk_refuse hidden.sk_warn hidden.sk_derive hidden.sk_restore_wallet)+

text \<open>The command of a line, with its arguments.\<close>

definition command_of :: "cli_env \<Rightarrow> string \<Rightarrow> (string \<times> matches) option" where
  "command_of P command = (case parser_parse P command of Ok m \<Rightarrow> m_sub m | _ \<Rightarrow> None)"

definition tells_passphrase :: "cli_env \<Rightarrow> string \<Rightarrow> bool" where
  "tells_passphrase P command \<longleftrightarrow> (case command_of P command of
     Some (name, args) \<Rightarrow> name \<in> set [''init'', ''unlock'', ''restore'', ''recover''] \<and> value_of args ''passphrase'' \<noteq> None
   | None \<Rightarrow> False)"

lemma do_command_apply:
  "do_command E C command (w, s) = (case parser_parse (cm_cli C) command of
     Ok m \<Rightarrow> run_command E C m (w, s\<lparr>se_safe := True\<rparr>)
   | Err e \<Rightarrow> (Err e, (w, s\<lparr>se_safe := True\<rparr>)) | Panic \<Rightarrow> (Panic, (w, s\<lparr>se_safe := True\<rparr>)) | Hang \<Rightarrow> (Hang, (w, s\<lparr>se_safe := True\<rparr>)))"
  unfolding do_command_def bind_set_safe
  by (cases "parser_parse (cm_cli C) command") (simp_all add: io_bind_def io_lift_def)

lemma run_command_of:
  assumes "m_sub m = Some (name, args)" and "map_of (command_table E C) name = Some f"
  shows "run_command E C m = f args"
  using assms by (simp add: run_command_def)

lemma table_entries:
  "map_of (command_table E C) ''init'' = Some (cmd_init E C)" "map_of (command_table E C) ''unlock'' = Some (cmd_unlock E C)"
  "map_of (command_table E C) ''restore'' = Some (cmd_restore E C)" "map_of (command_table E C) ''recover'' = Some (cmd_recover E C)"
  "map_of (command_table E C) ''account'' = Some (cmd_account E C)" "map_of (command_table E C) ''listen'' = Some (cmd_listen E C)"
  "map_of (command_table E C) ''stop'' = Some (cmd_stop C)" "map_of (command_table E C) ''lock'' = Some (\<lambda>_. cmd_lock E)"
  "map_of (command_table E C) ''config'' = Some (cmd_config E C)" "map_of (command_table E C) ''check'' = Some (cmd_check E)"
  "map_of (command_table E C) ''address'' = Some (cmd_address E)"
  by (simp_all add: command_table_def)

lemma do_command_run:
  assumes "command_of (cm_cli C) command = Some (name, args)" and "map_of (command_table E C) name = Some f"
  shows "do_command E C command (w, s) = f args (w, s\<lparr>se_safe := True\<rparr>)"
  using assms by (simp add: do_command_apply command_of_def run_command_of split: outcome.splits)

lemma tells_passphrase_hides:
  assumes "tells_passphrase (cm_cli C) command"
  shows "\<not> se_safe (snd (snd (do_command E C command (w, s))))"
proof -
  obtain name args p where c: "command_of (cm_cli C) command = Some (name, args)" "value_of args ''passphrase'' = Some p"
    and n: "name \<in> set [''init'', ''unlock'', ''restore'', ''recover'']"
    using assms by (auto simp: tells_passphrase_def split: option.splits)
  then consider "name = ''init''" | "name = ''unlock''" | "name = ''restore''" | "name = ''recover''" by auto
  then show ?thesis
    using do_command_run [OF c(1)] given_hides [OF c(2)] by cases (simp_all only: table_entries)
qed

definition entered ::
  "('pk, 'sk, 'sig, 'st, 's, 'b) cmdenv \<Rightarrow> ('sk, 's) session \<Rightarrow> string \<Rightarrow> string list \<Rightarrow> string list" where
  "entered C s command history =
     (if se_safe s \<and> \<not> cfg_disable_history (se_config s) then cm_add_history_entry C history command else history)"

lemma loop_step:
  assumes "command_loop E C (line # rest) h (w, s) = (Ok h', x)" and "str_trim line \<noteq> ''exit''"
  obtains r w1 s1 w2 where "do_command E C (str_trim line) (w, s) = (r, (w1, s1))" "is_ok r \<or> (\<exists>e. r = Err e)"
    "command_loop E C rest (entered C s1 (str_trim line) h) (w2, s1) = (Ok h', x)"
proof -
  let ?c = "str_trim line"
  obtain r w1 s1 where c: "do_command E C ?c (w, s) = (r, (w1, s1))" by (metis surj_pair)
  have "\<exists>w2. (is_ok r \<or> (\<exists>e. r = Err e)) \<and> command_loop E C rest (entered C s1 ?c h) (w2, s1) = (Ok h', x)"
    using assms c
    by (cases r) (auto simp: io_bind_def io_match_def io_return_def get_session_def entered_def Let_def tell_def on_world_def
      println_def io_modify_def)
  then show ?thesis using that c by blast
qed

lemma loop_one:
  assumes "do_command E C (str_trim line) (w, s) = (r, (w1, s1))" and "is_ok r \<or> (\<exists>e. r = Err e)" and "str_trim line \<noteq> ''exit''"
  shows "\<exists>w2. command_loop E C [line] h (w, s) = (Ok (entered C s1 (str_trim line) h), (w2, s1))"
  using assms
  by (cases r) (auto simp: io_bind_def io_match_def io_return_def get_session_def entered_def Let_def tell_def on_world_def println_def
    io_modify_def)

lemma loop_exit:
  assumes "command_loop E C (line # rest) h (w, s) = (Ok h', x)" and "str_trim line = ''exit''"
  shows "h' = h"
  using assms by (auto simp: Let_def io_simps)

lemma loop_history:
  assumes "command_loop E C texts h (w, s) = (Ok h', x)"
  shows "\<exists>new. h' = foldl (cm_add_history_entry C) h new \<and> subseq new (map str_trim texts) \<and> (\<forall>c \<in> set new. \<not> tells_passphrase (cm_cli C) c)"
  using assms
proof (induction texts arbitrary: h w s)
  case Nil
  then show ?case by (intro exI [of _ "[]"]) (simp add: io_simps)
next
  case (Cons line rest)
  show ?case
  proof (cases "str_trim line = ''exit''")
    case True
    then show ?thesis using loop_exit [OF Cons.prems True] by (intro exI [of _ "[]"]) simp
  next
    case False
    from Cons.prems False obtain r w1 s1 w2 where c: "do_command E C (str_trim line) (w, s) = (r, (w1, s1))"
      and l: "command_loop E C rest (entered C s1 (str_trim line) h) (w2, s1) = (Ok h', x)"
      by (rule loop_step)
    obtain new where new: "h' = foldl (cm_add_history_entry C) (entered C s1 (str_trim line) h) new" "subseq new (map str_trim rest)"
      "\<forall>c \<in> set new. \<not> tells_passphrase (cm_cli C) c"
      using Cons.IH [OF l] by blast
    show ?thesis
    proof (cases "se_safe s1 \<and> \<not> cfg_disable_history (se_config s1)")
      case True
      then have "\<not> tells_passphrase (cm_cli C) (str_trim line)"
        using tells_passphrase_hides [of C "str_trim line" E w s] c by auto
      then show ?thesis using new True by (intro exI [of _ "str_trim line # new"]) (simp add: entered_def)
    next
      case False
      then show ?thesis using new by (intro exI [of _ new]) (auto simp: entered_def)
    qed
  qed
qed

text \<open>
  C16: no line on which a passphrase is given to \<open>init\<close>, \<open>unlock\<close>, \<open>restore\<close> or \<open>recover\<close> enters the
  history, whether the command succeeds or fails: what a run of the loop hands to the history of the
  line editor is a subsequence of the lines that were typed, and none of them is such a line.
\<close>

theorem passphrase_not_in_history:
  assumes "command_loop E C texts h (w, s) = (Ok h', x)"
  shows "\<exists>new. h' = foldl (cm_add_history_entry C) h new \<and> subseq new (map str_trim texts) \<and> (\<forall>c \<in> set new. \<not> tells_passphrase (cm_cli C) c)"
  using assms by (rule loop_history)

section \<open>Lines that are recorded\<close>

lemma account_safe:
  assumes "conforms account_command args"
  shows "se_safe (snd (snd (cmd_account E C args (w, s))))"
proof -
  have "value_of args ''passphrase'' = None"
    using conforms_absent [OF assms, of "''passphrase''"] by (simp add: value_of_def account_command_def)
  moreover have "session_keeps same_safe (account_action E C args)"
    unfolding account_action_def by (intro safe.sk_rules safe.sk_passphrase)
  ultimately show ?thesis unfolding cmd_account_def by (simp add: bind_set_safe session_keeps_def same_safe_def)
qed

lemma command_conforms:
  assumes "cli_ok P" and "command_of P command = Some (app_name g, args)" and "g \<in> set (app_subs parser)"
  shows "conforms g args"
proof -
  obtain m where m: "parser_parse P command = Ok m" "m_sub m = Some (app_name g, args)"
    using assms(2) by (auto simp: command_of_def split: outcome.splits)
  then have "conforms parser m" using assms(1) by (auto simp: cli_ok_def parser_parse_def obind_Ok_iff)
  then show ?thesis using conforms_command [OF _ _ assms(3), of m args] m(2) by (simp add: subcommand_matches_def)
qed

lemma named_commands:
  "config_command \<in> set (app_subs parser)" "account_command \<in> set (app_subs parser)" "recover_command \<in> set (app_subs parser)"
  "check_command \<in> set (app_subs parser)" "send_command \<in> set (app_subs parser)"
  by (simp_all only: parser_def wallet_commands_def payment_commands_def tool_commands_def app.sel set_append list.set Un_iff insert_iff simp_thms)

lemma two_left: "n \<in> set [a, b, c, d, e, f, g] \<Longrightarrow> n \<notin> set [a, b, f, g] \<Longrightarrow> n \<noteq> c \<Longrightarrow> n = d \<or> n = e"
  by auto

lemma five_left:
  "n \<in> set [a, b, c, d, e, f, g] \<Longrightarrow> n \<notin> set [d, e] \<Longrightarrow> n = a \<or> n = b \<or> n = c \<or> n = f \<or> n = g"
  by auto

lemma others_safe:
  assumes "cli_ok (cm_cli C)" and "\<forall>name args. command_of (cm_cli C) command = Some (name, args) \<longrightarrow>
      name \<notin> set [''init'', ''unlock'', ''restore'', ''recover'']"
  shows "se_safe (snd (snd (do_command E C command (w, s))))"
proof (cases "command_of (cm_cli C) command")
  case None
  then show ?thesis
    by (auto simp: do_command_apply command_of_def run_command_def io_return_def split: outcome.splits)
next
  case (Some na)
  obtain name args where na: "na = (name, args)" by fastforce
  have c: "command_of (cm_cli C) command = Some (name, args)" using Some na by simp
  then obtain m where m: "parser_parse (cm_cli C) command = Ok m" "m_sub m = Some (name, args)"
    by (auto simp: command_of_def split: outcome.splits)
  show ?thesis
  proof (cases "name = ''account''")
    case True
    have "conforms account_command args"
      by (rule command_conforms [OF assms(1) _ named_commands(2)]) (use c True in \<open>simp add: account_command_def\<close>)
    then show ?thesis using do_command_run [OF c] True by (simp only: table_entries account_safe)
  next
    case False
    have "session_keeps same_safe (run_command E C m)"
    proof (rule safe.sk_run_command [OF m(2)])
      fix f
      assume f: "map_of (command_table E C) name = Some f"
        and n: "name \<in> set [''init'', ''unlock'', ''account'', ''listen'', ''stop'', ''restore'', ''recover'']"
      have "name \<notin> set [''init'', ''unlock'', ''restore'', ''recover'']" using assms(2) c by blast
      from two_left [OF n this False] show "session_keeps same_safe (f args)"
      proof
        assume "name = ''listen''"
        then show ?thesis using f listen_safe by (simp only: table_entries option.inject) blast
      next
        assume "name = ''stop''"
        then show ?thesis using f stop_safe by (simp only: table_entries option.inject) blast
      qed
    qed
    then show ?thesis by (simp add: do_command_apply m(1) session_keeps_def same_safe_def)
  qed
qed

text \<open>
  C32: every other line is handed to the history of the line editor unless it is disabled, also one
  that does not parse: with \<open>account switch -p\<close> and \<open>set-recv -p\<close> the passphrase goes to the history.
\<close>

theorem other_lines_recorded:
  assumes "cli_ok (cm_cli C)" and "str_trim line \<noteq> ''exit''"
    and "\<forall>name args. command_of (cm_cli C) (str_trim line) = Some (name, args) \<longrightarrow>
      name \<notin> set [''init'', ''unlock'', ''restore'', ''recover'']"
    and "command_loop E C [line] h (w, s) = (Ok h', (w', s'))"
  shows "h' = (if cfg_disable_history (se_config s') then h else cm_add_history_entry C h (str_trim line))"
proof -
  from assms(4,2) obtain r w1 s1 w2 where c: "do_command E C (str_trim line) (w, s) = (r, (w1, s1))"
    and l: "command_loop E C [] (entered C s1 (str_trim line) h) (w2, s1) = (Ok h', (w', s'))"
    by (rule loop_step)
  have "se_safe s1" using others_safe [OF assms(1,3), of E w s] c by simp
  then show ?thesis using l by (auto simp: io_simps entered_def)
qed

lemma passphrase_no_Err: "passphrase_of C args (w, s) \<noteq> (Err e, x)"
  by (auto simp: passphrase_of_def password_prompt_def io_return_def expect_no_Err split: option.splits)

lemma bind_Err_after:
  assumes "io_bind m f w = (Err e, w')" and "\<And>e w1. m w \<noteq> (Err e, w1)"
  shows "\<exists>x w1. m w = (Ok x, w1) \<and> f x w1 = (Err e, w')"
  using assms unfolding io_bind_Err_iff by blast

text \<open>Code that, when it fails, leaves the flag set if it was.\<close>

definition fails_safe :: "('sk, 's, 'st, 'a) dio \<Rightarrow> bool" where
  "fails_safe m \<longleftrightarrow> (\<forall>w s e w' s'. m (w, s) = (Err e, (w', s')) \<longrightarrow> se_safe s \<longrightarrow> se_safe s')"

lemma fails_safe_keeps: "session_keeps same_safe m \<Longrightarrow> fails_safe m"
  unfolding fails_safe_def using session_keepsD by (metis same_safe_def)

lemma fails_safe_set: "fails_safe (set_safe b)"
  by (simp add: fails_safe_def set_safe_apply)

lemma fails_safe_bind:
  assumes "session_keeps same_safe m" and "\<And>x. fails_safe (f x)"
  shows "fails_safe (io_bind m f)"
proof -
  have m: "se_safe s' = se_safe s" if "m (w, s) = (r, (w', s'))" for w s r w' s'
    using session_keepsD [OF assms(1) that] by (simp add: same_safe_def)
  have f: "se_safe s'" if "f x (w, s) = (Err e, (w', s'))" "se_safe s" for x w s e w' s'
    using assms(2) that unfolding fails_safe_def by blast
  show ?thesis unfolding fails_safe_def io_bind_Err_iff using m f by (metis surj_pair)
qed

lemma refuse_passes: "se_keybase s = None \<Longrightarrow> se_grinbox s = None \<Longrightarrow> refuse_listeners (w, s) = (Ok (), (w, s))"
  by (simp add: refuse_listeners_def get_session_def io_bind_def io_return_def)

lemma refuse_refuses:
  "se_keybase s \<noteq> None \<or> se_grinbox s \<noteq> None \<Longrightarrow> refuse_listeners (w, s) = (fail HasListener, (w, s))"
  by (simp add: refuse_listeners_def get_session_def io_bind_def io_lift_apply)

lemma recover_failure_safe:
  assumes "cmd_recover E C args (w, s) = (Err e, (w', s'))" and "value_of args ''passphrase'' = None"
    and "se_keybase s = None" and "se_grinbox s = None"
  shows "se_safe s'"
proof -
  have K: "fails_safe (recover_action E C args p)" for p
    unfolding recover_action_def Let_def
    by (cases "values_of args ''words''")
      (simp_all only: option.case, intro fails_safe_keeps safe.sk_rules,
       intro fails_safe_bind fails_safe_set safe.sk_rules safe.sk_restore_wallet)
  have "io_bind (passphrase_of C args) (\<lambda>p. io_bind (set_safe True) (\<lambda>_. recover_action E C args p)) (w, s\<lparr>se_safe := False\<rparr>) = (Err e, (w', s'))"
    using assms(1) refuse_passes [of "s\<lparr>se_safe := False\<rparr>" w] assms(2-4)
    unfolding cmd_recover_def bind_set_safe by (simp add: io_bind_apply_Ok [where m = refuse_listeners])
  from bind_Err_after [where m = "passphrase_of C args", OF this passphrase_no_Err]
  obtain p w1 s1 where "io_bind (set_safe True) (\<lambda>_. recover_action E C args p) (w1, s1) = (Err e, (w', s'))" by auto
  then have "recover_action E C args p (w1, s1\<lparr>se_safe := True\<rparr>) = (Err e, (w', s'))" by (simp only: bind_set_safe)
  then show ?thesis using K unfolding fails_safe_def by fastforce
qed

text \<open>
  C33: a recovery that fails is handed to the history with the words of the mnemonic, unless the
  history is disabled, a passphrase was given or a Keybase or Grinbox listener runs: the flag is
  cleared only once the recovery has succeeded.
\<close>

theorem failed_recovery_recorded:
  assumes "command_of (cm_cli C) (str_trim line) = Some (''recover'', args)" and "str_trim line \<noteq> ''exit''"
    and "value_of args ''passphrase'' = None" and "se_keybase s = None" and "se_grinbox s = None"
    and "fst (do_command E C (str_trim line) (w, s)) = Err e"
    and "command_loop E C [line] h (w, s) = (Ok h', (w', s'))"
  shows "h' = (if cfg_disable_history (se_config s') then h else cm_add_history_entry C h (str_trim line))"
proof -
  from assms(7,2) obtain r w1 s1 w2 where c: "do_command E C (str_trim line) (w, s) = (r, (w1, s1))"
    and l: "command_loop E C [] (entered C s1 (str_trim line) h) (w2, s1) = (Ok h', (w', s'))"
    by (rule loop_step)
  have "cmd_recover E C args (w, s\<lparr>se_safe := True\<rparr>) = (Err e, (w1, s1))"
    using c assms(6) do_command_run [OF assms(1) table_entries(4)] by simp
  from recover_failure_safe [OF this assms(3)] have "se_safe s1" using assms(4,5) by simp
  then show ?thesis using l by (auto simp: io_simps entered_def)
qed

section \<open>The listeners\<close>

text \<open>
  C23: only \<open>listen\<close> and \<open>stop\<close> change the listeners of the session: after any other line the three
  brokers are what they were, whether it succeeded, failed or did not parse.
\<close>

theorem listeners_kept:
  assumes "\<forall>name args. command_of (cm_cli C) command = Some (name, args) \<longrightarrow> name \<notin> set [''listen'', ''stop'']"
    and "do_command E C command (w, s) = (r, (w', s'))"
  shows "se_keybase s' = se_keybase s \<and> se_grinbox s' = se_grinbox s \<and> se_mwcmqs s' = se_mwcmqs s"
proof -
  have "same_listeners (s\<lparr>se_safe := True\<rparr>) s'"
  proof (cases "parser_parse (cm_cli C) command")
    case (Ok m)
    then have run: "run_command E C m (w, s\<lparr>se_safe := True\<rparr>) = (r, (w', s'))"
      using assms(2) by (simp add: do_command_apply)
    show ?thesis
    proof (cases "m_sub m")
      case None
      then show ?thesis using run by (simp add: run_command_def io_return_def same_listeners_def)
    next
      case (Some na)
      obtain name args where na: "m_sub m = Some (name, args)" using Some by (cases na) simp
      have out: "name \<notin> set [''listen'', ''stop'']" using assms(1) Ok na by (auto simp: command_of_def)
      have "session_keeps same_listeners (run_command E C m)"
      proof (rule listeners.sk_run_command [OF na])
        fix f
        assume f: "map_of (command_table E C) name = Some f"
          and n: "name \<in> set [''init'', ''unlock'', ''account'', ''listen'', ''stop'', ''restore'', ''recover'']"
        have "name = ''init'' \<or> name = ''unlock'' \<or> name = ''account'' \<or> name = ''restore'' \<or> name = ''recover''"
          by (rule five_left [OF n out])
        then show "session_keeps same_listeners (f args)"
          using f by (elim disjE) (simp_all only: table_entries option.inject, (hypsubst, rule passphrase_commands_listeners)+)
      qed
      then show ?thesis using session_keepsD run by fast
    qed
  qed (use assms(2) in \<open>auto simp: do_command_apply same_listeners_def\<close>)
  then show ?thesis by (simp add: same_listeners_def)
qed

text \<open>
  Under a keybase or Grinbox listener the wallet is not locked or replaced: \<open>lock\<close>, \<open>init\<close>,
  \<open>restore\<close> and \<open>recover\<close> answer \<open>HasListener\<close>, with the world, the wallet and the configuration
  untouched. A listener on MWCMQS does not stop them.
\<close>

theorem wallet_kept_under_listener:
  assumes "command_of (cm_cli C) command = Some (name, args)" and "name \<in> set [''lock'', ''init'', ''restore'', ''recover'']"
    and "se_keybase s \<noteq> None \<or> se_grinbox s \<noteq> None"
  shows "do_command E C command (w, s) = (fail HasListener, (w, s\<lparr>se_safe := (name = ''lock'')\<rparr>))"
proof -
  have stop: "io_bind refuse_listeners k (w, s\<lparr>se_safe := b\<rparr>) = (fail HasListener, (w, s\<lparr>se_safe := b\<rparr>))" for k b
    by (rule io_bind_apply_Err) (rule refuse_refuses, use assms(3) in simp)
  consider "name = ''lock''" | "name = ''init''" | "name = ''restore''" | "name = ''recover''"
    using assms(2) by auto
  then show ?thesis
    by cases (simp_all add: do_command_run [OF assms(1)] table_entries cmd_lock_def cmd_init_def cmd_restore_def cmd_recover_def
      bind_set_safe stop)
qed

section \<open>A concrete session\<close>

text \<open>A matcher for a few lines, an idle network, and a session without listeners.\<close>

definition demo_matches :: "(string \<times> matches) list" where
  "demo_matches =
     [(''unlock -p secret'', Matches [(''passphrase'', [''secret''])] None),
      (''account switch a -p secret'', Matches [] (Some (''switch'', Matches [(''name'', [''a'']), (''passphrase'', [''secret''])] None))),
      (''recover -m abandon'', Matches [(''words'', [''abandon''])] None),
      (''restore'', Matches [] None), (''config'', Matches [] None), (''address'', Matches [] None), (''stop'', Matches [] None),
      (''send 5 -f /s'', Matches [(''amount'', [''5'']), (''file'', [''/s''])] None),
      (''cancel -i 3'', Matches [(''id'', [''3''])] None),
      (''check --no-delete_unconfirmed'', Matches [(''no-delete_unconfirmed'', [])] None)]"

definition demo_cli :: cli_env where
  "demo_cli = \<lparr>tokenize = (\<lambda>t. Ok [(t, False)]), unquote = (\<lambda>_. None),
     get_matches_from_safe = (\<lambda>_ ws. case map_of demo_matches (concat ws) of
        Some m \<Rightarrow> Ok (Matches [] (Some (takeWhile (\<lambda>c. c \<noteq> CHR '' '') (concat ws), m))) | None \<Rightarrow> Err (Foreign ''usage''))\<rparr>"

lemma demo_cli_ok: "cli_ok demo_cli"
proof -
  have "\<forall>(t, m) \<in> set demo_matches. conforms parser (Matches [] (Some (takeWhile (\<lambda>c. c \<noteq> CHR '' '') t, m)))"
    by code_simp
  then show ?thesis unfolding cli_ok_def demo_cli_def
    by (auto split: option.splits dest!: map_of_SomeD)
qed

definition demo_book :: "(unit, unit) backend_ops" where
  "demo_book = \<lparr>be_get_contact = (\<lambda>_ _. fail (ContactNotFound [])), be_contacts = (\<lambda>_. Ok []), be_batch = Ok,
     ba_save_contact = (\<lambda>b _. Ok b), ba_delete_contact = (\<lambda>b _. Ok b), ba_commit = Ok\<rparr>"

definition demo_toml :: "bytes cfg_env" where
  "demo_toml = \<lparr>home_dir = Some ''/home/u'', current_dir = Ok ''/'', shortname = (\<lambda>_. ''main''),
     toml_to_string = (\<lambda>_. Ok ''cfg''), toml_from_str = (\<lambda>_. Ok (config_default Mainnet))\<rparr>"

definition demo_cm :: "(bytes, bytes, bytes, unit, unit, unit) cmdenv" where
  "demo_cm = \<lparr>cm_cli = demo_cli, cm_cfg = demo_toml, cm_genv = demo_genv, cm_qenv = demo_qenv, cm_kenv = demo_kenv, cm_jenv = demo_jenv,
     cm_book = demo_book, cm_overflow_checks = False, cm_env_var = (\<lambda>_ s. (Ok None, s)), cm_prompt_password = (\<lambda>s. (Ok None, s)),
     cm_read_line = (\<lambda>s. (Ok (), s)), cm_spawn = (\<lambda>_ s. (Ok (), s)), cm_grinbox_inner = (\<lambda>s. (Ok None, s)),
     cm_keybase_stop_signal = (\<lambda>s. (Ok True, s)), cm_add_history_entry = (\<lambda>h c. h @ [c]), cm_stop_grinbox = (\<lambda>s. (Ok (), s)),
     cm_stop_keybase = (\<lambda>s. (Ok (), s)), cm_post = (\<lambda>_ _ _ s. (Err (Foreign ''http''), s)), cm_amount_from_hr = (\<lambda>_. Some 5),
     cm_tx_fee = (\<lambda>_. 1), cm_tx_deserialize = (\<lambda>_. Err (Foreign ''tx'')), cm_uuid_parse = Some, cm_participant_id = (\<lambda>_. 0),
     cm_root_id = ''root'', cm_scan_fuel = 9\<rparr>"

definition demo_session :: "(bytes, unit) session" where
  "demo_session = \<lparr>se_config = demo_cfg\<lparr>wallet713_data_path := ''/w''\<rparr>, se_wallet = demo_wallet, se_book = (), se_keybase = None,
     se_grinbox = None, se_mwcmqs = None, se_recv = \<lparr>recv_account = None, recv_pass = None\<rparr>, se_safe = False\<rparr>"

text \<open>A library that refuses to open a seed, and to take a phrase.\<close>

definition demo_refusing_wenv :: "(bytes, bytes, bytes, unit) wenv" where
  "demo_refusing_wenv = demo_wenv\<lparr>seed_from_file := (\<lambda>_ _ s. (Err (Foreign ''closed''), s)),
     seed_recover_from_phrase := (\<lambda>_ _ _ s. (Err (Foreign ''phrase''), s))\<rparr>"

lemma demo_cm_cli: "cm_cli demo_cm = demo_cli"
  by (simp add: demo_cm_def)

text \<open>A command that failed, with the history enabled.\<close>

fun gave_up :: "('a res \<times> 'w \<times> ('sk, 's) session) \<Rightarrow> bool" where
  "gave_up (Err e, (w, s)) = (\<not> cfg_disable_history (se_config s))"
| "gave_up _ = False"

lemma gave_up_loop:
  assumes "command_of (cm_cli C) (str_trim line) = Some (name, args)" and "map_of (command_table E C) name = Some f"
    and "gave_up (f args (w, s\<lparr>se_safe := True\<rparr>))" and "str_trim line \<noteq> ''exit''"
  obtains e w2 s1 where "fst (do_command E C (str_trim line) (w, s)) = Err e" "\<not> cfg_disable_history (se_config s1)"
    "command_loop E C [line] h (w, s) = (Ok (entered C s1 (str_trim line) h), (w2, s1))"
proof -
  obtain e w1 s1 where r: "f args (w, s\<lparr>se_safe := True\<rparr>) = (Err e, (w1, s1))" "\<not> cfg_disable_history (se_config s1)"
    using assms(3) by (cases "f args (w, s\<lparr>se_safe := True\<rparr>)" rule: gave_up.cases) auto
  have d: "do_command E C (str_trim line) (w, s) = (Err e, (w1, s1))" using do_command_run [OF assms(1,2)] r(1) by simp
  then show ?thesis using that loop_one [OF d _ assms(4)] r(2) by fastforce
qed

theorem passphrase_not_in_history_witness:
  "\<exists>x. command_loop demo_wenv demo_cm ['' unlock -p secret ''] [''x''] (demo_world, demo_session) = (Ok [''x''], x) \<and>
     tells_passphrase demo_cli ''unlock -p secret''"
proof -
  let ?l = "'' unlock -p secret ''" and ?a = "Matches [(''passphrase'', [''secret''])] None"
  have g: "gave_up (cmd_unlock demo_wenv demo_cm ?a (demo_world, demo_session\<lparr>se_safe := True\<rparr>))"
    and t: "tells_passphrase demo_cli ''unlock -p secret''" and c: "command_of demo_cli (str_trim ?l) = Some (''unlock'', ?a)"
    and s: "str_trim ?l = ''unlock -p secret''" by code_simp+
  obtain h' x where l: "command_loop demo_wenv demo_cm [?l] [''x''] (demo_world, demo_session) = (Ok h', x)"
    by (rule gave_up_loop [OF _ table_entries(2) g, of ?l "[''x'']"]) (use c s demo_cm_cli in auto)
  from passphrase_not_in_history [OF l] obtain new where "h' = foldl (cm_add_history_entry demo_cm) [''x''] new" "subseq new [''unlock -p secret'']"
      "\<forall>c \<in> set new. \<not> tells_passphrase demo_cli c"
    using s demo_cm_cli by auto
  then show ?thesis using l t by (cases new) (auto split: if_splits)
qed

theorem other_lines_recorded_witness:
  "fst (command_loop demo_refusing_wenv demo_cm [''account switch a -p secret''] [] (demo_world, demo_session)) = Ok [''account switch a -p secret'']"
proof -
  let ?t = "''account switch a -p secret''"
  let ?a = "Matches [] (Some (''switch'', Matches [(''name'', [''a'']), (''passphrase'', [''secret''])] None))"
  have g: "gave_up (cmd_account demo_refusing_wenv demo_cm ?a (demo_world, demo_session\<lparr>se_safe := True\<rparr>))"
    and c: "command_of demo_cli (str_trim ?t) = Some (''account'', ?a)" and s: "str_trim ?t = ?t" by code_simp+
  obtain w2 s1 where d: "\<not> cfg_disable_history (se_config s1)"
    and l: "command_loop demo_refusing_wenv demo_cm [?t] [] (demo_world, demo_session) = (Ok (entered demo_cm s1 (str_trim ?t) []), (w2, s1))"
    by (rule gave_up_loop [OF _ table_entries(5) g, of ?t]) (use c s demo_cm_cli in auto)
  have "entered demo_cm s1 (str_trim ?t) [] = (if cfg_disable_history (se_config s1) then [] else cm_add_history_entry demo_cm [] (str_trim ?t))"
    by (rule other_lines_recorded [OF _ _ _ l]) (use c s demo_cm_cli demo_cli_ok in auto)
  then show ?thesis using l d s by (simp add: demo_cm_def)
qed

theorem failed_recovery_recorded_witness:
  "fst (command_loop demo_refusing_wenv demo_cm [''recover -m abandon''] [] (demo_world, demo_session)) = Ok [''recover -m abandon'']"
proof -
  let ?t = "''recover -m abandon''" and ?a = "Matches [(''words'', [''abandon''])] None"
  have g: "gave_up (cmd_recover demo_refusing_wenv demo_cm ?a (demo_world, demo_session\<lparr>se_safe := True\<rparr>))"
    and c: "command_of demo_cli (str_trim ?t) = Some (''recover'', ?a)" and s: "str_trim ?t = ?t" by code_simp+
  have c': "command_of (cm_cli demo_cm) (str_trim ?t) = Some (''recover'', ?a)" using c demo_cm_cli by simp
  obtain e w2 s1 where f: "fst (do_command demo_refusing_wenv demo_cm (str_trim ?t) (demo_world, demo_session)) = Err e"
    and d: "\<not> cfg_disable_history (se_config s1)"
    and l: "command_loop demo_refusing_wenv demo_cm [?t] [] (demo_world, demo_session) = (Ok (entered demo_cm s1 (str_trim ?t) []), (w2, s1))"
    by (rule gave_up_loop [OF c' table_entries(4) g]) (use s in auto)
  have "entered demo_cm s1 (str_trim ?t) [] = (if cfg_disable_history (se_config s1) then [] else cm_add_history_entry demo_cm [] (str_trim ?t))"
    by (rule failed_recovery_recorded [OF c' _ _ _ _ f l]) (use s in \<open>simp_all add: value_of_def demo_session_def\<close>)
  then show ?thesis using l d s by (simp add: demo_cm_def)
qed

definition demo_listening :: "(bytes, unit) session" where
  "demo_listening = demo_session\<lparr>se_keybase := Some (\<lparr>kp_ttl = None, kp_keybase_binary = None\<rparr>, \<lparr>ks_stop_signal = True, ks_keybase_binary = None\<rparr>)\<rparr>"

theorem listeners_kept_witness:
  "\<exists>r w' s'. do_command demo_wenv demo_cm ''unlock -p secret'' (demo_world, demo_listening) = (r, (w', s')) \<and> se_keybase s' = se_keybase demo_listening"
proof -
  have c: "map_option fst (command_of (cm_cli demo_cm) ''unlock -p secret'') = Some ''unlock''" by code_simp
  obtain r w' s' where d: "do_command demo_wenv demo_cm ''unlock -p secret'' (demo_world, demo_listening) = (r, (w', s'))"
    by (metis surj_pair)
  have "se_keybase s' = se_keybase demo_listening \<and> se_grinbox s' = se_grinbox demo_listening \<and> se_mwcmqs s' = se_mwcmqs demo_listening"
    by (rule listeners_kept [OF _ d]) (use c in auto)
  then show ?thesis using d by blast
qed

theorem wallet_kept_under_listener_witness:
  "do_command demo_wenv demo_cm ''restore'' (demo_world, demo_listening) = (fail HasListener, (demo_world, demo_listening))"
proof -
  have c: "command_of (cm_cli demo_cm) ''restore'' = Some (''restore'', Matches [] None)" by code_simp
  have "do_command demo_wenv demo_cm ''restore'' (demo_world, demo_listening) =
      (fail HasListener, (demo_world, demo_listening\<lparr>se_safe := (''restore'' = ''lock'')\<rparr>))"
    by (rule wallet_kept_under_listener [OF c]) (simp_all add: demo_listening_def)
  then show ?thesis by (simp add: demo_listening_def demo_session_def)
qed

section \<open>Commands that do less than they say\<close>

lemma check_flag_absent:
  assumes "conforms check_command args"
  shows "\<not> is_present args ''--no-delete_unconfirmed''"
proof -
  have "map_of (m_args args) ''--no-delete_unconfirmed'' = None"
    by (rule conforms_absent [OF assms]) (simp add: check_command_def flag_arg_def option_arg_def)
  moreover have "m_sub args = None"
    using assms by (cases args) (auto simp: check_command_def split: option.splits)
  ultimately show ?thesis by (simp add: is_present_def subcommand_name_def)
qed

lemma repair_trace:
  assumes "wl_check_repair E self h True w = (r, w')"
  shows "\<exists>cs. w_trace w' = w_trace w @ cs \<and> (\<forall>a d. Scan a d \<in> set cs \<longrightarrow> d)"
proof (cases "wl_backend self")
  case None
  then show ?thesis using assms by (simp add: wl_check_repair_def with_inst_locked is_locked_def)
next
  case (Some i)
  then have "with_console E (lib_shared (Scan (Some h) True) (\<lambda>held. owner_scan E i held (Some h) True)) w = (r, w')"
    using assms by (simp add: wl_check_repair_def with_inst_open api_check_repair_def)
  then show ?thesis
    by (auto simp: with_console_def io_bind_def lib_def lib_shared_def io_modify_def io_return_def split: prod.splits outcome.splits)
qed

text \<open>
  C34: \<open>check\<close> deletes unconfirmed transactions whatever the user asked for: it looks for the flag
  under a name the grammar does not have, so every scan it starts is told to delete.
\<close>

theorem check_always_deletes:
  assumes "cli_ok (cm_cli C)" and "command_of (cm_cli C) line = Some (''check'', args)"
    and "do_command E C line (w, s) = (r, (w', s'))"
  shows "\<exists>cs. w_trace w' = w_trace w @ cs \<and> (\<forall>a d. Scan a d \<in> set cs \<longrightarrow> d)"
proof -
  have "conforms check_command args"
    by (rule command_conforms [OF assms(1) _ named_commands(4)]) (use assms(2) in \<open>simp add: check_command_def\<close>)
  then have flag: "\<not> is_present args ''--no-delete_unconfirmed''" by (rule check_flag_absent)
  have run: "cmd_check E args (w, s\<lparr>se_safe := True\<rparr>) = (r, (w', s'))"
    using assms(3) do_command_run [OF assms(2) table_entries(10)] by simp
  let ?h = "from_str_radix 10 (2 ^ 64) (unwrap_or (value_of args ''start_height'') ''1'')"
  show ?thesis
  proof (cases "?h")
    case None
    then show ?thesis using run by (auto simp: cmd_check_def number_def io_bind_def io_lift_def)
  next
    case (Some n)
    obtain q w1 where q: "wl_check_repair E (se_wallet s) (of_nat n) True
        (w\<lparr>w_out := w_out w @ [''checking and repairing... please wait as this could take a few minutes to complete.'']\<rparr>) = (q, w1)"
      by fastforce
    then obtain cs where cs: "w_trace w1 = w_trace w @ cs" "\<forall>a d. Scan a d \<in> set cs \<longrightarrow> d"
      using repair_trace by fastforce
    have "w_trace w' = w_trace w \<or> w_trace w' = w_trace w1"
      using run Some q flag
      by (cases q) (auto simp: cmd_check_def number_def io_bind_def io_lift_def get_session_def tell_def on_world_def println_def
        io_modify_def wallet_ref_def Let_def split: if_splits)
    then show ?thesis using cs by auto
  qed
qed

theorem check_always_deletes_witness:
  "\<exists>cs. w_trace (fst (snd (do_command demo_wenv demo_cm ''check --no-delete_unconfirmed'' (demo_world, demo_session)))) = cs \<and>
     Scan (Some 1) True \<in> set cs \<and> (\<forall>a d. Scan a d \<in> set cs \<longrightarrow> d)"
proof -
  let ?d = "do_command demo_wenv demo_cm ''check --no-delete_unconfirmed'' (demo_world, demo_session)"
  let ?a = "Matches [(''no-delete_unconfirmed'', [])] None"
  have c: "command_of demo_cli ''check --no-delete_unconfirmed'' = Some (''check'', ?a)"
    and t: "List.member (w_trace (fst (snd (cmd_check demo_wenv ?a (demo_world, demo_session\<lparr>se_safe := True\<rparr>))))) (Scan (Some 1) True)"
    by code_simp+
  have k: "cli_ok (cm_cli demo_cm)" and a: "command_of (cm_cli demo_cm) ''check --no-delete_unconfirmed'' = Some (''check'', ?a)"
    using demo_cli_ok demo_cm_cli c by simp_all
  obtain r w' s' where d: "?d = (r, (w', s'))" by (metis surj_pair)
  have "List.member (w_trace w') (Scan (Some 1) True)"
    using t d do_command_run [OF a table_entries(10)] by (metis fst_conv snd_conv)
  moreover have "w_trace demo_world = []" by (simp add: demo_world_def)
  moreover obtain cs where "w_trace w' = w_trace demo_world @ cs" "\<forall>a d. Scan a d \<in> set cs \<longrightarrow> d"
    using check_always_deletes [OF k a d] by blast
  ultimately show ?thesis using d by simp
qed

text \<open>\<open>grinbox_address_key\<close> is not stored, so a configuration read from a file has none.\<close>

lemma do_config_no_key:
  assumes "\<forall>t c. toml_from_str V t = Ok c \<longrightarrow> grinbox_address_key c = None" and "do_config V a c i p w = (Ok config, w')"
  shows "grinbox_address_key config = None"
proof -
  have arg: "grinbox_address_key (fst (set_arg x f cm)) = grinbox_address_key (fst cm)"
    if "\<And>v c. grinbox_address_key (f v c) = grinbox_address_key c" for x :: "'y option" and f and cm :: "'sk wallet713_config \<times> bool"
    using that by (cases x) (simp_all add: set_arg_def)
  have args: "grinbox_address_key cf' = grinbox_address_key cf" if "apply_config_args a i (cf, m) = Ok (cf', m')" for cf cf' m m'
    using that unfolding apply_config_args_def Let_def obind_Ok_iff
    by (auto dest!: arg_cong [where f = fst] arg_cong [where f = grinbox_address_key] simp: arg)
  obtain ex w1 cf w2 cf' m where cf: "(if ex then config_from_file V p c else io_return (config_default c)) w1 = (Ok cf, w2)"
    and ap: "apply_config_args a i (cf, \<not> ex) = Ok (cf', m)"
    and out: "(if m then config_to_file V cf' p else io_return cf') w2 = (Ok config, w')"
    using assms(2) unfolding do_config_def by (auto simp: io_simps)
  have "grinbox_address_key cf = None"
    using cf assms(1) by (auto simp: config_from_file_def io_simps config_default_def Let_def split: if_splits)
  moreover have "grinbox_address_key config = grinbox_address_key cf'"
    using out by (auto simp: config_to_file_def io_simps Let_def split: if_splits)
  ultimately show ?thesis using args [OF ap] by simp
qed

text \<open>
  C35: \<open>config\<close> drops the address key of the session, also when it only shows the configuration: the
  key is not stored, the configuration is read back from its file, and the key is derived again only
  for \<open>--generate-address\<close>. \<open>address\<close> then answers that there is no wallet.
\<close>

theorem config_forgets_address:
  assumes "\<forall>t c. toml_from_str (cm_cfg C) t = Ok c \<longrightarrow> grinbox_address_key c = None"
    and "command_of (cm_cli C) line = Some (''config'', args)" and "\<not> is_present args ''generate-address''"
    and "do_command E C line (w, s) = (Ok (), (w', s'))" and "command_of (cm_cli C) next = Some (''address'', args')"
  shows "fst (do_command E C next (w', s')) = fail NoWallet"
proof -
  have "cmd_config E C args (w, s\<lparr>se_safe := True\<rparr>) = (Ok (), (w', s'))"
    using assms(4) do_command_run [OF assms(2) table_entries(9)] by simp
  then have "grinbox_address_key (se_config s') = None"
    using do_config_no_key [OF assms(1)] assms(3)
    by (auto simp: cmd_config_def new_index_def io_simps Let_def get_session_def on_world_def on_fs_def set_session_def
      tell_def println_def split: if_splits prod.splits)
  then show ?thesis using do_command_run [OF assms(5) table_entries(11)]
    by (simp add: cmd_address_def show_address_def get_session_def io_bind_def io_lift_apply get_grinbox_address_def get_grinbox_public_key_def
      get_grinbox_secret_key_def)
qed

theorem config_forgets_address_witness:
  "\<exists>w' s'. do_command demo_wenv demo_cm ''config'' (demo_world, demo_session\<lparr>se_config := demo_cfg\<lparr>grinbox_address_key := Some demo_key\<rparr>\<rparr>) = (Ok (), (w', s')) \<and>
     fst (do_command demo_wenv demo_cm ''address'' (w', s')) = fail NoWallet"
proof -
  let ?s = "demo_session\<lparr>se_config := demo_cfg\<lparr>grinbox_address_key := Some demo_key\<rparr>\<rparr>"
  have t: "\<forall>t c. toml_from_str (cm_cfg demo_cm) t = Ok c \<longrightarrow> grinbox_address_key c = None"
    by (simp add: demo_cm_def demo_toml_def config_default_def)
  have c: "command_of demo_cli ''config'' = Some (''config'', Matches [] None)"
    and a: "command_of demo_cli ''address'' = Some (''address'', Matches [] None)"
    and o: "is_ok (fst (cmd_config demo_wenv demo_cm (Matches [] None) (demo_world, ?s\<lparr>se_safe := True\<rparr>)))"
    by code_simp+
  have c': "command_of (cm_cli demo_cm) ''config'' = Some (''config'', Matches [] None)"
    and a': "command_of (cm_cli demo_cm) ''address'' = Some (''address'', Matches [] None)" using c a demo_cm_cli by simp_all
  obtain r w' s' where r: "cmd_config demo_wenv demo_cm (Matches [] None) (demo_world, ?s\<lparr>se_safe := True\<rparr>) = (r, (w', s'))"
    by (metis surj_pair)
  then have "r = Ok ()" using o by (auto simp: is_ok_iff)
  then have d: "do_command demo_wenv demo_cm ''config'' (demo_world, ?s) = (Ok (), (w', s'))"
    using r by (simp only: do_command_run [OF c' table_entries(9)])
  have "fst (do_command demo_wenv demo_cm ''address'' (w', s')) = fail NoWallet"
    by (rule config_forgets_address [OF t c' _ d a']) (simp add: is_present_def subcommand_name_def)
  then show ?thesis using d by blast
qed

lemma number_one: "number (2 ^ 64) e ''1'' = io_return 1"
proof -
  have "from_str_radix 10 (2 ^ 64) ''1'' = Some 1" by code_simp
  then show ?thesis by (simp add: number_def io_lift_def io_return_def)
qed

lemma bind_tell: "io_bind (tell t) f (w, s) = f () (w\<lparr>w_out := w_out w @ [t]\<rparr>, s)"
  by (rule io_bind_apply_Ok) (simp add: tell_def on_world_def println_def io_modify_def)

lemma bind_get_session: "io_bind get_session f (w, s) = f s (w, s)"
  by (rule io_bind_apply_Ok) (simp add: get_session_def)

lemma bind_on_world: "m w = (Ok x, w') \<Longrightarrow> io_bind (on_world m) f (w, s) = f x (w', s)"
  by (rule io_bind_apply_Ok) (simp add: on_world_def)

lemma stop_only_mwcmqs:
  assumes "\<not> is_present args ''keybase''" and "\<not> is_present args ''grinbox''"
  shows "cmd_stop C args x = stop_mwcmqs C x"
  using assms unfolding cmd_stop_def for_listeners_def
  by (cases "stop_mwcmqs C x"; cases "fst (stop_mwcmqs C x)") (auto simp: io_bind_def io_return_def Let_def)

lemma stop_unreachable:
  assumes "\<forall>b st. \<exists>st'. q_set_inner Q b st = (Ok (), st') \<and> q_read_inner Q st' = (Ok b, st')"
    and "\<forall>url form st. \<exists>e st'. q_post_form Q url form st = (Err e, st')"
    and "mwcmq_subscriber_stop Q sub w = (Ok b, w')"
  shows "\<not> b \<and> q_read_inner Q (w_lib w') = (Ok False, w_lib w')"
proof -
  have "\<exists>stripped w1 w2. io_match (lib_quiet (q_post_form Q (sender_url (ms_config sub) stripped) [(''mapmessage'', ''nil'')]))
      (\<lambda>_. io_return True) (\<lambda>_. io_return False) w1 = (Ok b :: bool res, w2) \<and> lib_quiet (q_set_inner Q False) w2 = (Ok (), w')"
    using assms(3) unfolding mwcmq_subscriber_stop_def by (auto simp: io_simps)
  then obtain stripped w1 w2 where post: "io_match (lib_quiet (q_post_form Q (sender_url (ms_config sub) stripped) [(''mapmessage'', ''nil'')]))
      (\<lambda>_. io_return True) (\<lambda>_. io_return False) w1 = (Ok b :: bool res, w2)"
    and set: "lib_quiet (q_set_inner Q False) w2 = (Ok (), w')"
    by blast
  obtain e st where "q_post_form Q (sender_url (ms_config sub) stripped) [(''mapmessage'', ''nil'')] (w_lib w1) = (Err e, st)"
    using assms(2) by blast
  then have "\<not> b" using post by (simp add: io_match_def lib_quiet_def io_return_def)
  moreover obtain st' where "q_set_inner Q False (w_lib w2) = (Ok (), st')" "q_read_inner Q st' = (Ok False, st')"
    using assms(1) by blast
  ultimately show ?thesis using set by (auto simp: lib_quiet_def)
qed

lemma stop_mwcmqs_fails:
  assumes "\<forall>b st. \<exists>st'. q_set_inner (cm_qenv C) b st = (Ok (), st') \<and> q_read_inner (cm_qenv C) st' = (Ok b, st')"
    and "\<forall>url form st. \<exists>e st'. q_post_form (cm_qenv C) url form st = (Err e, st')"
    and "stop_mwcmqs C (w, s) = (Ok (), (w', s'))"
  shows "s' = s \<and> se_mwcmqs s \<noteq> None \<and> q_read_inner (cm_qenv C) (w_lib w') = (Ok False, w_lib w')"
proof -
  obtain pub sub where b: "se_mwcmqs s = Some (pub, sub)"
    using assms(3) by (cases "se_mwcmqs s")
      (auto simp: stop_mwcmqs_def mwcmqs_running_def io_simps get_session_def)
  obtain success w1 w2 where sub: "mwcmq_subscriber_stop (cm_qenv C) sub w1 = (Ok success, w2)"
    and out: "(if success then set_session (\<lambda>s. s\<lparr>se_mwcmqs := None\<rparr>)
       else tell ''WARNING: Could not contact mwcmqs. Network down?'') (w2, s) = (Ok (), (w', s'))"
    using assms(3) b
    by (auto simp: stop_mwcmqs_def mwcmqs_running_def io_simps get_session_def tell_def on_world_def println_def
      split: prod.splits if_splits)
  from stop_unreachable [OF assms(1,2) sub] show ?thesis
    using out b by (auto simp: tell_def on_world_def println_def io_modify_def)
qed

text \<open>
  When \<open>stop\<close> cannot reach MWCMQS, the listener is told to end and is still counted as one:
  the running flag is cleared, the session keeps the broker, a second \<open>stop\<close> answers that the
  listener is closed, and \<open>check\<close> refuses because there is one.
\<close>

theorem failed_stop_leaves_listener:
  assumes "\<forall>b st. \<exists>st'. q_set_inner (cm_qenv C) b st = (Ok (), st') \<and> q_read_inner (cm_qenv C) st' = (Ok b, st')"
    and "\<forall>url form st. \<exists>e st'. q_post_form (cm_qenv C) url form st = (Err e, st')"
    and "command_of (cm_cli C) line = Some (''stop'', args)"
    and "\<not> is_present args ''keybase''" and "\<not> is_present args ''grinbox''"
    and "do_command E C line (w, s) = (Ok (), (w', s'))"
    and "command_of (cm_cli C) checking = Some (''check'', args')" and "value_of args' ''start_height'' = None"
  shows "se_mwcmqs s' = se_mwcmqs s \<and> fst (do_command E C line (w', s')) = fail (ClosedListener ''mwcmqs'') \<and>
    fst (do_command E C checking (w', s')) = fail HasListener"
proof -
  have stop: "do_command E C line (v, t) = stop_mwcmqs C (v, t\<lparr>se_safe := True\<rparr>)" for v t
    using do_command_run [OF assms(3) table_entries(7)] stop_only_mwcmqs [OF assms(4,5)] by simp
  have s': "s' = s\<lparr>se_safe := True\<rparr>" "se_mwcmqs s' \<noteq> None" and q: "q_read_inner (cm_qenv C) (w_lib w') = (Ok False, w_lib w')"
    using stop_mwcmqs_fails [OF assms(1,2)] assms(6) unfolding stop by fastforce+
  have "fst (do_command E C line (w', s')) = fail (ClosedListener ''mwcmqs'')"
    using q s'(2) unfolding stop
    by (auto simp: stop_mwcmqs_def mwcmqs_running_def get_session_def io_bind_def io_lift_apply on_world_def
      mwcmq_subscriber_is_running_def lib_quiet_def)
  moreover have h: "unwrap_or (value_of args' ''start_height'') ''1'' = ''1''" using assms(8) by (simp add: unwrap_or_def)
  moreover have "fst (do_command E C checking (w', s')) = fail HasListener"
    using s'(2) unfolding do_command_run [OF assms(7) table_entries(10)] cmd_check_def Let_def h number_one io_bind_simps
    by (simp add: io_bind_def io_lift_apply get_session_def)
  ultimately show ?thesis using s' by simp
qed

definition demo_cut_off :: "(bytes, bytes, bool) qenv" where
  "demo_cut_off = \<lparr>q_slate_to_string = (\<lambda>_. Ok ''slate''), q_message_to_json = (\<lambda>_. Ok ''m''), q_rng = (\<lambda>s. (Ok ([], []), s)),
     q_client_build = (\<lambda>_ s. (Ok (), s)), q_post_form = (\<lambda>_ _ s. (Err (Foreign ''network''), s)),
     q_get = (\<lambda>_ s. (Ok (Get_body []), s)), q_read_inner = (\<lambda>s. (Ok s, s)), q_set_inner = (\<lambda>b _. (Ok (), b)),
     q_nanoid = (\<lambda>s. (Ok ''id'', s)), q_sig_debug = to_hex, q_debug_strings = concat\<rparr>"

definition demo_subscribed :: "(bytes, unit) session" where
  "demo_subscribed = demo_session\<lparr>se_mwcmqs := Some (demo_mq_publisher,
     \<lparr>ms_address = \<lparr>mq_public_key = ''k'', mq_domain = ''mqs'', mq_port = None\<rparr>, ms_broker_config = demo_cfg, ms_secret_key = demo_key,
      ms_config = demo_cfg\<rparr>)\<rparr>"

text \<open>Whatever the rest of the program does, a flag that reads as it was set and a network that is down.\<close>

theorem failed_stop_leaves_listener_witness:
  "\<forall>E (C :: (bytes, bytes, bytes, bool, unit, unit) cmdenv). \<exists>w' s'. do_command E (C\<lparr>cm_cli := demo_cli, cm_qenv := demo_cut_off\<rparr>) ''stop''
       (\<lparr>w_lib = True, w_held = False, w_fs = w_fs demo_world, w_consoles = 0, w_out = [], w_trace = []\<rparr>, demo_subscribed) = (Ok (), (w', s')) \<and>
     fst (do_command E (C\<lparr>cm_cli := demo_cli, cm_qenv := demo_cut_off\<rparr>) ''stop'' (w', s')) = fail (ClosedListener ''mwcmqs'')"
proof (intro allI)
  fix E and C :: "(bytes, bytes, bytes, bool, unit, unit) cmdenv"
  let ?C = "C\<lparr>cm_cli := demo_cli, cm_qenv := demo_cut_off\<rparr>"
  let ?w = "\<lparr>w_lib = True, w_held = False, w_fs = w_fs demo_world, w_consoles = 0, w_out = [], w_trace = []\<rparr>"
  let ?k = "Matches [(''no-delete_unconfirmed'', [])] None"
  have "command_of demo_cli ''stop'' = Some (''stop'', Matches [] None)"
    and "command_of demo_cli ''check --no-delete_unconfirmed'' = Some (''check'', ?k)"
    and str: "is_ok (mwcmqs_stripped \<lparr>mq_public_key = ''k'', mq_domain = ''mqs'', mq_port = None\<rparr>)" by code_simp+
  then have c: "command_of (cm_cli ?C) ''stop'' = Some (''stop'', Matches [] None)"
    and k: "command_of (cm_cli ?C) ''check --no-delete_unconfirmed'' = Some (''check'', ?k)" by simp_all
  have cell: "\<forall>b st. \<exists>st'. q_set_inner (cm_qenv ?C) b st = (Ok (), st') \<and> q_read_inner (cm_qenv ?C) st' = (Ok b, st')"
    and down: "\<forall>url form st. \<exists>e st'. q_post_form (cm_qenv ?C) url form st = (Err e, st')"
    by (simp_all add: demo_cut_off_def)
  let ?s = "demo_subscribed\<lparr>se_safe := True\<rparr>"
  let ?sub = "\<lparr>ms_address = \<lparr>mq_public_key = ''k'', mq_domain = ''mqs'', mq_port = None\<rparr>, ms_broker_config = demo_cfg, ms_secret_key = demo_key,
      ms_config = demo_cfg\<rparr> :: bytes mwcmq_subscriber"
  have run: "mwcmqs_running ?C (?w, ?s) = (Ok True, (?w, ?s))"
    by (simp add: mwcmqs_running_def bind_get_session demo_subscribed_def on_world_def mwcmq_subscriber_is_running_def lib_quiet_def
      demo_cut_off_def)
  have sub: "mwcmq_subscriber_stop demo_cut_off ?sub v = (Ok False, v\<lparr>w_lib := False\<rparr>)" for v
    using str by (auto simp: mwcmq_subscriber_stop_def is_ok_iff demo_cut_off_def io_expect_def io_match_def io_bind_def io_return_def
      io_lift_def lib_quiet_def)
  have b: "se_mwcmqs ?s = Some (demo_mq_publisher, ?sub)" by (simp add: demo_subscribed_def)
  obtain w' s' where "stop_mwcmqs ?C (?w, ?s) = (Ok (), (w', s'))"
    unfolding stop_mwcmqs_def io_bind_apply_Ok [where m = "mwcmqs_running ?C", OF run] if_True bind_tell bind_get_session b
    by (simp add: bind_on_world [OF sub]) (simp add: tell_def on_world_def println_def io_modify_def)
  then have d: "do_command E ?C ''stop'' (?w, demo_subscribed) = (Ok (), (w', s'))"
    unfolding do_command_run [OF c table_entries(7)]
    by (simp add: stop_only_mwcmqs is_present_def subcommand_name_def)
  have "se_mwcmqs s' = se_mwcmqs demo_subscribed \<and> fst (do_command E ?C ''stop'' (w', s')) = fail (ClosedListener ''mwcmqs'') \<and>
      fst (do_command E ?C ''check --no-delete_unconfirmed'' (w', s')) = fail HasListener"
    by (rule failed_stop_leaves_listener [OF cell down c _ _ d k]) (simp_all add: is_present_def subcommand_name_def value_of_def)
  then show "\<exists>w' s'. do_command E ?C ''stop'' (?w, demo_subscribed) = (Ok (), (w', s')) \<and>
      fst (do_command E ?C ''stop'' (w', s')) = fail (ClosedListener ''mwcmqs'')" using d by blast
qed

end
