(* ===== verification/Send_Command.thy ===== *)
theory Send_Command
  imports Commands_Correct
begin

text \<open>
  The command \<open>send\<close>: when outputs of the wallet are locked. The calls that a piece of code makes of
  the wallet library are followed through the layers, from the wallet's API to the command.
\<close>

section \<open>The calls of a piece of code\<close>

text \<open>Every library call that the code adds to the trace satisfies a predicate; \<open>g\<close> is where the state has the world.\<close>

definition calls :: "(lib_call \<Rightarrow> bool) \<Rightarrow> ('w \<Rightarrow> 'st world) \<Rightarrow> ('e, 'w, 'a) io \<Rightarrow> bool" where
  "calls P g m \<longleftrightarrow> (\<forall>w. \<exists>cs. w_trace (g (snd (m w))) = w_trace (g w) @ cs \<and> list_all P cs)"

lemma callsD: "calls P g m \<Longrightarrow> m w = (r, w') \<Longrightarrow> \<exists>cs. w_trace (g w') = w_trace (g w) @ cs \<and> list_all P cs"
  unfolding calls_def by (metis snd_conv)

lemma calls_same: "(\<And>w. w_trace (g (snd (m w))) = w_trace (g w)) \<Longrightarrow> calls P g m"
  unfolding calls_def by (intro allI exI [of _ "[]"]) simp

lemma calls_return: "calls P g (io_return x)"
  by (rule calls_same) (simp add: io_return_def)

lemma calls_lift: "calls P g (io_lift r)"
  by (rule calls_same) (simp add: io_lift_def)

lemma calls_get: "calls P g io_get"
  by (rule calls_same) (simp add: io_get_def)

text \<open>What runs next runs only after the first part has returned.\<close>

lemma calls_match:
  assumes "calls P g m" and "\<And>x w w'. m w = (Ok x, w') \<Longrightarrow> calls P g (k x)" and "\<And>e. calls P g (h e)"
  shows "calls P g (io_match m k h)"
  unfolding calls_def
proof
  fix w
  obtain r w' where m: "m w = (r, w')" by fastforce
  obtain cs where cs: "w_trace (g w') = w_trace (g w) @ cs" "list_all P cs" using callsD [OF assms(1) m] by blast
  have after: "\<exists>ds. w_trace (g v) = w_trace (g w) @ ds \<and> list_all P ds" if d: "\<exists>ds. w_trace (g v) = w_trace (g w') @ ds \<and> list_all P ds" for v
  proof -
    obtain ds where "w_trace (g v) = w_trace (g w') @ ds" "list_all P ds" using d by blast
    then show ?thesis using cs by (intro exI [of _ "cs @ ds"]) simp
  qed
  show "\<exists>cs. w_trace (g (snd (io_match m k h w))) = w_trace (g w) @ cs \<and> list_all P cs"
  proof (cases r)
    case (Ok x)
    have "calls P g (k x)" using assms(2) m Ok by blast
    then show ?thesis using after [of "snd (k x w')"] m Ok unfolding calls_def io_match_def by simp
  next
    case (Err e)
    show ?thesis using after [of "snd (h e w')"] assms(3) [of e] m Err unfolding calls_def io_match_def by simp
  qed (use m cs in \<open>auto simp: io_match_def\<close>)
qed

lemma calls_bind:
  "calls P g m \<Longrightarrow> (\<And>x w w'. m w = (Ok x, w') \<Longrightarrow> calls P g (f x)) \<Longrightarrow> calls P g (io_bind m f)"
  unfolding io_bind_match by (intro calls_match calls_lift)

lemma calls_map_err: "calls P g m \<Longrightarrow> calls P g (io_map_err f m)"
  by (simp add: calls_def io_map_err_def case_prod_beta)

lemma calls_expect: "calls P g m \<Longrightarrow> calls P g (io_expect m)"
  unfolding io_expect_def by (intro calls_match calls_return calls_lift)

lemma calls_if: "(c \<Longrightarrow> calls P g m) \<Longrightarrow> (\<not> c \<Longrightarrow> calls P g m') \<Longrightarrow> calls P g (if c then m else m')"
  by simp

lemma calls_option: "calls P g m \<Longrightarrow> (\<And>x. calls P g (f x)) \<Longrightarrow> calls P g (case y of None \<Rightarrow> m | Some x \<Rightarrow> f x)"
  by (cases y) auto

lemma calls_prod: "(\<And>a b. calls P g (f a b)) \<Longrightarrow> calls P g (case p of (a, b) \<Rightarrow> f a b)"
  by (cases p) auto

lemma calls_Let: "calls P g (f x) \<Longrightarrow> calls P g (Let x f)"
  by simp

lemmas calls_control = calls_bind calls_match calls_map_err calls_expect calls_if calls_option calls_prod calls_Let calls_return calls_lift

text \<open>The calls of one run, from a given state: what runs next starts where the run has come to.\<close>

definition calls_at :: "(lib_call \<Rightarrow> bool) \<Rightarrow> ('w \<Rightarrow> 'st world) \<Rightarrow> ('e, 'w, 'a) io \<Rightarrow> 'w \<Rightarrow> bool" where
  "calls_at P g m w \<longleftrightarrow> (\<exists>cs. w_trace (g (snd (m w))) = w_trace (g w) @ cs \<and> list_all P cs)"

lemma at_calls: "calls P g m \<Longrightarrow> calls_at P g m w"
  by (simp add: calls_def calls_at_def)

lemma calls_atD: "calls_at P g m w \<Longrightarrow> m w = (r, w') \<Longrightarrow> \<exists>cs. w_trace (g w') = w_trace (g w) @ cs \<and> list_all P cs"
  by (simp add: calls_at_def)

lemma at_bind:
  assumes "calls_at P g m w" and "\<And>x w'. m w = (Ok x, w') \<Longrightarrow> calls_at P g (f x) w'"
  shows "calls_at P g (io_bind m f) w"
proof -
  obtain r w' where m: "m w = (r, w')" by fastforce
  obtain cs where cs: "w_trace (g w') = w_trace (g w) @ cs" "list_all P cs" using calls_atD [OF assms(1) m] by blast
  show ?thesis
  proof (cases r)
    case (Ok x)
    then obtain ds where "w_trace (g (snd (f x w'))) = w_trace (g w') @ ds" "list_all P ds"
      using assms(2) m unfolding calls_at_def by blast
    then show ?thesis using m Ok cs by (auto simp: calls_at_def io_bind_def intro: exI [of _ "cs @ ds"])
  qed (use m cs in \<open>auto simp: calls_at_def io_bind_def\<close>)
qed

text \<open>The world.\<close>

abbreviation world_calls :: "(lib_call \<Rightarrow> bool) \<Rightarrow> ('st, 'a) wio \<Rightarrow> bool" where
  "world_calls P m \<equiv> calls P (\<lambda>w. w) m"

lemma calls_lib: "P c \<Longrightarrow> world_calls P (lib c op)"
  unfolding calls_def by (intro allI exI [of _ "[c]"]) (simp add: lib_def case_prod_beta)

lemma calls_lib_shared: "P c \<Longrightarrow> world_calls P (lib_shared c op)"
  using calls_lib [of P c] unfolding calls_def lib_shared_def by blast

lemma calls_quiet: "world_calls P (lib_quiet op)" "world_calls P (lib_read f)" "world_calls P (on_fs m')" "world_calls P (println t)"
  by (auto intro!: calls_same simp: lib_quiet_def lib_read_def on_fs_def println_def io_modify_def case_prod_beta)

lemma calls_mutex_scope:
  assumes "world_calls P body"
  shows "world_calls P (mutex_scope body)"
  unfolding calls_def
proof
  fix w :: "'a world"
  have "\<exists>cs. w_trace (snd (body (w\<lparr>w_held := True\<rparr>))) = w_trace (w\<lparr>w_held := True\<rparr>) @ cs \<and> list_all P cs"
    using assms unfolding calls_def by blast
  then obtain cs where "w_trace (snd (body (w\<lparr>w_held := True\<rparr>))) = w_trace w @ cs" "list_all P cs" by auto
  then show "\<exists>cs. w_trace (snd (mutex_scope body w)) = w_trace w @ cs \<and> list_all P cs"
    by (cases "w_held w") (auto simp: mutex_scope_def case_prod_beta)
qed

lemma calls_wallet_lock: "world_calls P body \<Longrightarrow> world_calls P (wallet_lock E i body)"
  unfolding wallet_lock_def by (intro calls_mutex_scope calls_control calls_quiet)

lemma calls_consoles: "(\<And>w. w_trace (f w) = w_trace w) \<Longrightarrow> world_calls P (io_modify f)"
  by (rule calls_same) (simp add: io_modify_def)

lemma calls_with_console: "P Start_console_thread \<Longrightarrow> world_calls P body \<Longrightarrow> world_calls P (with_console E body)"
  unfolding with_console_def by (intro calls_control calls_lib calls_consoles) simp_all

lemma calls_with_inst: "(\<And>i. world_calls P (f i)) \<Longrightarrow> world_calls P (with_inst self f)"
  unfolding with_inst_def by (intro calls_control)

lemma calls_off_wallet: "(\<And>w. off_wallet w (snd (m w))) \<Longrightarrow> world_calls P m"
  by (rule calls_same) (simp add: off_wallet_def)

lemmas calls_world = calls_control calls_lib calls_lib_shared calls_quiet calls_wallet_lock calls_with_console calls_with_inst

text \<open>A world beside something else: a slate, or the session.\<close>

lemma calls_on_world: "world_calls P m \<Longrightarrow> calls P fst (on_world m)"
  by (simp add: calls_def on_world_def case_prod_beta)

lemma calls_get_slate: "calls P fst get_slate"
  by (rule calls_same) (simp add: get_slate_def case_prod_beta)

lemma calls_mut_slate: "(\<And>s. world_calls P (m s)) \<Longrightarrow> calls P fst (mut_slate m)"
  by (simp add: calls_def mut_slate_def case_prod_beta)

lemma calls_with_slate: "calls P fst m \<Longrightarrow> world_calls P (with_slate m s)"
  by (simp add: calls_def with_slate_def case_prod_beta)

lemma calls_wallet_ref: "(\<And>self. world_calls P (f self)) \<Longrightarrow> calls P fst (wallet_ref f)"
  by (simp add: calls_def wallet_ref_def case_prod_beta)

lemma calls_session: "calls P fst get_session" "calls P fst (tell t)" "calls P fst (need args n)" "calls P fst (number b e t)"
  by (auto intro!: calls_same simp: get_session_def tell_def need_def number_def on_world_def println_def io_modify_def io_lift_def)

lemmas calls_command = calls_control calls_session calls_on_world calls_wallet_ref

section \<open>The wallet's own calls\<close>

definition locks_none :: "lib_call \<Rightarrow> bool" where
  "locks_none c \<longleftrightarrow> (\<forall>sid n. c \<noteq> Tx_lock_outputs sid n)"

lemma calls_mono: "calls P g m \<Longrightarrow> (\<And>c. P c \<Longrightarrow> Q c) \<Longrightarrow> calls Q g m"
  unfolding calls_def by (metis list.pred_mono_strong)

lemma retrieve_outputs_calls: "world_calls locks_none (api_retrieve_outputs E i a b c d e)"
  unfolding api_retrieve_outputs_def api_sync_def by (intro calls_world) (simp_all add: locks_none_def)

lemma node_height_calls: "world_calls locks_none (api_node_height E i)"
  unfolding api_node_height_def by (intro calls_world retrieve_outputs_calls) (simp_all add: locks_none_def)

lemma spendable_calls:
  "world_calls locks_none (output_count E self a b c)" "world_calls locks_none (total_value E self a b c)"
  unfolding output_count_def total_value_def by (intro calls_world node_height_calls retrieve_outputs_calls)+

lemma initiate_calls: "world_calls locks_none (initiate_send_tx E self a b c d e f g h i j)"
  unfolding initiate_send_tx_def initiate_tx_def by (intro calls_world) (simp_all add: locks_none_def)

lemma get_id_calls: "world_calls locks_none (get_id E self sid)"
  unfolding get_id_def retrieve_tx_id_by_slate_id_def by (intro calls_world node_height_calls) (simp add: locks_none_def)

lemma finalize_calls: "world_calls locks_none (with_slate (finalize_slate E self p) s)"
  unfolding finalize_slate_def verify_finalize_post_def api_finalize_tx_def finalize_and_store_def verify_slate_messages_def api_post_tx_def
  by (intro calls_with_slate calls_control calls_get_slate calls_on_world calls_mut_slate calls_world) (simp_all add: locks_none_def)

lemma lock_calls: "P (Tx_lock_outputs (sl_id s) n) \<Longrightarrow> world_calls P (wl_tx_lock_outputs E self s a n)"
  unfolding wl_tx_lock_outputs_def api_tx_lock_outputs_def by (intro calls_world)

section \<open>The command\<close>

text \<open>
  What was handed over in the run of a \<open>send\<close> that starts in \<open>x\<close>, stage by stage, each from the state
  the one before has left: the arguments, the amount and the console; then, for a file, the slate
  that was made and written to it, or, for an address, the slate that was made and that the network
  took or the other wallet answered with.
\<close>

definition send_prepared ::
  "('pk, 'sk, 'sig, 'st) wenv \<Rightarrow> ('pk, 'sk, 'sig, 'st, 's, 'b) cmdenv \<Rightarrow> matches \<Rightarrow> 'st world \<times> ('sk, 's) session \<Rightarrow> send_args \<Rightarrow> u64 \<Rightarrow>
   'st world \<times> ('sk, 's) session \<Rightarrow> bool" where
  "send_prepared E C args x sa amount y \<longleftrightarrow>
     (\<exists>t x1 x2 x3. send_args_of args x = (Ok sa, x1) \<and> need args ''amount'' x1 = (Ok t, x2) \<and>
        send_amount E C sa t x2 = (Ok amount, x3) \<and> on_world (console_started E) x3 = (Ok (), y))"

definition written_to ::
  "('pk, 'sk, 'sig, 'st) wenv \<Rightarrow> ('pk, 'sk, 'sig, 'st, 's, 'b) cmdenv \<Rightarrow> matches \<Rightarrow> 'st world \<times> ('sk, 's) session \<Rightarrow> string \<Rightarrow>
   'pk slate \<Rightarrow> string \<Rightarrow> 'st world \<times> ('sk, 's) session \<Rightarrow> bool" where
  "written_to E C args x input slate t y \<longleftrightarrow>
     (\<exists>sa amount x0 x1 x2. send_prepared E C args x sa amount x0 \<and>
        on_world (on_fs (write_file (home_path C input) [])) x0 = (Ok (), x1) \<and>
        initiate E sa (value_of args ''message'') (sa_routputs sa) amount ''file'' x1 = (Ok slate, x2) \<and>
        q_slate_to_string (cm_qenv C) slate = Ok t \<and> on_world (on_fs (write_file (home_path C input) t)) x2 = (Ok (), y))"

definition taken_by_network ::
  "('pk, 'sk, 'sig, 'st) wenv \<Rightarrow> ('pk, 'sk, 'sig, 'st, 's, 'b) cmdenv \<Rightarrow> matches \<Rightarrow> 'st world \<times> ('sk, 's) session \<Rightarrow> 'pk slate \<Rightarrow> bool" where
  "taken_by_network E C args x slate' \<longleftrightarrow>
     (\<exists>sa amount x0 name x1 to shown x2 slate x3 x4 x5. send_prepared E C args x sa amount x0 \<and> need args ''to'' x0 = (Ok name, x1) \<and>
        resolve_recipient E C name x1 = (Ok (to, shown), x2) \<and>
        initiate E sa (value_of args ''message'') 1 amount (address_display to) x2 = (Ok slate, x3) \<and>
        on_world console_stopped x3 = (Ok (), x4) \<and> hand_over E C (value_of args ''apisecret'') to slate x4 = (Ok slate', x5))"

definition handed_over ::
  "('pk, 'sk, 'sig, 'st) wenv \<Rightarrow> ('pk, 'sk, 'sig, 'st, 's, 'b) cmdenv \<Rightarrow> matches \<Rightarrow> 'st world \<times> ('sk, 's) session \<Rightarrow> string \<Rightarrow> bool" where
  "handed_over E C args x sid \<longleftrightarrow> (case value_of args ''file'' of
     Some input \<Rightarrow> \<exists>slate t y. written_to E C args x input slate t y \<and> sl_id slate = sid
   | None \<Rightarrow> \<exists>slate. taken_by_network E C args x slate \<and> sl_id slate = sid)"

definition locks_handed_over ::
  "('pk, 'sk, 'sig, 'st) wenv \<Rightarrow> ('pk, 'sk, 'sig, 'st, 's, 'b) cmdenv \<Rightarrow> matches \<Rightarrow> 'st world \<times> ('sk, 's) session \<Rightarrow> lib_call \<Rightarrow> bool" where
  "locks_handed_over E C args x c \<longleftrightarrow> (\<forall>sid n. c = Tx_lock_outputs sid n \<longrightarrow> n = 0 \<and> handed_over E C args x sid)"

lemma handed_none: "locks_none c \<Longrightarrow> locks_handed_over E C args x c"
  by (simp add: locks_none_def locks_handed_over_def)

lemma send_entry: "map_of (command_table E C) ''send'' = Some (cmd_send E C)"
  by (simp add: command_table_def)

lemma post_https_calls: "world_calls P (post_https E C a to s)"
  unfolding post_https_def by (intro calls_world)

lemma calls_address:
  "(\<And>a. calls P g (f a)) \<Longrightarrow> (\<And>a. calls P g (f' a)) \<Longrightarrow> (\<And>a. calls P g (h a)) \<Longrightarrow> (\<And>a. calls P g (k a)) \<Longrightarrow>
   calls P g (case y of AGrinbox a \<Rightarrow> f a | AKeybase a \<Rightarrow> f' a | AMWCMQS a \<Rightarrow> h a | AHttps a \<Rightarrow> k a)"
  by (cases y) auto

lemma grinbox_publish_calls: "world_calls P (grinbox_publish E C p s to)"
  unfolding grinbox_publish_def by (intro calls_world calls_off_wallet gbp.post_off_wallet)

lemma hand_over_calls: "calls P fst (hand_over E C a to s)"
  unfolding hand_over_def
  by (intro calls_command calls_address calls_off_wallet grinbox_publish_calls kbp.post_off_wallet mqp.post_off_wallet post_https_calls)

lemma resolve_calls: "calls P fst (resolve_recipient E C to)"
  unfolding resolve_recipient_def by (intro calls_command)

lemma initiate_command_calls: "calls locks_none fst (initiate E sa m n a to)"
  unfolding initiate_def by (intro calls_wallet_ref initiate_calls)

lemma console_calls: "world_calls locks_none (console_started E)" "world_calls P console_stopped"
  unfolding console_started_def console_stopped_def
  by (intro calls_control calls_lib calls_consoles; simp add: locks_none_def)+

lemma send_args_calls: "calls P fst (send_args_of args)"
  unfolding send_args_of_def by (intro calls_command)

lemma send_amount_calls: "calls locks_none fst (send_amount E C sa t)"
  unfolding send_amount_def by (intro calls_command spendable_calls)

lemma lock_at:
  "handed_over E C args x (sl_id slate) \<Longrightarrow>
   calls_at (locks_handed_over E C args x) fst (wallet_ref (\<lambda>w. wl_tx_lock_outputs E w slate adr 0)) y"
  by (intro at_calls calls_wallet_ref lock_calls) (simp add: locks_handed_over_def)

lemma send_to_address_calls:
  assumes "value_of args ''file'' = None" and "send_prepared E C args x sa amount x0" and "need args ''to'' x0 = (Ok name, x1)"
  shows "calls_at (locks_handed_over E C args x) fst
    (send_to_address E C sa (value_of args ''message'') (value_of args ''apisecret'') amount name) x1"
  unfolding send_to_address_def
proof (intro at_bind, rule at_calls [OF resolve_calls], split prod.split, intro allI impI at_bind)
  fix p x2 to shown slate x3 u x4 slate' x5
  assume "resolve_recipient E C name x1 = (Ok p, x2)" "p = (to, shown)"
    "initiate E sa (value_of args ''message'') 1 amount (address_display to) x2 = (Ok slate, x3)"
    "on_world console_stopped x3 = (Ok u, x4)" "hand_over E C (value_of args ''apisecret'') to slate x4 = (Ok slate', x5)"
  then have "taken_by_network E C args x slate'" using assms(2,3) unfolding taken_by_network_def by (simp del: split_paired_Ex) blast
  then have "handed_over E C args x (sl_id slate')" unfolding handed_over_def assms(1) option.case by blast
  then show "calls_at (locks_handed_over E C args x) fst
      (wallet_ref (\<lambda>w. wl_tx_lock_outputs E w slate' (Some (address_display to)) 0)) x5"
    by (rule lock_at)
qed (auto intro!: at_calls calls_command calls_address calls_mono [OF initiate_command_calls] console_calls hand_over_calls
    calls_mono [OF get_id_calls] calls_mono [OF finalize_calls] handed_none)

lemma send_to_file_calls:
  assumes "value_of args ''file'' = Some input" and "send_prepared E C args x sa amount x0"
  shows "calls_at (locks_handed_over E C args x) fst (send_to_file E C sa (value_of args ''message'') amount input) x0"
  unfolding send_to_file_def
proof (intro at_bind)
  fix u x1 slate x2 t x3 v y
  assume "on_world (on_fs (write_file (home_path C input) [])) x0 = (Ok u, x1)"
    "initiate E sa (value_of args ''message'') (sa_routputs sa) amount ''file'' x1 = (Ok slate, x2)"
    "io_lift (q_slate_to_string (cm_qenv C) slate) x2 = (Ok t, x3)" "on_world (on_fs (write_file (home_path C input) t)) x3 = (Ok v, y)"
  then have "written_to E C args x input slate t y" using assms(2) unfolding written_to_def
    by (simp add: io_lift_apply del: split_paired_Ex) blast
  then have "handed_over E C args x (sl_id slate)" unfolding handed_over_def assms(1) option.case by blast
  then show "calls_at (locks_handed_over E C args x) fst (wallet_ref (\<lambda>w. wl_tx_lock_outputs E w slate (Some ''file'') 0)) y"
    by (rule lock_at)
qed (auto intro!: at_calls calls_command calls_quiet calls_mono [OF initiate_command_calls] handed_none)

lemma send_calls: "calls_at (locks_handed_over E C args x) fst (cmd_send E C args) x"
  unfolding cmd_send_def
proof (intro at_bind)
  fix sa x1 t x2 amount x3 u x0
  assume "send_args_of args x = (Ok sa, x1)" "need args ''amount'' x1 = (Ok t, x2)" "send_amount E C sa t x2 = (Ok amount, x3)"
    "on_world (console_started E) x3 = (Ok u, x0)"
  then have "send_prepared E C args x sa amount x0" unfolding send_prepared_def by (simp del: split_paired_Ex)
  then show "calls_at (locks_handed_over E C args x) fst
      (case value_of args ''file'' of Some input \<Rightarrow> send_to_file E C sa (value_of args ''message'') amount input
       | None \<Rightarrow> io_bind (need args ''to'') (\<lambda>to.
           send_to_address E C sa (value_of args ''message'') (value_of args ''apisecret'') amount to)) x0"
    by (auto split: option.split intro!: send_to_file_calls at_bind at_calls [OF calls_session(3)] intro: send_to_address_calls)
qed (auto intro!: at_calls send_args_calls calls_command calls_mono [OF send_amount_calls] calls_mono [OF console_calls(1)] handed_none)

text \<open>What was written stays in the file until the command ends.\<close>

lemma lock_outputs_fs: "w_fs (snd (wl_tx_lock_outputs E self slate adr n w)) = w_fs w"
proof -
  have l: "w_fs (snd (wallet_lock E i (lib c op) w)) = w_fs w" for i c op
  proof (cases "wallet_lock E i (lib c op) w")
    case (Pair r w')
    show ?thesis by (cases rule: wallet_lock_cases [OF Pair]) (use Pair in \<open>auto simp: lib_def split: prod.splits\<close>)
  qed
  show ?thesis
    unfolding wl_tx_lock_outputs_def with_inst_def api_tx_lock_outputs_def
    by (cases "get_wallet_instance self") (simp_all add: io_bind_def io_lift_apply l)
qed

lemma written_stays:
  assumes "written_to E C args x input slate t y" and "value_of args ''file'' = Some input"
  shows "files (w_fs (fst (snd (cmd_send E C args x)))) (home_path C input) = Some t"
proof -
  obtain sa amount x0 x1 x2 t' z1 z2 z3 where
    a: "send_args_of args x = (Ok sa, z1)" and b: "need args ''amount'' z1 = (Ok t', z2)" and c: "send_amount E C sa t' z2 = (Ok amount, z3)"
    and d: "on_world (console_started E) z3 = (Ok (), x0)" and e: "on_world (on_fs (write_file (home_path C input) [])) x0 = (Ok (), x1)"
    and f: "initiate E sa (value_of args ''message'') (sa_routputs sa) amount ''file'' x1 = (Ok slate, x2)"
    and q: "q_slate_to_string (cm_qenv C) slate = Ok t" and y: "on_world (on_fs (write_file (home_path C input) t)) x2 = (Ok (), y)"
    using assms(1) unfolding written_to_def send_prepared_def by blast
  have run: "cmd_send E C args x = io_bind (wallet_ref (\<lambda>w. wl_tx_lock_outputs E w slate (Some ''file'') 0)) (\<lambda>_.
      tell (input @ '' created successfully.'')) y"
    by (simp add: cmd_send_def send_to_file_def assms(2) io_bind_apply_Ok [where m = "send_args_of args", OF a]
        io_bind_apply_Ok [where m = "need args ''amount''", OF b] io_bind_apply_Ok [where m = "send_amount E C sa t'", OF c]
        io_bind_apply_Ok [where m = "on_world (console_started E)", OF d]
        io_bind_apply_Ok [where m = "on_world (on_fs (write_file (home_path C input) []))", OF e]
        io_bind_apply_Ok [where m = "initiate E sa (value_of args ''message'') (sa_routputs sa) amount ''file''", OF f] q)
       (simp add: io_bind_apply_Ok [where m = "on_world (on_fs (write_file (home_path C input) t))", OF y] io_bind_apply_Ok io_lift_apply)
  have "files (w_fs (fst y)) (home_path C input) = Some t"
    using y by (auto simp: on_world_def on_fs_def write_file_def split: prod.splits if_splits)
  moreover have "w_fs (fst (snd (cmd_send E C args x))) = w_fs (fst y)"
    unfolding run using lock_outputs_fs [of E "se_wallet (snd y)" slate "Some ''file''" 0 "fst y"]
    by (auto simp: io_bind_def wallet_ref_def tell_def on_world_def println_def io_modify_def split: prod.splits outcome.splits)
  ultimately show ?thesis by simp
qed

text \<open>
  C15: \<open>send\<close> locks outputs of the wallet only for the slate that this run has made and handed over, for
  participant 0: with a file, the slate is in the file when the command ends, and without one, the
  network took it, or the other wallet answered with it, in the state the run had come to. A slate
  that could not be made, written, posted or answered leaves the wallet's outputs free.
\<close>

theorem send_locks_handed_over:
  assumes "command_of (cm_cli C) line = Some (''send'', args)" and "do_command E C line (w, s) = (r, (w', s'))"
  shows "\<exists>cs. w_trace w' = w_trace w @ cs \<and> (\<forall>sid n. Tx_lock_outputs sid n \<in> set cs \<longrightarrow> n = 0 \<and>
    (case value_of args ''file'' of
       Some input \<Rightarrow> \<exists>slate t y. written_to E C args (w, s\<lparr>se_safe := True\<rparr>) input slate t y \<and> sl_id slate = sid \<and>
         files (w_fs w') (home_path C input) = Some t
     | None \<Rightarrow> \<exists>slate. taken_by_network E C args (w, s\<lparr>se_safe := True\<rparr>) slate \<and> sl_id slate = sid))"
proof -
  have r: "cmd_send E C args (w, s\<lparr>se_safe := True\<rparr>) = (r, (w', s'))"
    using assms(2) do_command_run [OF assms(1) send_entry] by simp
  obtain cs where cs: "w_trace w' = w_trace w @ cs" "list_all (locks_handed_over E C args (w, s\<lparr>se_safe := True\<rparr>)) cs"
    using calls_atD [OF send_calls r] by auto
  show ?thesis
  proof (cases "value_of args ''file''")
    case None
    then show ?thesis using cs by (auto simp: list_all_iff locks_handed_over_def handed_over_def)
  next
    case (Some input)
    then show ?thesis using cs written_stays [OF _ Some] r
      by (fastforce simp: list_all_iff locks_handed_over_def handed_over_def)
  qed
qed

theorem send_locks_handed_over_witness:
  "\<exists>w' slate t. w' = fst (snd (do_command demo_wenv demo_cm ''send 5 -f /s'' (demo_world, demo_session))) \<and>
     Tx_lock_outputs ''7'' 0 \<in> set (w_trace w') \<and> sl_id slate = ''7'' \<and> files (w_fs w') (home_path demo_cm ''/s'') = Some t \<and>
     q_slate_to_string (cm_qenv demo_cm) slate = Ok t"
proof -
  let ?a = "Matches [(''amount'', [''5'']), (''file'', [''/s''])] None"
  have c: "command_of demo_cli ''send 5 -f /s'' = Some (''send'', ?a)"
    and t: "List.member (w_trace (fst (snd (cmd_send demo_wenv demo_cm ?a (demo_world, demo_session\<lparr>se_safe := True\<rparr>))))) (Tx_lock_outputs ''7'' 0)"
    by code_simp+
  have a: "command_of (cm_cli demo_cm) ''send 5 -f /s'' = Some (''send'', ?a)" using c demo_cm_cli by simp
  have f: "value_of ?a ''file'' = Some ''/s''" by (simp add: value_of_def)
  obtain r w' s' where d: "do_command demo_wenv demo_cm ''send 5 -f /s'' (demo_world, demo_session) = (r, (w', s'))" by (metis surj_pair)
  have "List.member (w_trace w') (Tx_lock_outputs ''7'' 0)"
    using t d do_command_run [OF a send_entry] by (metis fst_conv snd_conv)
  then have l: "Tx_lock_outputs ''7'' 0 \<in> set (w_trace w')" by simp
  have tr: "w_trace demo_world = []" by (simp add: demo_world_def)
  obtain slate t y where "written_to demo_wenv demo_cm ?a (demo_world, demo_session\<lparr>se_safe := True\<rparr>) ''/s'' slate t y"
      "sl_id slate = ''7''" "files (w_fs w') (home_path demo_cm ''/s'') = Some t"
    using send_locks_handed_over [OF a d] l unfolding f option.case tr append_Nil by blast
  moreover from this(1) have "q_slate_to_string (cm_qenv demo_cm) slate = Ok t" by (auto simp: written_to_def)
  ultimately show ?thesis using d l by (intro exI [of _ w'] exI [of _ slate] exI [of _ t]) simp
qed

end
