(* ===== verification/Startup.thy ===== *)
theory Startup
  imports Send_Command
begin

text \<open>
  The start of the program, \<open>welcome\<close> and \<open>main\<close> of \<open>src/src/main.rs\<close>: the arguments of the process,
  the first configuration, the creation or the unlocking of the wallet, the listeners and servers
  that start by themselves, and then the daemon or the command loop. The stages run in the order of
  the code; \<open>std::process::exit\<close> and the end of \<open>main\<close> are values of a stage. The static of the runtime
  mode, which \<open>welcome\<close> sets once, is an argument of what comes after it. At the end are what the start
  keeps, where it stops, and concrete runs.
\<close>

section \<open>The code\<close>

subsection \<open>Stages\<close>

datatype 'a stage = Goes_on 'a | Ends nat

definition stage_bind ::
  "('sk, 's, 'st, 'a stage) dio \<Rightarrow> ('a \<Rightarrow> ('sk, 's, 'st, 'b stage) dio) \<Rightarrow> ('sk, 's, 'st, 'b stage) dio" where
  "stage_bind m f = io_bind m (\<lambda>r. case r of Goes_on x \<Rightarrow> f x | Ends n \<Rightarrow> io_return (Ends n))"

definition goes_on :: "'a \<Rightarrow> ('sk, 's, 'st, 'a stage) dio" where
  "goes_on x = io_return (Goes_on x)"

definition ends :: "nat \<Rightarrow> ('sk, 's, 'st, 'a stage) dio" where
  "ends n = io_return (Ends n)"

definition ends_with :: "string \<Rightarrow> nat \<Rightarrow> ('sk, 's, 'st, 'a stage) dio" where
  "ends_with t n = io_bind (tell t) (\<lambda>_. ends n)"

text \<open>A server of the API, as its thread gets it.\<close>

record ('pk, 'sk, 'st) api_server =
  sv_name :: string
  sv_address :: string
  sv_router :: "('pk, 'sk, 'st) api_router"
  sv_tls :: bool

text \<open>What the start needs of the system: a read of no bytes gives the empty text.\<close>

record ('pk, 'sk, 'st, 's) start_env =
  st_version :: string
  st_set_mining_mode :: "chain_types \<Rightarrow> ('st, unit) lio"
  st_backend_new :: "string \<Rightarrow> ('st, 's) lio"
  st_read_line :: "('st, string) lio"
  st_build_tls :: "string \<Rightarrow> string \<Rightarrow> ('st, unit) lio"
  st_to_base64 :: "string \<Rightarrow> string"
  st_spawn_api :: "('pk, 'sk, 'st) api_server \<Rightarrow> ('st, unit) lio"
  st_join :: "string \<Rightarrow> ('st, unit) lio"
  st_load_history :: "string \<Rightarrow> ('st, string list) lio"
  st_save_history :: "string \<Rightarrow> string list \<Rightarrow> ('st, unit) lio"

subsection \<open>The arguments of the process\<close>

definition process_app :: app where
  "process_app = App ''mwc713''
     [option_arg ''config-path'', option_arg ''log-config-path'', option_arg ''account'', flag_arg ''disable-history'',
      option_arg ''passphrase'', flag_arg ''daemon'', flag_arg ''floonet'', option_arg ''ready-phrase''] []
     [App ''init'' [] [] [], App ''recover'' [words_arg] [] [], App ''state'' [] [] []]"

definition runtime_mode_of :: "matches \<Rightarrow> runtime_mode" where
  "runtime_mode_of m = (if is_present m ''daemon'' then Daemon else Cli)"

definition asked_for :: "matches \<Rightarrow> string \<Rightarrow> bool" where
  "asked_for m name \<longleftrightarrow> subcommand_matches m name \<noteq> None"

definition welcome_config ::
  "('pk, 'sk, 'sig, 'st, 's, 'b) cmdenv \<Rightarrow> ('pk, 'sk, 'st, 's) start_env \<Rightarrow> matches \<Rightarrow> ('st, 'sk wallet713_config) wio" where
  "welcome_config C S m =
     (let c = (if is_present m ''floonet'' then Floonet else Mainnet)
      in io_bind (on_fs (do_config (cm_cfg C) (config_args_of m) c None (value_of m ''config-path''))) (\<lambda>config.
         io_bind (lib_quiet (st_set_mining_mode S (chain config))) (\<lambda>_.
         io_return config)))"

definition open_session ::
  "('pk, 'sk, 'sig, 'st, 's, 'b) cmdenv \<Rightarrow> ('pk, 'sk, 'st, 's) start_env \<Rightarrow> matches \<Rightarrow> ('st, ('sk, 's) session) wio" where
  "open_session C S m =
     io_bind (io_expect (welcome_config C S m)) (\<lambda>config.
     let config = (if is_present m ''disable-history'' then config\<lparr>disable_history := Some True\<rparr> else config)
     in io_bind (io_expect (lib_quiet (st_backend_new S (get_data_path config)))) (\<lambda>book.
        io_bind (println (''Welcome to wallet713 for MWC v'' @ st_version S)) (\<lambda>_.
        io_return \<lparr>se_config = config, se_wallet = wallet_new (max_auto_accept_invoice config), se_book = book, se_keybase = None,
          se_grinbox = None, se_mwcmqs = None, se_recv = \<lparr>recv_account = None, recv_pass = None\<rparr>, se_safe = False\<rparr>)))"

subsection \<open>The first wallet\<close>

text \<open>What to do without a seed: the subcommand, or an answer of the user.\<close>

definition choose_option :: "('pk, 'sk, 'st, 's) start_env \<Rightarrow> matches \<Rightarrow> ('sk, 's, 'st, string stage) dio" where
  "choose_option S m =
     (if asked_for m ''recover'' then goes_on ''recover''
      else if asked_for m ''init'' then goes_on ''init''
      else
        io_bind (io_for tell [''Please choose an option'', '' 1) init a new wallet'', '' 2) recover from mnemonic'', '' 3) exit'', ''> '']) (\<lambda>_.
        io_bind (io_expect (on_world (lib_quiet (st_read_line S)))) (\<lambda>line.
        if line = [] then ends_with ''ERROR: invalid option'' 1 else goes_on line)))"

definition process_passphrase :: "matches \<Rightarrow> ('sk, 's, 'st, string) dio" where
  "process_passphrase m = (if is_present m ''passphrase'' then need m ''passphrase'' else io_return [])"

definition read_mnemonic :: "('pk, 'sk, 'st, 's) start_env \<Rightarrow> matches \<Rightarrow> ('sk, 's, 'st, string stage) dio" where
  "read_mnemonic S m =
     (case subcommand_matches m ''recover'' of
        Some recover \<Rightarrow>
          if is_present recover ''words'' then io_bind (need recover ''words'') goes_on else goes_on []
      | None \<Rightarrow>
          io_bind (io_expect (on_world (lib_quiet (st_read_line S)))) (\<lambda>mnemonic.
          if mnemonic = [] then ends_with ''ERROR: invalid mnemonic'' 1 else goes_on (str_trim mnemonic)))"

definition run_first ::
  "('pk, 'sk, 'sig, 'st) wenv \<Rightarrow> ('pk, 'sk, 'sig, 'st, 's, 'b) cmdenv \<Rightarrow> string \<Rightarrow> ('sk, 's, 'st, unit stage) dio" where
  "run_first E C cmd =
     io_match (do_command E C cmd) goes_on (\<lambda>e. ends_with (''ERROR: '' @ err_display e) 1)"

definition set_password_text :: string where
  "set_password_text = ''Set an optional password to secure your wallet with. Leave blank for no password.''"

definition first_wallet ::
  "('pk, 'sk, 'sig, 'st) wenv \<Rightarrow> ('pk, 'sk, 'sig, 'st, 's, 'b) cmdenv \<Rightarrow> ('pk, 'sk, 'st, 's) start_env \<Rightarrow> matches \<Rightarrow>
   ('sk, 's, 'st, unit stage) dio" where
  "first_wallet E C S m =
     stage_bind (choose_option S m) (\<lambda>line.
     io_bind (process_passphrase m) (\<lambda>passphrase.
     let line = str_trim line
     in if line \<in> set [''1'', ''init'', []] then
          io_bind (tell ''Initialising a new wallet'') (\<lambda>_.
          io_bind (tell set_password_text) (\<lambda>_.
          run_first E C (''init -p '' @ passphrase)))
        else if line \<in> set [''2'', ''recover'', ''restore''] then
          io_bind (tell ''Recovering from mnemonic'') (\<lambda>_.
          io_bind (tell ''Mnemonic: '') (\<lambda>_.
          stage_bind (read_mnemonic S m) (\<lambda>mnemonic.
          io_bind (tell set_password_text) (\<lambda>_.
          run_first E C (''recover -m '' @ mnemonic @ '' -p '' @ passphrase)))))
        else if line \<in> set [''3'', ''exit''] then ends 0
        else ends_with ''ERROR: invalid option'' 1))"

text \<open>With a seed, the two subcommands are refused.\<close>

definition seed_stage ::
  "('pk, 'sk, 'sig, 'st) wenv \<Rightarrow> ('pk, 'sk, 'sig, 'st, 's, 'b) cmdenv \<Rightarrow> ('pk, 'sk, 'st, 's) start_env \<Rightarrow> matches \<Rightarrow>
   ('sk, 's, 'st, unit stage) dio" where
  "seed_stage E C S m =
     io_bind get_session (\<lambda>s.
     io_bind (on_world (seed_exists E (se_config s))) (\<lambda>has_seed.
     if asked_for m ''state'' then ends_with (if has_seed then ''Initialized'' else ''Uninitialized'') 0
     else if \<not> has_seed then first_wallet E C S m
     else if asked_for m ''init'' then ends_with ''Seed file already exists! Not initializing'' 1
     else if asked_for m ''recover'' then ends_with ''Seed file already exists! Not recovering'' 1
     else goes_on ()))"

subsection \<open>Unlocking\<close>

definition unlock_stage ::
  "('pk, 'sk, 'sig, 'st) wenv \<Rightarrow> ('pk, 'sk, 'sig, 'st, 's, 'b) cmdenv \<Rightarrow> matches \<Rightarrow> ('sk, 's, 'st, unit stage) dio" where
  "unlock_stage E C m =
     io_bind get_session (\<lambda>s.
     if \<not> is_locked (se_wallet s) then goes_on ()
     else
       let account = unwrap_or (value_of m ''account'') ''default''
       in stage_bind
            (if is_present m ''passphrase'' then
               io_bind (password_prompt C (value_of m ''passphrase'')) (\<lambda>passphrase.
               io_match (wallet_mut (unlock E (se_config s) account passphrase))
                 (\<lambda>_. goes_on True) (\<lambda>e. ends_with (''ERROR: '' @ err_display e) 1))
             else io_match (wallet_mut (unlock E (se_config s) account [])) (\<lambda>_. goes_on True) (\<lambda>_. goes_on False))
            (\<lambda>has_wallet.
               io_bind (if has_wallet then io_match (session_address_key E) io_return (\<lambda>e. tell (''ERROR: '' @ err_display e))
                        else tell ''Unlock your existing wallet or type `init` to initiate a new one'') goes_on))"

subsection \<open>Listeners and servers\<close>

text \<open>The setting of the Grinbox listener starts the one of MWCMQS. The value is whether a keybase thread runs.\<close>

definition start_listeners ::
  "('pk, 'sk, 'sig, 'st) wenv \<Rightarrow> ('pk, 'sk, 'sig, 'st, 's, 'b) cmdenv \<Rightarrow> runtime_mode \<Rightarrow> ('sk, 's, 'st, bool) dio" where
  "start_listeners E C mode =
     io_bind get_session (\<lambda>s.
     io_bind (if cfg_grinbox_listener_auto_start mode (se_config s) then
                io_match (start_mwcmqs_listener E C) (\<lambda>b. set_session (\<lambda>s. s\<lparr>se_mwcmqs := Some b\<rparr>))
                  (\<lambda>e. tell (''ERROR: '' @ err_display e))
              else io_return ()) (\<lambda>_.
     if cfg_keybase_listener_auto_start (se_config s) then
       io_match (start_keybase_listener E C)
         (\<lambda>b. io_bind (set_session (\<lambda>s. s\<lparr>se_keybase := Some b\<rparr>)) (\<lambda>_. io_return True))
         (\<lambda>e. io_bind (tell (''ERROR: '' @ err_display e)) (\<lambda>_. io_return False))
     else io_return False))"

definition tls_config ::
  "('pk, 'sk, 'st, 's) start_env \<Rightarrow> 'sk wallet713_config \<Rightarrow> ('sk, 's, 'st, bool stage) dio" where
  "tls_config S config =
     (case (tls_certificate_file config, tls_certificate_key config) of
        (Some file, Some key) \<Rightarrow>
          io_bind (tell ''TLS is enabled. Wallet will use secure connection for Rest API'') (\<lambda>_.
          io_match (on_world (lib_quiet (st_build_tls S file key))) (\<lambda>_. goes_on True)
            (\<lambda>e. ends_with (''ERROR: Unable to read and validate PEM certificated from config '' @ err_display e) 1))
      | _ \<Rightarrow>
          io_bind (tell ''WARNING: TLS configuration is not set, non secure HTTP connection will be used. It is recommended to use secure TLS connection.'') (\<lambda>_.
          goes_on False))"

text \<open>The brokers as the routers get them: copies of what the session has at the start.\<close>

definition session_owner_router ::
  "('pk, 'sk, 'sig, 'st) wenv \<Rightarrow> ('pk, 'sk, 'sig, 'st, 's, 'b) cmdenv \<Rightarrow> ('pk, 'sk, 'st, 's) start_env \<Rightarrow> ('sk, 's) session \<Rightarrow>
   ('pk, 'sk, 'st) api_router" where
  "session_owner_router E C S s =
     build_owner_api_router (st_to_base64 S) (se_wallet s)
       (map_option (\<lambda>(p, sub). (mwcmqs_post_slate E (cm_qenv C) p, sub)) (se_mwcmqs s))
       (map_option (\<lambda>(p, sub). (grinbox_publish E C p, sub)) (se_grinbox s))
       (map_option (\<lambda>(p, sub). (keybase_post_slate (cm_kenv C) p, sub)) (se_keybase s))
       (owner_api_secret (se_config s)) (owner_api_include_foreign (se_config s)) (se_config s)"

definition session_foreign_router ::
  "('pk, 'sk, 'sig, 'st) wenv \<Rightarrow> ('pk, 'sk, 'sig, 'st, 's, 'b) cmdenv \<Rightarrow> ('pk, 'sk, 'st, 's) start_env \<Rightarrow> ('sk, 's) session \<Rightarrow>
   ('pk, 'sk, 'st) api_router" where
  "session_foreign_router E C S s =
     build_foreign_api_router (st_to_base64 S) (se_wallet s)
       (map_option (\<lambda>(p, sub). (mwcmqs_post_slate E (cm_qenv C) p, sub)) (se_mwcmqs s))
       (map_option (\<lambda>(p, sub). (grinbox_publish E C p, sub)) (se_grinbox s))
       (map_option (\<lambda>(p, sub). (keybase_post_slate (cm_kenv C) p, sub)) (se_keybase s))
       (foreign_api_secret (se_config s)) (se_config s)"

definition start_server :: "('pk, 'sk, 'st, 's) start_env \<Rightarrow> ('pk, 'sk, 'st) api_server \<Rightarrow> ('sk, 's, 'st, bool) dio" where
  "start_server S sv = io_bind (io_expect (on_world (lib_quiet (st_spawn_api S sv)))) (\<lambda>_. io_return True)"

definition start_owner_api ::
  "('pk, 'sk, 'sig, 'st) wenv \<Rightarrow> ('pk, 'sk, 'sig, 'st, 's, 'b) cmdenv \<Rightarrow> ('pk, 'sk, 'st, 's) start_env \<Rightarrow> bool \<Rightarrow> ('sk, 's, 'st, bool) dio" where
  "start_owner_api E C S tls =
     io_bind get_session (\<lambda>s.
     if owner_api (se_config s) = Some True then
       io_bind (tell (''starting listener for owner api on ['' @ cfg_owner_api_address (se_config s) @ '']'')) (\<lambda>_.
       io_bind (if owner_api_secret (se_config s) = None
                then tell ''WARNING: no api secret for owner api, it is recommended to set one.'' else io_return ()) (\<lambda>_.
       start_server S \<lparr>sv_name = ''owner-api-gotham'', sv_address = cfg_owner_api_address (se_config s),
         sv_router = session_owner_router E C S s, sv_tls = tls\<rparr>))
     else io_return False)"

definition start_foreign_api ::
  "('pk, 'sk, 'sig, 'st) wenv \<Rightarrow> ('pk, 'sk, 'sig, 'st, 's, 'b) cmdenv \<Rightarrow> ('pk, 'sk, 'st, 's) start_env \<Rightarrow> bool \<Rightarrow> ('sk, 's, 'st, bool) dio" where
  "start_foreign_api E C S tls =
     io_bind get_session (\<lambda>s.
     if foreign_api (se_config s) = Some True then
       io_bind (tell (''starting listener for foreign api on ['' @ cfg_foreign_api_address (se_config s) @ '']'')) (\<lambda>_.
       io_bind (if foreign_api_secret (se_config s) \<noteq> None
                then tell (''WARNING: setting the foreign_api_secret will prevent mwc-wallet from sending to this wallet because it '' @
                  ''doesn't support basic auth. mwc-qt-wallet and mwc713 support it and sender need to be aware about that.'')
                else io_return ()) (\<lambda>_.
       start_server S \<lparr>sv_name = ''foreign-api-gotham'', sv_address = cfg_foreign_api_address (se_config s),
         sv_router = session_foreign_router E C S s, sv_tls = tls\<rparr>))
     else io_return False)"

definition start_apis ::
  "('pk, 'sk, 'sig, 'st) wenv \<Rightarrow> ('pk, 'sk, 'sig, 'st, 's, 'b) cmdenv \<Rightarrow> ('pk, 'sk, 'st, 's) start_env \<Rightarrow>
   ('sk, 's, 'st, (bool \<times> bool) stage) dio" where
  "start_apis E C S =
     io_bind get_session (\<lambda>s.
     if cfg_owner_api (se_config s) \<or> cfg_foreign_api (se_config s) then
       stage_bind (tls_config S (se_config s)) (\<lambda>tls.
       io_bind (start_owner_api E C S tls) (\<lambda>own.
       io_bind (start_foreign_api E C S tls) (\<lambda>foreign.
       goes_on (own, foreign))))
     else goes_on (False, False))"

subsection \<open>Daemon and command loop\<close>

definition join_thread :: "('pk, 'sk, 'st, 's) start_env \<Rightarrow> bool \<Rightarrow> string \<Rightarrow> ('sk, 's, 'st, unit) dio" where
  "join_thread S started name = (if started then io_expect (on_world (lib_quiet (st_join S name))) else io_return ())"

text \<open>The handle of the Grinbox listener is never set, and MWCMQS has none.\<close>

definition daemon ::
  "('pk, 'sk, 'st, 's) start_env \<Rightarrow> bool \<Rightarrow> bool \<times> bool \<Rightarrow> ('sk, 's, 'st, nat) dio" where
  "daemon S keybase = (\<lambda>(own, foreign).
     io_bind (join_thread S keybase ''keybase-brocker'') (\<lambda>_.
     io_bind (join_thread S own ''owner-api-gotham'') (\<lambda>_.
     io_bind (join_thread S foreign ''foreign-api-gotham'') (\<lambda>_.
     io_return 0))))"

definition CLI_HISTORY_PATH :: string where
  "CLI_HISTORY_PATH = ''.history''"

definition interactive ::
  "('pk, 'sk, 'sig, 'st) wenv \<Rightarrow> ('pk, 'sk, 'sig, 'st, 's, 'b) cmdenv \<Rightarrow> ('pk, 'sk, 'st, 's) start_env \<Rightarrow> string list \<Rightarrow>
   ('sk, 's, 'st, nat) dio" where
  "interactive E C S texts =
     io_bind get_session (\<lambda>s.
     io_bind (io_expect (on_world (on_fs (default_home_path (cm_cfg C) (chain (se_config s)))))) (\<lambda>home.
     let path = path_join home CLI_HISTORY_PATH
     in io_bind (io_match (on_world (lib_quiet (st_load_history S path))) io_return (\<lambda>_. io_return [])) (\<lambda>history.
        io_bind (command_loop E C texts history) (\<lambda>history.
        io_bind (io_ignore (on_world (lib_quiet (st_save_history S path history)))) (\<lambda>_.
        io_return 0)))))"

definition startup ::
  "('pk, 'sk, 'sig, 'st) wenv \<Rightarrow> ('pk, 'sk, 'sig, 'st, 's, 'b) cmdenv \<Rightarrow> ('pk, 'sk, 'st, 's) start_env \<Rightarrow> matches \<Rightarrow>
   ('sk, 's, 'st, (bool \<times> bool \<times> bool) stage) dio" where
  "startup E C S m =
     stage_bind (seed_stage E C S m) (\<lambda>_.
     stage_bind (unlock_stage E C m) (\<lambda>_.
     io_bind (tell ''Use `help` to see available commands'') (\<lambda>_.
     io_bind (start_listeners E C (runtime_mode_of m)) (\<lambda>keybase.
     stage_bind (start_apis E C S) (\<lambda>apis.
     goes_on (keybase, apis))))))"

text \<open>The program after the session is there; the value is the exit code.\<close>

definition program ::
  "('pk, 'sk, 'sig, 'st) wenv \<Rightarrow> ('pk, 'sk, 'sig, 'st, 's, 'b) cmdenv \<Rightarrow> ('pk, 'sk, 'st, 's) start_env \<Rightarrow> matches \<Rightarrow> string list \<Rightarrow>
   ('sk, 's, 'st, nat) dio" where
  "program E C S m texts =
     io_bind (startup E C S m) (\<lambda>r. case r of
       Ends n \<Rightarrow> io_return n
     | Goes_on (keybase, apis) \<Rightarrow>
         if runtime_mode_of m = Daemon then daemon S keybase apis else interactive E C S texts)"

definition main ::
  "('pk, 'sk, 'sig, 'st) wenv \<Rightarrow> ('pk, 'sk, 'sig, 'st, 's, 'b) cmdenv \<Rightarrow> ('pk, 'sk, 'st, 's) start_env \<Rightarrow> matches \<Rightarrow> string list \<Rightarrow>
   ('st, nat) wio" where
  "main E C S m texts =
     io_bind (open_session C S m) (\<lambda>s w. case program E C S m texts (w, s) of (r, (w', s')) \<Rightarrow> (r, w'))"

section \<open>What the start does\<close>

lemma stage_goes_on: "m x = (Ok (Goes_on v), y) \<Longrightarrow> stage_bind m f x = f v y"
  by (simp add: stage_bind_def io_bind_def)

lemma stage_ends: "m x = (Ok (Ends n), y) \<Longrightarrow> stage_bind m f x = (Ok (Ends n), y)"
  by (simp add: stage_bind_def io_bind_def io_return_def)

lemma ends_with_apply: "ends_with t n (w, s) = (Ok (Ends n), (w\<lparr>w_out := w_out w @ [t]\<rparr>, s))"
  by (simp add: ends_with_def bind_tell ends_def io_return_def)

lemma seed_exists_quiet:
  assumes "seed_exists E config w = (r, w')"
  shows "w_trace w' = w_trace w \<and> w_fs w' = w_fs w \<and> w_out w' = w_out w"
  using assms by (auto simp: seed_exists_def get_data_path_str_def io_match_def lib_quiet_def io_return_def split: prod.splits outcome.splits)

lemma program_ends:
  assumes "startup E C S m x = (Ok (Ends n), y)"
  shows "program E C S m texts x = (Ok n, y)"
  using assms by (simp add: program_def io_bind_def io_return_def)

lemma seed_stage_ends:
  assumes "seed_stage E C S m x = (Ok (Ends n), y)"
  shows "program E C S m texts x = (Ok n, y)"
  by (rule program_ends) (unfold startup_def, rule stage_ends [where m = "seed_stage E C S m", OF assms])

lemma seed_stage_apply:
  assumes "seed_exists E (se_config s) w = (Ok has_seed, w1)"
  shows "seed_stage E C S m (w, s) =
    (if asked_for m ''state'' then ends_with (if has_seed then ''Initialized'' else ''Uninitialized'') 0
     else if \<not> has_seed then first_wallet E C S m
     else if asked_for m ''init'' then ends_with ''Seed file already exists! Not initializing'' 1
     else if asked_for m ''recover'' then ends_with ''Seed file already exists! Not recovering'' 1
     else goes_on ()) (w1, s)"
  unfolding seed_stage_def bind_get_session by (rule bind_on_world) (rule assms)

text \<open>
  C24: a process that finds a seed and is asked to create or recover a wallet, or for its state, ends
  with a message and nothing else: no call of the wallet library, no file written, no wallet opened.
\<close>

theorem startup_keeps_seed:
  assumes "seed_exists E (se_config s) w = (Ok True, w1)"
    and "asked_for m ''state'' \<or> asked_for m ''init'' \<or> asked_for m ''recover''"
  shows "\<exists>w'. program E C S m texts (w, s) = (Ok (if asked_for m ''state'' then 0 else 1), (w', s)) \<and>
    w_trace w' = w_trace w \<and> w_fs w' = w_fs w"
proof -
  have "\<exists>t. seed_stage E C S m (w, s) = (Ok (Ends (if asked_for m ''state'' then 0 else 1)), (w1\<lparr>w_out := w_out w1 @ [t]\<rparr>, s))"
    using assms(2) by (auto simp: seed_stage_apply [OF assms(1)] ends_with_apply)
  then obtain t where "seed_stage E C S m (w, s) = (Ok (Ends (if asked_for m ''state'' then 0 else 1)), (w1\<lparr>w_out := w_out w1 @ [t]\<rparr>, s))" ..
  from seed_stage_ends [OF this] show ?thesis using seed_exists_quiet [OF assms(1)] by auto
qed

text \<open>
  C30: of the mnemonic on the command line of the process only the first word is used: the recovery is
  started with that word, whatever words follow it.
\<close>

theorem startup_recovers_first_word:
  assumes "seed_exists E (se_config s) w = (Ok False, w1)" and "subcommand_matches m ''recover'' = Some r"
    and "values_of r ''words'' = Some (x # xs)" and "\<not> is_present m ''passphrase''"
  shows "\<exists>w2. off_wallet w1 w2 \<and> seed_stage E C S m (w, s) = run_first E C (''recover -m '' @ x @ '' -p '') (w2, s)"
proof -
  have sub: "m_sub m = Some (''recover'', r)"
    using assms(2) by (auto simp: subcommand_matches_def split: option.splits if_splits)
  have a: "asked_for m ''recover''" "\<not> asked_for m ''state''"
    using sub by (simp_all add: asked_for_def subcommand_matches_def)
  have c: "choose_option S m y = (Ok (Goes_on ''recover''), y)" for y using a by (simp add: choose_option_def goes_on_def io_return_def)
  have n: "read_mnemonic S m y = (Ok (Goes_on x), y)" for y
    using assms(2,3) by (simp add: read_mnemonic_def values_of_def is_present_def need_def value_of_def goes_on_def io_return_def)
  have t: "str_trim ''recover'' = ''recover''" by code_simp
  show ?thesis
    unfolding seed_stage_apply [OF assms(1)] using a
    by (simp add: first_wallet_def stage_goes_on [where m = "choose_option S m", OF c] process_passphrase_def assms(4) t bind_tell stage_goes_on [where m = "read_mnemonic S m", OF n])
       (rule exI, rule conjI [rotated], rule refl, simp add: off_wallet_def)
qed

text \<open>What the last stage of a start can rely on: the session a listener was started in keeps its settings.\<close>

lemma wallet_mut_config: "wallet_mut f (w, s) = (r, (w', s')) \<Longrightarrow> se_config s' = se_config s"
  by (auto simp: wallet_mut_def split: prod.splits)

lemma unlock_for_listener_config:
  assumes "unlock_for_listener E (w, s) = (r, (w', s'))"
  shows "se_config s' = se_config s"
  using assms by (auto simp: unlock_for_listener_def bind_get_session io_return_def split: if_splits dest: wallet_mut_config)

lemma start_mwcmqs_listener_config:
  assumes "start_mwcmqs_listener E C (w, s) = (Ok b, (w', s'))"
  shows "se_config s' = se_config s"
proof -
  obtain r w1 s1 where u: "unlock_for_listener E (w, s) = (r, (w1, s1))" by (metis prod.exhaust)
  have "r = Ok ()" using assms u by (cases r) (auto simp: start_mwcmqs_listener_def io_bind_def)
  with u have u': "unlock_for_listener E (w, s) = (Ok (), (w1, s1))" by simp
  have "s' = s1" using assms
    by (simp add: start_mwcmqs_listener_def io_bind_apply_Ok [where m = "unlock_for_listener E", OF u'] bind_tell bind_get_session)
       (auto simp: io_bind_def io_lift_def on_world_def io_return_def split: prod.splits outcome.splits)
  with unlock_for_listener_config [OF u] show ?thesis by simp
qed

lemma no_apis:
  assumes "\<not> cfg_owner_api (se_config s)" and "\<not> cfg_foreign_api (se_config s)"
  shows "start_apis E C S (w, s) = (Ok (Goes_on (False, False)), (w, s))"
  using assms by (simp add: start_apis_def bind_get_session goes_on_def io_return_def)

lemma mwcmqs_only:
  assumes "cfg_grinbox_listener_auto_start mode (se_config s)" and "\<not> cfg_keybase_listener_auto_start (se_config s)"
    and "start_mwcmqs_listener E C (w, s) = (Ok b, (w', s'))"
  shows "start_listeners E C mode (w, s) = (Ok False, (w', s'\<lparr>se_mwcmqs := Some b\<rparr>))"
  using assms by (simp add: start_listeners_def bind_get_session) (simp add: io_bind_def io_match_def set_session_def io_return_def)

text \<open>
  C31: a daemon that is configured to listen, with no keybase listener and no API, starts the MWCMQS
  listener and ends at once with it: the code joins only the threads of the listeners it has a handle
  of, and the one of this listener is never kept.
\<close>

theorem daemon_leaves_mwcmqs:
  assumes "seed_stage E C S m x = (Ok (Goes_on ()), x1)" and "unlock_stage E C m x1 = (Ok (Goes_on ()), (w, s))"
    and "runtime_mode_of m = Daemon" and "cfg_grinbox_listener_auto_start Daemon (se_config s)"
    and "\<not> cfg_keybase_listener_auto_start (se_config s)" and "\<not> cfg_owner_api (se_config s)" and "\<not> cfg_foreign_api (se_config s)"
    and "start_mwcmqs_listener E C (w\<lparr>w_out := w_out w @ [''Use `help` to see available commands'']\<rparr>, s) = (Ok b, (w', s'))"
  shows "program E C S m texts x = (Ok 0, (w', s'\<lparr>se_mwcmqs := Some b\<rparr>))"
proof -
  have l: "start_listeners E C Daemon (w\<lparr>w_out := w_out w @ [''Use `help` to see available commands'']\<rparr>, s) =
      (Ok False, (w', s'\<lparr>se_mwcmqs := Some b\<rparr>))" using assms by (intro mwcmqs_only)
  have "se_config (s'\<lparr>se_mwcmqs := Some b\<rparr>) = se_config s" using start_mwcmqs_listener_config [OF assms(8)] by simp
  then have a: "start_apis E C S (w', s'\<lparr>se_mwcmqs := Some b\<rparr>) = (Ok (Goes_on (False, False)), (w', s'\<lparr>se_mwcmqs := Some b\<rparr>))"
    using assms(6,7) by (intro no_apis) simp_all
  have "startup E C S m x = (Ok (Goes_on (False, False, False)), (w', s'\<lparr>se_mwcmqs := Some b\<rparr>))"
    using assms(3)
    by (simp add: startup_def stage_goes_on [where m = "seed_stage E C S m", OF assms(1)]
        stage_goes_on [where m = "unlock_stage E C m", OF assms(2)] bind_tell io_bind_apply_Ok [where m = "start_listeners E C Daemon", OF l]
        stage_goes_on [where m = "start_apis E C S", OF a] goes_on_def io_return_def)
  then show ?thesis using assms(3)
    by (simp add: program_def io_bind_def daemon_def join_thread_def io_return_def)
qed

text \<open>
  C25: a process that is given a wrong passphrase for its wallet ends with code 1 before anything is
  started: the session is the one it had, but for the wallet, which the attempt to open it leaves
  locked (or, when only the updater failed to start, open).
\<close>

theorem wrong_passphrase_ends:
  assumes "seed_exists E (se_config s) w = (Ok True, w1)" and "m_sub m = None" and "is_locked (se_wallet s)"
    and "value_of m ''passphrase'' = Some p"
    and "unlock E (se_config s) (unwrap_or (value_of m ''account'') ''default'') p (w1, se_wallet s) = (Err e, (w2, self))"
  shows "program E C S m texts (w, s) =
      (Ok 1, (w2\<lparr>w_out := w_out w2 @ [''ERROR: '' @ err_display (Kind WalletUnlockFailed)]\<rparr>, s\<lparr>se_wallet := self\<rparr>))"
proof -
  have e: "e = Kind WalletUnlockFailed" using unlock_result [OF assms(5)] by simp
  have n: "\<not> asked_for m a" for a using assms(2) by (simp add: asked_for_def subcommand_matches_def)
  have s: "seed_stage E C S m (w, s) = (Ok (Goes_on ()), (w1, s))"
    by (simp add: seed_stage_apply [OF assms(1)] n goes_on_def io_return_def)
  have p: "is_present m ''passphrase''" using assms(4) by (auto simp: is_present_def value_of_def split: option.splits)
  have u: "unlock_stage E C m (w1, s) = (Ok (Ends 1), (w2\<lparr>w_out := w_out w2 @ [''ERROR: '' @ err_display e]\<rparr>, s\<lparr>se_wallet := self\<rparr>))"
    using assms(3-5) p
    by (simp add: unlock_stage_def bind_get_session Let_def)
       (rule stage_ends, simp add: password_prompt_def io_bind_def io_return_def io_match_def wallet_mut_def ends_with_apply)
  have "startup E C S m (w, s) = (Ok (Ends 1), (w2\<lparr>w_out := w_out w2 @ [''ERROR: '' @ err_display e]\<rparr>, s\<lparr>se_wallet := self\<rparr>))"
    by (simp add: startup_def stage_goes_on [where m = "seed_stage E C S m", OF s] stage_ends [where m = "unlock_stage E C m", OF u])
  from program_ends [OF this] show ?thesis by (simp add: e)
qed

text \<open>The servers are started with the secrets of the configuration: a request without the credentials reaches no handler.\<close>

lemma owner_server_guarded:
  assumes "owner_api_secret (se_config s) = Some secret" and "header \<noteq> Some (''Basic '' @ st_to_base64 S (''mwc:'' @ secret))"
  shows "auth_call (ar_auth (session_owner_router E C S s)) header rest w \<in> {(Panic, w), (Ok (create_response 401 [] []), w)}"
  using auth_guards_chain [of header "st_to_base64 S" secret, OF assms(2)] assms(1) by (simp add: session_owner_router_def build_owner_api_router_def)

lemma foreign_server_guarded:
  assumes "foreign_api_secret (se_config s) = Some secret" and "header \<noteq> Some (''Basic '' @ st_to_base64 S (''mwc:'' @ secret))"
  shows "auth_call (ar_auth (session_foreign_router E C S s)) header rest w \<in> {(Panic, w), (Ok (create_response 401 [] []), w)}"
  using auth_guards_chain [of header "st_to_base64 S" secret, OF assms(2)] assms(1) by (simp add: session_foreign_router_def build_foreign_api_router_def)

section \<open>Witnesses\<close>

definition demo_start :: "(bytes, bytes, unit, unit) start_env" where
  "demo_start = \<lparr>st_version = ''4'', st_set_mining_mode = (\<lambda>_ s. (Ok (), s)), st_backend_new = (\<lambda>_ s. (Ok (), s)),
     st_read_line = (\<lambda>s. (Ok [], s)), st_build_tls = (\<lambda>_ _ s. (Ok (), s)), st_to_base64 = (\<lambda>t. t),
     st_spawn_api = (\<lambda>_ s. (Ok (), s)), st_join = (\<lambda>_ s. (Ok (), s)), st_load_history = (\<lambda>_ s. (Ok [], s)),
     st_save_history = (\<lambda>_ _ s. (Ok (), s))\<rparr>"

text \<open>A library whose wallet has a seed, and one that has none.\<close>

definition demo_seeded :: "bool \<Rightarrow> (bytes, bytes, bytes, unit) wenv" where
  "demo_seeded b = demo_refusing_wenv\<lparr>seed_file_exists := (\<lambda>_ s. (Ok b, s))\<rparr>"

lemma demo_seed_exists: "\<exists>w1. seed_exists (demo_seeded b) (se_config demo_session) demo_world = (Ok b, w1)"
proof -
  have "\<forall>b. fst (seed_exists (demo_seeded b) (se_config demo_session) demo_world) = Ok b" by code_simp
  then show ?thesis by (metis prod.collapse)
qed

theorem startup_keeps_seed_witness:
  "\<exists>x. program (demo_seeded True) demo_cm demo_start (Matches [] (Some (''init'', Matches [] None))) [] (demo_world, demo_session) = (Ok 1, x)"
proof -
  let ?m = "Matches [] (Some (''init'', Matches [] None))"
  obtain w1 where w: "seed_exists (demo_seeded True) (se_config demo_session) demo_world = (Ok True, w1)" using demo_seed_exists by blast
  have "asked_for ?m ''init''" "\<not> asked_for ?m ''state''" by code_simp+
  with startup_keeps_seed [OF w, of ?m demo_cm demo_start "[]"] show ?thesis by auto
qed

theorem startup_recovers_first_word_witness:
  "\<exists>w2. seed_stage (demo_seeded False) demo_cm demo_start
       (Matches [] (Some (''recover'', Matches [(''words'', [''abandon'', ''about''])] None))) (demo_world, demo_session) =
     run_first (demo_seeded False) demo_cm ''recover -m abandon -p '' (w2, demo_session)"
proof -
  obtain w1 where w: "seed_exists (demo_seeded False) (se_config demo_session) demo_world = (Ok False, w1)" using demo_seed_exists by blast
  let ?r = "Matches [(''words'', [''abandon'', ''about''])] None"
  have "subcommand_matches (Matches [] (Some (''recover'', ?r))) ''recover'' = Some ?r"
    and "values_of ?r ''words'' = Some [''abandon'', ''about'']" and "\<not> is_present (Matches [] (Some (''recover'', ?r))) ''passphrase''"
    by code_simp+
  from startup_recovers_first_word [OF w this] show ?thesis by auto
qed

definition demo_daemon_session :: "(bytes, unit) session" where
  "demo_daemon_session = demo_session\<lparr>se_config := demo_cfg\<lparr>grinbox_address_key := Some demo_key, grinbox_listener_auto_start := Some True\<rparr>\<rparr>"

lemma mwcmqs_listener_starts:
  assumes "\<not> is_locked (se_wallet s)" and "get_mwcmqs_address E (se_config s) = Ok a" and "grinbox_address_key (se_config s) = Some k"
    and "\<And>st. cm_spawn C ''mwcmqs-brocker'' st = (Ok (), st)"
  obtains p w' s' where "start_mwcmqs_listener E C (w, s) = (Ok p, (w', s'))"
proof -
  have u: "unlock_for_listener E (w, s) = (Ok (), (w, s))"
    using assms(1) by (simp add: unlock_for_listener_def bind_get_session io_return_def)
  show ?thesis
    by (rule that, simp add: start_mwcmqs_listener_def io_bind_apply_Ok [where m = "unlock_for_listener E", OF u] bind_tell bind_get_session)
       (simp add: assms get_mwcmqs_secret_key_def mwcmq_publisher_new_def mwcmq_subscriber_new_def io_bind_def io_lift_def
          on_world_def lib_quiet_def io_return_def)
qed

lemma demo_daemon_address: "\<exists>a. get_mwcmqs_address (demo_seeded b) (se_config demo_daemon_session) = Ok a"
proof -
  have "public_key_to_base58_check (sha256 (demo_seeded b)) (demo_seeded b) demo_key (version_bytes (demo_seeded b)) = Ok demo_pk"
    using demo_mq_key by (simp add: mq_key_def public_key_to_base58_check_def serialize_public_key_def version_bytes_def
      demo_seeded_def demo_refusing_wenv_def demo_wenv_defs)
  moreover have "pk_from_secret_key (demo_seeded b) demo_key = Some demo_key"
    by (simp add: demo_seeded_def demo_refusing_wenv_def demo_wenv_defs)
  ultimately show ?thesis
    by (simp add: demo_daemon_session_def get_mwcmqs_address_def get_grinbox_public_key_def get_grinbox_secret_key_def
      public_key_from_secret_key_def mwcmqs_new_def)
qed

theorem daemon_leaves_mwcmqs_witness:
  "\<exists>w' s'. program (demo_seeded True) demo_cm demo_start (Matches [(''daemon'', [])] None) [] (demo_world, demo_daemon_session) = (Ok 0, (w', s')) \<and>
     se_mwcmqs s' \<noteq> None"
proof -
  let ?m = "Matches [(''daemon'', [])] None" and ?s = demo_daemon_session and ?E = "demo_seeded True"
  have f: "fst (seed_exists ?E (se_config ?s) demo_world) = Ok True" by code_simp
  define w1 where "w1 = snd (seed_exists ?E (se_config ?s) demo_world)"
  have x: "seed_exists ?E (se_config ?s) demo_world = (Ok True, w1)" using f by (simp add: w1_def prod_eq_iff)
  have l: "\<not> is_locked (se_wallet ?s)" "runtime_mode_of ?m = Daemon" "cfg_grinbox_listener_auto_start Daemon (se_config ?s)"
    "\<not> cfg_keybase_listener_auto_start (se_config ?s)" "\<not> cfg_owner_api (se_config ?s)" "\<not> cfg_foreign_api (se_config ?s)"
    by code_simp+
  have a: "seed_stage ?E demo_cm demo_start ?m (demo_world, ?s) = (Ok (Goes_on ()), (w1, ?s))"
    by (simp add: seed_stage_apply [OF x] asked_for_def subcommand_matches_def goes_on_def io_return_def)
  have b: "unlock_stage ?E demo_cm ?m (w1, ?s) = (Ok (Goes_on ()), (w1, ?s))"
    using l(1) by (simp add: unlock_stage_def bind_get_session goes_on_def io_return_def)
  let ?x = "(w1\<lparr>w_out := w_out w1 @ [''Use `help` to see available commands'']\<rparr>, ?s)"
  obtain ad where d: "get_mwcmqs_address ?E (se_config ?s) = Ok ad" using demo_daemon_address by blast
  obtain p w' s' where "start_mwcmqs_listener ?E demo_cm ?x = (Ok p, (w', s'))"
    by (rule mwcmqs_listener_starts [OF l(1) d]) (auto simp: demo_daemon_session_def demo_cm_def)
  from daemon_leaves_mwcmqs [OF a b l(2-) this] show ?thesis by simp
qed

theorem wrong_passphrase_ends_witness:
  "\<exists>x. program (demo_seeded True) demo_cm demo_start (Matches [(''passphrase'', [''guess''])] None) []
     (demo_world, demo_session\<lparr>se_wallet := wallet_new None\<rparr>) = (Ok 1, x)"
proof -
  let ?m = "Matches [(''passphrase'', [''guess''])] None" and ?s = "demo_session\<lparr>se_wallet := wallet_new None\<rparr>" and ?E = "demo_seeded True"
  have f: "fst (seed_exists ?E (se_config ?s) demo_world) = Ok True" by code_simp
  define w1 where "w1 = snd (seed_exists ?E (se_config ?s) demo_world)"
  have x: "seed_exists ?E (se_config ?s) demo_world = (Ok True, w1)" using f by (simp add: w1_def prod_eq_iff)
  have l: "m_sub ?m = None" "is_locked (se_wallet ?s)" "value_of ?m ''passphrase'' = Some ''guess''" by code_simp+
  let ?u = "unlock ?E (se_config ?s) (unwrap_or (value_of ?m ''account'') ''default'') ''guess'' (w1, se_wallet ?s)"
  have "fst ?u = fail WalletUnlockFailed" unfolding w1_def by code_simp
  then obtain e w2 self where "?u = (Err e, (w2, self))" by (cases ?u) auto
  from wrong_passphrase_ends [OF x l this] show ?thesis by blast
qed

end
