(* ===== verification/Wallet_Error.thy ===== *)
theory Wallet_Error
  imports Error_Kind "HOL-Library.Sublist"
begin

text \<open>
  \<open>src/src/wallet/error.rs\<close>: the error type of the wallet module, which it exports and no other file
  of the program uses. The errors of the crates that some variants carry are a type parameter; an error
  is its kind with a backtrace, if one was taken.
\<close>

section \<open>The code\<close>

datatype 'x wallet_error_kind =
    WE_NotEnoughFunds u64 string u64 string | WE_Fee string | WE_LibTX 'x | WE_Keychain 'x | WE_Transaction 'x
    | WE_ClientCallback string | WE_Secp 'x | WE_CallbackImpl string | WE_Backend string | WE_Mnemonic | WE_Encryption
    | WE_Restore | WE_Format | WE_Deser 'x | WE_IO | WE_Node | WE_WalletComms string | WE_Hyper | WE_Uri
    | WE_Signature string | WE_DuplicateTransactionId | WE_WalletSeedExists | WE_WalletSeedDoesntExist
    | WE_WalletSeedDecryption | WE_TransactionDoesntExist string | WE_TransactionNotCancellable string
    | WE_TransactionCancellationError string | WE_TransactionDumpError string | WE_TransactionAlreadyConfirmed
    | WE_TransactionAlreadyReceived string | WE_TransactionBuildingNotCompleted u32 | WE_InvalidBIP32Depth
    | WE_AccountLabelAlreadyExists string | WE_UnknownAccountLabel string | WE_Committed 'x | WE_SlateVersionParse
    | WE_SlateDeser | WE_SlateVersion u16 | WE_GenericError string

fun wallet_error_display :: "'x wallet_error_kind \<Rightarrow> string" where
  "wallet_error_display (WE_NotEnoughFunds available available_disp needed needed_disp) =
     ''Not enough funds. Required: '' @ needed_disp @ '', Available: '' @ available_disp"
| "wallet_error_display (WE_Fee t) = ''Fee Error: '' @ t"
| "wallet_error_display (WE_LibTX t) = ''LibTx Error''"
| "wallet_error_display (WE_Keychain t) = ''Keychain error''"
| "wallet_error_display (WE_Transaction t) = ''Transaction error''"
| "wallet_error_display (WE_ClientCallback t) = ''Client Callback Error: '' @ t"
| "wallet_error_display (WE_Secp t) = ''Secp error''"
| "wallet_error_display (WE_CallbackImpl t) = ''Trait Implementation error''"
| "wallet_error_display (WE_Backend t) = ''Wallet store error: '' @ t"
| "wallet_error_display WE_Mnemonic = ''BIP39 Mnemonic (word list) Error''"
| "wallet_error_display WE_Encryption = ''Enc/Decryption error (check password?)''"
| "wallet_error_display WE_Restore = ''Restore Error''"
| "wallet_error_display WE_Format = ''JSON format error''"
| "wallet_error_display (WE_Deser t) = ''Ser/Deserialization error''"
| "wallet_error_display WE_IO = ''I/O error''"
| "wallet_error_display WE_Node = ''Node API error''"
| "wallet_error_display (WE_WalletComms t) = ''Wallet Communication Error: '' @ t"
| "wallet_error_display WE_Hyper = ''Hyper error''"
| "wallet_error_display WE_Uri = ''Uri parsing error''"
| "wallet_error_display (WE_Signature t) = ''Signature error: '' @ t"
| "wallet_error_display WE_DuplicateTransactionId = ''Duplicate transaction ID error''"
| "wallet_error_display WE_WalletSeedExists = ''Wallet seed exists error''"
| "wallet_error_display WE_WalletSeedDoesntExist = ''Wallet seed doesn't exist error''"
| "wallet_error_display WE_WalletSeedDecryption = ''Wallet seed decryption error''"
| "wallet_error_display (WE_TransactionDoesntExist t) = ''Transaction '' @ t @ '' doesn't exist''"
| "wallet_error_display (WE_TransactionNotCancellable t) = ''Transaction '' @ t @ '' cannot be cancelled''"
| "wallet_error_display (WE_TransactionCancellationError t) = ''Cancellation Error: '' @ t"
| "wallet_error_display (WE_TransactionDumpError t) = ''Tx dump Error: '' @ t"
| "wallet_error_display WE_TransactionAlreadyConfirmed = ''Transaction already confirmed error''"
| "wallet_error_display (WE_TransactionAlreadyReceived t) = ''Transaction '' @ t @ '' has already been received''"
| "wallet_error_display (WE_TransactionBuildingNotCompleted n) = ''Transaction building not completed: '' @ show_nat (unat n)"
| "wallet_error_display WE_InvalidBIP32Depth = ''Invalid BIP32 Depth (must be 1 or greater)''"
| "wallet_error_display (WE_AccountLabelAlreadyExists t) = ''Account Label '' @ [CHR 0x27] @ t @ [CHR 0x27] @ '' already exists''"
| "wallet_error_display (WE_UnknownAccountLabel t) = ''Unknown Account Label '' @ [CHR 0x27] @ t @ [CHR 0x27]"
| "wallet_error_display (WE_Committed t) = ''Committed Error''"
| "wallet_error_display WE_SlateVersionParse = ''Can't parse slate version''"
| "wallet_error_display WE_SlateDeser = ''Can't Deserialize slate''"
| "wallet_error_display (WE_SlateVersion n) = ''Unknown Slate Version: '' @ show_nat (unat n)"
| "wallet_error_display (WE_GenericError t) = ''Generic error: '' @ t"

record 'x wallet_error =
  we_inner :: "'x wallet_error_kind"
  we_backtrace :: "string option"

text \<open>\<open>impl Display for Error\<close>; the first argument is \<open>env::var("RUST_BACKTRACE")\<close>.\<close>

definition wallet_error_text :: "string option \<Rightarrow> 'x wallet_error \<Rightarrow> string" where
  "wallet_error_text rust_backtrace self =
     (let show_bt = (rust_backtrace = Some ''1'');
          backtrace = (case we_backtrace self of Some b \<Rightarrow> b | None \<Rightarrow> ''Unknown'');
          inner_output = wallet_error_display (we_inner self);
          backtrace_output = [CHR 0x0A] @ '' Backtrace: '' @ backtrace
      in if show_bt then inner_output @ backtrace_output else inner_output)"

definition wallet_error_kind_of :: "'x wallet_error \<Rightarrow> 'x wallet_error_kind" where
  "wallet_error_kind_of self = we_inner self"

text \<open>\<open>Context::new\<close> takes the backtrace of the place, if the system gives one.\<close>

definition from_kind :: "string option \<Rightarrow> 'x wallet_error_kind \<Rightarrow> 'x wallet_error" where
  "from_kind backtrace kind = \<lparr>we_inner = kind, we_backtrace = backtrace\<rparr>"

text \<open>The conversions from the errors of the crates; that of \<open>libtx\<close> is reduced to its kind, that of the store to its text.\<close>

datatype 'x crate_error =
  Io_error 'x | Keychain_error 'x | Libtx_error 'x | Transaction_error 'x | Ser_error 'x | Secp_error 'x | Committed_error 'x | Store_error 'x

fun from_crate_error :: "('x \<Rightarrow> string) \<Rightarrow> ('x \<Rightarrow> 'x) \<Rightarrow> string option \<Rightarrow> 'x crate_error \<Rightarrow> 'x wallet_error" where
  "from_crate_error show libtx_kind bt (Io_error e) = from_kind bt WE_IO"
| "from_crate_error show libtx_kind bt (Keychain_error e) = from_kind bt (WE_Keychain e)"
| "from_crate_error show libtx_kind bt (Libtx_error e) = from_kind bt (WE_LibTX (libtx_kind e))"
| "from_crate_error show libtx_kind bt (Transaction_error e) = from_kind bt (WE_Transaction e)"
| "from_crate_error show libtx_kind bt (Ser_error e) = from_kind bt (WE_Deser e)"
| "from_crate_error show libtx_kind bt (Secp_error e) = from_kind bt (WE_Secp e)"
| "from_crate_error show libtx_kind bt (Committed_error e) = from_kind bt (WE_Committed e)"
| "from_crate_error show libtx_kind bt (Store_error e) = from_kind bt (WE_Backend (show e))"

section \<open>What an error shows\<close>

lemma display_starts_with_kind: "prefix (wallet_error_display (wallet_error_kind_of e)) (wallet_error_text rb e)"
  by (simp add: wallet_error_text_def wallet_error_kind_of_def Let_def)

lemma display_without_backtrace: "rb \<noteq> Some ''1'' \<Longrightarrow> wallet_error_text rb e = wallet_error_display (wallet_error_kind_of e)"
  by (simp add: wallet_error_text_def wallet_error_kind_of_def Let_def)

text \<open>Only an error of the file system loses what it carried.\<close>

lemma from_crate_error_inject:
  assumes "\<And>x. e \<noteq> Io_error x" and "inj show" and "inj libtx_kind" and "wallet_error_kind_of (from_crate_error show libtx_kind bt e) = wallet_error_kind_of (from_crate_error show libtx_kind bt' e')"
  shows "e = e'"
  using assms by (cases e; cases e') (auto simp: from_kind_def wallet_error_kind_of_def dest: injD)

end
