(* ===== verification/Spec2Isabelle.thy ===== *)
theory Spec2Isabelle
  imports Startup Wallet_Error
begin

text \<open>
  A verification development for the command-line wallet \<^verbatim>\<open>mwc713\<close> (Rust, \<open>src/src\<close>).

  \<^bold>\<open>The program and its parts.\<close> A wallet (\<open>wallet/wallet.rs\<close>) holds at most one open wallet
  instance and offers the operations of the user: unlock, send, receive, finalize, invoices,
  proofs, repair. It works through \<open>wallet/api\<close>, which brackets the calls of the wallet library
  with the mutex of the instance, a progress console and the refresh from the node. Slates
  arrive from listeners, whose handler is the controller of \<open>main.rs\<close>, or over HTTP, where the
  handlers of \<open>api/handlers\<close> run in threads of their own under the executor. Peers are named by
  addresses (\<open>contacts/types.rs\<close>), which are base-58 texts (\<open>common/base58.rs\<close>,
  \<open>common/crypto.rs\<close>) and may be stored under names in an address book (\<open>contacts/backend.rs\<close>).
  Messages between peers are sealed (\<open>common/message.rs\<close>), and a sealed and signed answer is
  evidence of payment (\<open>wallet/types/tx_proof.rs\<close>).

  \<^bold>\<open>Theories and the code they model.\<close>
  \<^item> \<open>Prelude\<close>: outcomes of fallible code (\<open>Ok\<close>, \<open>Err\<close>, \<open>Panic\<close>, \<open>Hang\<close>), the state-passing
    \<open>io\<close> with its bind, matching and lifting, and generic lemmas. \<open>Rust_Std\<close>: strings as UTF-8
    bytes, number parsing and printing, paths and files.
  \<^item> \<open>Error_Kind\<close>: \<open>common/error_kind.rs\<close> with its messages; the runtime mode of
    \<open>common/mod.rs\<close>.
  \<^item> \<open>Base58\<close>: \<open>common/base58.rs\<close>. The encoder and decoder are the limb algorithms of the code;
    they are shown equal to base-58 notation, inverse to each other, and the exact inputs on
    which the decoder panics are given.
  \<^item> \<open>Crypto\<close>: \<open>common/crypto.rs\<close> and \<open>common/hasher.rs\<close>; the curve and the hashes are
    parameters.
  \<^item> \<open>Addresses\<close>: \<open>contacts/types.rs\<close>, with the regular expressions as executable matchers. A
    locale states what the two kinds of message-queue address share; it is interpreted on both.
  \<^item> \<open>Message\<close>, \<open>Tx_Proof\<close>: sealing and opening, and the proofs built on them.
  \<^item> \<open>Contacts\<close>: the address book over its backend, refined to a map from names to contacts, and
    the command \<open>do_contacts\<close> of \<open>main.rs\<close>.
  \<^item> \<open>Config\<close>: \<open>common/config.rs\<close> and the command \<open>do_config\<close>.
  \<^item> \<open>Bulk_Validate\<close>: \<open>calc_best_merge\<close> and \<open>txs_bulk_validate\<close> of \<open>wallet/api/api.rs\<close>.
  \<^item> \<open>Libwallet\<close>: the data of the wallet library and the record of its functions the code
    calls, the world (library state, files, console, the instance's mutex, the trace of library
    calls) and the primitives over it. \<open>Wallet_Api\<close>: the functions of \<open>wallet/api/api.rs\<close> and
    \<open>restore.rs\<close>. \<open>Wallet\<close>: \<open>wallet/wallet.rs\<close>, one definition per method.
  \<^item> \<open>Wallet_Reasoning\<close>: what every computation keeps of the world (a locale of frame relations,
    interpreted on the mutex, the trace and the console threads) and which computations answer.
    \<open>Wallet_Correct\<close>: the properties of the wallet.
  \<^item> \<open>Controller\<close>: \<open>Controller\<close> of \<open>main.rs\<close>. \<open>Executor\<close>: \<open>api/handlers/executor.rs\<close> as a step
    relation of two threads. \<open>Api_Handlers\<close>: \<open>api/auth.rs\<close>, \<open>api/router.rs\<close>,
    \<open>api/handlers/foreign.rs\<close> and \<open>owner.rs\<close>.
  \<^item> \<open>Broker\<close>: the traits of \<open>broker/types.rs\<close>. A handler is a record of its callbacks; what the
    senders of payments rely on in a publisher, and what a handler relies on in a subscriber, are
    the locales \<open>publisher_contract\<close> and \<open>subscriber_contract\<close>.
  \<^item> \<open>Grinbox\<close>: \<open>broker/protocol.rs\<close> and \<open>broker/grinbox.rs\<close>; the loop of \<open>subscribe\<close>, with
    connections that come and go and a stop at any moment, is a step relation. \<open>Keybase\<close>:
    \<open>broker/keybase.rs\<close>. \<open>Mwcmqs\<close>: \<open>broker/mwcmq.rs\<close>, the long-polling listener round by round.
    All three publishers interpret \<open>publisher_contract\<close>; the listeners of the first two
    interpret \<open>subscriber_contract\<close> (the third reports to the console itself and calls the
    handler for slates only).
  \<^item> \<open>Cli_Parser\<close>: \<open>cli/parser.rs\<close>, the grammar of the commands as data; that the matcher respects
    it is the predicate \<open>cli_ok\<close>. \<open>Commands\<close>: \<open>do_command\<close> of \<open>main.rs\<close>, one definition per command, the
    listeners it starts and stops, and the loop over the lines with its history; the variables of
    \<open>main\<close> that commands change are the record \<open>session\<close>. \<open>Commands_Correct\<close>: the commands are walked
    through once, in the locale \<open>session_frame\<close> of relations between sessions, interpreted on the
    history flag and on the listeners. \<open>Send_Command\<close>: the library calls of \<open>send\<close>, layer by layer.
  \<^item> \<open>Startup\<close>: \<open>welcome\<close> and \<open>main\<close> of \<open>main.rs\<close> up to the loop and after it: the arguments of the process,
    the first configuration, the first wallet, unlocking, the listeners and servers that start by
    themselves, the daemon, the history file. A stage goes on with a value or ends the process with
    its exit code. \<open>Wallet_Error\<close>: \<open>wallet/error.rs\<close>, an error type the program exports and does not use.

  \<^bold>\<open>What is shown.\<close> Payments: a transaction is posted only after its messages verified and the
  library finalized it; an invoice is paid only within the limit; outputs are locked only for
  a slate the publisher took. Evidence: an accepted proof commits the amount it states; a
  transaction is reported as validated only on evidence from the chain; the merge of outputs
  neither loses nor duplicates one. State: unlocking, and handling a slate with success, leave the
  account they should; a listener's handler posts nothing but the answer to a slate it received;
  the address book is a map. Progress: with a library that answers, the operations return; the
  chain scan ends; every returning request handler is answered under every interleaving. Round
  trips: base 58, hexadecimal, addresses, messages, stored proofs, the configuration. Transport:
  a slate that one wallet posts over grinbox or MWCMQS and the server relays reaches the handler of
  the other unchanged; the MWCMQS listener hands over authentic slates only; a listener reports
  its opening first, losses and restorations in turn, and its end last. Commands: \<open>send\<close> locks
  outputs only for the slate its run handed over; a passphrase given to a command that opens or
  replaces the wallet stays out of the history; only \<open>listen\<close> and \<open>stop\<close> change the listeners.
  Start: a process that finds a seed never replaces it,
  and one that is given a wrong passphrase ends before it starts a listener or a server. Failures:
  the inputs on which the code panics, blocks or leaks are characterised, each with a theorem.

  \<^bold>\<open>Parameters.\<close> The wallet library, keychain, node client, curve library, ciphers, JSON, TOML,
  the key-value store, the web framework, the HTTP client and the history of the line editor are not
  part of the repository. What a command reads of the cells it shares with a listener's thread comes
  from the environment as well. They are fields of environment records, and a property that relies on one of them names the
  behaviour it needs as a hypothesis; its witness instantiates the record.

  \<^bold>\<open>Fuel and termination.\<close> The outer loop of the base-58 encoder is a \<open>partial_function\<close> on
  options, shown to return always. The loop of the chain scan has fuel and gives \<open>Hang\<close> when it
  runs out; it is shown to end with any fuel above the number of outputs left on a node that
  makes progress. The loops of the Keybase and MWCMQS listeners run until they are stopped; their
  fuel counts the rounds that are looked at, and what is shown holds for every fuel. Blocking on
  a mutex that the caller holds is the value \<open>Hang\<close>. Every other loop is a structural recursion.

  \<^bold>\<open>Not modelled.\<close> Colours and the prompt of console messages, and whether a message goes to the
  console or the log, the blank lines around the questions of the start, and the pauses of the
  listeners. The completion and highlighting helper of the line editor, its settings and the
  initialisation of the logger, which only call other crates; the two calls of the HTTP client in
  \<open>post\<close> of \<open>common/mod.rs\<close>, which are the parameter \<open>cm_post\<close>. The
  thread of the Grinbox listener is modelled by its step relation in \<open>Grinbox\<close>. The memory orderings
  of the executor's flag: its accesses are atomic steps.
\<close>

end
